(* ===== verification/VLM_Prelude.thy ===== *)
theory VLM_Prelude
  imports Main "HOL-Library.Word"
begin

text \<open>
  The prelude of the development: names for the C integer types, the outcome monad in which
  the C functions are written, and the lemmas and collections the components share.

  A C function that reads and writes a state \<open>'s\<close> and returns an \<open>'a\<close> is a program of type
  \<open>('s, 'a) prog\<close>. Its value on a state is \<open>None\<close> when the C code runs forever, and otherwise
  the way it ended together with the state it left: \<open>Ret x\<close> (a return), \<open>Longjmp v\<close> (a
  \<open>longjmp\<close> to the sequencer's trap environment with value \<open>v\<close>), \<open>Exit n\<close> (a call of
  \<open>exit\<close>) or \<open>Undef\<close> (behaviour the C standard leaves undefined: an access outside an
  array, a shift by the width of its operand or more, a division by zero). The state is
  kept in every case, since \<open>longjmp\<close> undoes no assignment.
\<close>

unbundle bit_operations_syntax

type_synonym u8 = "8 word"
type_synonym u32 = "32 word"
type_synonym u64 = "64 word"

named_theorems prog_simps "evaluation rules of the outcome monad"
named_theorems keeps_intros "rules that show an invariant is kept by a program"

subsection \<open>Outcomes and programs\<close>

datatype 'a res = Ret 'a | Longjmp int | Exit int | Undef

type_synonym ('s, 'a) prog = "'s \<Rightarrow> ('a res \<times> 's) option"

definition ret :: "'a \<Rightarrow> ('s, 'a) prog" where
  "ret x s = Some (Ret x, s)"

definition longjmp :: "int \<Rightarrow> ('s, 'a) prog" where
  "longjmp v s = Some (Longjmp v, s)"

definition exit_with :: "int \<Rightarrow> ('s, 'a) prog" where
  "exit_with n s = Some (Exit n, s)"

definition undef :: "('s, 'a) prog" where
  "undef s = Some (Undef, s)"

definition bnd :: "('s, 'a) prog \<Rightarrow> ('a \<Rightarrow> ('s, 'b) prog) \<Rightarrow> ('s, 'b) prog" where
  "bnd m k s = (case m s of None \<Rightarrow> None
     | Some (r, s') \<Rightarrow> (case r of Ret x \<Rightarrow> k x s' | Longjmp v \<Rightarrow> Some (Longjmp v, s')
         | Exit n \<Rightarrow> Some (Exit n, s') | Undef \<Rightarrow> Some (Undef, s')))"

definition thn :: "('s, 'a) prog \<Rightarrow> ('s, 'b) prog \<Rightarrow> ('s, 'b) prog" where
  "thn m n = bnd m (\<lambda>_. n)"

definition gets :: "('s \<Rightarrow> 'a) \<Rightarrow> ('s, 'a) prog" where
  "gets f s = Some (Ret (f s), s)"

definition modify :: "('s \<Rightarrow> 's) \<Rightarrow> ('s, unit) prog" where
  "modify f s = Some (Ret (), f s)"

definition defined :: "bool \<Rightarrow> ('s, unit) prog" where
  "defined b = (if b then ret () else undef)"

definition run_if :: "bool \<Rightarrow> ('s, unit) prog \<Rightarrow> ('s, unit) prog" where
  "run_if b m = (if b then m else ret ())"

text \<open>A program on a part of the state, run on the whole state.\<close>

definition on_part :: "('s \<Rightarrow> 't) \<Rightarrow> ('t \<Rightarrow> 's \<Rightarrow> 's) \<Rightarrow> ('t, 'a) prog \<Rightarrow> ('s, 'a) prog" where
  "on_part get put m s = (case m (get s) of None \<Rightarrow> None | Some (r, t) \<Rightarrow> Some (r, put t s))"

lemmas prog_defs = ret_def longjmp_def exit_with_def undef_def gets_def modify_def
  defined_def run_if_def thn_def

declare ret_def [prog_simps] longjmp_def [prog_simps] exit_with_def [prog_simps]
  undef_def [prog_simps] gets_def [prog_simps] modify_def [prog_simps]
  defined_def [prog_simps] run_if_def [prog_simps]

lemma bnd_Some [prog_simps]:
  "m s = Some (Ret x, s') \<Longrightarrow> bnd m k s = k x s'"
  "m s = Some (Longjmp v, s') \<Longrightarrow> bnd m k s = Some (Longjmp v, s')"
  "m s = Some (Exit n, s') \<Longrightarrow> bnd m k s = Some (Exit n, s')"
  "m s = Some (Undef, s') \<Longrightarrow> bnd m k s = Some (Undef, s')"
  "m s = None \<Longrightarrow> bnd m k s = None"
  by (simp_all add: bnd_def)

lemma bnd_basic [prog_simps]:
  "bnd (ret x) k = k x"
  "bnd (gets f) k s = k (f s) s"
  "bnd (modify g) h s = h () (g s)"
  "bnd undef k = undef"
  "bnd (longjmp v) k = longjmp v"
  "bnd (exit_with n) k = exit_with n"
  by (simp_all add: fun_eq_iff bnd_def prog_defs)

lemma bnd_if [prog_simps]: "bnd (if b then m else n) k = (if b then bnd m k else bnd n k)"
  by simp

lemma bnd_assoc [prog_simps]: "bnd (bnd m k) h = bnd m (\<lambda>x. bnd (k x) h)"
  by (auto simp: fun_eq_iff bnd_def split: option.splits prod.splits res.splits)

lemma thn_eq [prog_simps]: "thn m n = bnd m (\<lambda>_. n)"
  by (fact thn_def)

lemma bnd_split_Some:
  "bnd m k s = Some (r, s'') \<longleftrightarrow>
     (\<exists>x s'. m s = Some (Ret x, s') \<and> k x s' = Some (r, s''))
     \<or> (\<exists>v. m s = Some (Longjmp v, s'') \<and> r = Longjmp v)
     \<or> (\<exists>n. m s = Some (Exit n, s'') \<and> r = Exit n)
     \<or> (m s = Some (Undef, s'') \<and> r = Undef)"
  by (auto simp: bnd_def split: option.splits prod.splits res.splits)

text \<open>Sequencing is monotone, so loops over it can be given by \<^theory_text>\<open>partial_function\<close>.\<close>

lemma bnd_mono [partial_function_mono]:
  fixes m :: "('x \<Rightarrow> 'y option) \<Rightarrow> ('s, 'a) prog"
    and k :: "('x \<Rightarrow> 'y option) \<Rightarrow> 'a \<Rightarrow> ('s, 'b) prog"
  assumes "\<And>s. mono_option (\<lambda>f. m f s)" and "\<And>x s. mono_option (\<lambda>f. k f x s)"
  shows "mono_option (\<lambda>f. bnd (m f) (k f) s)"
proof (rule monotoneI)
  fix f g :: "'x \<Rightarrow> 'y option"
  assume fg: "option.le_fun f g"
  have m: "option_ord (m f s) (m g s)"
    for s using assms(1) [of s] fg unfolding monotone_on_def by simp
  have k: "option_ord (k f x s) (k g x s)"
    for x s using assms(2) [of x s] fg unfolding monotone_on_def by simp
  show "option_ord (bnd (m f) (k f) s) (bnd (m g) (k g) s)"
  proof (cases "m f s = None")
    case True
    then show ?thesis by (simp add: bnd_def flat_ord_def)
  next
    case False
    with m [of s] obtain r s' where "m f s = Some (r, s')" and "m g s = Some (r, s')"
      by (cases "m f s") (auto simp: flat_ord_def)
    then show ?thesis
      using k by (cases r) (auto simp: bnd_def flat_ord_def)
  qed
qed

lemma thn_mono [partial_function_mono]:
  fixes m :: "('x \<Rightarrow> 'y option) \<Rightarrow> ('s, 'a) prog"
    and n :: "('x \<Rightarrow> 'y option) \<Rightarrow> ('s, 'b) prog"
  assumes "\<And>s. mono_option (\<lambda>f. m f s)" and "\<And>s. mono_option (\<lambda>f. n f s)"
  shows "mono_option (\<lambda>f. thn (m f) (n f) s)"
  unfolding thn_def by (intro bnd_mono assms)

lemma prog_if_mono [partial_function_mono]:
  fixes m n :: "('x \<Rightarrow> 'y option) \<Rightarrow> ('s, 'a) prog"
  assumes "mono_option (\<lambda>f. m f s)" and "mono_option (\<lambda>f. n f s)"
  shows "mono_option (\<lambda>f. (if b then m f else n f) s)"
  by (cases b) (simp_all add: assms)

lemma prog_Let_mono [partial_function_mono]:
  fixes k :: "('x \<Rightarrow> 'y option) \<Rightarrow> 'a \<Rightarrow> ('s, 'b) prog"
  assumes "mono_option (\<lambda>f. k f x s)"
  shows "mono_option (\<lambda>f. Let x (k f) s)"
  using assms by simp

lemma prog_case_prod_mono [partial_function_mono]:
  fixes k :: "('x \<Rightarrow> 'y option) \<Rightarrow> 'a \<Rightarrow> 'c \<Rightarrow> ('s, 'b) prog"
  assumes "\<And>a b. mono_option (\<lambda>f. k f a b s)"
  shows "mono_option (\<lambda>f. case_prod (k f) p s)"
  by (cases p) (simp add: assms)

subsection \<open>Invariants of programs\<close>

text \<open>The values with which the program calls \<open>longjmp\<close>: -1 for the spy, and the vectors of the
  traps for an instruction exception, an error, a reset, transport, the two sequence breaks, a
  monitored location and a page that is not there.\<close>

definition longjmp_values :: "int set" where
  "longjmp_values = {- 1, 2048, 2624, 2625, 2630, 2632, 2633, 2634, 2640}"

lemma in_longjmp_values [simp]:
  "- 1 \<in> longjmp_values" "2048 \<in> longjmp_values" "2624 \<in> longjmp_values" "2625 \<in> longjmp_values"
  "2630 \<in> longjmp_values" "2632 \<in> longjmp_values" "2633 \<in> longjmp_values" "2634 \<in> longjmp_values"
  "2640 \<in> longjmp_values"
  by (simp_all add: longjmp_values_def)

text \<open>\<open>keeps P m\<close>: in whatever defined way \<open>m\<close> ends, a state with \<open>P\<close> is left in a state with
  \<open>P\<close>, and a \<open>longjmp\<close> has one of these values; nothing is claimed of the state after undefined
  behaviour.\<close>

definition ends_well :: "('s \<Rightarrow> bool) \<Rightarrow> 'a res \<times> 's \<Rightarrow> bool" where
  "ends_well P y \<longleftrightarrow> (fst y \<noteq> Undef \<longrightarrow> P (snd y)) \<and> (\<forall>v. fst y = Longjmp v \<longrightarrow> v \<in> longjmp_values)"

definition keeps :: "('s \<Rightarrow> bool) \<Rightarrow> ('s, 'a) prog \<Rightarrow> bool" where
  "keeps P m \<longleftrightarrow> (\<forall>s y. P s \<longrightarrow> m s = Some y \<longrightarrow> ends_well P y)"

lemma keepsI: "(\<And>s r s'. P s \<Longrightarrow> m s = Some (r, s') \<Longrightarrow> r \<noteq> Undef \<Longrightarrow>
    P s' \<and> (\<forall>v. r = Longjmp v \<longrightarrow> v \<in> longjmp_values)) \<Longrightarrow> keeps P m"
  by (fastforce simp: keeps_def ends_well_def)

lemma keepsD: "keeps P m \<Longrightarrow> P s \<Longrightarrow> m s = Some (r, s') \<Longrightarrow> r \<noteq> Undef \<Longrightarrow> P s'"
  by (fastforce simp: keeps_def ends_well_def)

lemma keeps_raises: "keeps P m \<Longrightarrow> P s \<Longrightarrow> m s = Some (Longjmp v, s') \<Longrightarrow> v \<in> longjmp_values"
  by (fastforce simp: keeps_def ends_well_def)

lemma keeps_basic [keeps_intros]:
  "keeps P (ret x)" "keeps P (exit_with n)" "keeps P undef" "keeps P (gets f)" "keeps P (defined b)"
  by (auto simp: keeps_def ends_well_def prog_defs)

lemma keeps_longjmp [keeps_intros]: "v \<in> longjmp_values \<Longrightarrow> keeps P (longjmp v)"
  by (simp add: keeps_def ends_well_def prog_defs)

lemma keeps_modify [keeps_intros]: "(\<And>s. P s \<Longrightarrow> P (f s)) \<Longrightarrow> keeps P (modify f)"
  by (auto simp: keeps_def ends_well_def prog_defs)

lemma keeps_bnd [keeps_intros]:
  "keeps P m \<Longrightarrow> (\<And>x. keeps P (k x)) \<Longrightarrow> keeps P (bnd m k)"
  by (rule keepsI) (auto simp: bnd_split_Some dest: keepsD keeps_raises)

lemma keeps_thn [keeps_intros]: "keeps P m \<Longrightarrow> keeps P n \<Longrightarrow> keeps P (thn m n)"
  by (simp add: thn_def keeps_bnd)

lemma keeps_if [keeps_intros]:
  "(b \<Longrightarrow> keeps P m) \<Longrightarrow> (\<not> b \<Longrightarrow> keeps P n) \<Longrightarrow> keeps P (if b then m else n)"
  by simp

lemma keeps_if_state [keeps_intros]:
  "(b \<Longrightarrow> keeps P m) \<Longrightarrow> (\<not> b \<Longrightarrow> keeps P n) \<Longrightarrow> keeps P (\<lambda>s. if b then m s else n s)"
  by (cases b) simp_all

lemma keeps_run_if [keeps_intros]: "(b \<Longrightarrow> keeps P m) \<Longrightarrow> keeps P (run_if b m)"
  by (simp add: run_if_def keeps_basic)

lemma keeps_Let [keeps_intros]: "keeps P (f x) \<Longrightarrow> keeps P (Let x f)"
  by simp

lemma keeps_case_prod [keeps_intros]: "(\<And>a b. p = (a, b) \<Longrightarrow> keeps P (f a b)) \<Longrightarrow> keeps P (case_prod f p)"
  by (cases p) simp

lemma keeps_case_option [keeps_intros]:
  "(x = None \<Longrightarrow> keeps P m) \<Longrightarrow> (\<And>y. x = Some y \<Longrightarrow> keeps P (f y)) \<Longrightarrow> keeps P (case_option m f x)"
  by (cases x) simp_all

text \<open>The form of the two properties that the induction rules of loops use.\<close>

lemma keeps_run: "keeps P m \<Longrightarrow> m s = Some y \<Longrightarrow> P s \<longrightarrow> ends_well P y"
  unfolding keeps_def by blast

lemma keeps_runI: "(\<And>s y. m s = Some y \<Longrightarrow> P s \<longrightarrow> ends_well P y) \<Longrightarrow> keeps P m"
  unfolding keeps_def by blast

lemma keeps_on_part:
  "keeps Q m \<Longrightarrow> (\<And>s. P s \<Longrightarrow> Q (get s)) \<Longrightarrow> (\<And>s t. P s \<Longrightarrow> Q t \<Longrightarrow> P (put t s))
     \<Longrightarrow> keeps P (on_part get put m)"
  by (fastforce simp: keeps_def ends_well_def on_part_def split: option.splits prod.splits)

lemma on_part_eval [prog_simps]:
  "m (get s) = Some (r, t) \<Longrightarrow> on_part get put m s = Some (r, put t s)"
  by (simp add: on_part_def)

end
