(* ===== verification/Ivory.thy ===== *)
theory Ivory
  imports VLM_Prelude
begin

text \<open>
  The Ivory architecture's data, from \<open>c-emulator/emulator.h\<close> and \<open>c-emulator/ivory.h\<close>: Lisp
  objects (a 32-bit tag word and a 32-bit data word), the data types, the tag and byte-field
  macros, array headers and array registers, the fields of the control register, and the trap
  vectors. C \<open>int\<close> values are held as 32-bit words (read with \<open>sint\<close> where the sign matters),
  \<open>Integer\<close> values as 64-bit words. The last section shows that a control register field
  gives back what was written to it and that different fields do not interfere.
\<close>

unbundle bit_operations_syntax

subsection \<open>Lisp objects\<close>

record LispObj =
  TAG :: u32
  DATA :: u32

abbreviation mkobj :: "u32 \<Rightarrow> u32 \<Rightarrow> LispObj" where
  "mkobj t d \<equiv> \<lparr>TAG = t, DATA = d\<rparr>"

text \<open>The enumeration \<open>IvoryType\<close>.\<close>

abbreviation (input) TypeNull :: u32 where "TypeNull \<equiv> 0"
abbreviation (input) TypeMonitorForward :: u32 where "TypeMonitorForward \<equiv> 1"
abbreviation (input) TypeHeaderP :: u32 where "TypeHeaderP \<equiv> 2"
abbreviation (input) TypeHeaderI :: u32 where "TypeHeaderI \<equiv> 3"
abbreviation (input) TypeExternalValueCellPointer :: u32 where "TypeExternalValueCellPointer \<equiv> 4"
abbreviation (input) TypeOneQForward :: u32 where "TypeOneQForward \<equiv> 5"
abbreviation (input) TypeHeaderForward :: u32 where "TypeHeaderForward \<equiv> 6"
abbreviation (input) TypeElementForward :: u32 where "TypeElementForward \<equiv> 7"
abbreviation (input) TypeFixnum :: u32 where "TypeFixnum \<equiv> 8"
abbreviation (input) TypeSmallRatio :: u32 where "TypeSmallRatio \<equiv> 9"
abbreviation (input) TypeSingleFloat :: u32 where "TypeSingleFloat \<equiv> 10"
abbreviation (input) TypeDoubleFloat :: u32 where "TypeDoubleFloat \<equiv> 11"
abbreviation (input) TypeBignum :: u32 where "TypeBignum \<equiv> 12"
abbreviation (input) TypeBigRatio :: u32 where "TypeBigRatio \<equiv> 13"
abbreviation (input) TypeComplex :: u32 where "TypeComplex \<equiv> 14"
abbreviation (input) TypeSpareNumber :: u32 where "TypeSpareNumber \<equiv> 15"
abbreviation (input) TypeInstance :: u32 where "TypeInstance \<equiv> 16"
abbreviation (input) TypeListInstance :: u32 where "TypeListInstance \<equiv> 17"
abbreviation (input) TypeArrayInstance :: u32 where "TypeArrayInstance \<equiv> 18"
abbreviation (input) TypeStringInstance :: u32 where "TypeStringInstance \<equiv> 19"
abbreviation (input) TypeNIL :: u32 where "TypeNIL \<equiv> 20"
abbreviation (input) TypeList :: u32 where "TypeList \<equiv> 21"
abbreviation (input) TypeArray :: u32 where "TypeArray \<equiv> 22"
abbreviation (input) TypeString :: u32 where "TypeString \<equiv> 23"
abbreviation (input) TypeSymbol :: u32 where "TypeSymbol \<equiv> 24"
abbreviation (input) TypeLocative :: u32 where "TypeLocative \<equiv> 25"
abbreviation (input) TypeLexicalClosure :: u32 where "TypeLexicalClosure \<equiv> 26"
abbreviation (input) TypeDynamicClosure :: u32 where "TypeDynamicClosure \<equiv> 27"
abbreviation (input) TypeCompiledFunction :: u32 where "TypeCompiledFunction \<equiv> 28"
abbreviation (input) TypeGenericFunction :: u32 where "TypeGenericFunction \<equiv> 29"
abbreviation (input) TypeSparePointer1 :: u32 where "TypeSparePointer1 \<equiv> 30"
abbreviation (input) TypeSparePointer2 :: u32 where "TypeSparePointer2 \<equiv> 31"
abbreviation (input) TypePhysicalAddress :: u32 where "TypePhysicalAddress \<equiv> 32"
abbreviation (input) TypeSpareImmediate1 :: u32 where "TypeSpareImmediate1 \<equiv> 33"
abbreviation (input) TypeBoundLocation :: u32 where "TypeBoundLocation \<equiv> 34"
abbreviation (input) TypeCharacter :: u32 where "TypeCharacter \<equiv> 35"
abbreviation (input) TypeLogicVariable :: u32 where "TypeLogicVariable \<equiv> 36"
abbreviation (input) TypeGCForward :: u32 where "TypeGCForward \<equiv> 37"
abbreviation (input) TypeEvenPC :: u32 where "TypeEvenPC \<equiv> 38"
abbreviation (input) TypeOddPC :: u32 where "TypeOddPC \<equiv> 39"
abbreviation (input) TypeCallCompiledEven :: u32 where "TypeCallCompiledEven \<equiv> 40"
abbreviation (input) TypeCallCompiledOdd :: u32 where "TypeCallCompiledOdd \<equiv> 41"
abbreviation (input) TypeCallIndirect :: u32 where "TypeCallIndirect \<equiv> 42"
abbreviation (input) TypeCallGeneric :: u32 where "TypeCallGeneric \<equiv> 43"
abbreviation (input) TypeCallCompiledEvenPrefetch :: u32 where "TypeCallCompiledEvenPrefetch \<equiv> 44"
abbreviation (input) TypeCallCompiledOddPrefetch :: u32 where "TypeCallCompiledOddPrefetch \<equiv> 45"
abbreviation (input) TypeCallIndirectPrefetch :: u32 where "TypeCallIndirectPrefetch \<equiv> 46"
abbreviation (input) TypeCallGenericPrefetch :: u32 where "TypeCallGenericPrefetch \<equiv> 47"

abbreviation (input) CdrNext :: u32 where "CdrNext \<equiv> 0"
abbreviation (input) CdrNil :: u32 where "CdrNil \<equiv> 1"
abbreviation (input) CdrNormal :: u32 where "CdrNormal \<equiv> 2"

definition ObjectNIL :: LispObj where
  "ObjectNIL = mkobj TypeNIL 0xf8041200"

definition ObjectT :: LispObj where
  "ObjectT = mkobj TypeSymbol 0xf8041208"

subsection \<open>Byte fields\<close>

text \<open>
  \<open>ldb(ss, pp, source)\<close> reads the \<open>ss\<close> bits at \<open>pp\<close> and is an \<open>int\<close>; \<open>dpb\<close> writes them. On
  the 64-bit control register \<open>dpb\<close> computes its masks as 32-bit \<open>int\<close>s, which are sign
  extended before they meet the register: \<open>dpb_control\<close>.
\<close>

definition ldb :: "nat \<Rightarrow> nat \<Rightarrow> 'a::len word \<Rightarrow> u32" where
  "ldb ss pp source = ucast (drop_bit pp source AND mask ss)"

definition dpb :: "u32 \<Rightarrow> nat \<Rightarrow> nat \<Rightarrow> u32 \<Rightarrow> u32" where
  "dpb field ss pp background =
     push_bit pp (field AND mask ss) OR (background AND NOT (push_bit pp (mask ss)))"

definition dpb_control :: "u32 \<Rightarrow> nat \<Rightarrow> nat \<Rightarrow> u64 \<Rightarrow> u64" where
  "dpb_control field ss pp background =
     scast (push_bit pp (field AND mask ss))
       OR (background AND scast (NOT (push_bit pp (mask ss)) :: u32))"

subsection \<open>Tags\<close>

definition TagTypeMask :: u32 where
  "TagTypeMask = 63"

definition TagType :: "u32 \<Rightarrow> u32" where
  "TagType t = t AND 63"

definition TagCdr :: "u32 \<Rightarrow> u32" where
  "TagCdr t = drop_bit 6 t"

definition SetTagCdr :: "u32 \<Rightarrow> u32 \<Rightarrow> u32" where
  "SetTagCdr t cdr = t OR push_bit 6 cdr"

definition MergeCdr :: "u32 \<Rightarrow> u32 \<Rightarrow> u32" where
  "MergeCdr cdr ty = (cdr AND 192) OR (ty AND 63)"

definition TypeEqualP :: "u32 \<Rightarrow> u32 \<Rightarrow> bool" where
  "TypeEqualP t1 t2 \<longleftrightarrow> (t1 XOR t2) AND 63 = 0"

lemma TypeEqualP_iff: "TypeEqualP t1 t2 \<longleftrightarrow> t1 AND 63 = t2 AND 63"
proof -
  have "(t1 XOR t2) AND 63 = (t1 AND 63) XOR (t2 AND 63)" by (rule bit.conj_xor_distrib2)
  moreover have "x XOR y = 0 \<longleftrightarrow> x = y" for x y :: u32
    by (metis xor.assoc xor.left_neutral xor.right_neutral xor_self_eq)
  ultimately show ?thesis by (simp add: TypeEqualP_def)
qed

definition TypeFixnumP :: "u32 \<Rightarrow> bool" where
  "TypeFixnumP t \<longleftrightarrow> TypeEqualP t TypeFixnum"

definition TypeNumericP :: "u32 \<Rightarrow> bool" where
  "TypeNumericP t \<longleftrightarrow> t AND 56 = 8"

definition TypeArrayP :: "u32 \<Rightarrow> bool" where
  "TypeArrayP t \<longleftrightarrow> t AND 62 = TypeArray AND 62"

definition TypeSpareP :: "u32 \<Rightarrow> bool" where
  "TypeSpareP t \<longleftrightarrow> t AND 62 = TypeSparePointer1 AND 62 \<or> t AND 63 = TypeSpareImmediate1
     \<or> t AND 63 = TypeSpareNumber"

definition PackedInstructionP :: "u32 \<Rightarrow> bool" where
  "PackedInstructionP t \<longleftrightarrow> t AND 48 = 48"

definition BinaryTypeFixnumP :: "u32 \<Rightarrow> u32 \<Rightarrow> bool" where
  "BinaryTypeFixnumP t1 t2 \<longleftrightarrow> ((t1 XOR TypeFixnum) OR (t2 XOR TypeFixnum)) AND 63 = 0"

definition BinaryTypeNumericP :: "u32 \<Rightarrow> u32 \<Rightarrow> bool" where
  "BinaryTypeNumericP t1 t2 \<longleftrightarrow> t1 AND 56 = 8 \<and> t2 AND 56 = 8"

text \<open>\<open>StoreCdrNext(dest, source)\<close> gives \<open>dest\<close> the value \<open>cdr_next source\<close>.\<close>

definition cdr_next :: "LispObj \<Rightarrow> LispObj" where
  "cdr_next q = q\<lparr>TAG := TAG q AND NOT 192\<rparr>"

definition ObjectEqP :: "LispObj \<Rightarrow> LispObj \<Rightarrow> bool" where
  "ObjectEqP a b \<longleftrightarrow> (TAG a XOR TAG b) AND NOT 192 = 0 \<and> DATA a = DATA b"

subsection \<open>Arrays\<close>

definition ArrayHeaderTag :: u32 where
  "ArrayHeaderTag = 64 OR TypeHeaderI"

abbreviation (input) ArrayElementTypeFixnum :: u32 where "ArrayElementTypeFixnum \<equiv> 0"
abbreviation (input) ArrayElementTypeCharacter :: u32 where "ArrayElementTypeCharacter \<equiv> 1"
abbreviation (input) ArrayElementTypeBoolean :: u32 where "ArrayElementTypeBoolean \<equiv> 2"
abbreviation (input) ArrayElementTypeObject :: u32 where "ArrayElementTypeObject \<equiv> 3"

definition ArrayLongPrefixP :: "u32 \<Rightarrow> bool" where
  "ArrayLongPrefixP a \<longleftrightarrow> a AND push_bit 23 1 \<noteq> 0"

definition ArrayShortLength :: "u32 \<Rightarrow> u32" where
  "ArrayShortLength a = ldb 15 0 a"

definition ArrayBytePacking :: "u32 \<Rightarrow> nat" where
  "ArrayBytePacking a = unat (ldb 3 27 a)"

definition ArrayElementType :: "u32 \<Rightarrow> u32" where
  "ArrayElementType a = ldb 2 30 a"

definition ArrayLeaderLength :: "u32 \<Rightarrow> u32" where
  "ArrayLeaderLength a = ldb 8 15 a"

definition ArrayRegisterByteOffset :: "u32 \<Rightarrow> u32" where
  "ArrayRegisterByteOffset r = ldb 5 22 r"

definition ArrayRegisterEventCount :: "u32 \<Rightarrow> u32" where
  "ArrayRegisterEventCount r = ldb 22 0 r"

definition SetArrayRegisterEventCount :: "u32 \<Rightarrow> u32 \<Rightarrow> u32" where
  "SetArrayRegisterEventCount c r = dpb (ldb 22 0 c) 27 0 r"

definition BytePackingSize :: "nat \<Rightarrow> nat" where
  "BytePackingSize b = 32 div 2 ^ b"

definition BytePackingRotation :: "nat \<Rightarrow> u32 \<Rightarrow> nat" where
  "BytePackingRotation b i = unat (mask b AND i) * 2 ^ (5 - b)"

definition ArrayElementLdb :: "nat \<Rightarrow> u32 \<Rightarrow> u32 \<Rightarrow> u32" where
  "ArrayElementLdb b i w = ldb (BytePackingSize b) (BytePackingRotation b i) w"

definition ArrayElementDpb :: "u32 \<Rightarrow> nat \<Rightarrow> u32 \<Rightarrow> u32 \<Rightarrow> u32" where
  "ArrayElementDpb e b i w = dpb e (BytePackingSize b) (BytePackingRotation b i) w"

subsection \<open>The control register\<close>

definition ReadControlArgumentSize :: "u64 \<Rightarrow> u32" where
  "ReadControlArgumentSize c = ldb 8 0 c"

definition ReadControlExtraArgument :: "u64 \<Rightarrow> u32" where
  "ReadControlExtraArgument c = ldb 1 8 c"

definition ReadControlCallerFrameSize :: "u64 \<Rightarrow> u32" where
  "ReadControlCallerFrameSize c = ldb 8 9 c"

definition ReadControlApply :: "u64 \<Rightarrow> u32" where
  "ReadControlApply c = ldb 1 17 c"

definition ReadControlValueDisposition :: "u64 \<Rightarrow> u32" where
  "ReadControlValueDisposition c = ldb 2 18 c"

definition ReadControlCleanupBits :: "u64 \<Rightarrow> u32" where
  "ReadControlCleanupBits c = ldb 3 24 c"

definition ReadControlCleanupCatch :: "u64 \<Rightarrow> u32" where
  "ReadControlCleanupCatch c = ldb 1 26 c"

definition ReadControlCleanupBindings :: "u64 \<Rightarrow> u32" where
  "ReadControlCleanupBindings c = ldb 1 25 c"

definition ReadControlTrapOnExit :: "u64 \<Rightarrow> u32" where
  "ReadControlTrapOnExit c = ldb 1 24 c"

definition ReadControlTrapMode :: "u64 \<Rightarrow> u32" where
  "ReadControlTrapMode c = ldb 2 30 c"

definition ReadControlCallStarted :: "u64 \<Rightarrow> u32" where
  "ReadControlCallStarted c = ldb 1 22 c"

definition ReadControlCleanupInProgress :: "u64 \<Rightarrow> u32" where
  "ReadControlCleanupInProgress c = ldb 1 23 c"

definition ReadControlInstructionTrace :: "u64 \<Rightarrow> u32" where
  "ReadControlInstructionTrace c = ldb 1 29 c"

definition ReadControlCallTrace :: "u64 \<Rightarrow> u32" where
  "ReadControlCallTrace c = ldb 1 28 c"

definition ReadControlTracePending :: "u64 \<Rightarrow> u32" where
  "ReadControlTracePending c = ldb 1 27 c"

definition WriteControlArgumentSize :: "u64 \<Rightarrow> u32 \<Rightarrow> u64" where
  "WriteControlArgumentSize c x = dpb_control x 8 0 c"

definition WriteControlExtraArgument :: "u64 \<Rightarrow> u32 \<Rightarrow> u64" where
  "WriteControlExtraArgument c x = dpb_control x 1 8 c"

definition WriteControlCallerFrameSize :: "u64 \<Rightarrow> u32 \<Rightarrow> u64" where
  "WriteControlCallerFrameSize c x = dpb_control x 8 9 c"

definition WriteControlApply :: "u64 \<Rightarrow> u32 \<Rightarrow> u64" where
  "WriteControlApply c x = dpb_control x 1 17 c"

definition WriteControlValueDisposition :: "u64 \<Rightarrow> u32 \<Rightarrow> u64" where
  "WriteControlValueDisposition c x = dpb_control x 2 18 c"

definition WriteControlCleanupBits :: "u64 \<Rightarrow> u32 \<Rightarrow> u64" where
  "WriteControlCleanupBits c x = dpb_control x 3 24 c"

definition WriteControlCleanupCatch :: "u64 \<Rightarrow> u32 \<Rightarrow> u64" where
  "WriteControlCleanupCatch c x = dpb_control x 1 26 c"

definition WriteControlCleanupBindings :: "u64 \<Rightarrow> u32 \<Rightarrow> u64" where
  "WriteControlCleanupBindings c x = dpb_control x 1 25 c"

definition WriteControlTrapOnExit :: "u64 \<Rightarrow> u32 \<Rightarrow> u64" where
  "WriteControlTrapOnExit c x = dpb_control x 1 24 c"

definition WriteControlTrapMode :: "u64 \<Rightarrow> u32 \<Rightarrow> u64" where
  "WriteControlTrapMode c x = dpb_control x 2 30 c"

definition WriteControlCallStarted :: "u64 \<Rightarrow> u32 \<Rightarrow> u64" where
  "WriteControlCallStarted c x = dpb_control x 1 22 c"

definition WriteControlCleanupInProgress :: "u64 \<Rightarrow> u32 \<Rightarrow> u64" where
  "WriteControlCleanupInProgress c x = dpb_control x 1 23 c"

definition WriteControlInstructionTrace :: "u64 \<Rightarrow> u32 \<Rightarrow> u64" where
  "WriteControlInstructionTrace c x = dpb_control x 1 29 c"

definition WriteControlCallTrace :: "u64 \<Rightarrow> u32 \<Rightarrow> u64" where
  "WriteControlCallTrace c x = dpb_control x 1 28 c"

definition WriteControlTracePending :: "u64 \<Rightarrow> u32 \<Rightarrow> u64" where
  "WriteControlTracePending c x = dpb_control x 1 27 c"

abbreviation (input) ControlApply :: u64 where "ControlApply \<equiv> 131072"
abbreviation (input) ControlCleanupBits :: u64 where "ControlCleanupBits \<equiv> 117440512"
abbreviation (input) ControlTraceBits :: u64 where "ControlTraceBits \<equiv> 939524096"
abbreviation (input) ControlCallStarted :: u64 where "ControlCallStarted \<equiv> 4194304"
abbreviation (input) ControlExtraArgument :: u64 where "ControlExtraArgument \<equiv> 256"
abbreviation (input) ControlArgumentSize :: u64 where "ControlArgumentSize \<equiv> 255"
abbreviation (input) ControlCallerFrameSize :: u64 where "ControlCallerFrameSize \<equiv> 130560"
abbreviation (input) ControlValueDisposition :: u64 where "ControlValueDisposition \<equiv> 786432"

lemmas control_defs = ReadControlArgumentSize_def ReadControlExtraArgument_def ReadControlCallerFrameSize_def ReadControlApply_def ReadControlValueDisposition_def ReadControlCleanupBits_def ReadControlCleanupCatch_def ReadControlCleanupBindings_def ReadControlTrapOnExit_def ReadControlTrapMode_def ReadControlCallStarted_def ReadControlCleanupInProgress_def ReadControlInstructionTrace_def ReadControlCallTrace_def ReadControlTracePending_def
  WriteControlArgumentSize_def WriteControlExtraArgument_def WriteControlCallerFrameSize_def WriteControlApply_def WriteControlValueDisposition_def WriteControlCleanupBits_def WriteControlCleanupCatch_def WriteControlCleanupBindings_def WriteControlTrapOnExit_def WriteControlTrapMode_def WriteControlCallStarted_def WriteControlCleanupInProgress_def WriteControlInstructionTrace_def WriteControlCallTrace_def WriteControlTracePending_def

subsection \<open>Trap vectors\<close>

abbreviation (input) TrapVectorBase :: u64 where "TrapVectorBase \<equiv> 0xf8040000"

abbreviation (input) ArithmeticInstructionExceptionVector :: int where "ArithmeticInstructionExceptionVector \<equiv> 0"
abbreviation (input) InstructionExceptionVector :: int where "InstructionExceptionVector \<equiv> 2048"
abbreviation (input) InterpreterFunctionVector :: int where "InterpreterFunctionVector \<equiv> 2304"
abbreviation (input) GenericDispatchVector :: int where "GenericDispatchVector \<equiv> 2560"
abbreviation (input) ErrorTrapVector :: int where "ErrorTrapVector \<equiv> 2624"
abbreviation (input) ResetTrapVector :: int where "ResetTrapVector \<equiv> 2625"
abbreviation (input) PullApplyArgsTrapVector :: int where "PullApplyArgsTrapVector \<equiv> 2626"
abbreviation (input) StackOverflowTrapVector :: int where "StackOverflowTrapVector \<equiv> 2627"
abbreviation (input) TraceTrapVector :: int where "TraceTrapVector \<equiv> 2628"
abbreviation (input) PreemptRequestTrapVector :: int where "PreemptRequestTrapVector \<equiv> 2629"
abbreviation (input) TransportTrapVector :: int where "TransportTrapVector \<equiv> 2630"
abbreviation (input) FepModeTrapVector :: int where "FepModeTrapVector \<equiv> 2631"
abbreviation (input) LowPrioritySequenceBreakTrapVector :: int where "LowPrioritySequenceBreakTrapVector \<equiv> 2632"
abbreviation (input) HighPrioritySequenceBreakTrapVector :: int where "HighPrioritySequenceBreakTrapVector \<equiv> 2633"
abbreviation (input) MonitorTrapVector :: int where "MonitorTrapVector \<equiv> 2634"
abbreviation (input) GenericDispatchTrapVector :: int where "GenericDispatchTrapVector \<equiv> 2636"
abbreviation (input) MessageDispatchTrapVector :: int where "MessageDispatchTrapVector \<equiv> 2638"
abbreviation (input) PageNotResidentTrapVector :: int where "PageNotResidentTrapVector \<equiv> 2640"
abbreviation (input) PageFaultRequestTrapVector :: int where "PageFaultRequestTrapVector \<equiv> 2641"
abbreviation (input) PageWriteFaultTrapVector :: int where "PageWriteFaultTrapVector \<equiv> 2642"
abbreviation (input) UncorrectableMemoryErrorTrapVector :: int where "UncorrectableMemoryErrorTrapVector \<equiv> 2643"
abbreviation (input) MemoryBusErrorTrapVector :: int where "MemoryBusErrorTrapVector \<equiv> 2644"
abbreviation (input) DBCacheMissTrapVector :: int where "DBCacheMissTrapVector \<equiv> 2645"
abbreviation (input) DBUnwindFrameTrapVector :: int where "DBUnwindFrameTrapVector \<equiv> 2646"
abbreviation (input) DBUnwindCatchTrapVector :: int where "DBUnwindCatchTrapVector \<equiv> 2647"

subsection \<open>Values and memory regions\<close>

abbreviation (input) ValueDispositionEffect :: u32 where "ValueDispositionEffect \<equiv> 0"
abbreviation (input) ValueDispositionValue :: u32 where "ValueDispositionValue \<equiv> 1"
abbreviation (input) ValueDispositionReturn :: u32 where "ValueDispositionReturn \<equiv> 2"
abbreviation (input) ValueDispositionMultiple :: u32 where "ValueDispositionMultiple \<equiv> 3"

definition ReadVMAZoneNum :: "u64 \<Rightarrow> u32" where
  "ReadVMAZoneNum a = ldb 5 27 a"

definition EphemeralAddressP :: "u64 \<Rightarrow> bool" where
  "EphemeralAddressP a \<longleftrightarrow> ReadVMAZoneNum a = 0"

definition ReadVMAEphemeralHalf :: "u64 \<Rightarrow> u32" where
  "ReadVMAEphemeralHalf a = ldb 1 26 a"

definition ReadVMAEphemeralDemilevel :: "u64 \<Rightarrow> u32" where
  "ReadVMAEphemeralDemilevel a = ldb 6 21 a"

text \<open>
  \<open>PointerTypeP(t)\<close> shifts the \<open>int\<close> 1 by \<open>t\<close>: undefined (\<open>None\<close>) from 32 on; bit 31 is the
  sign, which is extended before the test against the 48-bit constant.
\<close>

definition PointerTypeP :: "u32 \<Rightarrow> bool option" where
  "PointerTypeP t = (if t < 32
     then Some (0xFFF4FFFFF8F7 AND (scast (push_bit (unat t) 1 :: u32) :: u64) = 0) else None)"


subsection \<open>Laws of byte fields\<close>

lemma bit_ldb: "bit (ldb ss pp (x :: 'a::len word)) n \<longleftrightarrow> n < 32 \<and> n < ss \<and> bit x (pp + n)"
  by (auto simp: ldb_def bit_simps dest: bit_imp_le_length)

lemma bit_dpb: "bit (dpb f ss pp b) n \<longleftrightarrow>
    n < 32 \<and> (if pp \<le> n \<and> n < pp + ss then bit f (n - pp) else bit b n)"
  by (auto simp: dpb_def bit_simps)

lemma bit_dpb_control: "n < 32 \<Longrightarrow> bit (dpb_control f ss pp c) n \<longleftrightarrow>
    (if pp \<le> n \<and> n < pp + ss then bit f (n - pp) else bit c n)"
  by (cases "n = 31") (auto simp: dpb_control_def bit_simps min_def)

lemma bit_dpb_control_high: "32 \<le> n \<Longrightarrow> n < 64 \<Longrightarrow> bit (dpb_control f ss pp c) n \<longleftrightarrow>
    (if pp \<le> 31 \<and> 31 < pp + ss then bit f (31 - pp) else bit c n)"
  by (auto simp: dpb_control_def bit_simps min_def)

lemma ldb_dpb_control: "pp + ss \<le> 32 \<Longrightarrow> ldb ss pp (dpb_control f ss pp c) = f AND mask ss"
  by (rule bit_word_eqI) (auto simp: bit_ldb bit_dpb_control bit_simps)

lemma ldb_dpb: "pp + ss \<le> 32 \<Longrightarrow> ldb ss pp (dpb f ss pp b) = f AND mask ss"
  by (rule bit_word_eqI) (auto simp: bit_ldb bit_dpb bit_simps)

lemma ldb_dpb_control_other:
  "pp + ss \<le> 32 \<Longrightarrow> qq + tt \<le> 32 \<Longrightarrow> pp + ss \<le> qq \<or> qq + tt \<le> pp \<Longrightarrow>
     ldb ss pp (dpb_control f tt qq c) = ldb ss pp c"
  by (rule bit_word_eqI) (auto simp: bit_ldb bit_dpb_control)

lemma ldb_dpb_other:
  "pp + ss \<le> 32 \<Longrightarrow> pp + ss \<le> qq \<or> qq + tt \<le> pp \<Longrightarrow>
     ldb ss pp (dpb f tt qq b) = ldb ss pp b"
  by (rule bit_word_eqI) (auto simp: bit_ldb bit_dpb)

lemma dpb_control_twice: "dpb_control f ss pp (dpb_control g ss pp c) = dpb_control f ss pp c"
proof (rule bit_word_eqI)
  fix n assume "n < LENGTH(64)"
  then show "bit (dpb_control f ss pp (dpb_control g ss pp c)) n = bit (dpb_control f ss pp c) n"
    by (cases "n < 32") (auto simp: bit_dpb_control bit_dpb_control_high)
qed

lemma ldb_bound: "ss < 32 \<Longrightarrow> ldb ss pp x < 2 ^ ss"
proof -
  assume "ss < 32"
  have "ldb ss pp x = ldb ss pp x AND mask ss"
    by (rule bit_word_eqI) (auto simp: bit_ldb bit_simps)
  moreover have "ss < size (ldb ss pp x)"
    using \<open>ss < 32\<close> by (simp add: word_size)
  ultimately show ?thesis
    by (metis and_mask_less_size)
qed

text \<open>A field of a register: what is written is read back, and the last write counts.\<close>

locale bit_field =
  fixes get :: "'r \<Rightarrow> 'v" and put :: "'r \<Rightarrow> 'v \<Rightarrow> 'r" and norm :: "'v \<Rightarrow> 'v"
  assumes get_put: "get (put r v) = norm v"
    and put_put: "put (put r v) w = put r w"
begin

lemma get_fold_put: "vs \<noteq> [] \<Longrightarrow> get (fold (\<lambda>v r. put r v) vs r) = norm (last vs)"
  by (induction vs arbitrary: r) (auto simp: get_put)

lemma fold_put: "vs \<noteq> [] \<Longrightarrow> fold (\<lambda>v r. put r v) vs r = put r (last vs)"
  by (induction vs arbitrary: r) (auto simp: put_put)

end

text \<open>Two fields of one register that do not overlap.\<close>

locale two_fields = f: bit_field get1 put1 norm1 + g: bit_field get2 put2 norm2
  for get1 :: "'r \<Rightarrow> 'v" and put1 norm1 and get2 :: "'r \<Rightarrow> 'w" and put2 norm2 +
  assumes get1_put2: "get1 (put2 r w) = get1 r"
    and get2_put1: "get2 (put1 r v) = get2 r"
begin

lemma both_written: "get1 (put2 (put1 r v) w) = norm1 v" "get2 (put2 (put1 r v) w) = norm2 w"
  by (simp_all add: f.get_put g.get_put get1_put2)

end

interpretation cr_ArgumentSize: bit_field ReadControlArgumentSize WriteControlArgumentSize "\<lambda>v. v AND mask 8"
  by unfold_locales (simp_all add: control_defs ldb_dpb_control dpb_control_twice)

interpretation cr_ExtraArgument: bit_field ReadControlExtraArgument WriteControlExtraArgument "\<lambda>v. v AND mask 1"
  by unfold_locales (simp_all add: control_defs ldb_dpb_control dpb_control_twice)

interpretation cr_CallerFrameSize: bit_field ReadControlCallerFrameSize WriteControlCallerFrameSize "\<lambda>v. v AND mask 8"
  by unfold_locales (simp_all add: control_defs ldb_dpb_control dpb_control_twice)

interpretation cr_Apply: bit_field ReadControlApply WriteControlApply "\<lambda>v. v AND mask 1"
  by unfold_locales (simp_all add: control_defs ldb_dpb_control dpb_control_twice)

interpretation cr_ValueDisposition: bit_field ReadControlValueDisposition WriteControlValueDisposition "\<lambda>v. v AND mask 2"
  by unfold_locales (simp_all add: control_defs ldb_dpb_control dpb_control_twice)

interpretation cr_CleanupBits: bit_field ReadControlCleanupBits WriteControlCleanupBits "\<lambda>v. v AND mask 3"
  by unfold_locales (simp_all add: control_defs ldb_dpb_control dpb_control_twice)

interpretation cr_CleanupCatch: bit_field ReadControlCleanupCatch WriteControlCleanupCatch "\<lambda>v. v AND mask 1"
  by unfold_locales (simp_all add: control_defs ldb_dpb_control dpb_control_twice)

interpretation cr_CleanupBindings: bit_field ReadControlCleanupBindings WriteControlCleanupBindings "\<lambda>v. v AND mask 1"
  by unfold_locales (simp_all add: control_defs ldb_dpb_control dpb_control_twice)

interpretation cr_TrapOnExit: bit_field ReadControlTrapOnExit WriteControlTrapOnExit "\<lambda>v. v AND mask 1"
  by unfold_locales (simp_all add: control_defs ldb_dpb_control dpb_control_twice)

interpretation cr_TrapMode: bit_field ReadControlTrapMode WriteControlTrapMode "\<lambda>v. v AND mask 2"
  by unfold_locales (simp_all add: control_defs ldb_dpb_control dpb_control_twice)

interpretation cr_CallStarted: bit_field ReadControlCallStarted WriteControlCallStarted "\<lambda>v. v AND mask 1"
  by unfold_locales (simp_all add: control_defs ldb_dpb_control dpb_control_twice)

interpretation cr_CleanupInProgress: bit_field ReadControlCleanupInProgress WriteControlCleanupInProgress "\<lambda>v. v AND mask 1"
  by unfold_locales (simp_all add: control_defs ldb_dpb_control dpb_control_twice)

interpretation cr_InstructionTrace: bit_field ReadControlInstructionTrace WriteControlInstructionTrace "\<lambda>v. v AND mask 1"
  by unfold_locales (simp_all add: control_defs ldb_dpb_control dpb_control_twice)

interpretation cr_CallTrace: bit_field ReadControlCallTrace WriteControlCallTrace "\<lambda>v. v AND mask 1"
  by unfold_locales (simp_all add: control_defs ldb_dpb_control dpb_control_twice)

interpretation cr_TracePending: bit_field ReadControlTracePending WriteControlTracePending "\<lambda>v. v AND mask 1"
  by unfold_locales (simp_all add: control_defs ldb_dpb_control dpb_control_twice)

interpretation cleanup_fields: two_fields ReadControlCleanupCatch WriteControlCleanupCatch
    "\<lambda>v. v AND mask 1" ReadControlCleanupBindings WriteControlCleanupBindings "\<lambda>v. v AND mask 1"
  by unfold_locales (simp_all add: control_defs ldb_dpb_control_other)

interpretation frame_fields: two_fields ReadControlArgumentSize WriteControlArgumentSize
    "\<lambda>v. v AND mask 8" ReadControlCallerFrameSize WriteControlCallerFrameSize "\<lambda>v. v AND mask 8"
  by unfold_locales (simp_all add: control_defs ldb_dpb_control_other)

end
