(* ===== verification/VirtualMemory.thy ===== *)
theory VirtualMemory
  imports Ivory
begin

text \<open>
  The virtual memory of \<open>c-emulator/memory.c\<close> and \<open>memory.h\<close>: the tag and data spaces, the
  attribute byte of every 8192-word page, the creation and destruction of pages, and the
  read, write, block, fill and search operations.

  \<open>DataSpace\<close> and \<open>TagSpace\<close> are the two arrays at fixed addresses. The operating system's
  part, which pages \<open>mmap\<close> has made accessible, is \<open>mapped\<close>, by page number: a fresh page
  reads as zero and \<open>mmap\<close> is taken to succeed (the code prints a message otherwise). An access
  to a page that is not mapped raises the signal that \<open>segv_handler\<close> turns into a trap; an
  index past the end of an array is \<open>undef\<close>. The state is a record that the machine state
  extends.
\<close>

unbundle bit_operations_syntax

record vmem =
  DataSpace :: "u64 \<Rightarrow> u64"
  TagSpace :: "u64 \<Rightarrow> u8"
  VMAttributeTable :: "u64 \<Rightarrow> u8"
  mapped :: "u64 \<Rightarrow> bool"
  memory_vma :: u64
  trap_vma :: LispObj
  CommandRegister :: u64
  AddressRegister :: u64
  ExtentRegister :: u64
  AttributesRegister :: u64
  DestinationRegister :: u64
  DataRegister :: LispObj

subsection \<open>Attributes\<close>

abbreviation (input) VMAttributeAccessFault :: u8 where "VMAttributeAccessFault \<equiv> 1"
abbreviation (input) VMAttributeWriteFault :: u8 where "VMAttributeWriteFault \<equiv> 2"
abbreviation (input) VMAttributeTransportFault :: u8 where "VMAttributeTransportFault \<equiv> 4"
abbreviation (input) VMAttributeTransportDisable :: u8 where "VMAttributeTransportDisable \<equiv> 8"
abbreviation (input) VMAttributeEphemeral :: u8 where "VMAttributeEphemeral \<equiv> 16"
abbreviation (input) VMAttributeModified :: u8 where "VMAttributeModified \<equiv> 32"
abbreviation (input) VMAttributeExists :: u8 where "VMAttributeExists \<equiv> 64"

definition VMCreatedDefault :: u8 where
  "VMCreatedDefault = VMAttributeAccessFault OR VMAttributeTransportFault OR VMAttributeExists"

definition VMTransportFault :: "u8 \<Rightarrow> bool" where
  "VMTransportFault a \<longleftrightarrow> a AND VMAttributeTransportFault \<noteq> 0"

definition VMTransportDisable :: "u8 \<Rightarrow> bool" where
  "VMTransportDisable a \<longleftrightarrow> a AND VMAttributeTransportDisable \<noteq> 0"

definition VMExists :: "u8 \<Rightarrow> bool" where
  "VMExists a \<longleftrightarrow> a AND VMAttributeExists \<noteq> 0"

definition SetVMTransportFault :: "u8 \<Rightarrow> u8" where
  "SetVMTransportFault a = a OR VMAttributeTransportFault"

definition SetVMExists :: "u8 \<Rightarrow> u8" where
  "SetVMExists a = a OR VMAttributeExists"

definition ClearVMTransportFault :: "u8 \<Rightarrow> u8" where
  "ClearVMTransportFault a = a AND NOT VMAttributeTransportFault"

definition DefaultAttributes :: "bool \<Rightarrow> bool \<Rightarrow> bool \<Rightarrow> u8" where
  "DefaultAttributes EnableIDS faultp worldp =
     (VMAttributeExists OR VMAttributeEphemeral) OR (if faultp then VMAttributeAccessFault else 0)
       OR (if EnableIDS \<and> worldp then 0 else VMAttributeModified)"

text \<open>The protections \<open>PROT_NONE\<close>, \<open>PROT_READ\<close>, \<open>PROT_WRITE\<close>, \<open>PROT_EXEC\<close>.\<close>

definition ComputeProtection :: "u8 \<Rightarrow> u8" where
  "ComputeProtection attr0 =
     (let attr = (if VMTransportDisable attr0 then ClearVMTransportFault attr0 else attr0) in
      if attr AND (VMAttributeExists OR VMAttributeTransportFault OR VMAttributeAccessFault)
           \<noteq> VMAttributeExists
      then 0
      else if attr AND (VMAttributeModified OR VMAttributeEphemeral OR VMAttributeWriteFault)
           \<noteq> VMAttributeModified OR VMAttributeEphemeral
      then 1 OR 4
      else 1 OR 2 OR 4)"

subsection \<open>Pages\<close>

abbreviation MemoryPageSize :: u64 where "MemoryPageSize \<equiv> 0x2000"

definition MemoryPageNumber :: "u64 \<Rightarrow> u64" where
  "MemoryPageNumber vma = drop_bit 13 vma"

definition MemoryPageOffset :: "u64 \<Rightarrow> u64" where
  "MemoryPageOffset vma = vma AND 0x1fff"

definition PageNumberMemory :: "u64 \<Rightarrow> u64" where
  "PageNumberMemory vpn = push_bit 13 vpn"

text \<open>The attribute table has \<open>2 ^ 19\<close> entries.\<close>

definition read_attribute :: "u64 \<Rightarrow> ('a vmem_scheme, u8) prog" where
  "read_attribute vpn = thn (defined (vpn < 0x80000)) (gets (\<lambda>s. VMAttributeTable s vpn))"

definition write_attribute :: "u64 \<Rightarrow> u8 \<Rightarrow> ('a vmem_scheme, unit) prog" where
  "write_attribute vpn a =
     thn (defined (vpn < 0x80000)) (modify (VMAttributeTable_update (\<lambda>t. t(vpn := a))))"

definition Created :: "u64 \<Rightarrow> ('a vmem_scheme, bool) prog" where
  "Created vma = bnd (read_attribute (MemoryPageNumber vma)) (\<lambda>a. ret (VMExists a))"

definition SetCreated :: "u64 \<Rightarrow> ('a vmem_scheme, unit) prog" where
  "SetCreated vma = write_attribute (MemoryPageNumber vma) VMCreatedDefault"

definition ClearCreated :: "u64 \<Rightarrow> ('a vmem_scheme, unit) prog" where
  "ClearCreated vma = write_attribute (MemoryPageNumber vma) 0"

text \<open>\<open>mmap\<close> and \<open>munmap\<close> of \<open>n\<close> data pages and \<open>n\<close> tag pages from an aligned address on.\<close>

definition mmap_pages :: "u64 \<Rightarrow> nat \<Rightarrow> ('a vmem_scheme, unit) prog" where
  "mmap_pages aligned_vma n = modify (\<lambda>s.
     let inside = (\<lambda>vpn. unat (MemoryPageNumber aligned_vma) \<le> unat vpn
                       \<and> unat vpn < unat (MemoryPageNumber aligned_vma) + n) in
     s\<lparr>DataSpace := \<lambda>a. if inside (MemoryPageNumber a) then 0 else DataSpace s a,
       TagSpace := \<lambda>a. if inside (MemoryPageNumber a) then 0 else TagSpace s a,
       mapped := \<lambda>vpn. inside vpn \<or> mapped s vpn\<rparr>)"

definition munmap_page :: "u64 \<Rightarrow> ('a vmem_scheme, unit) prog" where
  "munmap_page aligned_vma =
     modify (\<lambda>s. s\<lparr>mapped := (mapped s)(MemoryPageNumber aligned_vma := False)\<rparr>)"

definition EnsureVirtualAddress :: "u64 \<Rightarrow> ('a vmem_scheme, u64) prog" where
  "EnsureVirtualAddress vma =
     bnd (Created vma) (\<lambda>created.
       if created then ret vma
       else thn (mmap_pages (vma - MemoryPageOffset vma) 1) (thn (SetCreated vma) (ret vma)))"

text \<open>
  \<open>ceiling(count, MemoryPageSize)\<close> on \<open>int\<close>s. The sum in it must not overflow, and a negative
  number of pages makes the loops that count it down run off the attribute table.
\<close>

definition pages_of_count :: "u32 \<Rightarrow> int" where
  "pages_of_count count =
     (let n = sint count + 8191 in if n < 0 then - ((- n) div 8192) else n div 8192)"

definition pages_defined :: "u32 \<Rightarrow> bool" where
  "pages_defined count \<longleftrightarrow> sint count + 8191 < 2147483648 \<and> 0 \<le> pages_of_count count"

text \<open>The two inner loops of \<open>EnsureVirtualAddressRange\<close>, on (n, pages, virtualaddress).\<close>

fun create_run :: "nat \<Rightarrow> u64 \<Rightarrow> nat \<Rightarrow> ('a vmem_scheme, nat \<times> nat \<times> u64) prog" where
  "create_run n va pages =
     bnd (Created va) (\<lambda>created.
       if created \<or> pages = 0 then ret (n, pages, va)
       else thn (SetCreated va) (create_run (Suc n) (va + MemoryPageSize) (pages - 1)))"

fun skip_run :: "u64 \<Rightarrow> u64 \<Rightarrow> nat \<Rightarrow> ('a vmem_scheme, nat \<times> u64 \<times> u64) prog" where
  "skip_run aligned_vma va pages =
     bnd (Created va) (\<lambda>created.
       if \<not> created \<or> pages = 0 then ret (pages, va, aligned_vma)
       else skip_run (aligned_vma + MemoryPageSize) (va + MemoryPageSize) (pages - 1))"

declare create_run.simps [simp del] skip_run.simps [simp del]

partial_function (option) ensure_loop ::
  "u64 \<Rightarrow> nat \<Rightarrow> u64 \<Rightarrow> ('a vmem_scheme, u64) prog" where
  "ensure_loop aligned_vma pages va s =
     (if pages = 0 then ret va s
      else bnd (create_run 0 va pages) (\<lambda>x.
        bnd (run_if (0 < fst x) (mmap_pages aligned_vma (fst x))) (\<lambda>_.
        bnd (skip_run (aligned_vma + of_nat (fst x) * MemoryPageSize) (snd (snd x)) (fst (snd x)))
          (\<lambda>y. ensure_loop (snd (snd y)) (fst y) (fst (snd y))))) s)"

definition EnsureVirtualAddressRange :: "u64 \<Rightarrow> u32 \<Rightarrow> ('a vmem_scheme, u64) prog" where
  "EnsureVirtualAddressRange va count =
     thn (defined (pages_defined count))
       (ensure_loop (va - MemoryPageOffset va) (nat (pages_of_count count)) va)"

definition DestroyVirtualAddress :: "u64 \<Rightarrow> ('a vmem_scheme, u64) prog" where
  "DestroyVirtualAddress vma =
     bnd (Created vma) (\<lambda>created.
       if \<not> created then ret vma
       else thn (munmap_page (vma - MemoryPageOffset vma)) (thn (ClearCreated vma) (ret vma)))"

fun destroy_loop :: "nat \<Rightarrow> u64 \<Rightarrow> ('a vmem_scheme, u64) prog" where
  "destroy_loop 0 vma = ret vma"
| "destroy_loop (Suc pages) vma =
     thn (DestroyVirtualAddress vma) (destroy_loop pages (vma + MemoryPageSize))"

definition DestroyVirtualAddressRange :: "u64 \<Rightarrow> u32 \<Rightarrow> ('a vmem_scheme, u64) prog" where
  "DestroyVirtualAddressRange vma count =
     thn (defined (pages_defined count)) (destroy_loop (nat (pages_of_count count)) vma)"

subsection \<open>Traps and single accesses\<close>

definition TakeMemoryTrap :: "int \<Rightarrow> u64 \<Rightarrow> ('a vmem_scheme, 'b) prog" where
  "TakeMemoryTrap vector vma =
     bnd (modify (\<lambda>s. s\<lparr>trap_vma := (trap_vma s)\<lparr>DATA := ucast vma\<rparr>\<rparr>)) (\<lambda>_. longjmp vector)"

definition segv_handler :: "('a vmem_scheme, 'b) prog" where
  "segv_handler = bnd (gets memory_vma) (\<lambda>vma. TakeMemoryTrap PageNotResidentTrapVector vma)"

definition set_memory_vma :: "u64 \<Rightarrow> ('a vmem_scheme, unit) prog" where
  "set_memory_vma vma = modify (memory_vma_update (\<lambda>_. vma))"

text \<open>An access to \<open>DataSpace[vma]\<close> or \<open>TagSpace[vma]\<close>: outside the \<open>2 ^ 32\<close> entries it is
  undefined, on a page that is not mapped it is a SEGV.\<close>

definition access :: "u64 \<Rightarrow> ('a vmem_scheme, unit) prog" where
  "access vma =
     thn (defined (vma < 0x100000000))
       (bnd (gets (\<lambda>s. mapped s (MemoryPageNumber vma))) (\<lambda>ok. if ok then ret () else segv_handler))"

definition space_object :: "'a vmem_scheme \<Rightarrow> u64 \<Rightarrow> LispObj" where
  "space_object s vma = mkobj (ucast (TagSpace s vma)) (ucast (DataSpace s vma))"

definition write_data :: "u64 \<Rightarrow> u64 \<Rightarrow> ('a vmem_scheme, unit) prog" where
  "write_data vma data = thn (access vma) (modify (DataSpace_update (\<lambda>m. m(vma := data))))"

definition write_tag :: "u64 \<Rightarrow> u8 \<Rightarrow> ('a vmem_scheme, unit) prog" where
  "write_tag vma tag = thn (access vma) (modify (TagSpace_update (\<lambda>m. m(vma := tag))))"

definition VirtualMemoryRead :: "u64 \<Rightarrow> ('a vmem_scheme, LispObj) prog" where
  "VirtualMemoryRead vma =
     thn (set_memory_vma vma) (thn (access vma) (gets (\<lambda>s. space_object s vma)))"

definition VirtualMemoryWrite :: "u64 \<Rightarrow> LispObj \<Rightarrow> ('a vmem_scheme, unit) prog" where
  "VirtualMemoryWrite vma object =
     thn (set_memory_vma vma)
       (thn (write_data vma (ucast (DATA object))) (write_tag vma (ucast (TAG object))))"

subsection \<open>Blocks\<close>

text \<open>
  A block operation on \<open>count\<close> objects (an \<open>int\<close>; nothing happens when it is not positive). The
  objects a block read fetches go to the caller's array through \<open>put i obj\<close>, one by one, since
  the ones read before a fault stay there.
\<close>

definition next_memory_vma :: "('a vmem_scheme, unit) prog" where
  "next_memory_vma = modify (memory_vma_update (\<lambda>v. v + 1))"

fun read_block_loop ::
  "(nat \<Rightarrow> LispObj \<Rightarrow> ('a vmem_scheme, unit) prog) \<Rightarrow> nat \<Rightarrow> u64 \<Rightarrow> nat \<Rightarrow> ('a vmem_scheme, unit) prog" where
  "read_block_loop put i vma 0 = ret ()"
| "read_block_loop put i vma (Suc n) =
     thn (access vma) (bnd (gets (\<lambda>s. space_object s vma)) (\<lambda>obj.
       thn (put i obj) (thn next_memory_vma (read_block_loop put (Suc i) (vma + 1) n))))"

definition VirtualMemoryReadBlock ::
  "u64 \<Rightarrow> (nat \<Rightarrow> LispObj \<Rightarrow> ('a vmem_scheme, unit) prog) \<Rightarrow> u32 \<Rightarrow> ('a vmem_scheme, unit) prog" where
  "VirtualMemoryReadBlock vma put count =
     thn (set_memory_vma vma) (read_block_loop put 0 vma (nat (sint count)))"

fun write_block_loop :: "u64 \<Rightarrow> LispObj list \<Rightarrow> ('a vmem_scheme, unit) prog" where
  "write_block_loop vma [] = ret ()"
| "write_block_loop vma (obj # objs) =
     thn (write_data vma (ucast (DATA obj))) (thn (write_tag vma (ucast (TAG obj)))
       (thn next_memory_vma (write_block_loop (vma + 1) objs)))"

definition VirtualMemoryWriteBlock :: "u64 \<Rightarrow> LispObj list \<Rightarrow> ('a vmem_scheme, unit) prog" where
  "VirtualMemoryWriteBlock vma objects = thn (set_memory_vma vma) (write_block_loop vma objects)"

text \<open>The fill loops: the tags by \<open>memset\<close>, which leaves \<open>memory_vma\<close> alone, then the data.\<close>

fun memset_tags :: "u64 \<Rightarrow> u8 \<Rightarrow> nat \<Rightarrow> ('a vmem_scheme, unit) prog" where
  "memset_tags vma tag 0 = ret ()"
| "memset_tags vma tag (Suc n) = thn (write_tag vma tag) (memset_tags (vma + 1) tag n)"

fun memset_data_zero :: "u64 \<Rightarrow> nat \<Rightarrow> ('a vmem_scheme, unit) prog" where
  "memset_data_zero vma 0 = ret ()"
| "memset_data_zero vma (Suc n) = thn (write_data vma 0) (memset_data_zero (vma + 1) n)"

fun fill_data_loop :: "u64 \<Rightarrow> u64 \<Rightarrow> u64 \<Rightarrow> nat \<Rightarrow> ('a vmem_scheme, unit) prog" where
  "fill_data_loop vma cdata increment 0 = ret ()"
| "fill_data_loop vma cdata increment (Suc n) =
     thn (write_data vma cdata)
       (thn next_memory_vma (fill_data_loop (vma + 1) (cdata + increment) increment n))"

definition VirtualMemoryWriteBlockConstant ::
  "u64 \<Rightarrow> LispObj \<Rightarrow> u32 \<Rightarrow> u32 \<Rightarrow> ('a vmem_scheme, unit) prog" where
  "VirtualMemoryWriteBlockConstant vma object count increment =
     thn (defined (0 \<le> sint count)) (thn (set_memory_vma vma)
       (thn (memset_tags vma (ucast (TAG object)) (nat (sint count)))
         (let cdata = ucast (DATA object) in
          if increment = 0 \<and> cdata = 0 then memset_data_zero vma (nat (sint count))
          else fill_data_loop vma cdata (scast increment) (nat (sint count)))))"

subsection \<open>Searching\<close>

text \<open>\<open>memchr\<close> over the next \<open>n\<close> tags: the address of the first equal one and how many tags
  are left after it.\<close>

fun memchr_tags :: "u64 \<Rightarrow> u8 \<Rightarrow> nat \<Rightarrow> ('a vmem_scheme, (u64 \<times> nat) option) prog" where
  "memchr_tags vma tag 0 = ret None"
| "memchr_tags vma tag (Suc n) =
     thn (access vma) (bnd (gets (\<lambda>s. TagSpace s vma)) (\<lambda>t.
       if t = tag then ret (Some (vma, n)) else memchr_tags (vma + 1) tag n))"

partial_function (option) search_loop ::
  "u8 \<Rightarrow> u64 \<Rightarrow> u64 \<Rightarrow> nat \<Rightarrow> ('a vmem_scheme, u64 option) prog" where
  "search_loop ctag cdata vma n s =
     (if n = 0 then ret None s
      else bnd (memchr_tags vma ctag n) (\<lambda>r. case r of
        None \<Rightarrow> ret None
      | Some (tag, left) \<Rightarrow>
          bnd (set_memory_vma tag) (\<lambda>_. bnd (access tag) (\<lambda>_. bnd (gets (\<lambda>s. DataSpace s tag)) (\<lambda>d.
            if d = cdata then ret (Some tag) else search_loop ctag cdata (tag + 1) left)))) s)"

text \<open>The result is the address that \<open>*vma\<close> is set to on success.\<close>

definition VirtualMemorySearch :: "u64 \<Rightarrow> LispObj \<Rightarrow> u32 \<Rightarrow> ('a vmem_scheme, u64 option) prog" where
  "VirtualMemorySearch vma object count =
     search_loop (ucast (TAG object)) (ucast (DATA object)) vma (nat (sint count))"

subsection \<open>Enabling transport faults\<close>

fun enable_loop :: "u64 \<Rightarrow> nat \<Rightarrow> ('a vmem_scheme, unit) prog" where
  "enable_loop vpn 0 = ret ()"
| "enable_loop vpn (Suc n) =
     bnd (read_attribute vpn) (\<lambda>a.
       thn (run_if (VMExists a \<and> \<not> VMTransportDisable a)
             (write_attribute vpn (SetVMTransportFault a)))
         (enable_loop (vpn + 1) n))"

definition VirtualMemoryEnable :: "u64 \<Rightarrow> u32 \<Rightarrow> ('a vmem_scheme, unit) prog" where
  "VirtualMemoryEnable vma count =
     (let attr = MemoryPageNumber vma; eattr = MemoryPageNumber (vma + scast count) in
      enable_loop attr (unat eattr - unat attr))"

end
