(* ===== verification/Opcodes.thy ===== *)
theory Opcodes
  imports VLM_Prelude
begin

text \<open>
  The dispatch codes of the sequencer (\<open>c-emulator/dispatch.h\<close>). A code such as
  \<open>DispatchAddFP\<close> names an instruction and the way its operand is addressed; here it is the
  pair of the two, \<open>NumericI OpAdd ModeFP\<close>, grouped by the sections of the opcode table in
  \<open>ivory.h\<close>. Codes of instructions without an operand mode are constructors of their own.
\<close>

datatype operand_mode = ModeFP | ModeLP | ModeSP | ModeImmediate | ModePop

instantiation operand_mode :: enum
begin

definition enum_operand_mode :: "operand_mode list" where
  "enum_operand_mode = [ModeFP, ModeLP, ModeSP, ModeImmediate, ModePop]"

definition enum_all_operand_mode :: "(operand_mode \<Rightarrow> bool) \<Rightarrow> bool" where
  "enum_all_operand_mode P \<longleftrightarrow> P ModeFP \<and> P ModeLP \<and> P ModeSP \<and> P ModeImmediate \<and> P ModePop"

definition enum_ex_operand_mode :: "(operand_mode \<Rightarrow> bool) \<Rightarrow> bool" where
  "enum_ex_operand_mode P \<longleftrightarrow> P ModeFP \<or> P ModeLP \<or> P ModeSP \<or> P ModeImmediate \<or> P ModePop"

instance
proof
  show "(UNIV :: operand_mode set) = set enum_class.enum"
    by (auto simp: enum_operand_mode_def intro: operand_mode.exhaust)
  show "distinct (enum_class.enum :: operand_mode list)"
    by (simp add: enum_operand_mode_def)
  show "enum_class.enum_all P \<longleftrightarrow> Ball UNIV P" for P :: "operand_mode \<Rightarrow> bool"
    by (auto simp: enum_all_operand_mode_def) (metis operand_mode.exhaust)
  show "enum_class.enum_ex P \<longleftrightarrow> Bex UNIV P" for P :: "operand_mode \<Rightarrow> bool"
    by (auto simp: enum_ex_operand_mode_def) (metis operand_mode.exhaust)
qed

end

subsection \<open>Instructions with an operand mode\<close>

datatype list_op = OpCar | OpCdr | OpSetToCar | OpSetToCdr | OpSetToCdrPushCar | OpRplaca
  | OpRplacd | OpRgetf | OpMember | OpAssoc

datatype logic_op = OpDereference | OpUnify | OpPushLocalLogicVariables | OpLogicTailTest

datatype predicate_op = OpEq | OpEqNoPop | OpEql | OpEqlNoPop | OpEqualNumber
  | OpEqualNumberNoPop | OpGreaterp | OpGreaterpNoPop | OpLessp | OpLesspNoPop | OpLogtest
  | OpLogtestNoPop | OpEndp | OpPlusp | OpMinusp | OpZerop | OpUnsignedLessp
  | OpUnsignedLesspNoPop

datatype numeric_op = OpAdd | OpSub | OpUnaryMinus | OpIncrement | OpDecrement | OpMultiply
  | OpQuotient | OpCeiling | OpFloor | OpTruncate | OpRound | OpRationalQuotient | OpMax | OpMin
  | OpLogand | OpLogior | OpLogxor | OpAsh | OpRot | OpLsh | Op32BitPlus | Op32BitDifference
  | OpMultiplyDouble | OpAddBignumStep | OpSubBignumStep | OpMultiplyBignumStep
  | OpDivideBignumStep | OpLshcBignumStep | OpAlu

datatype move_op = OpPush | OpPop | OpMovem | OpPushAddress | OpSetSpToAddress
  | OpSetSpToAddressSaveTos | OpPushAddressSpRelative | OpStackBlt | OpStackBltAddress

datatype array_op = OpAref1 | OpAset1 | OpAloc1 | OpSetup1dArray | OpSetupForce1dArray
  | OpFastAref1 | OpFastAset1 | OpArrayLeader | OpStoreArrayLeader | OpAlocLeader

datatype call_op = OpStartCall | OpReturnMultiple | OpReturnKludge | OpJump

datatype bind_op = OpBindLocativeToValue | OpBindLocative | OpUnbindN | OpRestoreBindingStack

datatype lexical_op = OpPushLexicalVar | OpPopLexicalVar | OpMovemLexicalVar

datatype instance_op = OpInstanceRef | OpInstanceSet | OpInstanceLoc

datatype subprim_op = OpEphemeralp | OpAllocateListBlock | OpAllocateStructureBlock
  | OpPointerPlus | OpPointerDifference | OpPointerIncrement | OpTag | OpSetTag
  | OpStoreConditional | OpMemoryWrite | OpPStoreContents | OpSetCdrCode1 | OpSetCdrCode2
  | OpMergeCdrNoPop | OpProcBreakpoint

subsection \<open>Instructions without one\<close>

datatype branch_op = OpBranch | OpBranchTrue | OpBranchTrueElseExtraPop
  | OpBranchTrueAndExtraPop | OpBranchTrueExtraPop | OpBranchTrueNoPop | OpBranchTrueAndNoPop
  | OpBranchTrueElseNoPop | OpBranchTrueAndNoPopElseNoPopExtraPop | OpBranchFalse
  | OpBranchFalseElseExtraPop | OpBranchFalseAndExtraPop | OpBranchFalseExtraPop
  | OpBranchFalseNoPop | OpBranchFalseAndNoPop | OpBranchFalseElseNoPop
  | OpBranchFalseAndNoPopElseNoPopExtraPop | OpLoopDecrementTos | OpLoopIncrementTosLessThan

datatype field_op = OpLdb | OpCharLdb | OpPLdb | OpPTagLdb | OpDpb | OpCharDpb | OpPDpb
  | OpPTagDpb

datatype plain_op = OpTypeMember | OpTypeMemberNoPop | OpPushNNils | OpTakeValues
  | OpLocateLocals | OpCatchOpen | OpCatchClose | OpGenericDispatch | OpMessageDispatch
  | OpCheckPreemptRequest | OpPushGlobalLogicVariable | OpNoOp | OpHalt | OpHack
  | OpReturnSingleNIL | OpReturnSingleT | OpReturnSingleTOS | OpFinishCallN
  | OpFinishCallNApply | OpFinishCallTos | OpFinishCallTosApply | OpEntryRestAccepted
  | OpEntryRestNotAccepted | OpMemoryRead | OpMemoryReadAddress | OpReadInternalRegister
  | OpWriteInternalRegister | OpCoprocessorRead | OpCoprocessorWrite

datatype ivar_op = OpPushInstanceVariable | OpPopInstanceVariable | OpMovemInstanceVariable
  | OpPushAddressInstanceVariable | OpPushInstanceVariableOrdered
  | OpPopInstanceVariableOrdered | OpMovemInstanceVariableOrdered
  | OpPushAddressInstanceVariableOrdered

text \<open>
  Full-word instructions: \<open>PushTyped t\<close> is the code \<open>DispatchPush\<close>\<^emph>\<open>T\<close> for the data type of
  number \<open>t\<close>.
\<close>

datatype word_op = PushTyped u32 | CallCompiledEven | CallCompiledOdd | CallIndirect
  | CallGeneric | CallCompiledEvenPrefetch | CallCompiledOddPrefetch | CallIndirectPrefetch
  | CallGenericPrefetch

datatype dispatch =
    ListI list_op operand_mode
  | LogicI logic_op operand_mode
  | PredicateI predicate_op operand_mode
  | NumericI numeric_op operand_mode
  | MoveI move_op operand_mode
  | ArrayI array_op operand_mode
  | CallI call_op operand_mode
  | BindI bind_op operand_mode
  | LexicalI lexical_op operand_mode
  | InstanceI instance_op operand_mode
  | SubprimI subprim_op operand_mode
  | BlockWriteI nat operand_mode
  | BlockReadAluI nat operand_mode
  | BlockReadI nat
  | BlockReadShiftI nat
  | BlockReadTestI nat
  | BranchI branch_op
  | FieldI field_op
  | PlainI plain_op
  | IvarI ivar_op
  | WordI word_op
  | DispatchInstructionCacheLookup
  | DispatchIllegalInstruction

end
