(* ===== verification/Machine.thy ===== *)
theory Machine
  imports VirtualMemory Opcodes
begin

text \<open>
  The state of the emulator: the virtual memory, the processor state \<open>processor\<close>
  (\<open>emulator.h\<close>), the globals of \<open>emulator.c\<close> and the local variables of
  \<open>InstructionSequencer\<close>; the objects a C pointer can point to; and the macros by which
  the instructions read operands, push and pop.

  A pointer into \<open>StackCache\<close> is its index, an \<open>int\<close>, so that \<open>sp[1]\<close> is the object at
  \<open>sp + 1\<close>; the cache holds 1024 objects and an access outside is \<open>undef\<close>. The registers
  \<open>sp\<close>, \<open>restartsp\<close>, \<open>fp\<close>, \<open>lp\<close> and \<open>pc\<close> are the sequencer's local variables, \<open>ps_sp\<close> and
  so on the fields of \<open>processor\<close> that \<open>DecacheRegisters\<close> saves them to. The last three fields
  are the surroundings: how often life support was interrupted, and the processor time and the
  clock rate that \<open>times\<close> and \<open>sysconf\<close> would report.
\<close>

unbundle bit_operations_syntax

subsection \<open>State\<close>

text \<open>A pointer to an object: a slot of the stack cache, one of the sequencer's variables
  \<open>immediate\<close> and \<open>scratch\<close>, or a variable of a function in progress (\<open>Auto\<close>).\<close>

datatype ptr = StackSlot int | Immediate_var | Scratch_var | Auto

text \<open>A pointer to an instruction cache line: one of the 2048 lines, or the variable
  \<open>InstructionCacheLookupCPRepresentation\<close> of \<open>dispatch.c\<close>.\<close>

datatype line_ptr = CacheLine nat | LookupCP

record InstructionCacheLine =
  line_pc :: LispObj
  next_pc :: LispObj
  code :: dispatch
  operand :: u32
  instruction :: u32
  next_cp :: line_ptr

definition InstructionCacheLookupCPRepresentation :: InstructionCacheLine where
  "InstructionCacheLookupCPRepresentation =
     \<lparr>line_pc = mkobj TypeOddPC (- 1), next_pc = mkobj TypeOddPC (- 1),
      code = DispatchInstructionCacheLookup, operand = 0, instruction = 0, next_cp = LookupCP\<rparr>"

record machine = vmem +
  sp :: int
  restartsp :: int
  fp :: int
  lp :: int
  pc :: LispObj
  cp :: line_ptr
  op2 :: ptr
  scratch :: LispObj
  immediate :: LispObj
  immediate_index :: int
  ps_sp :: int
  ps_restartsp :: int
  ps_fp :: int
  ps_lp :: int
  ps_pc :: LispObj
  continuation :: LispObj
  InstructionCache :: "nat \<Rightarrow> InstructionCacheLine"
  StackCache :: "int \<Rightarrow> LispObj"
  StackCacheLimit :: int
  bar_address :: "nat \<Rightarrow> LispObj"
  ListCacheArea :: LispObj
  ListCacheAddress :: LispObj
  StructureCacheArea :: LispObj
  StructureCacheAddress :: LispObj
  CatchBlockPointer :: LispObj
  control :: u64
  StackCacheBase :: u64
  ArrayEventCount :: u64
  ListCacheLength :: u64
  StructureCacheLength :: u64
  BindingStackPointer :: u64
  BindingStackLimit :: u64
  DeepBoundP :: u32
  PreemptRegister :: u64
  AluAndRotateControl :: u64
  AluOp :: nat
  ByteSize :: u64
  ByteRotate :: u64
  RotateLatch :: u64
  ALUOverflow :: bool
  ALUBorrow :: bool
  ALULessThan :: bool
  EphemeralOldspaceRegister :: u64
  ZoneOldspaceRegister :: u64
  ControlStackLimit :: u64
  ControlStackExtraLimit :: u64
  DynamicBindingCacheBase :: u64
  DynamicBindingCacheMask :: u64
  FEPModeTrapVectorAddress :: u64
  MappingTableCache :: u64
  MappingTableLength :: u64
  running :: bool
  instruction_count :: u32
  suspend :: u32
  trap_microstate :: LispObj
  run_flag :: bool
  life_support_interrupts :: nat
  cpu_ticks :: u64
  ticks_per_second :: u64

subsection \<open>Labels\<close>

text \<open>The label of \<open>InstructionSequencer\<close> at which it goes on after an instruction;
  \<open>PullApplyArgsTrap i\<close> carries the variable \<open>i\<close>.\<close>

datatype goto = NextInstruction | BranchTaken | InstructionCacheLookup | IllegalOperand
  | InstructionException | UnimplementedInstruction | HandleUnwindProtect
  | PullApplyArgsTrap u32 | FollowPCInstructionException | SaveAndHalt | Halt

type_synonym 'a action = "(machine, 'a) prog"
type_synonym exec = "(machine, goto) prog"

definition jump :: "goto \<Rightarrow> exec" where
  "jump l = ret l"

subsection \<open>Objects in the stack cache and in variables\<close>

abbreviation StackCacheSlots :: int where "StackCacheSlots \<equiv> 1024"

definition stack_at :: "int \<Rightarrow> LispObj action" where
  "stack_at i = thn (defined (0 \<le> i \<and> i < StackCacheSlots)) (gets (\<lambda>s. StackCache s i))"

definition set_stack :: "int \<Rightarrow> LispObj \<Rightarrow> unit action" where
  "set_stack i obj = thn (defined (0 \<le> i \<and> i < StackCacheSlots))
     (modify (StackCache_update (\<lambda>c. c(i := obj))))"

fun read_ptr :: "ptr \<Rightarrow> LispObj action" where
  "read_ptr (StackSlot i) = stack_at i"
| "read_ptr Immediate_var = gets immediate"
| "read_ptr Scratch_var = gets scratch"
| "read_ptr Auto = undef"

fun write_ptr :: "ptr \<Rightarrow> LispObj \<Rightarrow> unit action" where
  "write_ptr (StackSlot i) obj = set_stack i obj"
| "write_ptr Immediate_var obj = modify (immediate_update (\<lambda>_. obj))"
| "write_ptr Scratch_var obj = modify (scratch_update (\<lambda>_. obj))"
| "write_ptr Auto obj = ret ()"

text \<open>\<open>ps->StackCacheBase + (p - ps->StackCache)\<close>; for the two variables the difference is some
  number, \<open>immediate_index\<close>.\<close>

fun ptr_index :: "machine \<Rightarrow> ptr \<Rightarrow> int" where
  "ptr_index s (StackSlot i) = i"
| "ptr_index s Immediate_var = immediate_index s"
| "ptr_index s Scratch_var = immediate_index s"
| "ptr_index s Auto = immediate_index s"

definition stack_vma :: "machine \<Rightarrow> int \<Rightarrow> u64" where
  "stack_vma s i = StackCacheBase s + word_of_int i"

definition ptr_vma :: "machine \<Rightarrow> ptr \<Rightarrow> u64" where
  "ptr_vma s p = stack_vma s (ptr_index s p)"

subsection \<open>Operands\<close>

definition set_op2 :: "ptr \<Rightarrow> unit action" where
  "set_op2 p = modify (op2_update (\<lambda>_. p))"

definition set_sp :: "int \<Rightarrow> unit action" where
  "set_sp i = modify (sp_update (\<lambda>_. i))"

fun line_at :: "machine \<Rightarrow> line_ptr \<Rightarrow> InstructionCacheLine" where
  "line_at s (CacheLine i) = InstructionCache s i"
| "line_at s LookupCP = InstructionCacheLookupCPRepresentation"

definition current_line :: "machine \<Rightarrow> InstructionCacheLine" where
  "current_line s = line_at s (cp s)"

definition cp_operand :: "machine \<Rightarrow> u32" where
  "cp_operand s = operand (current_line s)"

definition AddressImmediateOperand :: "unit action" where
  "AddressImmediateOperand =
     thn (set_op2 Immediate_var)
       (modify (\<lambda>s. s\<lparr>immediate := (immediate s)\<lparr>DATA := cp_operand s\<rparr>\<rparr>))"

definition AddressSPOperand :: "unit action" where
  "AddressSPOperand = bnd (gets (\<lambda>s. sp s + sint (cp_operand s))) (\<lambda>i. set_op2 (StackSlot i))"

definition AddressFPOperand :: "unit action" where
  "AddressFPOperand = bnd (gets (\<lambda>s. fp s + sint (cp_operand s))) (\<lambda>i. set_op2 (StackSlot i))"

definition AddressLPOperand :: "unit action" where
  "AddressLPOperand = bnd (gets (\<lambda>s. lp s + sint (cp_operand s))) (\<lambda>i. set_op2 (StackSlot i))"

definition AddressPopOperand :: "unit action" where
  "AddressPopOperand = bnd (gets sp) (\<lambda>i. thn (set_op2 (StackSlot i)) (set_sp (i - 1)))"

fun AddressOperand :: "operand_mode \<Rightarrow> unit action" where
  "AddressOperand ModeImmediate = AddressImmediateOperand"
| "AddressOperand ModeSP = AddressSPOperand"
| "AddressOperand ModeFP = AddressFPOperand"
| "AddressOperand ModeLP = AddressLPOperand"
| "AddressOperand ModePop = AddressPopOperand"

text \<open>An instruction with cases for the given operand modes; the other codes reach the
  \<open>default\<close> of the switch.\<close>

definition with_operand :: "operand_mode list \<Rightarrow> operand_mode \<Rightarrow> exec \<Rightarrow> exec" where
  "with_operand modes mode body =
     (if mode \<in> set modes then thn (AddressOperand mode) body else jump UnimplementedInstruction)"

abbreviation "stack_modes \<equiv> [ModeSP, ModeFP, ModeLP]"
abbreviation "source_modes \<equiv> [ModeSP, ModeFP, ModeLP, ModePop]"
abbreviation "all_modes \<equiv> [ModeImmediate, ModeSP, ModeFP, ModeLP, ModePop]"

text \<open>\<open>*op2\<close>, \<open>*sp\<close> and \<open>sp[k]\<close>.\<close>

definition op2_obj :: "LispObj action" where
  "op2_obj = bnd (gets op2) read_ptr"

definition set_op2_obj :: "LispObj \<Rightarrow> unit action" where
  "set_op2_obj obj = bnd (gets op2) (\<lambda>p. write_ptr p obj)"

definition sp_at :: "int \<Rightarrow> LispObj action" where
  "sp_at k = bnd (gets sp) (\<lambda>i. stack_at (i + k))"

definition set_sp_at :: "int \<Rightarrow> LispObj \<Rightarrow> unit action" where
  "set_sp_at k obj = bnd (gets sp) (\<lambda>i. set_stack (i + k) obj)"

definition fp_at :: "int \<Rightarrow> LispObj action" where
  "fp_at k = bnd (gets fp) (\<lambda>i. stack_at (i + k))"

definition add_sp :: "int \<Rightarrow> unit action" where
  "add_sp k = modify (sp_update (\<lambda>i. i + k))"

abbreviation tos :: "LispObj action" where "tos \<equiv> sp_at 0"

subsection \<open>Pushing, popping and setting the top of the stack\<close>

definition push :: "LispObj \<Rightarrow> unit action" where
  "push obj = thn (set_sp_at 1 obj) (add_sp 1)"

definition PushObject :: "LispObj \<Rightarrow> unit action" where
  "PushObject obj = push (cdr_next obj)"

definition PushFixnum :: "u32 \<Rightarrow> unit action" where
  "PushFixnum i = push (mkobj TypeFixnum i)"

definition PushNIL :: "unit action" where
  "PushNIL = push ObjectNIL"

definition PushT :: "unit action" where
  "PushT = push ObjectT"

definition tag_of_int :: "u32 \<Rightarrow> u32" where
  "tag_of_int t = ucast (ucast t :: u8)"

definition PushConstant :: "u32 \<Rightarrow> u64 \<Rightarrow> unit action" where
  "PushConstant t data = push (mkobj (tag_of_int t) (ucast data))"

definition PushPredicate :: "bool \<Rightarrow> unit action" where
  "PushPredicate v = (if v then PushT else PushNIL)"

definition PopObject :: "ptr \<Rightarrow> unit action" where
  "PopObject p = bnd tos (\<lambda>obj. thn (write_ptr p obj) (add_sp (- 1)))"

definition MoveObject :: "ptr \<Rightarrow> unit action" where
  "MoveObject p = bnd tos (write_ptr p)"

definition set_tos :: "LispObj \<Rightarrow> unit action" where
  "set_tos obj = set_sp_at 0 obj"

definition SetObject :: "LispObj \<Rightarrow> unit action" where
  "SetObject obj = set_tos (cdr_next obj)"

definition SetFixnum :: "u32 \<Rightarrow> unit action" where
  "SetFixnum i = set_tos (mkobj TypeFixnum i)"

definition SetNIL :: "unit action" where
  "SetNIL = set_tos ObjectNIL"

definition SetT :: "unit action" where
  "SetT = set_tos ObjectT"

definition SetPredicate :: "bool \<Rightarrow> unit action" where
  "SetPredicate v = (if v then SetT else SetNIL)"

definition SetConstant :: "u32 \<Rightarrow> u64 \<Rightarrow> unit action" where
  "SetConstant t data = set_tos (mkobj (tag_of_int t) (ucast data))"

definition PushContinuation :: "LispObj \<Rightarrow> unit action" where
  "PushContinuation c = PushConstant (TAG c OR 192) (ucast (DATA c))"

definition PushControl :: "u64 \<Rightarrow> unit action" where
  "PushControl c = PushConstant (TypeFixnum OR 192) c"

text \<open>An action followed by a jump.\<close>

abbreviation and_next :: "unit action \<Rightarrow> exec" where
  "and_next m \<equiv> thn m (jump NextInstruction)"

subsection \<open>Registers\<close>

definition DecacheRegisters :: "unit action" where
  "DecacheRegisters = modify (\<lambda>s. s\<lparr>ps_sp := sp s, ps_restartsp := restartsp s, ps_fp := fp s,
     ps_lp := lp s, ps_pc := pc s\<rparr>)"

definition EncacheRegisters :: "unit action" where
  "EncacheRegisters = modify (\<lambda>s. s\<lparr>sp := ps_sp s, restartsp := ps_restartsp s, fp := ps_fp s,
     lp := ps_lp s, pc := ps_pc s\<rparr>)"

text \<open>\<open>IncrementPC\<close>: offsets count half words, the low bit of the tag tells the odd one.\<close>

definition IncrementPC :: "LispObj \<Rightarrow> u32 \<Rightarrow> LispObj" where
  "IncrementPC p offset =
     (let d = DATA p + signed_drop_bit 1 offset in
      if TAG p AND 1 \<noteq> 0 then
        (if offset AND 1 \<noteq> 0 then mkobj TypeEvenPC (d + 1) else mkobj TypeOddPC d)
      else if offset AND 1 \<noteq> 0 then mkobj TypeOddPC d
      else mkobj TypeEvenPC d)"

subsection \<open>Traps raised by C functions, and sequence breaks\<close>

definition TakeIllegalOperandTrap :: "u32 \<Rightarrow> ptr \<Rightarrow> 'a action" where
  "TakeIllegalOperandTrap microstate p =
     bnd (modify (\<lambda>s. s\<lparr>trap_microstate := (trap_microstate s)\<lparr>DATA := microstate\<rparr>,
                       trap_vma := (trap_vma s)\<lparr>DATA := ucast (ptr_vma s p)\<rparr>\<rparr>))
       (\<lambda>_. longjmp ErrorTrapVector)"

definition TakeInstructionExceptionTrap :: "'a action" where
  "TakeInstructionExceptionTrap = longjmp InstructionExceptionVector"

abbreviation (input) SuspendNone :: u32 where "SuspendNone \<equiv> 0"
abbreviation (input) SuspendSpy :: u32 where "SuspendSpy \<equiv> 1"
abbreviation (input) SuspendLowPriority :: u32 where "SuspendLowPriority \<equiv> 2"
abbreviation (input) SuspendHighPriority :: u32 where "SuspendHighPriority \<equiv> 3"
abbreviation (input) SuspendReset :: u32 where "SuspendReset \<equiv> 4"

definition io_handler :: "unit action" where
  "io_handler = modify (suspend_update (\<lambda>_. SuspendSpy))"

definition SendInterruptToEmulator :: "unit action" where
  "SendInterruptToEmulator = modify (suspend_update (\<lambda>_. SuspendHighPriority))"

definition ProcessSuspend :: "unit action" where
  "ProcessSuspend =
     bnd (gets suspend) (\<lambda>s. thn (modify (suspend_update (\<lambda>_. SuspendNone)))
       (if s = SuspendSpy then longjmp (- 1)
        else if s = SuspendLowPriority then longjmp LowPrioritySequenceBreakTrapVector
        else if s = SuspendHighPriority then longjmp HighPrioritySequenceBreakTrapVector
        else if s = SuspendReset then longjmp ResetTrapVector
        else ret ()))"

definition AllowSequenceBreaks :: "unit action" where
  "AllowSequenceBreaks = bnd (gets suspend) (\<lambda>s. run_if (s \<noteq> 0) ProcessSuspend)"

subsection \<open>Exception tails\<close>

definition Op2SpareExceptions :: exec where
  "Op2SpareExceptions = bnd op2_obj (\<lambda>b.
     jump (if TypeSpareP (TAG b) then InstructionException else IllegalOperand))"

definition Op2FixnumExceptions :: exec where
  "Op2FixnumExceptions = bnd op2_obj (\<lambda>b.
     jump (if TypeNumericP (TAG b) then InstructionException else IllegalOperand))"

definition Op2ListExceptions :: exec where
  "Op2ListExceptions = bnd op2_obj (\<lambda>b.
     if TypeEqualP (TAG b) TypeListInstance then jump InstructionException
     else Op2SpareExceptions)"

definition Op2ArrayExceptions :: exec where
  "Op2ArrayExceptions = bnd op2_obj (\<lambda>b.
     if TagType (TAG b) = TypeArrayInstance \<or> TagType (TAG b) = TypeStringInstance
     then jump InstructionException else Op2SpareExceptions)"

definition BinaryTypeFixnumExceptions :: exec where
  "BinaryTypeFixnumExceptions = bnd op2_obj (\<lambda>b. bnd tos (\<lambda>a.
     jump (if BinaryTypeNumericP (TAG b) (TAG a) then InstructionException else IllegalOperand)))"

definition SpSpareExceptions :: exec where
  "SpSpareExceptions = bnd tos (\<lambda>a.
     jump (if TypeSpareP (TAG a) then InstructionException else IllegalOperand))"

definition SpFixnumExceptions :: exec where
  "SpFixnumExceptions = bnd tos (\<lambda>a.
     jump (if TypeNumericP (TAG a) then InstructionException else IllegalOperand))"

definition SpListExceptions :: exec where
  "SpListExceptions = bnd tos (\<lambda>a.
     if TypeEqualP (TAG a) TypeListInstance then jump InstructionException
     else SpSpareExceptions)"

definition SpArrayExceptions :: exec where
  "SpArrayExceptions = bnd tos (\<lambda>a.
     if TagType (TAG a) = TypeArrayInstance \<or> TagType (TAG a) = TypeStringInstance
     then jump InstructionException else SpSpareExceptions)"

definition ScratchSpareExceptions :: exec where
  "ScratchSpareExceptions = bnd (gets scratch) (\<lambda>a.
     jump (if TypeSpareP (TAG a) then InstructionException else IllegalOperand))"

definition ScratchListExceptions :: exec where
  "ScratchListExceptions = bnd (gets scratch) (\<lambda>a.
     if TypeEqualP (TAG a) TypeListInstance then jump InstructionException
     else ScratchSpareExceptions)"

subsection \<open>Evaluation\<close>

text \<open>A slot of the cache, and the effect of the machine's elementary actions on a state where
  they are defined.\<close>

definition slot :: "int \<Rightarrow> bool" where
  "slot i \<longleftrightarrow> 0 \<le> i \<and> i < StackCacheSlots"

definition put_slot :: "int \<Rightarrow> LispObj \<Rightarrow> machine \<Rightarrow> machine" where
  "put_slot i obj s = s\<lparr>StackCache := (StackCache s)(i := obj)\<rparr>"

lemma put_slot_simps [simp]:
  "StackCache (put_slot i obj s) = (StackCache s)(i := obj)"
  "sp (put_slot i obj s) = sp s" "fp (put_slot i obj s) = fp s" "lp (put_slot i obj s) = lp s"
  "op2 (put_slot i obj s) = op2 s" "control (put_slot i obj s) = control s"
  "continuation (put_slot i obj s) = continuation s" "pc (put_slot i obj s) = pc s"
  "cp (put_slot i obj s) = cp s" "InstructionCache (put_slot i obj s) = InstructionCache s"
  "scratch (put_slot i obj s) = scratch s" "immediate (put_slot i obj s) = immediate s"
  "StackCacheBase (put_slot i obj s) = StackCacheBase s"
  "StackCacheLimit (put_slot i obj s) = StackCacheLimit s" "suspend (put_slot i obj s) = suspend s"
  "DataSpace (put_slot i obj s) = DataSpace s" "TagSpace (put_slot i obj s) = TagSpace s"
  "mapped (put_slot i obj s) = mapped s" "VMAttributeTable (put_slot i obj s) = VMAttributeTable s"
  by (simp_all add: put_slot_def)

lemma stack_at_eval [prog_simps]: "slot i \<Longrightarrow> stack_at i s = Some (Ret (StackCache s i), s)"
  by (simp add: stack_at_def slot_def prog_simps)

lemma set_stack_eval [prog_simps]: "slot i \<Longrightarrow> set_stack i obj s = Some (Ret (), put_slot i obj s)"
  by (simp add: set_stack_def slot_def prog_simps put_slot_def fun_upd_def comp_def)

lemma stack_at_outside: "\<not> slot i \<Longrightarrow> stack_at i s = Some (Undef, s)"
  by (auto simp: stack_at_def slot_def prog_simps)

lemma sp_at_eval [prog_simps]: "slot (sp s + k) \<Longrightarrow> sp_at k s = Some (Ret (StackCache s (sp s + k)), s)"
  by (simp add: sp_at_def prog_simps)

lemma fp_at_eval [prog_simps]: "slot (fp s + k) \<Longrightarrow> fp_at k s = Some (Ret (StackCache s (fp s + k)), s)"
  by (simp add: fp_at_def prog_simps)

lemma set_sp_at_eval [prog_simps]:
  "slot (sp s + k) \<Longrightarrow> set_sp_at k obj s = Some (Ret (), put_slot (sp s + k) obj s)"
  by (simp add: set_sp_at_def prog_simps)

lemma set_tos_eval [prog_simps]: "slot (sp s) \<Longrightarrow> set_tos obj s = Some (Ret (), put_slot (sp s) obj s)"
  by (simp add: set_tos_def prog_simps)

lemma add_sp_eval [prog_simps]: "add_sp k s = Some (Ret (), s\<lparr>sp := sp s + k\<rparr>)"
  by (simp add: add_sp_def prog_simps)

lemma push_eval [prog_simps]:
  "slot (sp s + 1) \<Longrightarrow> push obj s = Some (Ret (), (put_slot (sp s + 1) obj s)\<lparr>sp := sp s + 1\<rparr>)"
  by (simp add: push_def prog_simps)

lemma set_tos_kinds [prog_simps]:
  "SetFixnum i = set_tos (mkobj TypeFixnum i)" "SetNIL = set_tos ObjectNIL" "SetT = set_tos ObjectT"
  "SetObject obj = set_tos (cdr_next obj)"
  "SetPredicate v = set_tos (if v then ObjectT else ObjectNIL)"
  by (simp_all add: SetFixnum_def SetNIL_def SetT_def SetObject_def SetPredicate_def)

lemma push_kinds [prog_simps]:
  "PushFixnum i = push (mkobj TypeFixnum i)" "PushNIL = push ObjectNIL" "PushT = push ObjectT"
  "PushObject obj = push (cdr_next obj)"
  "PushPredicate v = push (if v then ObjectT else ObjectNIL)"
  "PushConstant t d = push (mkobj (tag_of_int t) (ucast d))"
  by (simp_all add: PushFixnum_def PushNIL_def PushT_def PushObject_def PushPredicate_def
      PushConstant_def)

lemma jump_eval [prog_simps]: "jump l s = Some (Ret l, s)"
  by (simp add: jump_def prog_simps)

text \<open>Addressing the operand never fails; \<open>addressed\<close> is the state after it.\<close>

fun addressed :: "operand_mode \<Rightarrow> machine \<Rightarrow> machine" where
  "addressed ModeImmediate s = s\<lparr>op2 := Immediate_var, immediate := (immediate s)\<lparr>DATA := cp_operand s\<rparr>\<rparr>"
| "addressed ModeSP s = s\<lparr>op2 := StackSlot (sp s + sint (cp_operand s))\<rparr>"
| "addressed ModeFP s = s\<lparr>op2 := StackSlot (fp s + sint (cp_operand s))\<rparr>"
| "addressed ModeLP s = s\<lparr>op2 := StackSlot (lp s + sint (cp_operand s))\<rparr>"
| "addressed ModePop s = s\<lparr>op2 := StackSlot (sp s), sp := sp s - 1\<rparr>"

lemma cp_operand_simps [simp]:
  "cp_operand (s\<lparr>op2 := p\<rparr>) = cp_operand s" "cp_operand (s\<lparr>sp := i\<rparr>) = cp_operand s"
  "cp_operand (put_slot i obj s) = cp_operand s"
  by (cases "cp s"; simp add: cp_operand_def current_line_def)+

lemma AddressOperand_eval [prog_simps]: "AddressOperand mode s = Some (Ret (), addressed mode s)"
  by (cases mode) (simp_all add: AddressImmediateOperand_def AddressSPOperand_def
      AddressFPOperand_def AddressLPOperand_def AddressPopOperand_def set_op2_def set_sp_def
      prog_simps)

lemma with_operand_eval [prog_simps]:
  "mode \<in> set modes \<Longrightarrow> with_operand modes mode body s = body (addressed mode s)"
  by (simp add: with_operand_def prog_simps)

lemma with_operand_default:
  "mode \<notin> set modes \<Longrightarrow> with_operand modes mode body s = Some (Ret UnimplementedInstruction, s)"
  by (simp add: with_operand_def prog_simps)

text \<open>The object a pointer points to, when it can be read.\<close>

fun readable :: "ptr \<Rightarrow> bool" where
  "readable (StackSlot i) = slot i"
| "readable Immediate_var = True"
| "readable Scratch_var = True"
| "readable Auto = False"

fun object_at :: "machine \<Rightarrow> ptr \<Rightarrow> LispObj" where
  "object_at s (StackSlot i) = StackCache s i"
| "object_at s Immediate_var = immediate s"
| "object_at s Scratch_var = scratch s"
| "object_at s Auto = scratch s"

lemma read_ptr_eval [prog_simps]: "readable p \<Longrightarrow> read_ptr p s = Some (Ret (object_at s p), s)"
  by (cases p) (simp_all add: prog_simps)

lemma op2_obj_eval [prog_simps]:
  "readable (op2 s) \<Longrightarrow> op2_obj s = Some (Ret (object_at s (op2 s)), s)"
  by (simp add: op2_obj_def prog_simps)

text \<open>An instruction finds its operands: \<open>a\<close> on top of the stack and \<open>b\<close> at \<open>op2\<close>, both in the
  cache, after the operand has been addressed.\<close>

definition operands :: "operand_mode \<Rightarrow> machine \<Rightarrow> LispObj \<Rightarrow> LispObj \<Rightarrow> bool" where
  "operands mode s a b \<longleftrightarrow>
     (let s' = addressed mode s in
      slot (sp s') \<and> StackCache s' (sp s') = a \<and> readable (op2 s') \<and> object_at s' (op2 s') = b)"

end
