(* ===== verification/MemoryCycles.thy ===== *)
theory MemoryCycles
  imports Machine
begin

text \<open>
  Memory as the processor sees it (\<open>emulator.c\<close>): reads and writes that go through the stack
  cache, scrolling the cache over the control stack, the read and write cycles that follow
  forwarding pointers and trap by data type, and the accessors of list cells.
\<close>

unbundle bit_operations_syntax

subsection \<open>Memory behind the stack cache\<close>

definition stack_cache_index :: "machine \<Rightarrow> u64 \<Rightarrow> u64" where
  "stack_cache_index s vma = vma - StackCacheBase s"

definition in_stack_cache :: "machine \<Rightarrow> u64 \<Rightarrow> bool" where
  "in_stack_cache s vma \<longleftrightarrow> stack_cache_index s vma < 1024"

definition ReadVirtualMemory :: "u64 \<Rightarrow> LispObj action" where
  "ReadVirtualMemory vma = bnd (gets (\<lambda>s. (in_stack_cache s vma, stack_cache_index s vma))) (\<lambda>x.
     if fst x then stack_at (uint (snd x)) else VirtualMemoryRead vma)"

definition WriteVirtualMemory :: "u64 \<Rightarrow> LispObj \<Rightarrow> unit action" where
  "WriteVirtualMemory vma object =
     bnd (gets (\<lambda>s. (in_stack_cache s vma, stack_cache_index s vma))) (\<lambda>x.
     thn (run_if (fst x) (set_stack (uint (snd x)) object)) (VirtualMemoryWrite vma object))"

fun read_cache_block :: "u64 \<Rightarrow> (nat \<Rightarrow> LispObj \<Rightarrow> unit action) \<Rightarrow> nat \<Rightarrow> nat \<Rightarrow> unit action" where
  "read_cache_block vma put i 0 = ret ()"
| "read_cache_block vma put i (Suc n) =
     bnd (ReadVirtualMemory vma) (\<lambda>obj.
       thn (put i obj) (read_cache_block (vma + 1) put (Suc i) n))"

definition ReadVirtualMemoryBlock :: "u64 \<Rightarrow> (nat \<Rightarrow> LispObj \<Rightarrow> unit action) \<Rightarrow> u32 \<Rightarrow> unit action" where
  "ReadVirtualMemoryBlock vma put count =
     bnd (gets (\<lambda>s. in_stack_cache s vma)) (\<lambda>cached.
       if cached then thn (defined (0 \<le> sint count)) (read_cache_block vma put 0 (nat (sint count)))
       else VirtualMemoryReadBlock vma put count)"

fun write_cache_block :: "u64 \<Rightarrow> LispObj list \<Rightarrow> unit action" where
  "write_cache_block vma [] = ret ()"
| "write_cache_block vma (obj # objs) =
     thn (WriteVirtualMemory vma obj) (write_cache_block (vma + 1) objs)"

definition WriteVirtualMemoryBlock :: "u64 \<Rightarrow> LispObj list \<Rightarrow> unit action" where
  "WriteVirtualMemoryBlock vma objects =
     bnd (gets (\<lambda>s. in_stack_cache s vma)) (\<lambda>cached.
       if cached then write_cache_block vma objects else VirtualMemoryWriteBlock vma objects)"

subsection \<open>Scrolling\<close>

text \<open>
  The cache has four pages of 256 objects. Both loops count \<open>i\<close> down from 2 to 0; scrolling up
  copies page \<open>i + 1\<close> to page \<open>i\<close>, scrolling down page \<open>i\<close> to page \<open>i + 1\<close>.
\<close>

definition copy_page :: "int \<Rightarrow> int \<Rightarrow> (int \<Rightarrow> LispObj) \<Rightarrow> int \<Rightarrow> LispObj" where
  "copy_page to from c = (\<lambda>i. if to * 256 \<le> i \<and> i < (to + 1) * 256 then c (i - to * 256 + from * 256) else c i)"

definition move_registers :: "int \<Rightarrow> machine \<Rightarrow> machine" where
  "move_registers n s = s\<lparr>ps_fp := ps_fp s + n, ps_sp := ps_sp s + n, ps_lp := ps_lp s + n,
     StackCacheBase := StackCacheBase s - word_of_int n\<rparr>"

definition StackCacheScrollUp :: "unit action" where
  "StackCacheScrollUp =
     bnd (gets (\<lambda>s. (StackCacheBase s, map (StackCache s) [0..255]))) (\<lambda>x.
     thn (VirtualMemoryWriteBlock (fst x) (snd x))
    (thn (modify (StackCache_update (\<lambda>c. copy_page 0 1 (copy_page 1 2 (copy_page 2 3 c)))))
         (modify (move_registers (- 256)))))"

definition StackCacheScrollDown :: "unit action" where
  "StackCacheScrollDown =
     thn (modify (StackCache_update (\<lambda>c. copy_page 1 0 (copy_page 2 1 (copy_page 3 2 c)))))
    (thn (modify (move_registers 256))
         (bnd (gets StackCacheBase) (\<lambda>base.
           VirtualMemoryReadBlock base (\<lambda>i obj. set_stack (int i) obj) 256)))"

subsection \<open>Oldspace\<close>

definition OldspaceAddressP :: "machine \<Rightarrow> u64 \<Rightarrow> bool" where
  "OldspaceAddressP s vma =
     (let zone = ReadVMAZoneNum vma in
      if zone = 0 then
        ucast (ReadVMAEphemeralHalf vma)
          = drop_bit (unat (ReadVMAEphemeralDemilevel vma)) (EphemeralOldspaceRegister s) AND 1
      else (ucast (ZoneOldspaceRegister s AND scast (push_bit (unat zone) 1 :: u32)) :: u32) \<noteq> 0)"

text \<open>\<open>PointerTypeP(TagType(tag))\<close> is undefined for the data types from 32 on.\<close>

definition pointer_and :: "u32 \<Rightarrow> (machine \<Rightarrow> bool) \<Rightarrow> bool action" where
  "pointer_and t test = (case PointerTypeP t of None \<Rightarrow> undef
     | Some b \<Rightarrow> if b then gets test else ret False)"

definition EphemeralP :: "LispObj \<Rightarrow> bool action" where
  "EphemeralP obj = pointer_and (TagType (TAG obj)) (\<lambda>_. EphemeralAddressP (ucast (DATA obj)))"

definition OldspaceP :: "LispObj \<Rightarrow> bool action" where
  "OldspaceP obj = pointer_and (TagType (TAG obj)) (\<lambda>s. OldspaceAddressP s (ucast (DATA obj)))"

subsection \<open>Memory cycles\<close>

abbreviation (input) CycleDataRead :: nat where "CycleDataRead \<equiv> 0"
abbreviation (input) CycleDataWrite :: nat where "CycleDataWrite \<equiv> 1"
abbreviation (input) CycleBindRead :: nat where "CycleBindRead \<equiv> 2"
abbreviation (input) CycleBindWrite :: nat where "CycleBindWrite \<equiv> 3"
abbreviation (input) CycleHeader :: nat where "CycleHeader \<equiv> 6"
abbreviation (input) CycleScavenge :: nat where "CycleScavenge \<equiv> 8"
abbreviation (input) CycleCdr :: nat where "CycleCdr \<equiv> 9"
abbreviation (input) CycleRaw :: nat where "CycleRaw \<equiv> 11"

abbreviation (input) MemoryActionIndirect :: u8 where "MemoryActionIndirect \<equiv> 1"
abbreviation (input) MemoryActionMonitor :: u8 where "MemoryActionMonitor \<equiv> 2"
abbreviation (input) MemoryActionTransport :: u8 where "MemoryActionTransport \<equiv> 4"
abbreviation (input) MemoryActionTrap :: u8 where "MemoryActionTrap \<equiv> 8"
abbreviation (input) MemoryActionTransform :: u8 where "MemoryActionTransform \<equiv> 16"

definition MemoryActionTable :: "u8 list list" where
  "MemoryActionTable = [
    [12, 6, 12, 8, 5, 5, 5, 5, 0, 0, 0, 4, 4, 4, 4, 4, 4, 4, 4, 4, 4, 4, 4, 4, 4, 4, 4, 4, 4, 4, 4, 4,
     0, 0, 36, 0, 20, 8, 4, 4, 4, 4, 4, 4, 4, 4, 4, 4, 0, 0, 0, 0, 0, 0, 0, 0, 0, 0, 0, 0, 0, 0, 0, 0],
    [0, 6, 8, 8, 5, 5, 5, 5, 0, 0, 0, 0, 0, 0, 0, 0, 0, 0, 0, 0, 0, 0, 0, 0, 0, 0, 0, 0, 0, 0, 0, 0,
     0, 0, 36, 0, 0, 8, 0, 0, 0, 0, 0, 0, 0, 0, 0, 0, 0, 0, 0, 0, 0, 0, 0, 0, 0, 0, 0, 0, 0, 0, 0, 0],
    [4, 6, 12, 8, 4, 5, 5, 5, 0, 0, 0, 4, 4, 4, 4, 4, 4, 4, 4, 4, 4, 4, 4, 4, 4, 4, 4, 4, 4, 4, 4, 4,
     0, 0, 4, 0, 4, 8, 4, 4, 4, 4, 4, 4, 4, 4, 4, 4, 0, 0, 0, 0, 0, 0, 0, 0, 0, 0, 0, 0, 0, 0, 0, 0],
    [0, 6, 8, 8, 0, 5, 5, 5, 0, 0, 0, 0, 0, 0, 0, 0, 0, 0, 0, 0, 0, 0, 0, 0, 0, 0, 0, 0, 0, 0, 0, 0,
     0, 0, 0, 0, 0, 8, 0, 0, 0, 0, 0, 0, 0, 0, 0, 0, 0, 0, 0, 0, 0, 0, 0, 0, 0, 0, 0, 0, 0, 0, 0, 0],
    [4, 5, 12, 8, 4, 5, 5, 5, 0, 0, 0, 4, 4, 4, 4, 4, 4, 4, 4, 4, 4, 4, 4, 4, 4, 4, 4, 4, 4, 4, 4, 4,
     0, 0, 4, 0, 4, 8, 4, 4, 4, 4, 4, 4, 4, 4, 4, 4, 0, 0, 0, 0, 0, 0, 0, 0, 0, 0, 0, 0, 0, 0, 0, 0],
    [0, 5, 8, 8, 0, 5, 5, 5, 0, 0, 0, 0, 0, 0, 0, 0, 0, 0, 0, 0, 0, 0, 0, 0, 0, 0, 0, 0, 0, 0, 0, 0,
     0, 0, 0, 0, 0, 8, 0, 0, 0, 0, 0, 0, 0, 0, 0, 0, 0, 0, 0, 0, 0, 0, 0, 0, 0, 0, 0, 0, 0, 0, 0, 0],
    [12, 12, 4, 0, 12, 12, 5, 12, 8, 8, 8, 12, 12, 12, 12, 12, 12, 12, 12, 12, 12, 12, 12, 12, 12, 12, 12, 12, 12, 12, 12, 12,
     8, 8, 12, 8, 12, 8, 12, 12, 12, 12, 12, 12, 12, 12, 12, 12, 8, 8, 8, 8, 8, 8, 8, 8, 8, 8, 8, 8, 8, 8, 8, 8],
    [0, 0, 0, 0, 0, 0, 5, 0, 0, 0, 0, 0, 0, 0, 0, 0, 0, 0, 0, 0, 0, 0, 0, 0, 0, 0, 0, 0, 0, 0, 0, 0,
     0, 0, 0, 0, 0, 8, 0, 0, 0, 0, 0, 0, 0, 0, 0, 0, 0, 0, 0, 0, 0, 0, 0, 0, 0, 0, 0, 0, 0, 0, 0, 0],
    [4, 4, 4, 0, 4, 4, 4, 4, 0, 0, 0, 4, 4, 4, 4, 4, 4, 4, 4, 4, 4, 4, 4, 4, 4, 4, 4, 4, 4, 4, 4, 4,
     0, 0, 4, 0, 4, 8, 4, 4, 4, 4, 4, 4, 4, 4, 4, 4, 0, 0, 0, 0, 0, 0, 0, 0, 0, 0, 0, 0, 0, 0, 0, 0],
    [0, 0, 8, 8, 0, 0, 5, 5, 0, 0, 0, 0, 0, 0, 0, 0, 0, 0, 0, 0, 0, 0, 0, 0, 0, 0, 0, 0, 0, 0, 0, 0,
     0, 0, 0, 0, 0, 8, 0, 0, 0, 0, 0, 0, 0, 0, 0, 0, 0, 0, 0, 0, 0, 0, 0, 0, 0, 0, 0, 0, 0, 0, 0, 0],
    [0, 0, 0, 0, 0, 0, 0, 0, 0, 0, 0, 0, 0, 0, 0, 0, 0, 0, 0, 0, 0, 0, 0, 0, 0, 0, 0, 0, 0, 0, 0, 0,
     0, 0, 0, 0, 0, 8, 0, 0, 0, 0, 0, 0, 0, 0, 0, 0, 0, 0, 0, 0, 0, 0, 0, 0, 0, 0, 0, 0, 0, 0, 0, 0],
    [0, 0, 0, 0, 0, 0, 0, 0, 0, 0, 0, 0, 0, 0, 0, 0, 0, 0, 0, 0, 0, 0, 0, 0, 0, 0, 0, 0, 0, 0, 0, 0,
     0, 0, 0, 0, 0, 0, 0, 0, 0, 0, 0, 0, 0, 0, 0, 0, 0, 0, 0, 0, 0, 0, 0, 0, 0, 0, 0, 0, 0, 0, 0, 0]]"

definition memory_action :: "nat \<Rightarrow> nat \<Rightarrow> u8 action" where
  "memory_action cycle i =
     thn (defined (cycle < 12 \<and> i < 64)) (ret (MemoryActionTable ! cycle ! i))"

text \<open>
  \<open>MemoryReadInternal(vma, object, MemoryActionTable[cycle])\<close>: every object fetched is stored
  in \<open>*object\<close>; the result is the address reached and the object left there. A cycle of
  forwarding pointers makes it run forever.
\<close>

definition transport_check :: "u8 \<Rightarrow> LispObj \<Rightarrow> u64 \<Rightarrow> unit action" where
  "transport_check action obj vma =
     bnd (gets (\<lambda>s. OldspaceAddressP s (ucast (DATA obj)))) (\<lambda>old.
       if action AND (MemoryActionTransport OR MemoryActionTrap) = MemoryActionTransport \<and> old
       then TakeMemoryTrap TransportTrapVector vma else ret ())"

partial_function (option) MemoryReadInternal ::
  "ptr \<Rightarrow> nat \<Rightarrow> u64 \<Rightarrow> (u64 \<times> LispObj) action" where
  "MemoryReadInternal object cycle vma s =
     bnd (ReadVirtualMemory vma) (\<lambda>obj.
     bnd (write_ptr object obj) (\<lambda>_.
     bnd (memory_action cycle (unat (TagType (TAG obj)))) (\<lambda>action.
     bnd (transport_check action obj vma) (\<lambda>_.
       if action AND NOT MemoryActionTransport = 0 then ret (vma, obj)
       else if action AND NOT MemoryActionTransport = MemoryActionTrap
         then TakeMemoryTrap ErrorTrapVector vma
       else if action AND NOT MemoryActionTransport = MemoryActionTransform
         then (let obj' = obj\<lparr>TAG := MergeCdr (TAG obj) TypeExternalValueCellPointer\<rparr> in
               thn (write_ptr object obj') (ret (vma, obj')))
       else if action AND NOT MemoryActionTransport = MemoryActionMonitor
         then TakeMemoryTrap MonitorTrapVector vma
       else if action AND NOT MemoryActionTransport = MemoryActionIndirect
         then MemoryReadInternal object cycle (ucast (DATA obj))
       else exit_with 1)))) s"

abbreviation "MemoryRead vma object cycle \<equiv> MemoryReadInternal object cycle vma"
abbreviation "MemoryReadData vma object \<equiv> MemoryReadInternal object CycleDataRead vma"
abbreviation "MemoryReadHeader vma object \<equiv> MemoryReadInternal object CycleHeader vma"
abbreviation "MemoryReadCdr vma object \<equiv> MemoryReadInternal object CycleCdr vma"

definition StoreContents :: "u64 \<Rightarrow> LispObj \<Rightarrow> nat \<Rightarrow> unit action" where
  "StoreContents vma object cycle =
     bnd (MemoryRead vma Auto cycle) (\<lambda>x.
       WriteVirtualMemory (fst x) (mkobj (MergeCdr (TAG (snd x)) (TAG object)) (DATA object)))"

subsection \<open>List cells\<close>

text \<open>
  \<open>CarInternal(l, result)\<close> gives \<open>Some\<close> the object left in \<open>*result\<close> when the C function
  returns 0, and \<open>None\<close> when it returns 1. The argument is the object \<open>*l\<close>, which is read
  before \<open>*result\<close> is written.
\<close>

definition store_result :: "ptr \<Rightarrow> LispObj \<Rightarrow> LispObj option action" where
  "store_result result obj = thn (write_ptr result obj) (ret (Some obj))"

definition read_contents :: "u64 \<Rightarrow> ptr \<Rightarrow> LispObj option action" where
  "read_contents vma result = bnd (MemoryReadData vma result) (\<lambda>x.
     store_result result ((snd x)\<lparr>TAG := TAG (snd x) AND TagTypeMask\<rparr>))"

definition CarInternal :: "LispObj \<Rightarrow> ptr \<Rightarrow> LispObj option action" where
  "CarInternal l result =
     (if TagType (TAG l) = TypeList then read_contents (ucast (DATA l)) result
      else if TagType (TAG l) = TypeNIL then store_result result ObjectNIL
      else if TagType (TAG l) = TypeLocative then read_contents (ucast (DATA l)) result
      else ret None)"

definition CdrInternal :: "LispObj \<Rightarrow> ptr \<Rightarrow> LispObj option action" where
  "CdrInternal l result =
     (if TagType (TAG l) = TypeList then
        bnd (MemoryReadCdr (ucast (DATA l)) Auto) (\<lambda>x.
          if TagCdr (TAG (snd x)) = CdrNil then store_result result ObjectNIL
          else if TagCdr (TAG (snd x)) = CdrNext
            then store_result result (mkobj TypeList (ucast (fst x + 1)))
          else if TagCdr (TAG (snd x)) = CdrNormal then read_contents (fst x + 1) result
          else ret None)
      else if TagType (TAG l) = TypeNIL then store_result result ObjectNIL
      else if TagType (TAG l) = TypeLocative then read_contents (ucast (DATA l)) result
      else ret None)"

definition CarCdrInternal :: "LispObj \<Rightarrow> ptr \<Rightarrow> ptr \<Rightarrow> (LispObj \<times> LispObj) option action" where
  "CarCdrInternal l car cdr =
     (if TypeEqualP (TAG l) TypeLocative then ret None
      else bnd (CarInternal l car) (\<lambda>a. case a of None \<Rightarrow> ret None
        | Some x \<Rightarrow> bnd (CdrInternal l cdr) (\<lambda>d. case d of None \<Rightarrow> ret None
          | Some y \<Rightarrow> ret (Some (x, y)))))"

end
