(* ===== verification/ListInstructions.thy ===== *)
theory ListInstructions
  imports MemoryCycles
begin

text \<open>
  The list instructions and the predicates of \<open>InstructionSequencer\<close>: one definition per
  instruction, with its operand-mode cases and its body. The search loops of \<open>rgetf\<close>,
  \<open>member\<close> and \<open>assoc\<close> can run forever on a circular list; they are given as partial
  functions whose value is then \<open>None\<close>.
\<close>

unbundle bit_operations_syntax

subsection \<open>Car and cdr\<close>

definition above_tos :: "ptr action" where
  "above_tos = gets (\<lambda>s. StackSlot (sp s + 1))"

text \<open>\<open>op2->TAG = MergeCdr(op2->TAG, scratch->TAG); op2->DATA = scratch->DATA\<close>.\<close>

definition merge_into_op2 :: "LispObj \<Rightarrow> unit action" where
  "merge_into_op2 obj = bnd op2_obj (\<lambda>b.
     set_op2_obj (mkobj (MergeCdr (TAG b) (TAG obj)) (DATA obj)))"

definition DispatchCar :: "operand_mode \<Rightarrow> exec" where
  "DispatchCar mode = with_operand source_modes mode
     (bnd op2_obj (\<lambda>l. bnd above_tos (\<lambda>p. bnd (CarInternal l p) (\<lambda>r.
        if r \<noteq> None then and_next (add_sp 1) else Op2ListExceptions))))"

definition DispatchCdr :: "operand_mode \<Rightarrow> exec" where
  "DispatchCdr mode = with_operand source_modes mode
     (bnd op2_obj (\<lambda>l. bnd above_tos (\<lambda>p. bnd (CdrInternal l p) (\<lambda>r.
        if r \<noteq> None then and_next (add_sp 1) else Op2ListExceptions))))"

definition DispatchSetToCar :: "operand_mode \<Rightarrow> exec" where
  "DispatchSetToCar mode = with_operand stack_modes mode
     (bnd op2_obj (\<lambda>l. bnd (CarInternal l Scratch_var) (\<lambda>r.
        case r of Some x \<Rightarrow> and_next (merge_into_op2 x) | None \<Rightarrow> Op2ListExceptions)))"

definition DispatchSetToCdr :: "operand_mode \<Rightarrow> exec" where
  "DispatchSetToCdr mode = with_operand stack_modes mode
     (bnd op2_obj (\<lambda>l. bnd (CdrInternal l Scratch_var) (\<lambda>r.
        case r of Some x \<Rightarrow> and_next (merge_into_op2 x) | None \<Rightarrow> Op2ListExceptions)))"

definition DispatchSetToCdrPushCar :: "operand_mode \<Rightarrow> exec" where
  "DispatchSetToCdrPushCar mode = with_operand stack_modes mode
     (bnd op2_obj (\<lambda>l. bnd above_tos (\<lambda>p. bnd (CarInternal l p) (\<lambda>a.
        if a = None then Op2ListExceptions
        else bnd op2_obj (\<lambda>l'. bnd (CdrInternal l' Scratch_var) (\<lambda>r.
          case r of Some x \<Rightarrow> and_next (thn (merge_into_op2 x) (add_sp 1))
          | None \<Rightarrow> Op2ListExceptions))))))"

definition DispatchRplaca :: "operand_mode \<Rightarrow> exec" where
  "DispatchRplaca mode = with_operand all_modes mode
     (bnd tos (\<lambda>a.
        if TagType (TAG a) = TypeList \<or> TagType (TAG a) = TypeLocative then
          bnd op2_obj (\<lambda>b. and_next
            (thn (StoreContents (ucast (DATA a)) b CycleDataWrite) (add_sp (- 1))))
        else SpListExceptions))"

definition DispatchRplacd :: "operand_mode \<Rightarrow> exec" where
  "DispatchRplacd mode = with_operand all_modes mode
     (bnd tos (\<lambda>a.
        if TagType (TAG a) = TypeList then
          bnd (MemoryReadCdr (ucast (DATA a)) Auto) (\<lambda>x.
            if TagCdr (TAG (snd x)) = CdrNormal then
              bnd op2_obj (\<lambda>b. and_next
                (thn (StoreContents (fst x + 1) b CycleDataWrite) (add_sp (- 1))))
            else jump InstructionException)
        else if TagType (TAG a) = TypeLocative then
          bnd op2_obj (\<lambda>b. and_next
            (thn (StoreContents (ucast (DATA a)) b CycleDataWrite) (add_sp (- 1))))
        else SpListExceptions))"

subsection \<open>Searches\<close>

text \<open>For the extended numbers \<open>eql\<close> differs from \<open>eq\<close>.\<close>

definition extended_number :: "LispObj \<Rightarrow> bool" where
  "extended_number a \<longleftrightarrow> TypeDoubleFloat \<le> TagType (TAG a) \<and> TagType (TAG a) \<le> TypeSpareNumber"

definition set_scratch :: "LispObj \<Rightarrow> unit action" where
  "set_scratch obj = write_ptr Scratch_var obj"

partial_function (option) rgetf_loop :: exec where
  "rgetf_loop s =
     bnd (gets scratch) (\<lambda>l.
       if TagType (TAG l) = TypeNIL then and_next (thn SetNIL PushNIL)
       else bnd (CarCdrInternal l Auto Auto) (\<lambda>r. case r of
         None \<Rightarrow> ScratchListExceptions
       | Some (car, cdr) \<Rightarrow> bnd tos (\<lambda>a.
           if ObjectEqP car a then
             (if TagType (TAG cdr) = TypeList then
                bnd (gets sp) (\<lambda>i. bnd (CarInternal cdr (StackSlot i)) (\<lambda>v.
                  if v = None then jump InstructionException else and_next (PushObject cdr)))
              else if TagType (TAG cdr) = TypeNIL \<or> TagType (TAG cdr) = TypeListInstance
                then jump InstructionException
              else jump IllegalOperand)
           else bnd (CdrInternal cdr Scratch_var) (\<lambda>v.
             if v = None then
               jump (if TypeEqualP (TAG cdr) TypeListInstance \<or> TypeSpareP (TAG cdr)
                     then InstructionException else IllegalOperand)
             else bnd AllowSequenceBreaks (\<lambda>_. rgetf_loop)))))  s"

definition DispatchRgetf :: "operand_mode \<Rightarrow> exec" where
  "DispatchRgetf mode = with_operand source_modes mode
     (bnd tos (\<lambda>a. if extended_number a then jump InstructionException
        else bnd op2_obj (\<lambda>l. thn (set_scratch l) rgetf_loop)))"

partial_function (option) member_loop :: exec where
  "member_loop s =
     bnd (gets scratch) (\<lambda>l.
       if TagType (TAG l) = TypeNIL then and_next SetNIL
       else bnd (CarCdrInternal l Auto Auto) (\<lambda>r. case r of
         None \<Rightarrow> ScratchListExceptions
       | Some (car, cdr) \<Rightarrow> bnd tos (\<lambda>a.
           if ObjectEqP car a then and_next (SetObject l)
           else bnd (set_scratch cdr) (\<lambda>_. bnd AllowSequenceBreaks (\<lambda>_. member_loop))))) s"

definition DispatchMember :: "operand_mode \<Rightarrow> exec" where
  "DispatchMember mode = with_operand source_modes mode
     (bnd tos (\<lambda>a. if extended_number a then jump InstructionException
        else bnd op2_obj (\<lambda>l. thn (set_scratch l) member_loop)))"

partial_function (option) assoc_loop :: exec where
  "assoc_loop s =
     bnd (gets scratch) (\<lambda>l.
       if TagType (TAG l) = TypeNIL then and_next SetNIL
       else bnd (CarCdrInternal l Auto Auto) (\<lambda>r. case r of
         None \<Rightarrow> ScratchListExceptions
       | Some (car, cdr) \<Rightarrow>
           if TagType (TAG car) = TypeNIL then
             bnd (set_scratch cdr) (\<lambda>_. bnd AllowSequenceBreaks (\<lambda>_. assoc_loop))
           else if TagType (TAG car) = TypeList then
             bnd (CarInternal car Auto) (\<lambda>k. case k of
               None \<Rightarrow> jump InstructionException
             | Some key \<Rightarrow> bnd tos (\<lambda>a.
                 if ObjectEqP key a then and_next (SetObject car)
                 else bnd (set_scratch cdr) (\<lambda>_. bnd AllowSequenceBreaks (\<lambda>_. assoc_loop))))
           else jump (if TagType (TAG car) = TypeListInstance
                      then InstructionException else IllegalOperand))) s"

definition DispatchAssoc :: "operand_mode \<Rightarrow> exec" where
  "DispatchAssoc mode = with_operand source_modes mode
     (bnd tos (\<lambda>a. if extended_number a then jump InstructionException
        else bnd op2_obj (\<lambda>l. thn (set_scratch l) assoc_loop)))"

definition DispatchList :: "list_op \<Rightarrow> operand_mode \<Rightarrow> exec" where
  "DispatchList i mode = (case i of
     OpCar \<Rightarrow> DispatchCar mode | OpCdr \<Rightarrow> DispatchCdr mode
   | OpSetToCar \<Rightarrow> DispatchSetToCar mode | OpSetToCdr \<Rightarrow> DispatchSetToCdr mode
   | OpSetToCdrPushCar \<Rightarrow> DispatchSetToCdrPushCar mode
   | OpRplaca \<Rightarrow> DispatchRplaca mode | OpRplacd \<Rightarrow> DispatchRplacd mode
   | OpRgetf \<Rightarrow> DispatchRgetf mode | OpMember \<Rightarrow> DispatchMember mode
   | OpAssoc \<Rightarrow> DispatchAssoc mode)"

end
