(* ===== verification/ArithmeticInstructions.thy ===== *)
theory ArithmeticInstructions
  imports ListInstructions
begin

text \<open>
  The predicates and the integer arithmetic of \<open>InstructionSequencer\<close>. Signed additions,
  subtractions and left shifts wrap at 32 bits, as the overflow tests of the code expect;
  a shift by 32 places or more is \<open>undef\<close>. In \<open>f a b\<close> the operand \<open>a\<close> is \<open>*sp\<close> and \<open>b\<close> is
  \<open>*op2\<close>.
\<close>

unbundle bit_operations_syntax

subsection \<open>Common parts\<close>

definition when_fixnums :: "(LispObj \<Rightarrow> LispObj \<Rightarrow> exec) \<Rightarrow> exec \<Rightarrow> exec" where
  "when_fixnums f otherwise = bnd op2_obj (\<lambda>b. bnd tos (\<lambda>a.
     if BinaryTypeFixnumP (TAG b) (TAG a) then f a b else otherwise))"

definition fixnum_op :: "operand_mode \<Rightarrow> (LispObj \<Rightarrow> LispObj \<Rightarrow> exec) \<Rightarrow> exec" where
  "fixnum_op mode f = with_operand all_modes mode (when_fixnums f BinaryTypeFixnumExceptions)"

text \<open>\<open>sp->DATA.u = x\<close>, which leaves the tag.\<close>

definition set_tos_data :: "u32 \<Rightarrow> unit action" where
  "set_tos_data x = bnd tos (\<lambda>a. set_tos (a\<lparr>DATA := x\<rparr>))"

text \<open>The immediate cases that compare the top of the stack with \<open>cp->operand\<close>.\<close>

definition tos_is_operand :: "(bool \<Rightarrow> unit action) \<Rightarrow> exec" where
  "tos_is_operand put = bnd tos (\<lambda>a. bnd (gets cp_operand) (\<lambda>i.
     and_next (put (TypeFixnumP (TAG a) \<and> DATA a = i))))"

definition eq_immediate_or :: "(bool \<Rightarrow> unit action) \<Rightarrow> operand_mode \<Rightarrow> exec \<Rightarrow> exec" where
  "eq_immediate_or put mode body =
     (if mode = ModeImmediate then tos_is_operand put else with_operand source_modes mode body)"

subsection \<open>Equality\<close>

definition DispatchEq :: "operand_mode \<Rightarrow> exec" where
  "DispatchEq mode = eq_immediate_or SetPredicate mode
     (bnd op2_obj (\<lambda>b. bnd tos (\<lambda>a. and_next (SetPredicate (ObjectEqP b a)))))"

definition DispatchEqNoPop :: "operand_mode \<Rightarrow> exec" where
  "DispatchEqNoPop mode = eq_immediate_or PushPredicate mode
     (bnd op2_obj (\<lambda>b. bnd tos (\<lambda>a. and_next (PushPredicate (ObjectEqP b a)))))"

definition eql_extended :: "u32 \<Rightarrow> bool" where
  "eql_extended ty \<longleftrightarrow> ty = TypeDoubleFloat \<or> ty = TypeBignum \<or> ty = TypeBigRatio
     \<or> ty = TypeComplex \<or> ty = TypeSpareNumber"

definition DispatchEql :: "operand_mode \<Rightarrow> exec" where
  "DispatchEql mode = eq_immediate_or SetPredicate mode
     (bnd tos (\<lambda>a. bnd op2_obj (\<lambda>b.
        if \<not> TypeEqualP (TAG a) (TAG b) then and_next SetNIL
        else if DATA a = DATA b then and_next SetT
        else if eql_extended (TagType (TAG a)) then jump InstructionException
        else and_next SetNIL)))"

definition DispatchEqlNoPop :: "operand_mode \<Rightarrow> exec" where
  "DispatchEqlNoPop mode = eq_immediate_or PushPredicate mode
     (bnd tos (\<lambda>a. bnd op2_obj (\<lambda>b.
        if \<not> TypeEqualP (TAG a) (TAG b) then and_next PushNIL
        else if DATA a = DATA b then and_next PushT
        else if eql_extended (TagType (TAG a)) then jump InstructionException
        else and_next PushNIL)))"

definition DispatchEqualNumber :: "operand_mode \<Rightarrow> exec" where
  "DispatchEqualNumber mode = eq_immediate_or SetPredicate mode
     (when_fixnums (\<lambda>a b. and_next (SetPredicate (DATA b = DATA a))) BinaryTypeFixnumExceptions)"

definition DispatchEqualNumberNoPop :: "operand_mode \<Rightarrow> exec" where
  "DispatchEqualNumberNoPop mode = eq_immediate_or PushPredicate mode
     (when_fixnums (\<lambda>a b. and_next (PushPredicate (DATA b = DATA a))) BinaryTypeFixnumExceptions)"

subsection \<open>Comparison\<close>

definition DispatchGreaterp :: "operand_mode \<Rightarrow> exec" where
  "DispatchGreaterp mode =
     fixnum_op mode (\<lambda>a b. and_next (SetPredicate (sint (DATA a) > sint (DATA b))))"

definition DispatchGreaterpNoPop :: "operand_mode \<Rightarrow> exec" where
  "DispatchGreaterpNoPop mode =
     fixnum_op mode (\<lambda>a b. and_next (PushPredicate (sint (DATA a) > sint (DATA b))))"

definition DispatchLessp :: "operand_mode \<Rightarrow> exec" where
  "DispatchLessp mode =
     fixnum_op mode (\<lambda>a b. and_next (SetPredicate (sint (DATA a) < sint (DATA b))))"

definition DispatchLesspNoPop :: "operand_mode \<Rightarrow> exec" where
  "DispatchLesspNoPop mode =
     fixnum_op mode (\<lambda>a b. and_next (PushPredicate (sint (DATA a) < sint (DATA b))))"

definition DispatchLogtest :: "operand_mode \<Rightarrow> exec" where
  "DispatchLogtest mode =
     fixnum_op mode (\<lambda>a b. and_next (SetPredicate (DATA a AND DATA b \<noteq> 0)))"

definition DispatchLogtestNoPop :: "operand_mode \<Rightarrow> exec" where
  "DispatchLogtestNoPop mode =
     fixnum_op mode (\<lambda>a b. and_next (PushPredicate (DATA a AND DATA b \<noteq> 0)))"

definition unsigned_less :: "(bool \<Rightarrow> unit action) \<Rightarrow> operand_mode \<Rightarrow> exec" where
  "unsigned_less put mode =
     (if mode = ModeImmediate
      then bnd tos (\<lambda>a. bnd (gets cp_operand) (\<lambda>i. and_next (put (DATA a < i))))
      else with_operand source_modes mode
       (bnd tos (\<lambda>a. bnd op2_obj (\<lambda>b. and_next (put (DATA a < DATA b))))))"

definition DispatchUnsignedLessp :: "operand_mode \<Rightarrow> exec" where
  "DispatchUnsignedLessp mode = unsigned_less SetPredicate mode"

definition DispatchUnsignedLesspNoPop :: "operand_mode \<Rightarrow> exec" where
  "DispatchUnsignedLesspNoPop mode = unsigned_less PushPredicate mode"

text \<open>The 12-bit operand of \<open>type-member\<close>: bits 8 to 11 times four is the first of eight data
  types, bits 0 to 7 say which of them are members.\<close>

definition type_member_test :: "u32 \<Rightarrow> LispObj \<Rightarrow> bool" where
  "type_member_test i a =
     (let n = uint (drop_bit 8 i AND 15); m = i AND 255; dtp = uint (TagType (TAG a)) - n * 4 in
      0 \<le> dtp \<and> dtp \<le> 7 \<and> push_bit (nat dtp) 1 AND m \<noteq> 0)"

definition DispatchTypeMember :: exec where
  "DispatchTypeMember = bnd (gets cp_operand) (\<lambda>i. bnd tos (\<lambda>a.
     and_next (SetPredicate (type_member_test i a))))"

definition DispatchTypeMemberNoPop :: exec where
  "DispatchTypeMemberNoPop = bnd (gets cp_operand) (\<lambda>i. bnd tos (\<lambda>a.
     and_next (PushPredicate (type_member_test i a))))"

definition DispatchEndp :: "operand_mode \<Rightarrow> exec" where
  "DispatchEndp mode =
     (if mode = ModeImmediate then jump IllegalOperand
      else with_operand source_modes mode
       (bnd op2_obj (\<lambda>b.
          if TagType (TAG b) = TypeList \<or> TagType (TAG b) = TypeListInstance then and_next PushNIL
          else if TagType (TAG b) = TypeNIL then and_next PushT
          else Op2ListExceptions)))"

text \<open>\<open>plusp\<close>, \<open>minusp\<close> and \<open>zerop\<close>.\<close>

definition sign_test :: "(int \<Rightarrow> bool) \<Rightarrow> operand_mode \<Rightarrow> exec" where
  "sign_test test mode =
     (if mode = ModeImmediate
      then bnd (gets cp_operand) (\<lambda>i. and_next (PushPredicate (test (sint i))))
      else with_operand source_modes mode
       (bnd op2_obj (\<lambda>b. if TypeFixnumP (TAG b) then and_next (PushPredicate (test (sint (DATA b))))
          else Op2FixnumExceptions)))"

definition DispatchPlusp :: "operand_mode \<Rightarrow> exec" where
  "DispatchPlusp mode = sign_test (\<lambda>i. 0 < i) mode"

definition DispatchMinusp :: "operand_mode \<Rightarrow> exec" where
  "DispatchMinusp mode = sign_test (\<lambda>i. i < 0) mode"

definition DispatchZerop :: "operand_mode \<Rightarrow> exec" where
  "DispatchZerop mode = sign_test (\<lambda>i. i = 0) mode"

subsection \<open>Addition and multiplication\<close>

abbreviation (input) most_negative :: u32 where "most_negative \<equiv> 0x80000000"
abbreviation (input) most_positive :: u32 where "most_positive \<equiv> 0x7fffffff"

definition DispatchAdd :: "operand_mode \<Rightarrow> exec" where
  "DispatchAdd mode = fixnum_op mode (\<lambda>a b.
     let i = DATA a + DATA b in
     if (sint (DATA a) \<le> sint i) = (0 \<le> sint (DATA b)) then and_next (set_tos_data i)
     else BinaryTypeFixnumExceptions)"

definition DispatchSub :: "operand_mode \<Rightarrow> exec" where
  "DispatchSub mode = fixnum_op mode (\<lambda>a b.
     let i = DATA a - DATA b in
     if (sint i \<le> sint (DATA a)) = (0 \<le> sint (DATA b)) then and_next (set_tos_data i)
     else BinaryTypeFixnumExceptions)"

definition DispatchUnaryMinus :: "operand_mode \<Rightarrow> exec" where
  "DispatchUnaryMinus mode =
     (if mode = ModeImmediate then bnd (gets cp_operand) (\<lambda>i. and_next (PushFixnum (- i)))
      else with_operand source_modes mode
       (bnd op2_obj (\<lambda>b. if TypeFixnumP (TAG b) \<and> DATA b \<noteq> most_negative
          then and_next (PushFixnum (- DATA b)) else Op2FixnumExceptions)))"

definition DispatchIncrement :: "operand_mode \<Rightarrow> exec" where
  "DispatchIncrement mode = with_operand stack_modes mode
     (bnd op2_obj (\<lambda>b. if TypeFixnumP (TAG b) \<and> DATA b \<noteq> most_positive
        then and_next (set_op2_obj (b\<lparr>DATA := DATA b + 1\<rparr>)) else Op2FixnumExceptions))"

definition DispatchDecrement :: "operand_mode \<Rightarrow> exec" where
  "DispatchDecrement mode = with_operand stack_modes mode
     (bnd op2_obj (\<lambda>b. if TypeFixnumP (TAG b) \<and> DATA b \<noteq> most_negative
        then and_next (set_op2_obj (b\<lparr>DATA := DATA b - 1\<rparr>)) else Op2FixnumExceptions))"

definition DispatchMultiply :: "operand_mode \<Rightarrow> exec" where
  "DispatchMultiply mode = fixnum_op mode (\<lambda>a b.
     let v = sint (DATA a) * sint (DATA b) in
     if - (2 ^ 31) \<le> v \<and> v \<le> 2 ^ 31 - 1 then and_next (set_tos_data (word_of_int v))
     else BinaryTypeFixnumExceptions)"

subsection \<open>Division\<close>

text \<open>C's division of \<open>int\<close>s truncates towards zero. A zero divisor is an illegal operand, and
  the one quotient that does not fit is an exception.\<close>

definition int_quot :: "u32 \<Rightarrow> u32 \<Rightarrow> u32" where
  "int_quot a b = word_of_int (sgn (sint a) * sgn (sint b) * (\<bar>sint a\<bar> div \<bar>sint b\<bar>))"

definition division :: "operand_mode \<Rightarrow> (u32 \<Rightarrow> u32 \<Rightarrow> u32 \<Rightarrow> u32 \<Rightarrow> exec) \<Rightarrow> exec" where
  "division mode f = fixnum_op mode (\<lambda>a b.
     if DATA b = 0 then jump IllegalOperand
     else if DATA a = most_negative \<and> DATA b = - 1 then jump InstructionException
     else (let qt = int_quot (DATA a) (DATA b); rm = DATA a - DATA b * qt in
           f (DATA a) (DATA b) qt rm))"

definition two_values :: "u32 \<Rightarrow> u32 \<Rightarrow> exec" where
  "two_values qt rm = and_next (thn (SetFixnum qt) (PushFixnum rm))"

definition DispatchQuotient :: "operand_mode \<Rightarrow> exec" where
  "DispatchQuotient mode = division mode (\<lambda>a b qt rm. and_next (set_tos_data qt))"

definition DispatchFloor :: "operand_mode \<Rightarrow> exec" where
  "DispatchFloor mode = division mode (\<lambda>a b qt rm.
     if rm = 0 then two_values qt rm
     else if (0 \<le> sint rm) \<noteq> (0 \<le> sint b) then two_values (qt - 1) (rm + b)
     else two_values qt rm)"

definition DispatchCeiling :: "operand_mode \<Rightarrow> exec" where
  "DispatchCeiling mode = division mode (\<lambda>a b qt rm.
     if rm = 0 then two_values qt rm
     else if (0 \<le> sint rm) = (0 \<le> sint b) then two_values (qt + 1) (rm - b)
     else two_values qt rm)"

definition DispatchTruncate :: "operand_mode \<Rightarrow> exec" where
  "DispatchTruncate mode = division mode (\<lambda>a b qt rm. two_values qt rm)"

definition DispatchRound :: "operand_mode \<Rightarrow> exec" where
  "DispatchRound mode = division mode (\<lambda>a b qt rm.
     let temp = b - rm - rm in
     if (if temp = 0 then qt AND 1 \<noteq> 0
         else if 0 < sint b then sint temp < 0 else 0 < sint temp)
     then two_values (qt + 1) (rm - b)
     else two_values qt rm)"

definition DispatchRationalQuotient :: "operand_mode \<Rightarrow> exec" where
  "DispatchRationalQuotient mode = division mode (\<lambda>a b qt rm.
     if rm = 0 then and_next (set_tos_data qt) else BinaryTypeFixnumExceptions)"

subsection \<open>Extremes, bitwise operations and shifts\<close>

definition DispatchMax :: "operand_mode \<Rightarrow> exec" where
  "DispatchMax mode = fixnum_op mode (\<lambda>a b.
     and_next (run_if (sint (DATA a) < sint (DATA b)) (SetObject b)))"

definition DispatchMin :: "operand_mode \<Rightarrow> exec" where
  "DispatchMin mode = fixnum_op mode (\<lambda>a b.
     and_next (run_if (sint (DATA b) < sint (DATA a)) (SetObject b)))"

definition DispatchLogand :: "operand_mode \<Rightarrow> exec" where
  "DispatchLogand mode = fixnum_op mode (\<lambda>a b. and_next (set_tos_data (DATA a AND DATA b)))"

definition DispatchLogior :: "operand_mode \<Rightarrow> exec" where
  "DispatchLogior mode = fixnum_op mode (\<lambda>a b. and_next (set_tos_data (DATA a OR DATA b)))"

definition DispatchLogxor :: "operand_mode \<Rightarrow> exec" where
  "DispatchLogxor mode = fixnum_op mode (\<lambda>a b. and_next (set_tos_data (DATA a XOR DATA b)))"

definition DispatchAsh :: "operand_mode \<Rightarrow> exec" where
  "DispatchAsh mode = fixnum_op mode (\<lambda>a b.
     let places = sint (DATA b) in
     if places = 0 \<or> DATA a = 0 then jump NextInstruction
     else if 0 < places then
       thn (defined (places < 32))
         (let i = push_bit (nat places) (DATA a) in
          if (sint (DATA a) < 0) = (sint i < 0) \<and> i \<noteq> 0 then and_next (SetFixnum i)
          else jump InstructionException)
     else thn (defined (- places < 32))
            (and_next (SetFixnum (signed_drop_bit (nat (- places)) (DATA a)))))"

definition DispatchLsh :: "operand_mode \<Rightarrow> exec" where
  "DispatchLsh mode = with_operand all_modes mode (when_fixnums (\<lambda>a b.
     let places = sint (DATA b) in
     if places = 0 then jump NextInstruction
     else if 31 < places \<or> places < - 31 then and_next (SetFixnum 0)
     else if 0 < places then and_next (SetFixnum (push_bit (nat places) (DATA a)))
     else and_next (SetFixnum (drop_bit (nat (- places)) (DATA a))))
     (jump IllegalOperand))"

definition DispatchRot :: "operand_mode \<Rightarrow> exec" where
  "DispatchRot mode = with_operand all_modes mode (when_fixnums (\<lambda>a b.
     let places = unat (DATA b AND 0x1F) in
     if places = 0 then jump NextInstruction
     else and_next (set_tos_data (push_bit places (DATA a) OR drop_bit (32 - places) (DATA a))))
     (jump IllegalOperand))"

subsection \<open>Unsigned and bignum arithmetic\<close>

definition unsigned_step :: "(u32 \<Rightarrow> u32 \<Rightarrow> u32) \<Rightarrow> operand_mode \<Rightarrow> exec" where
  "unsigned_step f mode =
     (if mode = ModeImmediate then bnd tos (\<lambda>a. bnd (gets cp_operand) (\<lambda>i.
        if TypeFixnumP (TAG a) then and_next (set_tos_data (f (DATA a) i)) else jump IllegalOperand))
      else with_operand source_modes mode (when_fixnums
        (\<lambda>a b. and_next (set_tos_data (f (DATA a) (DATA b)))) (jump IllegalOperand)))"

definition Dispatch32BitPlus :: "operand_mode \<Rightarrow> exec" where
  "Dispatch32BitPlus mode = unsigned_step (+) mode"

definition Dispatch32BitDifference :: "operand_mode \<Rightarrow> exec" where
  "Dispatch32BitDifference mode = unsigned_step (-) mode"

definition DispatchMultiplyDouble :: "operand_mode \<Rightarrow> exec" where
  "DispatchMultiplyDouble mode = with_operand all_modes mode (jump UnimplementedInstruction)"

definition DispatchAddBignumStep :: "operand_mode \<Rightarrow> exec" where
  "DispatchAddBignumStep mode = with_operand all_modes mode (jump UnimplementedInstruction)"

definition DispatchSubBignumStep :: "operand_mode \<Rightarrow> exec" where
  "DispatchSubBignumStep mode = with_operand all_modes mode (jump UnimplementedInstruction)"

definition DispatchMultiplyBignumStep :: "operand_mode \<Rightarrow> exec" where
  "DispatchMultiplyBignumStep mode = with_operand all_modes mode (when_fixnums (\<lambda>a b.
     let v = ucast (DATA b) * ucast (DATA a) :: u64 in
     and_next (thn (SetFixnum (ucast v)) (PushFixnum (ucast (drop_bit 32 v)))))
     (jump IllegalOperand))"

text \<open>\<open>sp->DATA.u << 32\<close> shifts a 32-bit operand by its width.\<close>

definition DispatchDivideBignumStep :: "operand_mode \<Rightarrow> exec" where
  "DispatchDivideBignumStep mode = with_operand all_modes mode (when_fixnums (\<lambda>a b.
     bnd (sp_at (- 1)) (\<lambda>c. if TypeFixnumP (TAG c) then undef else jump IllegalOperand))
     (jump IllegalOperand))"

definition DispatchLshcBignumStep :: "operand_mode \<Rightarrow> exec" where
  "DispatchLshcBignumStep mode = with_operand all_modes mode (jump UnimplementedInstruction)"

end
