(* ===== verification/Samples.thy ===== *)
theory Samples
  imports Machine
begin

text \<open>
  A concrete machine state for the examples: every register is zero, the stack pointer is at slot
  16 of the cache, no page of memory is mapped and every instruction cache line is illegal.
\<close>

unbundle bit_operations_syntax

definition blank_line :: InstructionCacheLine where
  "blank_line = \<lparr>line_pc = mkobj TypeEvenPC (- 1), next_pc = mkobj TypeEvenPC (- 1),
     code = DispatchIllegalInstruction, operand = 0, instruction = 0, next_cp = LookupCP\<rparr>"

definition blank :: machine where
  "blank = \<lparr>DataSpace = (\<lambda>_. 0), TagSpace = (\<lambda>_. 0), VMAttributeTable = (\<lambda>_. 0),
     mapped = (\<lambda>_. False), memory_vma = 0, trap_vma = mkobj TypeLocative 0,
     CommandRegister = 0, AddressRegister = 0, ExtentRegister = 0, AttributesRegister = 0,
     DestinationRegister = 0, DataRegister = mkobj 0 0,
     sp = 16, restartsp = 16, fp = 8, lp = 12, pc = mkobj TypeEvenPC 0, cp = CacheLine 0,
     op2 = Immediate_var, scratch = mkobj 0 0, immediate = mkobj TypeFixnum 0,
     immediate_index = 0, ps_sp = 16, ps_restartsp = 16, ps_fp = 8, ps_lp = 12,
     ps_pc = mkobj TypeEvenPC 0, continuation = mkobj TypeEvenPC 0,
     InstructionCache = (\<lambda>_. blank_line), StackCache = (\<lambda>_. mkobj TypeFixnum 0),
     StackCacheLimit = 896, bar_address = (\<lambda>_. mkobj 0 0), ListCacheArea = mkobj 0 0,
     ListCacheAddress = mkobj 0 0, StructureCacheArea = mkobj 0 0,
     StructureCacheAddress = mkobj 0 0, CatchBlockPointer = mkobj 0 0, control = 0,
     StackCacheBase = 0xf8000100, ArrayEventCount = 0, ListCacheLength = 0,
     StructureCacheLength = 0, BindingStackPointer = 0, BindingStackLimit = 0, DeepBoundP = 0,
     PreemptRegister = 0, AluAndRotateControl = 0, AluOp = 0, ByteSize = 0, ByteRotate = 0,
     RotateLatch = 0, ALUOverflow = False, ALUBorrow = False, ALULessThan = False,
     EphemeralOldspaceRegister = 0, ZoneOldspaceRegister = 0, ControlStackLimit = 0,
     ControlStackExtraLimit = 0, DynamicBindingCacheBase = 0, DynamicBindingCacheMask = 0,
     FEPModeTrapVectorAddress = 0, MappingTableCache = 0, MappingTableLength = 0,
     running = False, instruction_count = 0, suspend = 0, trap_microstate = mkobj TypeFixnum 0,
     run_flag = True, life_support_interrupts = 0, cpu_ticks = 0, ticks_per_second = 100\<rparr>"

text \<open>The sample with the given objects on the stack, from slot 16 on, the last one on top.\<close>

fun with_stack :: "LispObj list \<Rightarrow> machine \<Rightarrow> machine" where
  "with_stack [] s = s"
| "with_stack (obj # objs) s =
     with_stack objs (put_slot (sp s + 1) obj s\<lparr>sp := sp s + 1\<rparr>)"

text \<open>The sample with these data pages mapped and existing.\<close>

definition with_page :: "u64 \<Rightarrow> machine \<Rightarrow> machine" where
  "with_page vpn s = s\<lparr>mapped := (mapped s)(vpn := True),
     VMAttributeTable := (VMAttributeTable s)(vpn := VMAttributeExists)\<rparr>"

lemma blank_simps [simp]:
  "sp blank = 16" "fp blank = 8" "lp blank = 12" "StackCache blank = (\<lambda>_. mkobj TypeFixnum 0)"
  "control blank = 0" "mapped blank = (\<lambda>_. False)" "VMAttributeTable blank = (\<lambda>_. 0)"
  "DataSpace blank = (\<lambda>_. 0)" "TagSpace blank = (\<lambda>_. 0)" "StackCacheBase blank = 0xf8000100"
  "StackCacheLimit blank = 896" "continuation blank = mkobj TypeEvenPC 0"
  "InstructionCache blank = (\<lambda>_. blank_line)" "cp blank = CacheLine 0" "suspend blank = 0"
  "pc blank = mkobj TypeEvenPC 0" "restartsp blank = 16" "op2 blank = Immediate_var"
  "ps_sp blank = 16" "ps_fp blank = 8" "ps_lp blank = 12" "ps_pc blank = mkobj TypeEvenPC 0"
  "ps_restartsp blank = 16"
  by (simp_all add: blank_def)

lemma with_page_simps [simp]:
  "mapped (with_page vpn s) = (mapped s)(vpn := True)" "DataSpace (with_page vpn s) = DataSpace s"
  "TagSpace (with_page vpn s) = TagSpace s" "StackCache (with_page vpn s) = StackCache s"
  "sp (with_page vpn s) = sp s" "StackCacheBase (with_page vpn s) = StackCacheBase s"
  "VMAttributeTable (with_page vpn s) = (VMAttributeTable s)(vpn := VMAttributeExists)"
  "control (with_page vpn s) = control s" "fp (with_page vpn s) = fp s" "suspend (with_page vpn s) = suspend s"
  by (simp_all add: with_page_def)

end
