(* ===== verification/ArithmeticFacts.thy ===== *)
theory ArithmeticFacts
  imports ArithmeticInstructions Samples
begin

text \<open>
  What the arithmetic instructions compute: signed values of 32-bit words and their wrap-around,
  C's division, and the properties of addition, subtraction, multiplication, the division
  instructions and the shifts.
\<close>

unbundle bit_operations_syntax

subsection \<open>Signed values\<close>

lemma sint32: "- 2147483648 \<le> sint (x :: u32)" "sint (x :: u32) < 2147483648"
  using sint_ge [of x] sint_lt [of x] by simp_all

lemma sint_of_int: "sint (word_of_int i :: u32) = (i + 2147483648) mod 4294967296 - 2147483648"
  by (simp add: int_word_sint)

lemma sint_of_int32: "- 2147483648 \<le> i \<Longrightarrow> i < 2147483648 \<Longrightarrow> sint (word_of_int i :: u32) = i"
  unfolding sint_of_int by simp

lemma sint_add: "sint (a + b :: u32) = (sint a + sint b + 2147483648) mod 4294967296 - 2147483648"
  by (simp flip: sint_of_int)

lemma sint_sub: "sint (a - b :: u32) = (sint a - sint b + 2147483648) mod 4294967296 - 2147483648"
  by (simp flip: sint_of_int)

lemma wrap32: "- 6442450944 \<le> (i :: int) \<Longrightarrow> i < 6442450944 \<Longrightarrow>
    (i + 2147483648) mod 4294967296 - 2147483648 =
      (if i < - 2147483648 then i + 4294967296 else if 2147483648 \<le> i then i - 4294967296 else i)"
proof -
  assume i: "- 6442450944 \<le> i" "i < 6442450944"
  consider "i < - 2147483648" | "2147483648 \<le> i" | "- 2147483648 \<le> i" "i < 2147483648" by linarith
  then show ?thesis
  proof cases
    case 1
    have "(i + 2147483648) mod 4294967296 = (i + 2147483648 + 4294967296) mod 4294967296"
      using mod_add_self2 [of "i + 2147483648" 4294967296] by simp
    also have "\<dots> = i + 2147483648 + 4294967296" using i 1 by (intro mod_pos_pos_trivial) linarith+
    finally show ?thesis using 1 by simp
  next
    case 2
    have "(i + 2147483648) mod 4294967296 = (i - 2147483648) mod 4294967296"
      using mod_add_self2 [of "i - 2147483648" 4294967296] by (simp add: add.commute)
    also have "\<dots> = i - 2147483648" using i 2 by (intro mod_pos_pos_trivial) linarith+
    finally show ?thesis using 2 by simp
  next
    case 3
    then show ?thesis by simp
  qed
qed

lemma add_no_overflow: "(sint (a :: u32) \<le> sint (a + b)) = (0 \<le> sint b) \<longleftrightarrow>
    - 2147483648 \<le> sint a + sint b \<and> sint a + sint b < 2147483648"
proof -
  have "sint (a + b) = (if sint a + sint b < - 2147483648 then sint a + sint b + 4294967296
      else if 2147483648 \<le> sint a + sint b then sint a + sint b - 4294967296 else sint a + sint b)"
    unfolding sint_add using sint32 [of a] sint32 [of b] by (intro wrap32) linarith+
  then show ?thesis
    using sint32 [of a] sint32 [of b] by (auto split: if_splits)
qed

lemma sub_no_overflow: "(sint (a - b) \<le> sint (a :: u32)) = (0 \<le> sint b) \<longleftrightarrow>
    - 2147483648 \<le> sint a - sint b \<and> sint a - sint b < 2147483648"
proof -
  have "sint (a - b) = (if sint a - sint b < - 2147483648 then sint a - sint b + 4294967296
      else if 2147483648 \<le> sint a - sint b then sint a - sint b - 4294967296 else sint a - sint b)"
    unfolding sint_sub using sint32 [of a] sint32 [of b] by (intro wrap32) linarith+
  then show ?thesis
    using sint32 [of a] sint32 [of b] by (auto split: if_splits)
qed

text \<open>C's quotient of two ints, when it fits, and the remainder.\<close>

lemma sgn_div: "sgn (a :: int) * sgn b * (\<bar>a\<bar> div \<bar>b\<bar>) = (if (0 \<le> a) = (0 \<le> b) then \<bar>a\<bar> div \<bar>b\<bar> else - (\<bar>a\<bar> div \<bar>b\<bar>))"
  by (auto simp: sgn_if)

lemma sint_int_quot:
  assumes "b \<noteq> 0" "\<not> (a = most_negative \<and> b = - 1)"
  shows "sint (int_quot a b) = sgn (sint a) * sgn (sint b) * (\<bar>sint a\<bar> div \<bar>sint b\<bar>)"
proof -
  have b: "sint b \<noteq> 0" using assms(1) signed_eq_0_iff by blast
  have le: "\<bar>sint a\<bar> div \<bar>sint b\<bar> \<le> \<bar>sint a\<bar>" using b zdiv_mono2 [of "\<bar>sint a\<bar>" 1 "\<bar>sint b\<bar>"] by simp
  have nn: "0 \<le> \<bar>sint a\<bar> div \<bar>sint b\<bar>" using b by (simp add: pos_imp_zdiv_nonneg_iff)
  have lt: "sgn (sint a) * sgn (sint b) * (\<bar>sint a\<bar> div \<bar>sint b\<bar>) < 2147483648"
  proof (cases "sint a = - 2147483648")
    case True
    then have a: "a = most_negative" by (intro signed_word_eqI) simp
    then have "sint b \<noteq> - 1" using assms(2) signed_word_eqI [of b "- 1"] by auto
    show ?thesis
    proof (cases "sint b < 0")
      case True
      then have "2 \<le> \<bar>sint b\<bar>" using \<open>sint b \<noteq> - 1\<close> by linarith
      then have "\<bar>sint a\<bar> div \<bar>sint b\<bar> \<le> \<bar>sint a\<bar> div 2" by (intro zdiv_mono2) auto
      then show ?thesis using \<open>sint a = - 2147483648\<close> True by simp
    next
      case False
      then show ?thesis using \<open>sint a = - 2147483648\<close> b nn by simp
    qed
  next
    case False
    then show ?thesis using sint32 [of a] le nn by (auto simp: sgn_div)
  qed
  have "- 2147483648 \<le> sgn (sint a) * sgn (sint b) * (\<bar>sint a\<bar> div \<bar>sint b\<bar>)"
    using sint32 [of a] le nn by (auto simp: sgn_div)
  then show ?thesis unfolding int_quot_def by (rule sint_of_int32 [OF _ lt])
qed


lemma quot_rem:
  fixes a b :: int
  defines "q \<equiv> sgn a * sgn b * (\<bar>a\<bar> div \<bar>b\<bar>)" and "r \<equiv> a - b * (sgn a * sgn b * (\<bar>a\<bar> div \<bar>b\<bar>))"
  assumes "b \<noteq> 0"
  shows "a = b * q + r" "\<bar>r\<bar> < \<bar>b\<bar>" "0 < r \<Longrightarrow> 0 < a" "r < 0 \<Longrightarrow> a < 0"
proof -
  obtain d m where dm: "\<bar>a\<bar> div \<bar>b\<bar> = d" "\<bar>a\<bar> mod \<bar>b\<bar> = m" by blast
  have "\<bar>b\<bar> * d + m = \<bar>a\<bar>" using mult_div_mod_eq [of "\<bar>b\<bar>" "\<bar>a\<bar>"] dm by metis
  then have r: "r = sgn a * m"
    using assms(3)
    unfolding r_def dm by (cases "0 < a"; cases "a = 0"; cases "0 < b") (auto simp: algebra_simps)
  have m: "0 \<le> m" "m < \<bar>b\<bar>" using assms(3) by (simp_all flip: dm)
  show "a = b * q + r" by (simp add: q_def r_def)
  show "\<bar>r\<bar> < \<bar>b\<bar>" using m assms(3) unfolding r by (auto simp: sgn_if abs_mult)
  show "0 < r \<Longrightarrow> 0 < a" "r < 0 \<Longrightarrow> a < 0" using m unfolding r by (auto simp: sgn_if split: if_splits)
qed

text \<open>The truncating quotient and the remainder of two fixnums as integers.\<close>

lemma int_quot_rem:
  fixes a b :: u32
  assumes "b \<noteq> 0" "\<not> (a = most_negative \<and> b = - 1)"
  defines "Q \<equiv> sint (int_quot a b)" and "R \<equiv> sint (a - b * int_quot a b)"
  shows "sint a = sint b * Q + R" "\<bar>R\<bar> < \<bar>sint b\<bar>" "0 < R \<Longrightarrow> 0 < sint a" "R < 0 \<Longrightarrow> sint a < 0"
    "R \<noteq> 0 \<Longrightarrow> \<bar>Q\<bar> \<le> 1073741824"
proof -
  have b: "sint b \<noteq> 0" using assms(1) signed_eq_0_iff by blast
  note q = sint_int_quot [OF assms(1,2)]
  have eq: "a - b * int_quot a b = word_of_int (sint a - sint b * Q)" by (simp add: Q_def)
  have "\<bar>sint a - sint b * Q\<bar> < \<bar>sint b\<bar>"
    using quot_rem(2) [OF b, of "sint a"] unfolding Q_def q .
  then have R: "R = sint a - sint b * Q"
    unfolding R_def eq using sint32 [of b] by (intro sint_of_int32) linarith+
  show "sint a = sint b * Q + R" by (simp add: R)
  show rb: "\<bar>R\<bar> < \<bar>sint b\<bar>"
    using quot_rem(2) [OF b, of "sint a"] unfolding R Q_def q .
  show "0 < R \<Longrightarrow> 0 < sint a"
    using quot_rem(3) [OF b, of "sint a"] unfolding R Q_def q .
  show "R < 0 \<Longrightarrow> sint a < 0"
    using quot_rem(4) [OF b, of "sint a"] unfolding R Q_def q .
  show "\<bar>Q\<bar> \<le> 1073741824" if "R \<noteq> 0"
  proof -
    have "2 \<le> \<bar>sint b\<bar>" using that rb(1) by linarith
    then have "\<bar>sint a\<bar> div \<bar>sint b\<bar> \<le> \<bar>sint a\<bar> div 2" by (intro zdiv_mono2) auto
    also have "\<dots> \<le> 1073741824" using sint32 [of a] by linarith
    finally have "\<bar>sint a\<bar> div \<bar>sint b\<bar> \<le> 1073741824" .
    moreover have "0 \<le> \<bar>sint a\<bar> div \<bar>sint b\<bar>" using b by (simp add: pos_imp_zdiv_nonneg_iff)
    ultimately show ?thesis unfolding Q_def q sgn_div by auto
  qed
qed

lemma div_mod_unique:
  fixes a b q r :: int
  assumes "a = b * q + r" "\<bar>r\<bar> < \<bar>b\<bar>" "r = 0 \<or> (0 < r) = (0 < b)"
  shows "a div b = q" "a mod b = r"
proof -
  have "a div b = q \<and> a mod b = r"
  proof (cases "0 < b")
    case True
    then show ?thesis
      using assms int_div_pos_eq [of a b q r] int_mod_pos_eq [of a b q r] by auto
  next
    case False
    then show ?thesis
      using assms int_div_neg_eq [of a b q r] int_mod_neg_eq [of a b q r] by auto
  qed
  then show "a div b = q" "a mod b = r" by simp_all
qed
subsection \<open>Instructions on two fixnums\<close>

definition set_result :: "machine \<Rightarrow> LispObj \<Rightarrow> machine" where
  "set_result s obj = put_slot (sp s) obj s"

definition type_failure :: "LispObj \<Rightarrow> LispObj \<Rightarrow> goto" where
  "type_failure a b = (if BinaryTypeNumericP (TAG b) (TAG a) then InstructionException else IllegalOperand)"

lemma operandsD:
  assumes "operands mode s a b"
  shows "slot (sp (addressed mode s))" "StackCache (addressed mode s) (sp (addressed mode s)) = a"
    "readable (op2 (addressed mode s))" "object_at (addressed mode s) (op2 (addressed mode s)) = b"
  using assms by (simp_all add: operands_def Let_def)

lemma binary_exceptions_eval:
  assumes "operands mode s a b"
  shows "BinaryTypeFixnumExceptions (addressed mode s) = Some (Ret (type_failure a b), addressed mode s)"
  using operandsD [OF assms]
  by (simp add: BinaryTypeFixnumExceptions_def type_failure_def prog_simps)

lemma in_all_modes: "mode \<in> set all_modes"
  by (cases mode) simp_all

lemma fixnum_op_eval:
  assumes "operands mode s a b"
  shows "fixnum_op mode f s =
     (if BinaryTypeFixnumP (TAG b) (TAG a) then f a b (addressed mode s)
      else Some (Ret (type_failure a b), addressed mode s))"
  using operandsD [OF assms] binary_exceptions_eval [OF assms]
  by (simp add: fixnum_op_def when_fixnums_def with_operand_eval [OF in_all_modes] prog_simps)

lemma set_tos_data_eval:
  assumes "operands mode s a b"
  shows "and_next (set_tos_data x) (addressed mode s)
     = Some (Ret NextInstruction, set_result (addressed mode s) (a\<lparr>DATA := x\<rparr>))"
  using operandsD [OF assms] by (simp add: set_tos_data_def set_result_def prog_simps)

lemma xor_zero_eq: "(x :: 'a::len word) XOR y = 0 \<Longrightarrow> x = y"
  by (metis xor.assoc xor.left_neutral xor.right_neutral xor_self_eq)

lemma fixnums_numeric: "BinaryTypeFixnumP t u \<Longrightarrow> BinaryTypeNumericP t u"
proof -
  assume a: "BinaryTypeFixnumP t u"
  have "t AND 63 = 8" "u AND 63 = 8"
  proof -
    have z: "((t XOR 8) AND 63) OR ((u XOR 8) AND 63) = 0"
      using a by (simp add: BinaryTypeFixnumP_def bit.conj_disj_distrib2)
    then have "(t XOR 8) AND 63 = 0" "(u XOR 8) AND 63 = 0"
      by (simp_all add: or_eq_0_iff)
    then have "(t AND 63) XOR (8 AND 63) = 0" "(u AND 63) XOR (8 AND 63) = 0"
      by (simp_all add: bit.conj_xor_distrib2)
    then show "t AND 63 = 8" "u AND 63 = 8"
      using xor_zero_eq [of "t AND 63" 8] xor_zero_eq [of "u AND 63" 8] by simp_all
  qed
  then have "(t AND 63) AND 56 = 8" "(u AND 63) AND 56 = 8" by simp_all
  then have "t AND 56 = 8" "u AND 56 = 8" by (simp_all add: and.assoc)
  then show ?thesis by (simp add: BinaryTypeNumericP_def)
qed

subsection \<open>Properties\<close>

text \<open>Claim C1: \<open>add\<close> replaces the top of the stack by the exact sum of two fixnums when it
  fits in 32 bits, keeping its tag; a sum that does not fit, or operands that are not fixnums, change
  nothing but the operand address, and are an instruction exception when both are numbers and an
  illegal operand otherwise.\<close>

theorem Add_exact:
  assumes "operands mode s a b"
  shows "DispatchAdd mode s =
    (let s' = addressed mode s; sum = sint (DATA a) + sint (DATA b) in
     if BinaryTypeFixnumP (TAG b) (TAG a) \<and> - (2 ^ 31) \<le> sum \<and> sum < 2 ^ 31
     then Some (Ret NextInstruction, set_result s' (a\<lparr>DATA := word_of_int sum\<rparr>))
     else Some (Ret (type_failure a b), s'))"
  using binary_exceptions_eval [OF assms] set_tos_data_eval [OF assms, of "DATA a + DATA b"]
  by (auto simp: DispatchAdd_def fixnum_op_eval [OF assms] add_no_overflow Let_def)

text \<open>Two fixnums on top of the sample's stack, for the pop operand.\<close>

definition two_fixnums :: "u32 \<Rightarrow> u32 \<Rightarrow> machine" where
  "two_fixnums a b = with_stack [mkobj TypeFixnum a, mkobj TypeFixnum b] blank"

lemma two_fixnums_operands:
  "operands ModePop (two_fixnums a b) (mkobj TypeFixnum a) (mkobj TypeFixnum b)"
  by (simp add: operands_def two_fixnums_def Let_def slot_def)

theorem Add_exact_witness:
  "\<exists>s'. DispatchAdd ModePop (two_fixnums 5 (- 7)) = Some (Ret NextInstruction, s')
     \<and> StackCache s' (sp s') = mkobj TypeFixnum (- 2)"
  using Add_exact [OF two_fixnums_operands [of 5 "- 7"]]
  by (simp add: Let_def BinaryTypeFixnumP_def set_result_def two_fixnums_def)

text \<open>Claim C2: \<open>sub\<close> is exact in the same way, and an exception otherwise.\<close>

theorem Sub_exact:
  assumes "operands mode s a b"
  shows "DispatchSub mode s =
    (let s' = addressed mode s; difference = sint (DATA a) - sint (DATA b) in
     if BinaryTypeFixnumP (TAG b) (TAG a) \<and> - (2 ^ 31) \<le> difference \<and> difference < 2 ^ 31
     then Some (Ret NextInstruction, set_result s' (a\<lparr>DATA := word_of_int difference\<rparr>))
     else Some (Ret (type_failure a b), s'))"
  using binary_exceptions_eval [OF assms] set_tos_data_eval [OF assms, of "DATA a - DATA b"]
  by (auto simp: DispatchSub_def fixnum_op_eval [OF assms] sub_no_overflow Let_def)

theorem Sub_exact_witness:
  "\<exists>s'. DispatchSub ModePop (two_fixnums (- 2147483648) 1) = Some (Ret InstructionException, s')"
  using Sub_exact [OF two_fixnums_operands [of "- 2147483648" 1]]
  by (simp add: Let_def BinaryTypeFixnumP_def type_failure_def BinaryTypeNumericP_def)

lemma division_eval:
  assumes "operands mode s a b" "BinaryTypeFixnumP (TAG b) (TAG a)" "DATA b \<noteq> 0"
    "\<not> (DATA a = most_negative \<and> DATA b = - 1)"
  shows "division mode f s = f (DATA a) (DATA b) (int_quot (DATA a) (DATA b))
     (DATA a - DATA b * int_quot (DATA a) (DATA b)) (addressed mode s)"
  using assms(2-4) by (auto simp: division_def fixnum_op_eval [OF assms(1)] Let_def)

definition two_results :: "machine \<Rightarrow> u32 \<Rightarrow> u32 \<Rightarrow> machine" where
  "two_results s q r = (put_slot (sp s + 1) (mkobj TypeFixnum r)
     (put_slot (sp s) (mkobj TypeFixnum q) s))\<lparr>sp := sp s + 1\<rparr>"

lemma two_values_eval:
  assumes "slot (sp s)" "slot (sp s + 1)"
  shows "two_values q r s = Some (Ret NextInstruction, two_results s q r)"
  using assms by (simp add: two_values_def two_results_def prog_simps)

text \<open>The operands of a division that gives a quotient.\<close>

definition divisible :: "operand_mode \<Rightarrow> machine \<Rightarrow> LispObj \<Rightarrow> LispObj \<Rightarrow> bool" where
  "divisible mode s a b \<longleftrightarrow> operands mode s a b \<and> slot (sp (addressed mode s) + 1)
     \<and> BinaryTypeFixnumP (TAG b) (TAG a) \<and> DATA b \<noteq> 0
     \<and> \<not> (DATA a = most_negative \<and> DATA b = - 1)"

text \<open>Claim C3: on two fixnums, the divisor not zero and the quotient within range, \<open>floor\<close>
  replaces the top of the stack by the quotient rounded down and pushes the remainder, which has
  the sign of the divisor.\<close>

theorem Floor_divides:
  assumes "divisible mode s a b"
  shows "\<exists>q r. DispatchFloor mode s = Some (Ret NextInstruction, two_results (addressed mode s) q r)
    \<and> sint q = sint (DATA a) div sint (DATA b) \<and> sint r = sint (DATA a) mod sint (DATA b)"
proof -
  define q where "q = int_quot (DATA a) (DATA b)"
  define r where "r = DATA a - DATA b * q"
  have op: "operands mode s a b" and s1: "slot (sp (addressed mode s) + 1)"
    and fx: "BinaryTypeFixnumP (TAG b) (TAG a)" and nz: "DATA b \<noteq> 0"
    and mn: "\<not> (DATA a = most_negative \<and> DATA b = - 1)"
    using assms by (auto simp: divisible_def)
  note v = two_values_eval [OF operandsD(1) [OF op] s1]
  note qr = int_quot_rem [OF nz mn, folded q_def, folded r_def]
  have b0: "sint (DATA b) \<noteq> 0" using nz signed_eq_0_iff by blast
  have r0: "(r = 0) = (sint r = 0)" using signed_eq_0_iff by blast
  have e: "DispatchFloor mode s = (if r = 0 then two_values q r
      else if (0 \<le> sint r) \<noteq> (0 \<le> sint (DATA b)) then two_values (q - 1) (r + DATA b)
      else two_values q r) (addressed mode s)"
    unfolding DispatchFloor_def division_eval [OF op fx nz mn] q_def r_def ..
  show ?thesis
  proof (cases "r \<noteq> 0 \<and> (0 \<le> sint r) \<noteq> (0 \<le> sint (DATA b))")
    case True
    have Q: "sint (q - 1) = sint q - 1"
      using qr(5) True r0 sint32 [of q] unfolding sint_sub by (subst wrap32) auto
    have R: "sint (r + DATA b) = sint r + sint (DATA b)"
      using qr(2) True sint32 [of "DATA b"] sint32 [of r] unfolding sint_add
      by (subst wrap32) (auto simp: abs_if split: if_splits)
    have "sint (DATA a) = sint (DATA b) * (sint q - 1) + (sint r + sint (DATA b))"
      using qr(1) by (simp add: algebra_simps)
    from div_mod_unique [OF this] have "sint (DATA a) div sint (DATA b) = sint q - 1"
      "sint (DATA a) mod sint (DATA b) = sint r + sint (DATA b)"
      using qr(2) True r0 b0 by (auto simp: abs_if split: if_splits)
    then show ?thesis using True e Q R v by auto
  next
    case False
    from div_mod_unique [OF qr(1,2)] have "sint (DATA a) div sint (DATA b) = sint q"
      "sint (DATA a) mod sint (DATA b) = sint r"
      using False r0 b0 by (auto simp: not_less less_le)
    moreover have "DispatchFloor mode s = Some (Ret NextInstruction, two_results (addressed mode s) q r)"
      using False e v by auto
    ultimately show ?thesis by (intro exI [of _ q] exI [of _ r]) simp
  qed
qed

lemma two_fixnums_divisible: "b \<noteq> 0 \<Longrightarrow> \<not> (a = most_negative \<and> b = - 1) \<Longrightarrow>
    divisible ModePop (two_fixnums a b) (mkobj TypeFixnum a) (mkobj TypeFixnum b)"
  using two_fixnums_operands [of a b]
  by (simp add: divisible_def BinaryTypeFixnumP_def two_fixnums_def slot_def)

theorem Floor_divides_witness:
  "\<exists>q r. DispatchFloor ModePop (two_fixnums (- 7) 2)
       = Some (Ret NextInstruction, two_results (addressed ModePop (two_fixnums (- 7) 2)) q r)
     \<and> sint q = - 4 \<and> sint r = 1"
  using Floor_divides [OF two_fixnums_divisible [of 2 "- 7"]] by simp

end
