(* ===== verification/PageFacts.thy ===== *)
theory PageFacts
  imports VirtualMemory Samples
begin

text \<open>
  The creation and destruction of pages: what \<open>EnsureVirtualAddressRange\<close> and
  \<open>DestroyVirtualAddressRange\<close> leave, and the agreement of the attribute table with the pages the
  operating system has mapped.
\<close>

unbundle bit_operations_syntax

subsection \<open>Page numbers\<close>

definition page_of :: "u64 \<Rightarrow> nat" where
  "page_of vma = unat vma div 8192"

lemma page_number [simp]: "unat (MemoryPageNumber vma) = page_of vma"
  by (simp add: MemoryPageNumber_def page_of_def drop_bit_eq_div unat_div)

lemma page_number_less: "MemoryPageNumber vma < 0x80000 \<longleftrightarrow> page_of vma < 0x80000"
  by (simp add: word_less_nat_alt)

lemma page_number_eq: "MemoryPageNumber vma = p \<longleftrightarrow> page_of vma = unat p"
  by (metis page_number word_unat_eq_iff)

lemma page_offset: "unat (MemoryPageOffset vma) = unat vma mod 8192"
proof -
  have "MemoryPageOffset vma = take_bit 13 vma"
    by (simp add: MemoryPageOffset_def take_bit_eq_mask mask_eq_exp_minus_1)
  then show ?thesis by (simp add: take_bit_eq_mod unat_mod)
qed

lemma page_of_aligned: "page_of (vma - MemoryPageOffset vma) = page_of vma"
proof -
  have "MemoryPageOffset vma \<le> vma" by (simp add: word_le_nat_alt page_offset)
  then have "unat (vma - MemoryPageOffset vma) = unat vma - unat vma mod 8192"
    by (simp add: unat_sub page_offset)
  then show ?thesis by (simp add: page_of_def minus_mod_eq_mult_div)
qed

lemma page_of_add: "page_of vma + n < 0x100000 \<Longrightarrow> page_of (vma + of_nat n * MemoryPageSize) = page_of vma + n"
proof -
  assume n: "page_of vma + n < 0x100000"
  then have "unat vma div 8192 + n < 0x100000" by (simp add: page_of_def)
  then have s: "unat vma + n * 8192 < 0x200000000" by linarith
  have "unat (of_nat n * MemoryPageSize :: u64) = n * 8192"
    using n by (simp add: unat_word_ariths unat_of_nat)
  then have "unat (vma + of_nat n * MemoryPageSize) = unat vma + n * 8192"
    using s by (simp add: unat_word_ariths)
  then show ?thesis by (simp add: page_of_def)
qed

lemma page_of_next: "page_of vma < 0x80000 \<Longrightarrow> page_of (vma + MemoryPageSize) = page_of vma + 1"
  using page_of_add [of vma 1] by simp

subsection \<open>Creating a range\<close>

definition exists_page :: "'a vmem_scheme \<Rightarrow> nat \<Rightarrow> bool" where
  "exists_page s p = VMExists (VMAttributeTable s (of_nat p))"

text \<open>The pages from number \<open>p\<close> on, \<open>n\<close> of them, that do not exist yet.\<close>

definition fresh :: "'a vmem_scheme \<Rightarrow> nat \<Rightarrow> nat \<Rightarrow> u64 \<Rightarrow> bool" where
  "fresh s p n vpn \<longleftrightarrow> p \<le> unat vpn \<and> unat vpn < p + n \<and> \<not> VMExists (VMAttributeTable s vpn)"

text \<open>The state in which they have been created: they read as zero, all else is as before.\<close>

definition ensured :: "nat \<Rightarrow> nat \<Rightarrow> 'a vmem_scheme \<Rightarrow> 'a vmem_scheme" where
  "ensured p n s = s
     \<lparr>DataSpace := \<lambda>a. if fresh s p n (MemoryPageNumber a) then 0 else DataSpace s a,
      TagSpace := \<lambda>a. if fresh s p n (MemoryPageNumber a) then 0 else TagSpace s a,
      VMAttributeTable := \<lambda>vpn. if fresh s p n vpn then VMCreatedDefault else VMAttributeTable s vpn,
      mapped := \<lambda>vpn. fresh s p n vpn \<or> mapped s vpn\<rparr>"

lemma created_exists [simp]: "VMExists VMCreatedDefault"
  by (simp add: VMExists_def VMCreatedDefault_def)

lemma Created_eval [prog_simps]:
  "page_of va < 0x80000 \<Longrightarrow> Created va s = Some (Ret (exists_page s (page_of va)), s)"
  by (simp add: Created_def read_attribute_def prog_simps page_number_less exists_page_def
      flip: page_number)

lemma SetCreated_eval [prog_simps]:
  "page_of va < 0x80000 \<Longrightarrow> SetCreated va s = Some (Ret (),
     s\<lparr>VMAttributeTable := (VMAttributeTable s)(MemoryPageNumber va := VMCreatedDefault)\<rparr>)"
  by (simp add: SetCreated_def write_attribute_def prog_simps page_number_less fun_upd_def comp_def)

lemma ensured_zero: "ensured p 0 s = s"
  by (intro vmem.equality) (auto simp: ensured_def fresh_def fun_eq_iff)

lemma ensured_exists: "q < 2 ^ 64 \<Longrightarrow> exists_page (ensured p n s) q \<longleftrightarrow>
    exists_page s q \<or> (p \<le> q \<and> q < p + n)"
  by (auto simp: exists_page_def ensured_def fresh_def unat_of_nat)

lemma ensured_append: "ensured (p + k) m (ensured p k s) = ensured p (k + m) s"
proof -
  have f: "fresh (ensured p k s) (p + k) m vpn \<longleftrightarrow> fresh s p (k + m) vpn \<and> \<not> fresh s p k vpn" for vpn
    by (auto simp: fresh_def ensured_def)
  have g: "fresh s p k vpn \<Longrightarrow> fresh s p (k + m) vpn" for vpn by (auto simp: fresh_def)
  show ?thesis
    unfolding ensured_def [of "p + k" m] f
    by (intro vmem.equality) (auto simp: fun_eq_iff ensured_def g)
qed

text \<open>The attribute entries of \<open>k\<close> pages marked as created, before they are mapped.\<close>

definition marked :: "nat \<Rightarrow> nat \<Rightarrow> 'a vmem_scheme \<Rightarrow> 'a vmem_scheme" where
  "marked p k s = s\<lparr>VMAttributeTable := \<lambda>vpn. if p \<le> unat vpn \<and> unat vpn < p + k
     then VMCreatedDefault else VMAttributeTable s vpn\<rparr>"

lemma marked_zero: "marked p 0 s = s"
  by (intro vmem.equality) (auto simp: marked_def fun_eq_iff)

lemma marked_first: "marked (Suc (page_of va)) k
      (s\<lparr>VMAttributeTable := (VMAttributeTable s)(MemoryPageNumber va := VMCreatedDefault)\<rparr>)
    = marked (page_of va) (Suc k) s"
proof -
  have "vpn = MemoryPageNumber va \<longleftrightarrow> unat vpn = page_of va" for vpn
    using page_number_eq [of va vpn] by auto
  then show ?thesis by (intro vmem.equality) (auto simp: marked_def fun_eq_iff)
qed

lemma add_pages: "(va + MemoryPageSize) + of_nat k * MemoryPageSize = va + of_nat (Suc k) * (MemoryPageSize :: u64)"
  by (simp add: algebra_simps)

text \<open>A page number past the table makes the loops undefined; otherwise they are as follows.\<close>

lemma Created_undef: "\<not> page_of va < 0x80000 \<Longrightarrow> Created va s = Some (Undef, s)"
  by (simp add: Created_def read_attribute_def prog_simps page_number_less)

definition create_run_result where
  "create_run_result n va pages s k \<longleftrightarrow> k \<le> pages \<and> page_of va + k < 0x80000
    \<and> create_run n va pages s
      = Some (Ret (n + k, pages - k, va + of_nat k * MemoryPageSize), marked (page_of va) k s)
    \<and> (\<forall>i<k. \<not> exists_page s (page_of va + i)) \<and> (k = pages \<or> exists_page s (page_of va + k))"

lemma create_run_eval:
  "(\<exists>s'. create_run n va pages s = Some (Undef, s')) \<or> (\<exists>k. create_run_result n va pages s k)"
proof (induction pages arbitrary: n va s)
  case 0
  then show ?case
    by (cases "page_of va < 0x80000") (auto simp: create_run.simps [of _ _ 0] prog_simps
        marked_zero Created_undef create_run_result_def intro!: exI [of _ 0])
next
  case (Suc m)
  let ?s = "s\<lparr>VMAttributeTable := (VMAttributeTable s)(MemoryPageNumber va := VMCreatedDefault)\<rparr>"
  consider "\<not> page_of va < 0x80000" | "page_of va < 0x80000" "exists_page s (page_of va)"
    | "page_of va < 0x80000" "\<not> exists_page s (page_of va)" by blast
  then show ?case
  proof cases
    case 1
    then show ?thesis by (simp add: create_run.simps [of _ _ "Suc m"] prog_simps Created_undef)
  next
    case 2
    then have "create_run_result n va (Suc m) s 0"
      by (simp add: create_run_result_def create_run.simps [of _ _ "Suc m"] prog_simps marked_zero)
    then show ?thesis by blast
  next
    case 3
    have nx: "page_of (va + MemoryPageSize) = Suc (page_of va)" using 3 by (simp add: page_of_next)
    have step: "create_run n va (Suc m) s = create_run (Suc n) (va + MemoryPageSize) m ?s"
      using 3 by (simp add: create_run.simps [of _ _ "Suc m"] prog_simps)
    have other: "exists_page ?s (Suc (page_of va) + i) = exists_page s (Suc (page_of va) + i)"
      if "Suc (page_of va) + i < 0x80000" for i
    proof -
      have "(of_nat (Suc (page_of va) + i) :: u64) \<noteq> MemoryPageNumber va"
        using that page_number_eq [of va "of_nat (Suc (page_of va) + i)"]
        by (simp add: unat_of_nat del: of_nat_Suc of_nat_add)
      then show ?thesis by (simp add: exists_page_def del: of_nat_Suc of_nat_add)
    qed
    have "create_run_result n va (Suc m) s (Suc k)"
      if k: "create_run_result (Suc n) (va + MemoryPageSize) m ?s k" for k
      using k other 3(2) unfolding create_run_result_def nx step
      by (auto simp: marked_first add_pages less_Suc_eq_0_disj simp del: of_nat_Suc)
    then show ?thesis
      using Suc.IH [of "Suc n" "va + MemoryPageSize" ?s] unfolding step by blast
  qed
qed

definition skip_run_result where
  "skip_run_result aligned va pages s k \<longleftrightarrow> k \<le> pages \<and> page_of va + k < 0x80000
    \<and> skip_run aligned va pages s
      = Some (Ret (pages - k, va + of_nat k * MemoryPageSize, aligned + of_nat k * MemoryPageSize), s)
    \<and> (\<forall>i<k. exists_page s (page_of va + i)) \<and> (k = pages \<or> \<not> exists_page s (page_of va + k))"

lemma skip_run_eval:
  "(\<exists>s'. skip_run aligned va pages s = Some (Undef, s'))
     \<or> (\<exists>k. skip_run_result aligned va pages s k)"
proof (induction pages arbitrary: aligned va)
  case 0
  then show ?case
    by (cases "page_of va < 0x80000") (auto simp: skip_run.simps [of _ _ 0] prog_simps
        Created_undef skip_run_result_def intro!: exI [of _ 0])
next
  case (Suc m)
  consider "\<not> page_of va < 0x80000" | "page_of va < 0x80000" "\<not> exists_page s (page_of va)"
    | "page_of va < 0x80000" "exists_page s (page_of va)" by blast
  then show ?case
  proof cases
    case 1
    then show ?thesis by (simp add: skip_run.simps [of _ _ "Suc m"] prog_simps Created_undef)
  next
    case 2
    then have "skip_run_result aligned va (Suc m) s 0"
      by (simp add: skip_run_result_def skip_run.simps [of _ _ "Suc m"] prog_simps)
    then show ?thesis by blast
  next
    case 3
    have nx: "page_of (va + MemoryPageSize) = Suc (page_of va)" using 3 by (simp add: page_of_next)
    have step: "skip_run aligned va (Suc m) s
        = skip_run (aligned + MemoryPageSize) (va + MemoryPageSize) m s"
      using 3 by (simp add: skip_run.simps [of _ _ "Suc m"] prog_simps)
    have "skip_run_result aligned va (Suc m) s (Suc k)"
      if k: "skip_run_result (aligned + MemoryPageSize) (va + MemoryPageSize) m s k" for k
      using k 3(2) unfolding skip_run_result_def nx step
      by (auto simp: add_pages less_Suc_eq_0_disj simp del: of_nat_Suc)
    then show ?thesis
      using Suc.IH [of "aligned + MemoryPageSize" "va + MemoryPageSize"] unfolding step by blast
  qed
qed

lemma mmap_marked:
  assumes "page_of va = p" "p + k < 0x80000" "\<forall>i<k. \<not> exists_page s (p + i)"
  shows "mmap_pages va k (marked p k s) = Some (Ret (), ensured p k s)"
proof -
  have f: "fresh s p k vpn \<longleftrightarrow> p \<le> unat vpn \<and> unat vpn < p + k" for vpn
    using assms(3) by (auto simp: fresh_def exists_page_def dest: spec [of _ "unat vpn - p"])
  show ?thesis
    unfolding mmap_pages_def ensured_def f
    by (simp add: prog_simps assms(1) marked_def Let_def) (intro vmem.equality; simp add: fun_eq_iff)
qed

lemma ensured_skip: "\<forall>i<k. exists_page s (p + i) \<Longrightarrow> ensured p k s = s"
proof -
  assume "\<forall>i<k. exists_page s (p + i)"
  then have "\<not> fresh s p k vpn" for vpn
    by (auto simp: fresh_def exists_page_def dest: spec [of _ "unat vpn - p"])
  then show ?thesis by (intro vmem.equality) (simp_all add: ensured_def)
qed

text \<open>In the table nothing is undefined.\<close>

lemma create_run_defined:
  "page_of va + pages < 0x80000 \<Longrightarrow> create_run n va pages s \<noteq> Some (Undef, s')"
proof (induction pages arbitrary: n va s)
  case 0
  then show ?case by (simp add: create_run.simps [of _ _ 0] prog_simps)
next
  case (Suc m)
  then have "page_of (va + MemoryPageSize) + m < 0x80000" by (simp add: page_of_next)
  with Suc show ?case by (simp add: create_run.simps [of _ _ "Suc m"] prog_simps)
qed

lemma skip_run_defined:
  "page_of va + pages < 0x80000 \<Longrightarrow> skip_run aligned va pages s \<noteq> Some (Undef, s')"
proof (induction pages arbitrary: aligned va)
  case 0
  then show ?case by (simp add: skip_run.simps [of _ _ 0] prog_simps)
next
  case (Suc m)
  then have "page_of (va + MemoryPageSize) + m < 0x80000" by (simp add: page_of_next)
  with Suc show ?case by (simp add: skip_run.simps [of _ _ "Suc m"] prog_simps)
qed

text \<open>One turn of the loop creates a run of pages and skips the run of existing ones after it, and
  at least one of the two is not empty.\<close>

lemma ensure_turn:
  assumes c: "create_run_result 0 va pages s k"
    and j: "skip_run_result (aligned + of_nat k * MemoryPageSize) (va + of_nat k * MemoryPageSize)
      (pages - k) (ensured (page_of va) k s) j"
    and al: "page_of aligned = page_of va" and pos: "0 < pages"
  shows "ensure_loop aligned pages va s
      = ensure_loop (aligned + of_nat (k + j) * MemoryPageSize) (pages - (k + j))
          (va + of_nat (k + j) * MemoryPageSize) (ensured (page_of va) (k + j) s)"
    and "k + j \<le> pages" and "0 < k + j" and "page_of va + (k + j) < 0x80000"
proof -
  let ?s = "ensured (page_of va) k s"
  have k: "k \<le> pages" "page_of va + k < 0x80000" "create_run 0 va pages s
      = Some (Ret (k, pages - k, va + of_nat k * MemoryPageSize), marked (page_of va) k s)"
    "\<forall>i<k. \<not> exists_page s (page_of va + i)" "k = pages \<or> exists_page s (page_of va + k)"
    using c by (simp_all add: create_run_result_def)
  have pk: "page_of (va + of_nat k * MemoryPageSize) = page_of va + k"
    using k(2) by (intro page_of_add) simp
  note j = j [unfolded skip_run_result_def pk]
  have mmap: "run_if (0 < k) (mmap_pages aligned k) (marked (page_of va) k s) = Some (Ret (), ?s)"
    using mmap_marked [of aligned "page_of va" k s] al k(2,4)
    by (cases "k = 0") (simp_all add: run_if_def ret_def marked_zero ensured_zero)
  have skip: "ensured (page_of va) (k + j) s = ?s"
    using ensured_skip [of j ?s "page_of va + k"] j ensured_append [of "page_of va" k j s] by simp
  have sums: "va + of_nat k * MemoryPageSize + of_nat j * MemoryPageSize
      = va + of_nat (k + j) * (MemoryPageSize :: u64)"
    "aligned + of_nat k * MemoryPageSize + of_nat j * MemoryPageSize
      = aligned + of_nat (k + j) * (MemoryPageSize :: u64)"
    by (simp_all add: algebra_simps)
  show "ensure_loop aligned pages va s
      = ensure_loop (aligned + of_nat (k + j) * MemoryPageSize) (pages - (k + j))
          (va + of_nat (k + j) * MemoryPageSize) (ensured (page_of va) (k + j) s)"
    using pos k(3) mmap j sums skip
    by (simp add: ensure_loop.simps [of _ pages] prog_simps del: run_if_def)
  show "k + j \<le> pages" "page_of va + (k + j) < 0x80000" using j k(1) by auto
  have "exists_page ?s (page_of va + k) = exists_page s (page_of va + k)"
    using k(2) by (simp add: ensured_exists)
  then show "0 < k + j" using pos k(5) j by (cases "k + j = 0") auto
qed

text \<open>The loop is undefined or creates the pages; it is defined when the range and the page after it
  are in the table.\<close>

lemma ensure_loop_eval:
  assumes "page_of aligned = page_of va" "0 < pages"
  shows "if page_of va + pages < 0x80000
    then ensure_loop aligned pages va s
      = Some (Ret (va + of_nat pages * MemoryPageSize), ensured (page_of va) pages s)
    else \<exists>s'. ensure_loop aligned pages va s = Some (Undef, s')"
  using assms
proof (induction pages arbitrary: aligned va s rule: less_induct)
  case (less pages)
  note al = less.prems(1) and pos = less.prems(2)
  have step: "ensure_loop aligned pages va s = bnd (create_run 0 va pages) (\<lambda>x.
        bnd (run_if (0 < fst x) (mmap_pages aligned (fst x))) (\<lambda>_.
        bnd (skip_run (aligned + of_nat (fst x) * MemoryPageSize) (snd (snd x)) (fst (snd x)))
          (\<lambda>y. ensure_loop (snd (snd y)) (fst y) (fst (snd y))))) s"
    using pos by (simp add: ensure_loop.simps [of _ pages])
  from create_run_eval [of 0 va pages s] show ?case
  proof
    assume "\<exists>s'. create_run 0 va pages s = Some (Undef, s')"
    then show ?case using create_run_defined [of va pages 0 s] by (auto simp: step prog_simps)
  next
    assume "\<exists>k. create_run_result 0 va pages s k"
    then obtain k where c: "create_run_result 0 va pages s k" by blast
    let ?s = "ensured (page_of va) k s"
    have k: "k \<le> pages" "page_of va + k < 0x80000" using c by (simp_all add: create_run_result_def)
    have mmap: "run_if (0 < k) (mmap_pages aligned k) (marked (page_of va) k s) = Some (Ret (), ?s)"
      using mmap_marked [of aligned "page_of va" k s] al c
      by (cases "k = 0") (simp_all add: run_if_def ret_def marked_zero ensured_zero create_run_result_def)
    have pk: "page_of (va + of_nat k * MemoryPageSize) = page_of va + k"
      using k(2) by (intro page_of_add) simp
    from skip_run_eval [of "aligned + of_nat k * MemoryPageSize" "va + of_nat k * MemoryPageSize"
        "pages - k" ?s]
    show ?case
    proof
      assume u: "\<exists>s'. skip_run (aligned + of_nat k * MemoryPageSize) (va + of_nat k * MemoryPageSize)
          (pages - k) ?s = Some (Undef, s')"
      then have "\<not> page_of va + pages < 0x80000"
        using skip_run_defined [of "va + of_nat k * MemoryPageSize" "pages - k"] k(1) pk by auto
      then show ?case using u c mmap
        by (auto simp: step prog_simps create_run_result_def simp del: run_if_def)
    next
      assume "\<exists>j. skip_run_result (aligned + of_nat k * MemoryPageSize)
          (va + of_nat k * MemoryPageSize) (pages - k) ?s j"
      then obtain j where j: "skip_run_result (aligned + of_nat k * MemoryPageSize)
          (va + of_nat k * MemoryPageSize) (pages - k) ?s j" by blast
      note turn = ensure_turn [OF c j al pos]
      let ?va = "va + of_nat (k + j) * MemoryPageSize"
      have pkj: "page_of ?va = page_of va + (k + j)"
        "page_of (aligned + of_nat (k + j) * MemoryPageSize) = page_of va + (k + j)"
        using turn(4) al page_of_add [of va "k + j"] page_of_add [of aligned "k + j"] by simp_all
      have va: "?va + of_nat (pages - (k + j)) * MemoryPageSize = va + of_nat pages * MemoryPageSize"
        using turn(2) by (simp add: algebra_simps of_nat_diff)
      have en: "ensured (page_of va + (k + j)) (pages - (k + j)) (ensured (page_of va) (k + j) s)
          = ensured (page_of va) pages s"
        using ensured_append [of "page_of va" "k + j" "pages - (k + j)" s] turn(2) by simp
      show ?case
      proof (cases "pages = k + j")
        case True
        then show ?thesis using turn(1,4) by (simp add: ensure_loop.simps [of _ 0] prog_simps)
      next
        case False
        then show ?thesis
          using less.IH [of "pages - (k + j)" "aligned + of_nat (k + j) * MemoryPageSize" ?va
              "ensured (page_of va) (k + j) s"] turn(2,3) pkj va en
          unfolding turn(1) by (simp add: pkj(1) del: of_nat_add)
      qed
    qed
  qed
qed

subsection \<open>Destroying a range\<close>

text \<open>The pages from number \<open>p\<close> on, \<open>n\<close> of them, do not exist any more.\<close>

definition destroyed :: "nat \<Rightarrow> nat \<Rightarrow> 'a vmem_scheme \<Rightarrow> 'a vmem_scheme" where
  "destroyed p n s =
     (let gone = (\<lambda>vpn :: u64. p \<le> unat vpn \<and> unat vpn < p + n \<and> VMExists (VMAttributeTable s vpn)) in
      s\<lparr>mapped := \<lambda>vpn. mapped s vpn \<and> \<not> gone vpn,
        VMAttributeTable := \<lambda>vpn. if gone vpn then 0 else VMAttributeTable s vpn\<rparr>)"

lemma not_exists_zero [simp]: "\<not> VMExists 0"
  by (simp add: VMExists_def)

lemma DestroyVirtualAddress_eval:
  assumes "page_of va < 0x80000"
  shows "DestroyVirtualAddress va s = Some (Ret va, destroyed (page_of va) 1 s)"
proof -
  have eq: "page_of va \<le> unat vpn \<and> unat vpn < page_of va + 1 \<longleftrightarrow> vpn = MemoryPageNumber va" for vpn
    using page_number_eq [of va vpn] by auto
  have num: "MemoryPageNumber (va - MemoryPageOffset va) = MemoryPageNumber va"
    by (simp add: page_number_eq page_of_aligned)
  have ex: "exists_page s (page_of va) = VMExists (VMAttributeTable s (MemoryPageNumber va))"
    by (simp add: exists_page_def flip: page_number)
  show ?thesis
  proof (cases "exists_page s (page_of va)")
    case True
    then have "destroyed (page_of va) 1 s = s\<lparr>mapped := (mapped s)(MemoryPageNumber va := False),
        VMAttributeTable := (VMAttributeTable s)(MemoryPageNumber va := 0)\<rparr>"
      unfolding destroyed_def Let_def conj_assoc [symmetric] eq ex
      by (intro vmem.equality) (auto simp: fun_eq_iff)
    then show ?thesis using assms True
      by (simp add: DestroyVirtualAddress_def prog_simps munmap_page_def ClearCreated_def
          write_attribute_def page_number_less num fun_upd_def comp_def)
  next
    case False
    then have "destroyed (page_of va) 1 s = s"
      unfolding destroyed_def Let_def conj_assoc [symmetric] eq ex
      by (intro vmem.equality) (auto simp: fun_eq_iff)
    then show ?thesis using assms False by (simp add: DestroyVirtualAddress_def prog_simps)
  qed
qed

lemma destroyed_zero: "destroyed p 0 s = s"
  by (intro vmem.equality) (auto simp: destroyed_def Let_def fun_eq_iff)

lemma destroyed_append: "destroyed (p + k) m (destroyed p k s) = destroyed p (k + m) s"
  by (intro vmem.equality) (auto simp: destroyed_def Let_def fun_eq_iff)

lemma destroy_loop_eval:
  "page_of va + pages \<le> 0x80000 \<Longrightarrow> destroy_loop pages va s
     = Some (Ret (va + of_nat pages * MemoryPageSize), destroyed (page_of va) pages s)"
proof (induction pages arbitrary: va s)
  case 0
  then show ?case by (simp add: prog_simps destroyed_zero)
next
  case (Suc m)
  have nx: "page_of (va + MemoryPageSize) = page_of va + 1" using Suc.prems by (simp add: page_of_next)
  have "destroy_loop (Suc m) va s
      = destroy_loop m (va + MemoryPageSize) (destroyed (page_of va) 1 s)"
    using Suc.prems by (simp add: prog_simps DestroyVirtualAddress_eval)
  also have "\<dots> = Some (Ret (va + MemoryPageSize + of_nat m * MemoryPageSize),
      destroyed (page_of va + 1) m (destroyed (page_of va) 1 s))"
    using Suc.prems nx by (subst Suc.IH) simp_all
  finally show ?case by (simp only: add_pages destroyed_append) simp
qed

lemma destroy_loop_undef:
  assumes "0x80000 < page_of va + pages" "0 < pages"
  shows "\<exists>s'. destroy_loop pages va s = Some (Undef, s')"
  using assms
proof (induction pages arbitrary: va s)
  case (Suc m)
  show ?case
  proof (cases "page_of va < 0x80000")
    case True
    then have "page_of (va + MemoryPageSize) = page_of va + 1" by (simp add: page_of_next)
    then obtain s' where "destroy_loop m (va + MemoryPageSize) (destroyed (page_of va) 1 s) = Some (Undef, s')"
      using Suc True by (cases "m = 0") fastforce+
    then show ?thesis using True by (simp add: prog_simps DestroyVirtualAddress_eval)
  next
    case False
    then show ?thesis by (simp add: prog_simps DestroyVirtualAddress_def Created_undef)
  qed
qed simp

subsection \<open>Attributes and mapping agree\<close>

text \<open>A page is mapped exactly when its attributes say it exists, and no page past the table is.\<close>

definition pages_agree :: "'a vmem_scheme \<Rightarrow> bool" where
  "pages_agree s \<longleftrightarrow> (\<forall>vpn. mapped s vpn = (vpn < 0x80000 \<and> VMExists (VMAttributeTable s vpn)))"

lemma ensured_agree: "p + n < 0x80000 \<Longrightarrow> pages_agree s \<Longrightarrow> pages_agree (ensured p n s)"
  by (auto simp: pages_agree_def ensured_def fresh_def word_less_nat_alt)

lemma destroyed_agree: "pages_agree s \<Longrightarrow> pages_agree (destroyed p n s)"
  by (auto simp: pages_agree_def destroyed_def Let_def)

lemma ensure_loop_agree: "page_of aligned = page_of va \<Longrightarrow> keeps pages_agree (ensure_loop aligned pages va)"
proof (rule keepsI)
  fix s r s'
  assume a: "page_of aligned = page_of va" "pages_agree s" "ensure_loop aligned pages va s = Some (r, s')"
    "r \<noteq> Undef"
  show "pages_agree s' \<and> (\<forall>v. r = Longjmp v \<longrightarrow> v \<in> longjmp_values)"
  proof (cases "pages = 0")
    case True
    then show ?thesis using a by (auto simp: ensure_loop.simps [of _ 0] prog_simps)
  next
    case False
    then show ?thesis using ensure_loop_eval [of aligned va pages s] a
      by (auto simp: ensured_agree split: if_splits)
  qed
qed

lemma destroy_loop_agree: "keeps pages_agree (destroy_loop pages va)"
proof (rule keepsI)
  fix s r s'
  assume a: "pages_agree s" "destroy_loop pages va s = Some (r, s')" "r \<noteq> Undef"
  then show "pages_agree s' \<and> (\<forall>v. r = Longjmp v \<longrightarrow> v \<in> longjmp_values)"
    using destroy_loop_eval [of va pages s] destroy_loop_undef [of va pages s]
    by (cases "pages = 0"; cases "page_of va + pages \<le> 0x80000")
      (auto simp: destroyed_agree prog_simps)
qed

lemma EnsureVirtualAddressRange_agree [keeps_intros]: "keeps pages_agree (EnsureVirtualAddressRange va count)"
  unfolding EnsureVirtualAddressRange_def
  by (intro keeps_intros ensure_loop_agree page_of_aligned)

lemma DestroyVirtualAddressRange_agree [keeps_intros]: "keeps pages_agree (DestroyVirtualAddressRange va count)"
  unfolding DestroyVirtualAddressRange_def by (intro keeps_intros destroy_loop_agree)

subsection \<open>Properties\<close>

text \<open>The number of pages of a range of \<open>count\<close> words that begins on a page.\<close>

definition page_count :: "u32 \<Rightarrow> nat" where
  "page_count count = nat ((sint count + 8191) div 8192)"

lemma page_count_eq: "0 \<le> sint count \<Longrightarrow> nat (pages_of_count count) = page_count count"
  by (simp add: pages_of_count_def page_count_def Let_def)

lemma pages_definedI: "0 \<le> sint count \<Longrightarrow> sint count \<le> 2147475456 \<Longrightarrow> pages_defined count"
  by (simp add: pages_defined_def pages_of_count_def Let_def)

lemma EnsureVirtualAddressRange_eval:
  assumes "0 < sint count" "sint count \<le> 2147475456"
  shows "if page_of va + page_count count < 2 ^ 19
    then EnsureVirtualAddressRange va count s
        = Some (Ret (va + of_nat (page_count count) * MemoryPageSize), ensured (page_of va) (page_count count) s)
    else \<exists>s'. EnsureVirtualAddressRange va count s = Some (Undef, s')"
proof -
  have "0 < page_count count" using assms by (simp add: page_count_def)
  then show ?thesis
    using ensure_loop_eval [of "va - MemoryPageOffset va" va "page_count count" s]
      pages_definedI [of count] page_count_eq [of count] assms
    by (simp add: EnsureVirtualAddressRange_def prog_simps page_of_aligned)
qed

text \<open>The numbers of the pages on which the words of a range lie.\<close>

definition touched :: "u64 \<Rightarrow> u32 \<Rightarrow> nat set" where
  "touched va count = (\<lambda>i. (unat va + i) div 8192) ` {..<nat (sint count)}"

lemma div_interval:
  fixes x k c :: nat
  assumes "0 < k" "0 < c"
  shows "(\<lambda>i. (x + i) div k) ` {..<c} = {x div k..(x + c - 1) div k}"
proof (intro equalityI subsetI)
  fix y assume "y \<in> (\<lambda>i. (x + i) div k) ` {..<c}"
  then show "y \<in> {x div k..(x + c - 1) div k}" using assms by (auto intro!: div_le_mono)
next
  fix y assume y: "y \<in> {x div k..(x + c - 1) div k}"
  have "x < Suc y * k" using y assms(1) by (simp add: div_less_iff_less_mult flip: less_Suc_eq_le del: mult_Suc)
  moreover have "y * k \<le> x + c - 1" using y assms(1) by (simp add: less_eq_div_iff_mult_less_eq)
  ultimately have "(x + (y * k - x)) div k = y" "y * k - x < c"
    using assms by (auto intro!: div_nat_eqI simp: mult.commute [of k])
  then show "y \<in> (\<lambda>i. (x + i) div k) ` {..<c}" by force
qed

lemma touched_pages:
  assumes "0 \<le> sint count"
  shows "touched va count = {page_of va..<page_of va + page_count count}
    \<union> (if 0 < sint count \<and> 8192 * page_count count < unat (MemoryPageOffset va) + nat (sint count)
       then {page_of va + page_count count} else {})"
proof (cases "sint count = 0")
  case True
  then show ?thesis by (simp add: touched_def page_count_def)
next
  case False
  define c where "c = nat (sint count)"
  define d where "d = unat va mod 8192"
  have c: "0 < c" using False assms by (simp add: c_def)
  have n: "page_count count = (c + 8191) div 8192"
    using assms by (simp add: page_count_def c_def nat_div_distrib nat_add_distrib)
  have off: "unat (MemoryPageOffset va) = d"
  proof -
    have "MemoryPageOffset va = take_bit 13 va"
      by (simp add: MemoryPageOffset_def take_bit_eq_mask mask_eq_exp_minus_1)
    then show ?thesis by (simp add: d_def take_bit_eq_mod unat_mod)
  qed
  have last: "(unat va + c - 1) div 8192 = page_of va + (d + c - 1) div 8192"
  proof -
    have "unat va + c - 1 = 8192 * page_of va + (d + c - 1)" using c by (simp add: page_of_def d_def)
    then show ?thesis by simp
  qed
  have "d < 8192" by (simp add: d_def)
  then have m: "(d + c - 1) div 8192 = (if 8192 * page_count count < d + c then page_count count else page_count count - 1)"
    "0 < page_count count"
  proof -
    define q r where "q = (c - 1) div 8192" and "r = (c - 1) mod 8192"
    have cr: "c = 8192 * q + r + 1" "r < 8192" using c by (simp_all add: q_def r_def)
    then have "page_count count = q + 1" "d + c - 1 = 8192 * q + (d + r)"
      unfolding n by (simp_all add: div_nat_eqI)
    moreover have "(8192 * q + (d + r)) div 8192 = (if d + r < 8192 then q else q + 1)"
      using \<open>d < 8192\<close> cr(2) by (auto intro!: div_nat_eqI)
    ultimately show "(d + c - 1) div 8192 = (if 8192 * page_count count < d + c then page_count count else page_count count - 1)"
      "0 < page_count count"
      using cr by auto
  qed
  have "touched va count = {page_of va..page_of va + (d + c - 1) div 8192}"
    using div_interval [of 8192 c "unat va"] c last by (simp add: touched_def page_of_def flip: c_def)
  then show ?thesis using m c unfolding off c_def [symmetric] by (auto simp: c_def)
qed

text \<open>Claim C8: for a count of at least one word \<open>EnsureVirtualAddressRange\<close>
  always returns when the pages it looks at and the one after them lie in the attribute table. These are the page of the
  address and those behind it, as many as the count, rounded up, fills: those of them
  that did not exist are mapped, read as zero and have the default attributes, and no existing
  page, no word on one and no other attribute is changed. Otherwise it reads an attribute past
  the end of the table. They are all the pages of the range when it begins on a page; but a
  range that begins inside a page may reach into one more, and that one is not created.\<close>

theorem EnsureVirtualAddressRange_creates:
  assumes "0 < sint count" "sint count \<le> 2147475456"
  shows "let n = page_count count in
    (if page_of va + n < 2 ^ 19
    then EnsureVirtualAddressRange va count s
        = Some (Ret (va + of_nat n * MemoryPageSize), ensured (page_of va) n s)
      \<and> (\<forall>i<n. exists_page (ensured (page_of va) n s) (page_of va + i))
    else \<exists>s'. EnsureVirtualAddressRange va count s = Some (Undef, s'))
    \<and> touched va count = {page_of va..<page_of va + n}
      \<union> (if 8192 * n < unat (MemoryPageOffset va) + nat (sint count) then {page_of va + n} else {})"
  using EnsureVirtualAddressRange_eval [OF assms, of va s] touched_pages [of count va] assms(1)
  by (simp add: ensured_exists Let_def)

text \<open>A range of one page that begins in the middle of a page lies on two of which one is created.\<close>

theorem EnsureVirtualAddressRange_creates_witness:
  "EnsureVirtualAddressRange 0xf8001000 0x2000 blank = Some (Ret 0xf8003000, ensured 0x7c000 1 blank)
   \<and> touched 0xf8001000 0x2000 = {0x7c000, 0x7c001}"
proof -
  have p: "page_count 0x2000 = 1" "page_of 0xf8001000 = 0x7c000" "unat (MemoryPageOffset 0xf8001000) = 0x1000"
    by (simp_all add: page_count_def page_of_def MemoryPageOffset_def)
  have "{0x7c000..<0x7c000 + 1} \<union> {0x7c000 + 1} = {0x7c000, 0x7c001 :: nat}" by fastforce
  then show ?thesis
    using EnsureVirtualAddressRange_creates [of "0x2000" "0xf8001000" blank] by (simp add: p Let_def)
qed

text \<open>Claim C9: \<open>DestroyVirtualAddressRange\<close> unmaps the existing pages among the page of the address and those
  behind it, as many as the count, rounded up, fills; it clears their attributes, and changes nothing else. They
  are all the pages of the range when it begins on a page; but a range that begins inside a page may
  reach into one more, and that one is kept.\<close>

theorem DestroyVirtualAddressRange_destroys:
  assumes "0 \<le> sint count" "sint count \<le> 2147475456" "page_of va + page_count count \<le> 2 ^ 19"
  shows "let n = page_count count in
    DestroyVirtualAddressRange va count s = Some (Ret (va + of_nat n * MemoryPageSize), destroyed (page_of va) n s)
    \<and> touched va count = {page_of va..<page_of va + n}
      \<union> (if 0 < sint count \<and> 8192 * n < unat (MemoryPageOffset va) + nat (sint count) then {page_of va + n} else {})"
  using assms pages_definedI [of count] page_count_eq [of count]
    destroy_loop_eval [of va "page_count count" s] touched_pages [of count va]
  by (simp add: DestroyVirtualAddressRange_def prog_simps Let_def)

theorem DestroyVirtualAddressRange_destroys_witness:
  "DestroyVirtualAddressRange 0x4000 0x2001 (with_page 3 blank)
     = Some (Ret 0x8000, destroyed 2 2 (with_page 3 blank))"
  using DestroyVirtualAddressRange_destroys [of "0x2001" "0x4000" "with_page 3 blank"]
  by (simp add: page_count_def page_of_def)

end
