(* ===== verification/Stores.thy ===== *)
theory Stores
  imports VLM_Prelude
begin

text \<open>
  The interface of a store of objects: single reads and writes that never fail at a location that
  is there, a read that gives what was last written, in the form the store keeps it, and no effect
  on other locations. The data and tag spaces, the stack cache and the memory as the instructions
  see it are such stores; what is proved here of sequences of reads and writes holds for all.
\<close>

fun stores :: "('k \<Rightarrow> 'v \<Rightarrow> ('s, unit) prog) \<Rightarrow> ('k \<times> 'v) list \<Rightarrow> ('s, unit) prog" where
  "stores store [] = ret ()"
| "stores store ((k, v) # kvs) = thn (store k v) (stores store kvs)"

fun loads :: "('k \<Rightarrow> ('s, 'v) prog) \<Rightarrow> 'k list \<Rightarrow> ('s, 'v list) prog" where
  "loads load [] = ret []"
| "loads load (k # ks) = bnd (load k) (\<lambda>v. bnd (loads load ks) (\<lambda>vs. ret (v # vs)))"

locale object_store =
  fixes load :: "'k \<Rightarrow> ('s, 'v) prog" and store :: "'k \<Rightarrow> 'v \<Rightarrow> ('s, unit) prog"
    and there :: "'s \<Rightarrow> 'k \<Rightarrow> bool" and value_at :: "'s \<Rightarrow> 'k \<Rightarrow> 'v" and kept :: "'k \<Rightarrow> 'v \<Rightarrow> 'v"
    and loaded :: "'k \<Rightarrow> 's \<Rightarrow> 's" and stored :: "'k \<Rightarrow> 'v \<Rightarrow> 's \<Rightarrow> 's"
  assumes load_eval: "there s k \<Longrightarrow> load k s = Some (Ret (value_at s k), loaded k s)"
    and store_eval: "there s k \<Longrightarrow> store k v s = Some (Ret (), stored k v s)"
    and there_loaded: "there (loaded j s) k = there s k"
    and there_stored: "there (stored j v s) k = there s k"
    and value_loaded: "value_at (loaded j s) k = value_at s k"
    and value_stored: "there s j \<Longrightarrow> there s k \<Longrightarrow>
      value_at (stored j v s) k = (if k = j then kept k v else value_at s k)"
begin

lemma load_after_store:
  "there s k \<Longrightarrow> bnd (store k v) (\<lambda>_. load k) s = Some (Ret (kept k v), loaded k (stored k v s))"
  by (simp add: bnd_Some(1) [OF store_eval] load_eval value_stored there_stored)

lemma loads_eval:
  "(\<And>k. k \<in> set ks \<Longrightarrow> there s k) \<Longrightarrow>
     loads load ks s = Some (Ret (map (value_at s) ks), fold loaded ks s)"
proof (induction ks arbitrary: s)
  case Nil
  then show ?case by (simp add: prog_simps)
next
  case (Cons k ks)
  have v: "value_at (loaded k s) = value_at s" by (simp add: fun_eq_iff value_loaded)
  have "loads load ks (loaded k s) = Some (Ret (map (value_at (loaded k s)) ks), fold loaded ks (loaded k s))"
    by (rule Cons.IH) (simp add: Cons.prems there_loaded)
  moreover have "load k s = Some (Ret (value_at s k), loaded k s)"
    by (rule load_eval) (simp add: Cons.prems)
  ultimately show ?case unfolding loads.simps bnd_def by (simp add: v ret_def)
qed

abbreviation stored_all :: "('k \<times> 'v) list \<Rightarrow> 's \<Rightarrow> 's" where
  "stored_all kvs s \<equiv> fold (\<lambda>(k, v). stored k v) kvs s"

lemma there_stored_all: "there (stored_all kvs s) k = there s k"
proof (induction kvs arbitrary: s)
  case (Cons kv kvs)
  obtain j v where "kv = (j, v)" by (cases kv)
  then have "stored_all (kv # kvs) s = stored_all kvs (stored j v s)" by simp
  with Cons.IH there_stored show ?case by metis
qed simp

lemma stores_eval:
  "(\<And>k. k \<in> fst ` set kvs \<Longrightarrow> there s k) \<Longrightarrow> stores store kvs s = Some (Ret (), stored_all kvs s)"
proof (induction kvs arbitrary: s)
  case Nil
  then show ?case by (simp add: prog_simps)
next
  case (Cons kv kvs)
  obtain j v where kv: "kv = (j, v)" by (cases kv)
  have "stores store kvs (stored j v s) = Some (Ret (), stored_all kvs (stored j v s))"
    using Cons.prems by (intro Cons.IH) (simp add: there_stored)
  moreover have "store j v s = Some (Ret (), stored j v s)"
    using Cons.prems kv by (intro store_eval) simp
  ultimately show ?case unfolding kv stores.simps thn_def bnd_def by simp
qed

text \<open>After a sequence of writes a location holds the last object written to it.\<close>

lemma value_stored_all:
  "(\<And>j. j \<in> fst ` set kvs \<Longrightarrow> there s j) \<Longrightarrow> there s k \<Longrightarrow> value_at (stored_all kvs s) k
     = (case map_of (rev kvs) k of None \<Rightarrow> value_at s k | Some v \<Rightarrow> kept k v)"
proof (induction kvs arbitrary: s)
  case Nil
  then show ?case by simp
next
  case (Cons kv kvs)
  obtain j v where kv: "kv = (j, v)" by (cases kv)
  have "value_at (stored_all kvs (stored j v s)) k
      = (case map_of (rev kvs) k of None \<Rightarrow> value_at (stored j v s) k | Some v \<Rightarrow> kept k v)"
    using Cons.prems by (intro Cons.IH) (simp_all add: there_stored)
  moreover have "value_at (stored j v s) k = (if k = j then kept k v else value_at s k)"
    using Cons.prems kv by (intro value_stored) simp_all
  ultimately show ?case using kv by (auto simp: map_add_def split: option.splits)
qed

text \<open>Writing objects to distinct locations and reading them back gives the objects.\<close>

lemma loads_after_stores:
  assumes "distinct (map fst kvs)" "\<And>k. k \<in> fst ` set kvs \<Longrightarrow> there s k"
  shows "\<exists>s'. bnd (stores store kvs) (\<lambda>_. loads load (map fst kvs)) s
    = Some (Ret (map (\<lambda>(k, v). kept k v) kvs), s')"
proof -
  have v: "value_at (stored_all kvs s) k = kept k v" if "(k, v) \<in> set kvs" for k v
  proof -
    have "map_of (rev kvs) k = Some v" using that assms(1) by (intro map_of_is_SomeI) (simp_all flip: rev_map)
    then show ?thesis using value_stored_all [of kvs s k] assms(2) that by force
  qed
  have "loads load (map fst kvs) (stored_all kvs s)
      = Some (Ret (map (\<lambda>(k, v). kept k v) kvs), fold loaded (map fst kvs) (stored_all kvs s))"
    using loads_eval [of "map fst kvs" "stored_all kvs s"] assms(2) v
    by (force simp: there_stored_all)
  moreover have "stores store kvs s = Some (Ret (), stored_all kvs s)"
    using assms(2) by (rule stores_eval)
  ultimately show ?thesis by (simp add: bnd_def)
qed

end

end
