(* ===== verification/MemoryFacts.thy ===== *)
theory MemoryFacts
  imports PageFacts Stores
begin

text \<open>
  The contents of virtual memory: single accesses as a store of objects, the effect of block
  writes and fills, and the search for the first equal object.
\<close>

unbundle bit_operations_syntax

subsection \<open>Single accesses\<close>

definition accessible :: "'a vmem_scheme \<Rightarrow> u64 \<Rightarrow> bool" where
  "accessible s vma \<longleftrightarrow> vma < 0x100000000 \<and> mapped s (MemoryPageNumber vma)"

text \<open>The form in which memory keeps an object: the low byte of its tag, and its data.\<close>

definition kept_object :: "LispObj \<Rightarrow> LispObj" where
  "kept_object obj = mkobj (ucast (ucast (TAG obj) :: u8)) (DATA obj)"

definition vm_put :: "u64 \<Rightarrow> LispObj \<Rightarrow> 'a vmem_scheme \<Rightarrow> 'a vmem_scheme" where
  "vm_put vma obj s = s\<lparr>DataSpace := (DataSpace s)(vma := ucast (DATA obj)),
     TagSpace := (TagSpace s)(vma := ucast (TAG obj))\<rparr>"

definition at_vma :: "u64 \<Rightarrow> 'a vmem_scheme \<Rightarrow> 'a vmem_scheme" where
  "at_vma vma s = s\<lparr>memory_vma := vma\<rparr>"

lemma ucast_up_down [simp]: "ucast (ucast (x :: u32) :: u64) = x"
  by (rule bit_word_eqI) (auto simp: bit_simps)

lemma set_memory_vma_eval [prog_simps]: "set_memory_vma vma s = Some (Ret (), at_vma vma s)"
  by (simp add: set_memory_vma_def at_vma_def prog_simps)

lemma accessible_simps [simp]:
  "accessible (vm_put vma obj s) v = accessible s v" "accessible (at_vma vma s) v = accessible s v"
  by (simp_all add: accessible_def vm_put_def at_vma_def)

lemma space_object_simps [simp]:
  "space_object (at_vma vma s) v = space_object s v"
  "space_object (vm_put vma obj s) v = (if v = vma then kept_object obj else space_object s v)"
  by (simp_all add: space_object_def vm_put_def at_vma_def kept_object_def)

lemma access_eval [prog_simps]: "accessible s vma \<Longrightarrow> access vma s = Some (Ret (), s)"
  by (simp add: access_def accessible_def prog_simps)

lemma access_unmapped: "vma < 0x100000000 \<Longrightarrow> \<not> mapped s (MemoryPageNumber vma) \<Longrightarrow>
    access vma s = Some (Longjmp PageNotResidentTrapVector,
      s\<lparr>trap_vma := (trap_vma s)\<lparr>DATA := ucast (memory_vma s)\<rparr>\<rparr>)"
  by (simp add: access_def segv_handler_def TakeMemoryTrap_def prog_simps)

lemma VirtualMemoryRead_eval [prog_simps]:
  "accessible s vma \<Longrightarrow> VirtualMemoryRead vma s = Some (Ret (space_object s vma), at_vma vma s)"
  using access_eval [of "at_vma vma s" vma] by (simp add: VirtualMemoryRead_def prog_simps)

lemma write_object:
  assumes "accessible s vma"
  shows "write_data vma (ucast (DATA obj)) s
      = Some (Ret (), s\<lparr>DataSpace := (DataSpace s)(vma := ucast (DATA obj))\<rparr>)"
    and "write_tag vma (ucast (TAG obj)) (s\<lparr>DataSpace := (DataSpace s)(vma := ucast (DATA obj))\<rparr>)
      = Some (Ret (), vm_put vma obj s)"
proof -
  have "accessible (s\<lparr>DataSpace := (DataSpace s)(vma := ucast (DATA obj))\<rparr>) vma"
    using assms by (simp add: accessible_def)
  then show "write_data vma (ucast (DATA obj)) s
      = Some (Ret (), s\<lparr>DataSpace := (DataSpace s)(vma := ucast (DATA obj))\<rparr>)"
    "write_tag vma (ucast (TAG obj)) (s\<lparr>DataSpace := (DataSpace s)(vma := ucast (DATA obj))\<rparr>)
      = Some (Ret (), vm_put vma obj s)"
    using assms by (simp_all add: write_data_def write_tag_def prog_simps vm_put_def comp_def fun_upd_def)
qed

lemma VirtualMemoryWrite_eval [prog_simps]: "accessible s vma \<Longrightarrow>
    VirtualMemoryWrite vma obj s = Some (Ret (), vm_put vma obj (at_vma vma s))"
  using write_object [of "at_vma vma s" vma obj]
  by (simp add: VirtualMemoryWrite_def prog_simps)

interpretation vm: object_store VirtualMemoryRead VirtualMemoryWrite accessible space_object
    "\<lambda>_. kept_object" at_vma "\<lambda>vma obj s. vm_put vma obj (at_vma vma s)"
  by unfold_locales (simp_all add: prog_simps)

subsection \<open>Block writes\<close>

definition range_ok :: "'a vmem_scheme \<Rightarrow> u64 \<Rightarrow> nat \<Rightarrow> bool" where
  "range_ok s vma n \<longleftrightarrow> unat vma + n \<le> 2 ^ 32 \<and> (\<forall>i<n. accessible s (vma + of_nat i))"

lemma range_ok_Suc: "range_ok s vma (Suc n) \<Longrightarrow> accessible s vma \<and> range_ok s (vma + 1) n"
proof -
  assume r: "range_ok s vma (Suc n)"
  have "unat (vma + 1) = unat vma + 1" using r by (simp add: range_ok_def unat_word_ariths)
  moreover have "accessible s (vma + 1 + of_nat i)" if "i < n" for i
    using r that by (auto simp: range_ok_def add.assoc dest: spec [of _ "Suc i"])
  ultimately show ?thesis using r by (auto simp: range_ok_def dest: spec [of _ 0])
qed

lemma range_ok_simps [simp]:
  "range_ok (vm_put v obj s) vma n = range_ok s vma n" "range_ok (at_vma v s) vma n = range_ok s vma n"
  by (simp_all add: range_ok_def)

fun put_objects :: "u64 \<Rightarrow> LispObj list \<Rightarrow> 'a vmem_scheme \<Rightarrow> 'a vmem_scheme" where
  "put_objects vma [] s = s"
| "put_objects vma (obj # objs) s = put_objects (vma + 1) objs (at_vma (memory_vma s + 1) (vm_put vma obj s))"

lemma write_block_loop_eval: "range_ok s vma (length objs) \<Longrightarrow>
    write_block_loop vma objs s = Some (Ret (), put_objects vma objs s)"
proof (induction objs arbitrary: vma s)
  case Nil
  then show ?case by (simp add: prog_simps)
next
  case (Cons obj objs)
  let ?s = "at_vma (memory_vma s + 1) (vm_put vma obj s)"
  have a: "accessible s vma" "range_ok s (vma + 1) (length objs)"
    using range_ok_Suc [of s vma "length objs"] Cons.prems by simp_all
  have "next_memory_vma (vm_put vma obj s) = Some (Ret (), ?s)"
    by (simp add: next_memory_vma_def prog_simps at_vma_def vm_put_def)
  moreover have "write_block_loop (vma + 1) objs ?s = Some (Ret (), put_objects (vma + 1) objs ?s)"
    using a(2) by (intro Cons.IH) simp
  ultimately show ?case using write_object [OF a(1), of obj] by (simp add: prog_simps)
qed

lemma VirtualMemoryWriteBlock_eval: "range_ok s vma (length objs) \<Longrightarrow>
    VirtualMemoryWriteBlock vma objs s = Some (Ret (), put_objects vma objs (at_vma vma s))"
  using write_block_loop_eval [of "at_vma vma s" vma objs]
  by (simp add: VirtualMemoryWriteBlock_def prog_simps)

lemma put_objects_accessible [simp]: "accessible (put_objects vma objs s) v = accessible s v"
  by (induction objs arbitrary: vma s) simp_all

text \<open>The index of an address in a range.\<close>

definition in_range :: "u64 \<Rightarrow> nat \<Rightarrow> u64 \<Rightarrow> bool" where
  "in_range vma n v \<longleftrightarrow> unat vma \<le> unat v \<and> unat v < unat vma + n"

lemma space_put_objects:
  "unat vma + length objs \<le> 2 ^ 32 \<Longrightarrow> space_object (put_objects vma objs s) v
     = (if in_range vma (length objs) v then kept_object (objs ! (unat v - unat vma)) else space_object s v)"
proof (induction objs arbitrary: vma s)
  case Nil
  then show ?case by (auto simp: in_range_def)
next
  case (Cons obj objs)
  have v1: "unat (vma + 1) = unat vma + 1" using Cons.prems by (simp add: unat_word_ariths)
  have eq: "v = vma \<longleftrightarrow> unat v = unat vma" by (simp add: word_unat_eq_iff)
  have ix: "unat v - unat vma = Suc (unat v - unat (vma + 1))" if "unat vma < unat v"
    using that v1 by simp
  show ?case
    using Cons.IH [of "vma + 1" "at_vma (memory_vma s + 1) (vm_put vma obj s)"] Cons.prems v1 eq ix
    by (auto simp: in_range_def)
qed

subsection \<open>Fills\<close>

lemma in_range_Suc:
  assumes "unat vma + Suc n \<le> 2 ^ 32"
  shows "in_range vma (Suc n) a \<longleftrightarrow> a = vma \<or> in_range (vma + 1) n a" "\<not> in_range (vma + 1) n vma"
proof -
  have "unat (vma + 1) = unat vma + 1" using assms by (simp add: unat_word_ariths)
  then show "in_range vma (Suc n) a \<longleftrightarrow> a = vma \<or> in_range (vma + 1) n a" "\<not> in_range (vma + 1) n vma"
    by (auto simp: in_range_def word_unat_eq_iff)
qed

definition tags_filled :: "u64 \<Rightarrow> nat \<Rightarrow> u8 \<Rightarrow> 'a vmem_scheme \<Rightarrow> 'a vmem_scheme" where
  "tags_filled vma n t s = s\<lparr>TagSpace := \<lambda>a. if in_range vma n a then t else TagSpace s a\<rparr>"

definition data_filled :: "u64 \<Rightarrow> nat \<Rightarrow> u64 \<Rightarrow> u64 \<Rightarrow> 'a vmem_scheme \<Rightarrow> 'a vmem_scheme" where
  "data_filled vma n d inc s =
     s\<lparr>DataSpace := \<lambda>a. if in_range vma n a then d + (a - vma) * inc else DataSpace s a\<rparr>"

lemma range_ok_updates [simp]:
  "range_ok (s\<lparr>TagSpace := t\<rparr>) vma n = range_ok s vma n"
  "range_ok (s\<lparr>DataSpace := d\<rparr>) vma n = range_ok s vma n"
  "range_ok (tags_filled v k x s) vma n = range_ok s vma n"
  by (simp_all add: range_ok_def accessible_def tags_filled_def)

lemma range_bound: "range_ok s vma n \<Longrightarrow> unat vma + n \<le> 2 ^ 32"
  by (simp add: range_ok_def)

lemma in_range_0 [simp]: "\<not> in_range vma 0 a"
  by (auto simp: in_range_def)

lemma memset_tags_eval:
  "range_ok s vma n \<Longrightarrow> memset_tags vma t n s = Some (Ret (), tags_filled vma n t s)"
proof (induction n arbitrary: vma s)
  case 0
  then show ?case by (simp add: prog_simps tags_filled_def)
next
  case (Suc n)
  note r = range_ok_Suc [OF Suc.prems]
  note i = in_range_Suc [OF range_bound [OF Suc.prems]]
  have "write_tag vma t s = Some (Ret (), s\<lparr>TagSpace := (TagSpace s)(vma := t)\<rparr>)"
    using r by (simp add: write_tag_def prog_simps comp_def fun_upd_def)
  moreover have "memset_tags (vma + 1) t n (s\<lparr>TagSpace := (TagSpace s)(vma := t)\<rparr>)
      = Some (Ret (), tags_filled (vma + 1) n t (s\<lparr>TagSpace := (TagSpace s)(vma := t)\<rparr>))"
    using r by (intro Suc.IH) simp
  moreover have "tags_filled (vma + 1) n t (s\<lparr>TagSpace := (TagSpace s)(vma := t)\<rparr>) = tags_filled vma (Suc n) t s"
    using i by (intro vmem.equality) (auto simp: tags_filled_def fun_eq_iff)
  ultimately show ?case by (simp add: prog_simps)
qed

lemma write_data_eval: "accessible s vma \<Longrightarrow>
    write_data vma d s = Some (Ret (), s\<lparr>DataSpace := (DataSpace s)(vma := d)\<rparr>)"
  by (simp add: write_data_def prog_simps comp_def fun_upd_def)

lemma data_filled_Suc:
  assumes "unat vma + Suc n \<le> 2 ^ 32"
  shows "data_filled (vma + 1) n (d + inc) inc (s\<lparr>DataSpace := (DataSpace s)(vma := d)\<rparr>)
    = data_filled vma (Suc n) d inc s"
  using in_range_Suc [OF assms]
  by (intro vmem.equality) (auto simp: data_filled_def fun_eq_iff algebra_simps)

lemma memset_data_zero_eval:
  "range_ok s vma n \<Longrightarrow> memset_data_zero vma n s = Some (Ret (), data_filled vma n 0 0 s)"
proof (induction n arbitrary: vma s)
  case 0
  then show ?case by (simp add: prog_simps data_filled_def)
next
  case (Suc n)
  note r = range_ok_Suc [OF Suc.prems]
  have "memset_data_zero (vma + 1) n (s\<lparr>DataSpace := (DataSpace s)(vma := 0)\<rparr>)
      = Some (Ret (), data_filled (vma + 1) n 0 0 (s\<lparr>DataSpace := (DataSpace s)(vma := 0)\<rparr>))"
    using r by (intro Suc.IH) simp
  then show ?case
    using r data_filled_Suc [OF range_bound [OF Suc.prems], of 0 0 s] by (simp add: prog_simps write_data_eval)
qed

lemma data_filled_at: "data_filled vma n d inc (at_vma v s) = at_vma v (data_filled vma n d inc s)"
  by (intro vmem.equality) (simp_all add: data_filled_def at_vma_def fun_eq_iff)

lemma next_memory_vma_eval [prog_simps]:
  "next_memory_vma s = Some (Ret (), at_vma (memory_vma s + 1) s)"
  by (simp add: next_memory_vma_def prog_simps at_vma_def)

lemma at_vma_simps [simp]:
  "at_vma v (at_vma w s) = at_vma v s" "memory_vma (at_vma v s) = v" "at_vma (memory_vma s) s = s"
  by (simp_all add: at_vma_def)

lemma memory_vma_filled [simp]:
  "memory_vma (data_filled vma n d inc s) = memory_vma s" "memory_vma (tags_filled vma n t s) = memory_vma s"
  by (simp_all add: data_filled_def tags_filled_def)

lemma fill_data_loop_eval: "range_ok s vma n \<Longrightarrow> fill_data_loop vma d inc n s
    = Some (Ret (), at_vma (memory_vma s + of_nat n) (data_filled vma n d inc s))"
proof (induction n arbitrary: vma d s)
  case 0
  then show ?case by (simp add: prog_simps data_filled_def at_vma_def)
next
  case (Suc n)
  note r = range_ok_Suc [OF Suc.prems]
  let ?s = "s\<lparr>DataSpace := (DataSpace s)(vma := d)\<rparr>"
  have "fill_data_loop (vma + 1) (d + inc) inc n (at_vma (memory_vma s + 1) ?s)
      = Some (Ret (), at_vma (memory_vma s + 1 + of_nat n)
          (data_filled (vma + 1) n (d + inc) inc (at_vma (memory_vma s + 1) ?s)))"
    using r by (subst Suc.IH) simp_all
  then show ?case
    using r data_filled_Suc [OF range_bound [OF Suc.prems], of d inc s]
    by (simp add: prog_simps write_data_eval data_filled_at add.assoc)
qed

subsection \<open>Searching\<close>

definition same_object :: "'a vmem_scheme \<Rightarrow> LispObj \<Rightarrow> u64 \<Rightarrow> bool" where
  "same_object s obj vma \<longleftrightarrow> TagSpace s vma = ucast (TAG obj) \<and> DataSpace s vma = ucast (DATA obj)"

lemma memchr_tags_eval:
  "range_ok s vma n \<Longrightarrow>
     (memchr_tags vma t n s = Some (Ret None, s) \<and> (\<forall>i<n. TagSpace s (vma + of_nat i) \<noteq> t)) \<or>
     (\<exists>i<n. memchr_tags vma t n s = Some (Ret (Some (vma + of_nat i, n - Suc i)), s)
        \<and> TagSpace s (vma + of_nat i) = t \<and> (\<forall>j<i. TagSpace s (vma + of_nat j) \<noteq> t))"
proof (induction n arbitrary: vma)
  case 0
  then show ?case by (simp add: prog_simps)
next
  case (Suc n)
  note r = range_ok_Suc [OF Suc.prems]
  show ?case
  proof (cases "TagSpace s vma = t")
    case True
    then show ?thesis using r by (intro disjI2 exI [of _ 0]) (simp add: prog_simps)
  next
    case False
    then have step: "memchr_tags vma t (Suc n) s = memchr_tags (vma + 1) t n s"
      using r by (simp add: prog_simps)
    have shift: "vma + 1 + of_nat i = vma + of_nat (Suc i)" for i by simp
    have all: "\<forall>j<Suc i. TagSpace s (vma + of_nat j) \<noteq> t"
      if "\<forall>j<i. TagSpace s (vma + of_nat (Suc j)) \<noteq> t" for i
      using that False by (auto simp: less_Suc_eq_0_disj simp del: of_nat_Suc)
    from Suc.IH [of "vma + 1", unfolded shift] r
    consider "memchr_tags (vma + 1) t n s = Some (Ret None, s)"
        "\<forall>i<n. TagSpace s (vma + of_nat (Suc i)) \<noteq> t"
      | i where "i < n" "memchr_tags (vma + 1) t n s = Some (Ret (Some (vma + of_nat (Suc i), n - Suc i)), s)"
        "TagSpace s (vma + of_nat (Suc i)) = t" "\<forall>j<i. TagSpace s (vma + of_nat (Suc j)) \<noteq> t"
      by blast
    then show ?thesis
    proof cases
      case 1
      then show ?thesis using all [of n] unfolding step by simp
    next
      case (2 i)
      then show ?thesis using all [of i] unfolding step
        by (intro disjI2 exI [of _ "Suc i"]) (simp del: of_nat_Suc)
    qed
  qed
qed

lemma range_ok_add:
  assumes "range_ok s vma n" "i \<le> n"
  shows "range_ok s (vma + of_nat i) (n - i)"
proof -
  have "unat (vma + of_nat i) = unat vma + i"
    using assms by (simp add: range_ok_def unat_word_ariths unat_of_nat)
  moreover have "accessible s (vma + of_nat i + of_nat j)" if "j < n - i" for j
    using assms that by (auto simp: range_ok_def add.assoc simp flip: of_nat_add)
  ultimately show ?thesis using assms by (simp add: range_ok_def)
qed

text \<open>The result of a search of \<open>n\<close> words: the address of the first word that is the object.\<close>

definition first_found :: "'a vmem_scheme \<Rightarrow> LispObj \<Rightarrow> u64 \<Rightarrow> nat \<Rightarrow> u64 option \<Rightarrow> bool" where
  "first_found s obj vma n r \<longleftrightarrow> (case r of
     None \<Rightarrow> \<forall>i<n. \<not> same_object s obj (vma + of_nat i)
   | Some a \<Rightarrow> \<exists>i<n. a = vma + of_nat i \<and> same_object s obj a
       \<and> (\<forall>j<i. \<not> same_object s obj (vma + of_nat j)))"

lemma first_found_skip:
  assumes "k \<le> n" "\<forall>j<k. \<not> same_object s obj (vma + of_nat j)"
    "first_found s obj (vma + of_nat k) (n - k) r"
  shows "first_found s obj vma n r"
proof -
  have shift: "vma + of_nat k + of_nat i = vma + of_nat (k + i)" for i by simp
  have split: "same_object s obj (vma + of_nat j) \<Longrightarrow> k \<le> j \<and> same_object s obj (vma + of_nat (k + (j - k)))" for j
    using assms(2) by (cases "k \<le> j") auto
  show ?thesis
  proof (cases r)
    case None
    then have "\<not> same_object s obj (vma + of_nat (k + i))" if "i < n - k" for i
      using assms(3) that unfolding first_found_def shift by simp
    moreover have "j - k < n - k" if "j < n" "k \<le> j" for j using that by simp
    ultimately show ?thesis using None split unfolding first_found_def by (simp, blast)
  next
    case (Some a)
    then obtain i where i: "i < n - k" "a = vma + of_nat (k + i)" "same_object s obj a"
      "\<forall>j<i. \<not> same_object s obj (vma + of_nat (k + j))"
      using assms(3) unfolding first_found_def shift by (auto simp del: of_nat_add)
    have "\<not> same_object s obj (vma + of_nat j)" if "j < k + i" for j
    proof
      assume "same_object s obj (vma + of_nat j)"
      then have "k \<le> j" "same_object s obj (vma + of_nat (k + (j - k)))" using split by blast+
      moreover have "j - k < i" using that \<open>k \<le> j\<close> by simp
      ultimately show False using i(4) by blast
    qed
    then show ?thesis using i Some assms(1) unfolding first_found_def
      by (auto simp del: of_nat_add intro!: exI [of _ "k + i"])
  qed
qed

lemma at_vma_spaces [simp]:
  "DataSpace (at_vma v s) = DataSpace s" "TagSpace (at_vma v s) = TagSpace s"
  "mapped (at_vma v s) = mapped s"
  by (simp_all add: at_vma_def)

lemma same_object_at [simp]: "same_object (at_vma v s) = same_object s"
  by (simp add: same_object_def fun_eq_iff)

lemma first_found_at [simp]: "first_found (at_vma v s) = first_found s"
  by (auto simp: first_found_def fun_eq_iff split: option.split)

lemma search_loop_eval:
  "range_ok s vma n \<Longrightarrow> \<exists>v r. search_loop (ucast (TAG obj)) (ucast (DATA obj)) vma n s
     = Some (Ret r, at_vma v s) \<and> first_found s obj vma n r"
proof (induction n arbitrary: vma s rule: less_induct)
  case (less n)
  let ?t = "ucast (TAG obj) :: u8" and ?d = "ucast (DATA obj) :: u64"
  show ?case
  proof (cases "n = 0")
    case True
    then show ?thesis
      by (intro exI [of _ "memory_vma s"] exI [of _ None])
        (simp add: search_loop.simps [of _ _ _ 0] prog_simps first_found_def)
  next
    case False
    from memchr_tags_eval [OF less.prems, of ?t] show ?thesis
    proof (elim disjE exE conjE)
      assume "memchr_tags vma ?t n s = Some (Ret None, s)" "\<forall>i<n. TagSpace s (vma + of_nat i) \<noteq> ?t"
      then show ?thesis using False
        by (intro exI [of _ "memory_vma s"] exI [of _ None])
          (simp add: search_loop.simps [of _ _ _ n] prog_simps first_found_def same_object_def)
    next
      fix i
      let ?a = "vma + of_nat i"
      assume i: "i < n" "memchr_tags vma ?t n s = Some (Ret (Some (?a, n - Suc i)), s)"
        "TagSpace s ?a = ?t" "\<forall>j<i. TagSpace s (vma + of_nat j) \<noteq> ?t"
      have acc: "accessible s ?a" using less.prems i(1) by (simp add: range_ok_def)
      have none: "\<forall>j<i. \<not> same_object s obj (vma + of_nat j)" using i(4) by (simp add: same_object_def)
      have step: "search_loop ?t ?d vma n s = (if DataSpace s ?a = ?d then Some (Ret (Some ?a), at_vma ?a s)
          else search_loop ?t ?d (?a + 1) (n - Suc i) (at_vma ?a s))"
        using False i(2) acc by (simp add: search_loop.simps [of _ _ _ n] prog_simps)
      show ?thesis
      proof (cases "DataSpace s ?a = ?d")
        case True
        then have "first_found s obj vma n (Some ?a)"
          using i none by (auto simp: first_found_def same_object_def)
        then show ?thesis using True unfolding step by auto
      next
        case False
        have a1: "?a + 1 = vma + of_nat (Suc i)" by simp
        have none': "\<forall>j<Suc i. \<not> same_object s obj (vma + of_nat j)"
          using none False by (auto simp: less_Suc_eq same_object_def)
        have "range_ok (at_vma ?a s) (?a + 1) (n - Suc i)"
          using range_ok_add [OF less.prems, of "Suc i"] i(1) unfolding a1 by simp
        from less.IH [OF _ this] i(1) obtain v r where
          "search_loop ?t ?d (?a + 1) (n - Suc i) (at_vma ?a s) = Some (Ret r, at_vma v s)"
          "first_found s obj (vma + of_nat (Suc i)) (n - Suc i) r" unfolding a1 by auto
        then show ?thesis using first_found_skip [OF _ none'] i(1) False unfolding step
          by (intro exI [of _ v] exI [of _ r]) simp
      qed
    qed
  qed
qed

subsection \<open>Properties\<close>

text \<open>The sample with one page: it can be accessed all over.\<close>

lemma with_page_range: "n \<le> 8192 \<Longrightarrow> range_ok (with_page 1 s) 0x2000 n"
proof -
  assume n: "n \<le> 8192"
  have "accessible (with_page 1 s) (0x2000 + of_nat i)" if "i < n" for i
  proof -
    have u: "unat (0x2000 + of_nat i :: u64) = 8192 + i"
      using that n by (simp add: unat_word_ariths unat_of_nat)
    then have "MemoryPageNumber (0x2000 + of_nat i) = 1"
      using that n by (simp add: page_number_eq page_of_def)
    then show ?thesis using u that n by (simp add: accessible_def word_less_nat_alt)
  qed
  then show ?thesis using n by (simp add: range_ok_def)
qed

text \<open>The whole state after a block write.\<close>

definition block_written :: "u64 \<Rightarrow> LispObj list \<Rightarrow> 'a vmem_scheme \<Rightarrow> 'a vmem_scheme" where
  "block_written vma objs s = s
     \<lparr>DataSpace := \<lambda>v. if in_range vma (length objs) v then ucast (DATA (objs ! (unat v - unat vma))) else DataSpace s v,
      TagSpace := \<lambda>v. if in_range vma (length objs) v then ucast (TAG (objs ! (unat v - unat vma))) else TagSpace s v,
      memory_vma := memory_vma s + of_nat (length objs)\<rparr>"

lemma block_written_accessible [simp]: "accessible (block_written vma objs s) v = accessible s v"
  by (simp add: accessible_def block_written_def)

lemma put_objects_written:
  "unat vma + length objs \<le> 2 ^ 32 \<Longrightarrow> put_objects vma objs s = block_written vma objs s"
proof (induction objs arbitrary: vma s)
  case Nil
  then show ?case by (simp add: block_written_def)
next
  case (Cons obj objs)
  let ?s = "at_vma (memory_vma s + 1) (vm_put vma obj s)"
  have v1: "unat (vma + 1) = unat vma + 1" using Cons.prems by (simp add: unat_word_ariths)
  have eq: "v = vma \<longleftrightarrow> unat v = unat vma" for v by (simp add: word_unat_eq_iff)
  have ix: "unat v - unat vma = Suc (unat v - unat (vma + 1))" if "unat vma < unat v" for v
    using that v1 by simp
  have "put_objects (vma + 1) objs ?s = block_written (vma + 1) objs ?s" using Cons.prems v1 by (intro Cons.IH) simp
  also have "\<dots> = block_written vma (obj # objs) s"
    using v1 ix
    by (intro vmem.equality) (auto simp: block_written_def at_vma_def vm_put_def in_range_def fun_eq_iff eq)
  finally show ?case by simp
qed

text \<open>Claim C10: a block write to pages that are mapped stores the objects at
  successive addresses, the tags cut to a byte, and leaves the rest of the state as it was: every other word of the two
  spaces, the pages, their attributes and the registers, but for the address of the current access, which
  ends behind the block. Each object of the block is then what \<open>VirtualMemoryRead\<close> returns at its address.\<close>

theorem VirtualMemoryWriteBlock_effect:
  assumes "range_ok s vma (length objs)"
  shows "\<exists>s'. VirtualMemoryWriteBlock vma objs s = Some (Ret (), s')
    \<and> s' = block_written vma objs (s\<lparr>memory_vma := vma\<rparr>)
    \<and> (\<forall>v. space_object s' v = (if in_range vma (length objs) v
         then kept_object (objs ! (unat v - unat vma)) else space_object s v))
    \<and> (\<forall>v. accessible s v \<longrightarrow>
         VirtualMemoryRead v s' = Some (Ret (space_object s' v), at_vma v s'))"
  using VirtualMemoryWriteBlock_eval [OF assms] space_put_objects [OF range_bound [OF assms], of "at_vma vma s"]
    put_objects_written [OF range_bound [OF assms], of "at_vma vma s"]
  by (simp add: prog_simps flip: at_vma_def)

theorem VirtualMemoryWriteBlock_effect_witness:
  "\<exists>s'. VirtualMemoryWriteBlock 0x2000 [mkobj 8 1, mkobj 0x108 2] (with_page 1 blank) = Some (Ret (), s')
     \<and> space_object s' 0x2001 = mkobj 8 2 \<and> space_object s' 0x2002 = mkobj 0 0"
proof -
  let ?objs = "[mkobj 8 1, mkobj 0x108 2]"
  have "length ?objs \<le> 8192" by simp
  from VirtualMemoryWriteBlock_effect [OF with_page_range [OF this], of blank] obtain s' where
    s': "VirtualMemoryWriteBlock 0x2000 ?objs (with_page 1 blank) = Some (Ret (), s')"
    "\<And>v. space_object s' v = (if in_range 0x2000 (length ?objs) v
       then kept_object (?objs ! (unat v - unat (0x2000 :: u64))) else space_object (with_page 1 blank) v)"
    by blast
  have "space_object s' 0x2001 = mkobj 8 2" "space_object s' 0x2002 = mkobj 0 0"
    unfolding s'(2) by (simp_all add: in_range_def kept_object_def space_object_def)
  then show ?thesis using s'(1) by blast
qed

text \<open>Claim C11: a fill with a constant or an arithmetic progression sets
  the tag of every word of the range and makes its data the object's data plus the index times the
  sign-extended increment, modulo 2 to the 64th.\<close>

theorem VirtualMemoryWriteBlockConstant_fills:
  assumes "0 \<le> sint count" "range_ok s vma (nat (sint count))"
  shows "\<exists>v. VirtualMemoryWriteBlockConstant vma obj count increment s = Some (Ret (),
    at_vma v (data_filled vma (nat (sint count)) (ucast (DATA obj)) (scast increment)
      (tags_filled vma (nat (sint count)) (ucast (TAG obj)) s)))"
proof -
  let ?n = "nat (sint count)"
  let ?s = "tags_filled vma ?n (ucast (TAG obj)) (at_vma vma s)"
  have t: "memset_tags vma (ucast (TAG obj)) ?n (at_vma vma s) = Some (Ret (), ?s)"
    using assms by (simp add: memset_tags_eval)
  have at: "?s = at_vma vma (tags_filled vma ?n (ucast (TAG obj)) s)"
    by (intro vmem.equality) (simp_all add: tags_filled_def at_vma_def fun_eq_iff)
  have "VirtualMemoryWriteBlockConstant vma obj count increment s
      = (if increment = 0 \<and> (ucast (DATA obj) :: u64) = 0 then memset_data_zero vma ?n ?s
         else fill_data_loop vma (ucast (DATA obj)) (scast increment) ?n ?s)"
    using assms(1) t by (simp add: VirtualMemoryWriteBlockConstant_def prog_simps Let_def)
  then show ?thesis
    using assms(2) memset_data_zero_eval [of ?s vma ?n]
      fill_data_loop_eval [of ?s vma ?n "ucast (DATA obj)" "scast increment"]
    by (auto simp: at data_filled_at)
qed

theorem VirtualMemoryWriteBlockConstant_fills_witness:
  "\<exists>s'. VirtualMemoryWriteBlockConstant 0x2000 (mkobj 8 5) 3 (- 1) (with_page 1 blank) = Some (Ret (), s')
     \<and> DataSpace s' 0x2002 = 3 \<and> TagSpace s' 0x2002 = 8 \<and> DataSpace s' 0x2003 = 0"
  using VirtualMemoryWriteBlockConstant_fills [of 3 "with_page 1 blank" "0x2000" "mkobj 8 5" "- 1"]
    with_page_range [of 3 blank]
  by (auto simp: data_filled_def tags_filled_def in_range_def)

text \<open>Claim C12: a search over mapped pages returns, reports the address of the first
  word with the object's tag and data, or none when no word of the range has them, and changes
  nothing but the address used for faults.\<close>

theorem VirtualMemorySearch_first:
  assumes "range_ok s vma (nat (sint count))"
  shows "\<exists>v r. VirtualMemorySearch vma obj count s = Some (Ret r, at_vma v s)
    \<and> first_found s obj vma (nat (sint count)) r"
  using search_loop_eval [OF assms] by (simp add: VirtualMemorySearch_def)

theorem VirtualMemorySearch_first_witness:
  "\<exists>v s'. VirtualMemorySearch 0x2000 (mkobj 8 7) 16
       (vm_put 0x2005 (mkobj 8 7) (vm_put 0x2003 (mkobj 8 7) (with_page 1 blank)))
     = Some (Ret (Some 0x2003), at_vma v s')"
proof -
  let ?s = "vm_put 0x2005 (mkobj 8 7) (vm_put 0x2003 (mkobj 8 7) (with_page 1 blank))"
  have r: "range_ok ?s 0x2000 (nat (sint (16 :: u32)))" using with_page_range [of 16 blank] by simp
  have o: "same_object ?s (mkobj 8 7) v \<longleftrightarrow> v = 0x2003 \<or> v = 0x2005" for v
    by (simp add: same_object_def vm_put_def)
  have "r = Some 0x2003" if ff: "first_found ?s (mkobj 8 7) 0x2000 16 r" for r
  proof (cases r)
    case None
    then show ?thesis using ff o by (auto simp: first_found_def dest: spec [of _ 3])
  next
    case (Some a)
    then obtain i where i: "i < 16" "a = 0x2000 + of_nat i" "a = 0x2003 \<or> a = 0x2005"
      "\<forall>j<i. 0x2000 + of_nat j \<noteq> (0x2003 :: u64)"
      using ff unfolding first_found_def o Some option.case by blast
    have "a \<noteq> 0x2005"
    proof
      assume "a = 0x2005"
      then have "unat (of_nat i :: u64) = 5" using i(2) by simp
      then have "3 < i" using i(1) by (simp add: unat_of_nat)
      then show False using i(4) by (auto dest: spec [of _ 3])
    qed
    then show ?thesis using Some i(3) by simp
  qed
  then show ?thesis using VirtualMemorySearch_first [OF r, of "mkobj 8 7"] by auto
qed

end
