(* ===== verification/StackInstructions.thy ===== *)
theory StackInstructions
  imports ArithmeticInstructions
begin

text \<open>
  The data movement instructions and the byte field instructions of \<open>InstructionSequencer\<close>.
\<close>

unbundle bit_operations_syntax

subsection \<open>Data movement\<close>

definition DispatchPush :: "operand_mode \<Rightarrow> exec" where
  "DispatchPush mode =
     (if mode = ModeImmediate then bnd (gets cp_operand) (\<lambda>i. and_next (PushFixnum i))
      else if mode = ModePop then jump NextInstruction
      else with_operand stack_modes mode (bnd op2_obj (\<lambda>b. and_next (PushObject b))))"

definition DispatchPop :: "operand_mode \<Rightarrow> exec" where
  "DispatchPop mode = with_operand stack_modes mode
     (bnd (gets op2) (\<lambda>p. and_next (PopObject p)))"

definition DispatchMovem :: "operand_mode \<Rightarrow> exec" where
  "DispatchMovem mode =
     (if mode = ModePop then jump NextInstruction
      else with_operand stack_modes mode (bnd (gets op2) (\<lambda>p. and_next (MoveObject p))))"

fun push_nils :: "nat \<Rightarrow> unit action" where
  "push_nils 0 = ret ()"
| "push_nils (Suc n) = thn PushNIL (push_nils n)"

text \<open>The loop counts a negative number down for ever and leaves the stack cache.\<close>

definition PushNNilsInternal :: "u32 \<Rightarrow> exec" where
  "PushNNilsInternal i = thn (defined (0 \<le> sint i)) (and_next (push_nils (unat i)))"

definition DispatchPushNNils :: exec where
  "DispatchPushNNils = bnd (gets cp_operand) PushNNilsInternal"

definition DispatchPushAddress :: "operand_mode \<Rightarrow> exec" where
  "DispatchPushAddress mode = with_operand stack_modes mode
     (bnd (gets (\<lambda>s. ptr_vma s (op2 s))) (\<lambda>a. and_next (PushConstant TypeLocative a)))"

definition op2_index :: "int action" where
  "op2_index = gets (\<lambda>s. ptr_index s (op2 s))"

definition DispatchSetSpToAddress :: "operand_mode \<Rightarrow> exec" where
  "DispatchSetSpToAddress mode = with_operand stack_modes mode
     (bnd op2_index (\<lambda>i. and_next (set_sp i)))"

definition DispatchSetSpToAddressSaveTos :: "operand_mode \<Rightarrow> exec" where
  "DispatchSetSpToAddressSaveTos mode = with_operand stack_modes mode
     (bnd tos (\<lambda>a. bnd op2_index (\<lambda>i. and_next (thn (set_op2_obj a) (set_sp i)))))"

definition DispatchPushAddressSpRelative :: "operand_mode \<Rightarrow> exec" where
  "DispatchPushAddressSpRelative mode =
     (if mode = ModeImmediate
      then bnd (gets (\<lambda>s. stack_vma s (sp s) - scast (cp_operand s) - 1))
             (\<lambda>a. and_next (PushConstant TypeLocative a))
      else with_operand source_modes mode (bnd op2_obj (\<lambda>b.
        if TypeFixnumP (TAG b)
        then bnd (gets (\<lambda>s. stack_vma s (restartsp s) - ucast (DATA b) - 1))
               (\<lambda>a. and_next (PushConstant TypeLocative a))
        else jump IllegalOperand)))"

text \<open>The slot of a stack address: \<open>&ps->StackCache[data - ps->StackCacheBase]\<close>.\<close>

definition slot_of_vma :: "machine \<Rightarrow> u32 \<Rightarrow> int" where
  "slot_of_vma s d = sint (ucast d - StackCacheBase s)"

fun copy_up :: "int \<Rightarrow> int \<Rightarrow> nat \<Rightarrow> unit action" where
  "copy_up to from 0 = ret ()"
| "copy_up to from (Suc n) =
     bnd (stack_at from) (\<lambda>obj. thn (set_stack to obj) (copy_up (to + 1) (from + 1) n))"

definition ExecuteStackBltAddress :: exec where
  "ExecuteStackBltAddress = bnd tos (\<lambda>a.
     if \<not> TypeEqualP (TAG a) TypeLocative then SpSpareExceptions
     else bnd op2_index (\<lambda>from. bnd (gets (\<lambda>s. (slot_of_vma s (DATA a), sp s, fp s)))
       (\<lambda>(to, top, frame).
         if from < to \<or> to < frame \<or> top \<le> from then jump IllegalOperand
         else thn (copy_up to from (nat (top - from)))
                (and_next (set_sp (to + (top - from) - 1))))))"

definition DispatchStackBltAddress :: "operand_mode \<Rightarrow> exec" where
  "DispatchStackBltAddress mode = with_operand source_modes mode ExecuteStackBltAddress"

definition DispatchStackBlt :: "operand_mode \<Rightarrow> exec" where
  "DispatchStackBlt mode = with_operand source_modes mode (bnd op2_obj (\<lambda>b.
     if \<not> TypeEqualP (TAG b) TypeLocative then Op2SpareExceptions
     else bnd (gets (\<lambda>s. slot_of_vma s (DATA b))) (\<lambda>i.
       thn (set_op2 (StackSlot i)) ExecuteStackBltAddress)))"

subsection \<open>Byte fields\<close>

text \<open>The position and the size less one of the field that the operand names, for loading and
  for depositing, and the mask of \<open>ss + 1\<close> bits.\<close>

definition load_pp :: "u32 \<Rightarrow> nat" where
  "load_pp i = unat ((32 - i) AND 0x1F)"

definition deposit_pp :: "u32 \<Rightarrow> nat" where
  "deposit_pp i = unat (i AND 0x1F)"

definition field_ss :: "u32 \<Rightarrow> nat" where
  "field_ss i = unat (signed_drop_bit 5 i AND 0x1F)"

definition field_mask :: "nat \<Rightarrow> u32" where
  "field_mask ss = NOT (push_bit ss (- 2))"

definition load_field :: "u32 \<Rightarrow> u32 \<Rightarrow> u32" where
  "load_field i x = signed_drop_bit (load_pp i) x AND field_mask (field_ss i)"

definition deposit_field :: "u32 \<Rightarrow> u32 \<Rightarrow> u32 \<Rightarrow> u32" where
  "deposit_field i newbyte x =
     (let m = push_bit (deposit_pp i) (field_mask (field_ss i)) in
      (x AND NOT m) OR (push_bit (deposit_pp i) newbyte AND m))"

definition DispatchLdb :: exec where
  "DispatchLdb = bnd tos (\<lambda>a.
     if TypeFixnumP (TAG a)
     then bnd (gets cp_operand) (\<lambda>i. and_next (SetFixnum (load_field i (DATA a))))
     else SpFixnumExceptions)"

definition DispatchCharLdb :: exec where
  "DispatchCharLdb = bnd tos (\<lambda>a.
     if TypeEqualP (TAG a) TypeCharacter
     then bnd (gets cp_operand) (\<lambda>i. and_next (SetFixnum (load_field i (DATA a))))
     else SpSpareExceptions)"

text \<open>The address is \<open>sp->DATA.s\<close> here, an \<open>int\<close> that is sign extended.\<close>

definition DispatchPLdb :: exec where
  "DispatchPLdb = bnd tos (\<lambda>a.
     if TypeEqualP (TAG a) TypePhysicalAddress then jump InstructionException
     else bnd (gets cp_operand) (\<lambda>i. bnd (ReadVirtualMemory (scast (DATA a))) (\<lambda>word.
       and_next (SetFixnum (load_field i (DATA word))))))"

definition DispatchPTagLdb :: exec where
  "DispatchPTagLdb = bnd tos (\<lambda>a.
     if TypeEqualP (TAG a) TypePhysicalAddress then jump InstructionException
     else bnd (gets cp_operand) (\<lambda>i. bnd (ReadVirtualMemory (ucast (DATA a))) (\<lambda>word.
       and_next (SetFixnum (drop_bit (load_pp i) (TAG word) AND field_mask (field_ss i))))))"

definition DispatchDpb :: exec where
  "DispatchDpb = bnd tos (\<lambda>a. bnd (sp_at (- 1)) (\<lambda>n.
     if BinaryTypeFixnumP (TAG a) (TAG n) then
       bnd (gets cp_operand) (\<lambda>i. thn (add_sp (- 1))
         (and_next (set_tos (n\<lparr>DATA := deposit_field i (DATA n) (DATA a)\<rparr>))))
     else jump (if BinaryTypeNumericP (TAG a) (TAG n) then InstructionException
                else IllegalOperand)))"

definition DispatchCharDpb :: exec where
  "DispatchCharDpb = bnd (sp_at (- 1)) (\<lambda>n.
     if \<not> TypeFixnumP (TAG n) then jump IllegalOperand
     else bnd tos (\<lambda>a.
       if TypeEqualP (TAG a) TypeCharacter then
         bnd (gets cp_operand) (\<lambda>i. thn (add_sp (- 1))
           (and_next (set_tos (mkobj TypeCharacter (deposit_field i (DATA n) (DATA a))))))
       else SpSpareExceptions))"

definition memory_deposit :: "(u32 \<Rightarrow> u32 \<Rightarrow> LispObj \<Rightarrow> LispObj) \<Rightarrow> exec" where
  "memory_deposit f = bnd (sp_at (- 1)) (\<lambda>n.
     if \<not> TypeFixnumP (TAG n) then jump IllegalOperand
     else bnd tos (\<lambda>a.
       if TypeEqualP (TAG a) TypePhysicalAddress then jump InstructionException
       else bnd (gets cp_operand) (\<lambda>i. thn (add_sp (- 2))
         (bnd (ReadVirtualMemory (ucast (DATA a))) (\<lambda>word.
            thn (set_scratch (f i (DATA n) word))
           (and_next (WriteVirtualMemory (ucast (DATA a)) (f i (DATA n) word))))))))"

definition DispatchPDpb :: exec where
  "DispatchPDpb = memory_deposit (\<lambda>i n word. word\<lparr>DATA := deposit_field i n (DATA word)\<rparr>)"

definition DispatchPTagDpb :: exec where
  "DispatchPTagDpb = memory_deposit (\<lambda>i n word. word\<lparr>TAG := deposit_field i n (TAG word)\<rparr>)"

definition DispatchField :: "field_op \<Rightarrow> exec" where
  "DispatchField i = (case i of
     OpLdb \<Rightarrow> DispatchLdb | OpCharLdb \<Rightarrow> DispatchCharLdb | OpPLdb \<Rightarrow> DispatchPLdb
   | OpPTagLdb \<Rightarrow> DispatchPTagLdb | OpDpb \<Rightarrow> DispatchDpb | OpCharDpb \<Rightarrow> DispatchCharDpb
   | OpPDpb \<Rightarrow> DispatchPDpb | OpPTagDpb \<Rightarrow> DispatchPTagDpb)"

end
