(* ===== verification/ArrayInstructions.thy ===== *)
theory ArrayInstructions
  imports StackInstructions
begin

text \<open>
  Arrays: the element accessors \<open>Aref1Internal\<close> and \<open>Aset1Internal\<close>, array registers, and the
  array instructions of \<open>InstructionSequencer\<close>. An element packing of 0 has whole words;
  the field macros are undefined for it and for packings above 5 (the shifts reach the width
  of \<open>int\<close> or become negative).
\<close>

unbundle bit_operations_syntax

subsection \<open>Elements\<close>

definition packing_ok :: "nat \<Rightarrow> bool" where
  "packing_ok packing \<longleftrightarrow> 0 < packing \<and> packing \<le> 5"

definition element_vma :: "u64 \<Rightarrow> u32 \<Rightarrow> nat \<Rightarrow> u64" where
  "element_vma vma index packing = vma + scast (signed_drop_bit packing index)"

definition element_ldb :: "nat \<Rightarrow> u32 \<Rightarrow> u32 \<Rightarrow> u32 action" where
  "element_ldb packing index w =
     (if packing = 0 then ret w
      else thn (defined (packing_ok packing)) (ret (ArrayElementLdb packing index w)))"

definition element_dpb :: "u32 \<Rightarrow> nat \<Rightarrow> u32 \<Rightarrow> u32 \<Rightarrow> u32 action" where
  "element_dpb data packing index w =
     (if packing = 0 then ret data
      else thn (defined (packing_ok packing)) (ret (ArrayElementDpb data packing index w)))"

definition set_element_result :: "ptr \<Rightarrow> u32 \<Rightarrow> u64 \<Rightarrow> u32 \<Rightarrow> unit action" where
  "set_element_result result ty vma d =
     (if ty = ArrayElementTypeFixnum then write_ptr result (mkobj TypeFixnum d)
      else if ty = ArrayElementTypeCharacter then write_ptr result (mkobj TypeCharacter d)
      else if ty = ArrayElementTypeBoolean
        then write_ptr result (if d \<noteq> 0 then ObjectT else ObjectNIL)
      else if ty = ArrayElementTypeObject then TakeMemoryTrap ErrorTrapVector (vma - 1)
      else ret ())"

definition Aref1Internal :: "u64 \<Rightarrow> nat \<Rightarrow> u32 \<Rightarrow> u32 \<Rightarrow> u32 \<Rightarrow> ptr \<Rightarrow> unit action" where
  "Aref1Internal vma packing offset ty index result =
     (if ty = ArrayElementTypeObject \<and> packing = 0 then
        bnd (MemoryReadData (vma + scast index) Auto) (\<lambda>x. write_ptr result (cdr_next (snd x)))
      else
        (let i = index + offset in
         bnd (MemoryReadData (element_vma vma i packing) Auto) (\<lambda>x.
           if \<not> TypeFixnumP (TAG (snd x))
           then TakeMemoryTrap ErrorTrapVector (element_vma vma i packing)
           else bnd (element_ldb packing i (DATA (snd x))) (set_element_result result ty vma))))"

text \<open>The check of the new value: the data word to deposit. \<open>value\<close> is a pointer.\<close>

definition aset_data :: "u64 \<Rightarrow> nat \<Rightarrow> u32 \<Rightarrow> ptr \<Rightarrow> u32 action" where
  "aset_data vma packing ty value = bnd (read_ptr value) (\<lambda>v.
     if ty = ArrayElementTypeFixnum then
       (if TypeFixnumP (TAG v) then ret (DATA v) else TakeIllegalOperandTrap 0 value)
     else if ty = ArrayElementTypeCharacter then
       (if \<not> TypeEqualP (TAG v) TypeCharacter then TakeIllegalOperandTrap 0 value
        else thn (defined (packing_ok packing))
          (if ArrayElementLdb packing 0 (DATA v) \<noteq> DATA v then TakeIllegalOperandTrap 0 value
           else ret (DATA v)))
     else if ty = ArrayElementTypeBoolean then
       ret (if TypeEqualP (TAG v) TypeNIL then 0 else - 1)
     else if ty = ArrayElementTypeObject then TakeMemoryTrap ErrorTrapVector (vma - 1)
     else ret (DATA v))"

definition Aset1Internal :: "u64 \<Rightarrow> nat \<Rightarrow> u32 \<Rightarrow> u32 \<Rightarrow> u32 \<Rightarrow> ptr \<Rightarrow> unit action" where
  "Aset1Internal vma packing offset ty index value =
     (if ty = ArrayElementTypeObject \<and> packing = 0 then
        bnd (read_ptr value) (\<lambda>v. StoreContents (vma + scast index) v CycleDataWrite)
      else
        bnd (aset_data vma packing ty value) (\<lambda>data.
          (let i = index + offset in
           bnd (MemoryReadData (element_vma vma i packing) Auto) (\<lambda>x.
             if \<not> TypeFixnumP (TAG (snd x)) then TakeMemoryTrap ErrorTrapVector (fst x)
             else bnd (element_dpb data packing i (DATA (snd x))) (\<lambda>d.
               WriteVirtualMemory (fst x) ((snd x)\<lparr>DATA := d\<rparr>))))))"

subsection \<open>Array registers\<close>

definition set_stack_data :: "int \<Rightarrow> u32 \<Rightarrow> unit action" where
  "set_stack_data i d = bnd (stack_at i) (\<lambda>obj. set_stack i (obj\<lparr>DATA := d\<rparr>))"

text \<open>The register's array is the word below \<open>areg\<close>; \<open>areg\<close> is the index of the control word.\<close>

definition RecomputeArrayRegister :: "int \<Rightarrow> u32 \<Rightarrow> unit action" where
  "RecomputeArrayRegister areg count = bnd (stack_at (areg - 1)) (\<lambda>a.
     if TagType (TAG a) = TypeArray \<or> TagType (TAG a) = TypeString then
       bnd (MemoryReadHeader (ucast (DATA a)) Auto) (\<lambda>x.
         if TAG (snd x) \<noteq> ArrayHeaderTag then TakeIllegalOperandTrap 0 (StackSlot areg)
         else if ArrayLongPrefixP (DATA (snd x)) then TakeInstructionExceptionTrap
         else thn (set_stack_data areg (SetArrayRegisterEventCount count (DATA (snd x))))
             (thn (set_stack_data (areg + 1) (ucast (fst x + 1)))
                  (set_stack_data (areg + 2) (ArrayShortLength (DATA (snd x))))))
     else if TagType (TAG a) = TypeArrayInstance \<or> TagType (TAG a) = TypeStringInstance
       then TakeInstructionExceptionTrap
     else if TypeSpareP (TAG a) then TakeInstructionExceptionTrap
     else TakeIllegalOperandTrap 0 (StackSlot areg))"

subsection \<open>General access\<close>

text \<open>The common start of \<open>aref-1\<close>, \<open>aset-1\<close> and \<open>aloc-1\<close>: a fixnum index, an array, a short
  header and an index within its length; \<open>f vma header index\<close> goes on.\<close>

definition array_access :: "operand_mode \<Rightarrow> (u64 \<Rightarrow> u32 \<Rightarrow> u32 \<Rightarrow> exec) \<Rightarrow> exec" where
  "array_access mode f = with_operand all_modes mode (bnd op2_obj (\<lambda>b.
     if \<not> TypeFixnumP (TAG b) then jump IllegalOperand
     else bnd tos (\<lambda>a.
       if TypeArrayP (TAG a) then
         bnd (MemoryReadHeader (ucast (DATA a)) Auto) (\<lambda>x.
           if TAG (snd x) \<noteq> ArrayHeaderTag then jump IllegalOperand
           else if ArrayLongPrefixP (DATA (snd x)) then jump InstructionException
           else if ArrayShortLength (DATA (snd x)) \<le> DATA b then jump IllegalOperand
           else f (fst x) (DATA (snd x)) (DATA b))
       else SpArrayExceptions)))"

definition DispatchAref1 :: "operand_mode \<Rightarrow> exec" where
  "DispatchAref1 mode = array_access mode (\<lambda>vma header index. bnd (gets sp) (\<lambda>i.
     and_next (Aref1Internal (vma + 1) (ArrayBytePacking header) 0 (ArrayElementType header)
       index (StackSlot i))))"

definition DispatchAset1 :: "operand_mode \<Rightarrow> exec" where
  "DispatchAset1 mode = array_access mode (\<lambda>vma header index. bnd (gets sp) (\<lambda>i.
     thn (Aset1Internal (vma + 1) (ArrayBytePacking header) 0 (ArrayElementType header)
            index (StackSlot (i - 1)))
       (and_next (add_sp (- 2)))))"

definition DispatchAloc1 :: "operand_mode \<Rightarrow> exec" where
  "DispatchAloc1 mode = array_access mode (\<lambda>vma header index.
     if ArrayElementType header \<noteq> ArrayElementTypeObject then jump IllegalOperand
     else and_next (SetConstant TypeLocative (vma + 1 + ucast index)))"

definition ExecuteSetup1dArray :: exec where
  "ExecuteSetup1dArray = bnd op2_obj (\<lambda>b.
     if TypeArrayP (TAG b) then
       bnd (MemoryReadHeader (ucast (DATA b)) Auto) (\<lambda>x.
         if TAG (snd x) \<noteq> ArrayHeaderTag then jump IllegalOperand
         else if ArrayLongPrefixP (DATA (snd x)) then jump InstructionException
         else bnd op2_obj (\<lambda>b'. bnd (gets ArrayEventCount) (\<lambda>count.
           thn (PushConstant (TagType (TAG b')) (fst x))
          (thn (PushFixnum (SetArrayRegisterEventCount (ucast count) (DATA (snd x))))
          (thn (PushConstant TypeLocative (fst x + 1))
               (and_next (PushFixnum (ArrayShortLength (DATA (snd x))))))))))
     else Op2ArrayExceptions)"

definition DispatchSetup1dArray :: "operand_mode \<Rightarrow> exec" where
  "DispatchSetup1dArray mode = with_operand source_modes mode ExecuteSetup1dArray"

definition DispatchSetupForce1dArray :: "operand_mode \<Rightarrow> exec" where
  "DispatchSetupForce1dArray mode = with_operand source_modes mode ExecuteSetup1dArray"

subsection \<open>Access through array registers\<close>

text \<open>
  When the event count in the register is not the processor's the register is recomputed and
  the instruction starts again; with an event count of more than 22 bits that never ends.
\<close>

partial_function (option) array_register_access ::
  "(u32 \<Rightarrow> u64 \<Rightarrow> u32 \<Rightarrow> exec) \<Rightarrow> exec" where
  "array_register_access f s =
     bnd tos (\<lambda>a.
       if \<not> TypeFixnumP (TAG a) then jump IllegalOperand
       else bnd op2_index (\<lambda>areg.
         bnd (stack_at areg) (\<lambda>c. bnd (stack_at (areg + 1)) (\<lambda>v. bnd (stack_at (areg + 2)) (\<lambda>l.
         bnd (gets ArrayEventCount) (\<lambda>count.
           if DATA l \<le> DATA a then jump IllegalOperand
           else if ucast (ArrayRegisterEventCount (DATA c)) \<noteq> count
             then bnd (RecomputeArrayRegister areg (ucast count)) (\<lambda>_. array_register_access f)
           else f (DATA c) (ucast (DATA v)) (DATA a))))))) s"

definition DispatchFastAref1 :: "operand_mode \<Rightarrow> exec" where
  "DispatchFastAref1 mode = with_operand stack_modes mode (array_register_access
     (\<lambda>c vma index. bnd (gets sp) (\<lambda>i.
        and_next (Aref1Internal vma (ArrayBytePacking c) (ArrayRegisterByteOffset c)
          (ArrayElementType c) index (StackSlot i)))))"

definition DispatchFastAset1 :: "operand_mode \<Rightarrow> exec" where
  "DispatchFastAset1 mode = with_operand stack_modes mode (array_register_access
     (\<lambda>c vma index. bnd (gets sp) (\<lambda>i.
        thn (Aset1Internal vma (ArrayBytePacking c) (ArrayRegisterByteOffset c)
               (ArrayElementType c) index (StackSlot (i - 1)))
          (and_next (add_sp (- 2))))))"

subsection \<open>Leaders\<close>

definition leader_access :: "operand_mode \<Rightarrow> (u64 \<Rightarrow> exec) \<Rightarrow> exec" where
  "leader_access mode f = with_operand all_modes mode (bnd op2_obj (\<lambda>b.
     if \<not> TypeFixnumP (TAG b) then jump IllegalOperand
     else bnd tos (\<lambda>a.
       if TypeArrayP (TAG a) then
         bnd (MemoryReadHeader (ucast (DATA a)) Auto) (\<lambda>x.
           if TAG (snd x) \<noteq> ArrayHeaderTag \<or> ArrayLeaderLength (DATA (snd x)) \<le> DATA b
           then jump IllegalOperand
           else f (fst x - ucast (1 + DATA b)))
       else SpArrayExceptions)))"

definition DispatchArrayLeader :: "operand_mode \<Rightarrow> exec" where
  "DispatchArrayLeader mode = leader_access mode (\<lambda>vma.
     bnd (MemoryReadData vma Auto) (\<lambda>q. and_next (SetObject (snd q))))"

definition DispatchStoreArrayLeader :: "operand_mode \<Rightarrow> exec" where
  "DispatchStoreArrayLeader mode = leader_access mode (\<lambda>vma.
     bnd (sp_at (- 1)) (\<lambda>v. thn (StoreContents vma v CycleDataWrite) (and_next (add_sp (- 2)))))"

definition DispatchAlocLeader :: "operand_mode \<Rightarrow> exec" where
  "DispatchAlocLeader mode = leader_access mode (\<lambda>vma. and_next (SetConstant TypeLocative vma))"

definition DispatchArray :: "array_op \<Rightarrow> operand_mode \<Rightarrow> exec" where
  "DispatchArray i mode = (case i of
     OpAref1 \<Rightarrow> DispatchAref1 mode | OpAset1 \<Rightarrow> DispatchAset1 mode
   | OpAloc1 \<Rightarrow> DispatchAloc1 mode | OpSetup1dArray \<Rightarrow> DispatchSetup1dArray mode
   | OpSetupForce1dArray \<Rightarrow> DispatchSetupForce1dArray mode
   | OpFastAref1 \<Rightarrow> DispatchFastAref1 mode | OpFastAset1 \<Rightarrow> DispatchFastAset1 mode
   | OpArrayLeader \<Rightarrow> DispatchArrayLeader mode
   | OpStoreArrayLeader \<Rightarrow> DispatchStoreArrayLeader mode
   | OpAlocLeader \<Rightarrow> DispatchAlocLeader mode)"

end
