(* ===== verification/BranchInstructions.thy ===== *)
theory BranchInstructions
  imports ArrayInstructions
begin

text \<open>
  The branches and loops, and the block instructions that read and write memory through the
  address registers \<open>processor->bar[1]\<close> to \<open>bar[3]\<close>.
\<close>

unbundle bit_operations_syntax

subsection \<open>Branches\<close>

definition BranchConditionTrue :: "LispObj \<Rightarrow> bool" where
  "BranchConditionTrue a \<longleftrightarrow> TAG a AND TagTypeMask \<noteq> TypeNIL"

definition BranchConditionFalse :: "LispObj \<Rightarrow> bool" where
  "BranchConditionFalse a \<longleftrightarrow> TAG a AND TagTypeMask = TypeNIL"

definition TakeBranch :: "int \<Rightarrow> exec" where
  "TakeBranch pops = thn (add_sp (- pops)) (jump BranchTaken)"

definition DontTakeBranch :: "int \<Rightarrow> exec" where
  "DontTakeBranch pops = thn (add_sp (- pops)) (jump NextInstruction)"

definition DispatchBranchTrue :: exec where
  "DispatchBranchTrue = bnd tos (\<lambda>a.
     if \<not> BranchConditionTrue a then DontTakeBranch 1 else TakeBranch 1)"

definition DispatchBranchTrueElseExtraPop :: exec where
  "DispatchBranchTrueElseExtraPop = bnd tos (\<lambda>a.
     if \<not> BranchConditionTrue a then DontTakeBranch 2 else TakeBranch 1)"

definition DispatchBranchTrueAndExtraPop :: exec where
  "DispatchBranchTrueAndExtraPop = bnd tos (\<lambda>a.
     if \<not> BranchConditionTrue a then DontTakeBranch 1 else TakeBranch 2)"

definition DispatchBranchTrueExtraPop :: exec where
  "DispatchBranchTrueExtraPop = bnd tos (\<lambda>a.
     if \<not> BranchConditionTrue a then DontTakeBranch 2 else TakeBranch 2)"

definition DispatchBranchTrueNoPop :: exec where
  "DispatchBranchTrueNoPop = bnd tos (\<lambda>a.
     if \<not> BranchConditionTrue a then DontTakeBranch 0 else TakeBranch 0)"

definition DispatchBranchTrueAndNoPop :: exec where
  "DispatchBranchTrueAndNoPop = bnd tos (\<lambda>a.
     if \<not> BranchConditionTrue a then DontTakeBranch 1 else TakeBranch 0)"

definition DispatchBranchTrueElseNoPop :: exec where
  "DispatchBranchTrueElseNoPop = bnd tos (\<lambda>a.
     if \<not> BranchConditionTrue a then DontTakeBranch 0 else TakeBranch 1)"

definition DispatchBranchTrueAndNoPopElseNoPopExtraPop :: exec where
  "DispatchBranchTrueAndNoPopElseNoPopExtraPop = bnd tos (\<lambda>a.
     if \<not> BranchConditionTrue a then DontTakeBranch 1 else TakeBranch 1)"

definition DispatchBranchFalse :: exec where
  "DispatchBranchFalse = bnd tos (\<lambda>a.
     if \<not> BranchConditionFalse a then DontTakeBranch 1 else TakeBranch 1)"

definition DispatchBranchFalseElseExtraPop :: exec where
  "DispatchBranchFalseElseExtraPop = bnd tos (\<lambda>a.
     if \<not> BranchConditionFalse a then DontTakeBranch 2 else TakeBranch 1)"

definition DispatchBranchFalseAndExtraPop :: exec where
  "DispatchBranchFalseAndExtraPop = bnd tos (\<lambda>a.
     if \<not> BranchConditionFalse a then DontTakeBranch 1 else TakeBranch 2)"

definition DispatchBranchFalseExtraPop :: exec where
  "DispatchBranchFalseExtraPop = bnd tos (\<lambda>a.
     if \<not> BranchConditionFalse a then DontTakeBranch 2 else TakeBranch 2)"

definition DispatchBranchFalseNoPop :: exec where
  "DispatchBranchFalseNoPop = bnd tos (\<lambda>a.
     if \<not> BranchConditionFalse a then DontTakeBranch 0 else TakeBranch 0)"

definition DispatchBranchFalseAndNoPop :: exec where
  "DispatchBranchFalseAndNoPop = bnd tos (\<lambda>a.
     if \<not> BranchConditionFalse a then DontTakeBranch 1 else TakeBranch 0)"

definition DispatchBranchFalseElseNoPop :: exec where
  "DispatchBranchFalseElseNoPop = bnd tos (\<lambda>a.
     if \<not> BranchConditionFalse a then DontTakeBranch 0 else TakeBranch 1)"

definition DispatchBranchFalseAndNoPopElseNoPopExtraPop :: exec where
  "DispatchBranchFalseAndNoPopElseNoPopExtraPop = bnd tos (\<lambda>a.
     if \<not> BranchConditionFalse a then DontTakeBranch 1 else TakeBranch 1)"

text \<open>The loop instructions test for overflow as \<open>add\<close> does; their exceptions continue at the
  target of the branch.\<close>

definition loop_exception :: "bool \<Rightarrow> exec" where
  "loop_exception numeric = jump (if numeric then FollowPCInstructionException else IllegalOperand)"

definition DispatchLoopDecrementTos :: exec where
  "DispatchLoopDecrementTos = bnd tos (\<lambda>a.
     let i = DATA a - 1 in
     if TypeFixnumP (TAG a) \<and> sint i < sint (DATA a)
     then thn (set_tos (mkobj TypeFixnum i))
            (if 0 < sint i then TakeBranch 0 else DontTakeBranch 0)
     else loop_exception (TypeNumericP (TAG a)))"

definition DispatchLoopIncrementTosLessThan :: exec where
  "DispatchLoopIncrementTosLessThan = bnd (gets sp) (\<lambda>p. thn (set_op2 (StackSlot (p - 1)))
     (bnd op2_obj (\<lambda>b. bnd tos (\<lambda>a.
        let i = DATA a + 1 in
        if BinaryTypeFixnumP (TAG b) (TAG a) \<and> sint (DATA a) < sint i
        then thn (set_tos (mkobj TypeFixnum i))
               (if sint i \<le> sint (DATA b) then TakeBranch 0 else DontTakeBranch 0)
        else loop_exception (BinaryTypeNumericP (TAG b) (TAG a))))))"

text \<open>\<open>DispatchBranch\<close> is the label \<open>BranchTaken\<close> itself: the program counter advances by the
  operand, in half words.\<close>

definition ExecuteBranchTaken :: exec where
  "ExecuteBranchTaken = bnd (gets cp_operand) (\<lambda>i.
     if i = 0 then jump IllegalOperand
     else thn (modify (\<lambda>s. s\<lparr>pc := IncrementPC (pc s) i\<rparr>)) (jump InstructionCacheLookup))"

definition DispatchBranches :: "branch_op \<Rightarrow> exec" where
  "DispatchBranches i = (case i of
     OpBranch \<Rightarrow> jump BranchTaken
   | OpBranchTrue \<Rightarrow> DispatchBranchTrue
   | OpBranchTrueElseExtraPop \<Rightarrow> DispatchBranchTrueElseExtraPop
   | OpBranchTrueAndExtraPop \<Rightarrow> DispatchBranchTrueAndExtraPop
   | OpBranchTrueExtraPop \<Rightarrow> DispatchBranchTrueExtraPop
   | OpBranchTrueNoPop \<Rightarrow> DispatchBranchTrueNoPop
   | OpBranchTrueAndNoPop \<Rightarrow> DispatchBranchTrueAndNoPop
   | OpBranchTrueElseNoPop \<Rightarrow> DispatchBranchTrueElseNoPop
   | OpBranchTrueAndNoPopElseNoPopExtraPop \<Rightarrow> DispatchBranchTrueAndNoPopElseNoPopExtraPop
   | OpBranchFalse \<Rightarrow> DispatchBranchFalse
   | OpBranchFalseElseExtraPop \<Rightarrow> DispatchBranchFalseElseExtraPop
   | OpBranchFalseAndExtraPop \<Rightarrow> DispatchBranchFalseAndExtraPop
   | OpBranchFalseExtraPop \<Rightarrow> DispatchBranchFalseExtraPop
   | OpBranchFalseNoPop \<Rightarrow> DispatchBranchFalseNoPop
   | OpBranchFalseAndNoPop \<Rightarrow> DispatchBranchFalseAndNoPop
   | OpBranchFalseElseNoPop \<Rightarrow> DispatchBranchFalseElseNoPop
   | OpBranchFalseAndNoPopElseNoPopExtraPop \<Rightarrow> DispatchBranchFalseAndNoPopElseNoPopExtraPop
   | OpLoopDecrementTos \<Rightarrow> DispatchLoopDecrementTos
   | OpLoopIncrementTosLessThan \<Rightarrow> DispatchLoopIncrementTosLessThan)"

subsection \<open>Blocks\<close>

definition advance_bar :: "nat \<Rightarrow> unit action" where
  "advance_bar n = modify (bar_address_update (\<lambda>b. b(n := (b n)\<lparr>DATA := DATA (b n) + 1\<rparr>)))"

definition DispatchBlockRead :: "nat \<Rightarrow> exec" where
  "DispatchBlockRead n = bnd (gets cp_operand) (\<lambda>i. bnd (gets (\<lambda>s. (bar_address s n, sp s)))
     (\<lambda>(bar, p).
       bnd (MemoryRead (ucast (DATA bar)) (StackSlot (p + 1)) (unat (drop_bit 6 (i AND 0x3C0))))
         (\<lambda>x. if i AND 0x20 \<noteq> 0 \<and> \<not> TypeFixnumP (TAG (snd x)) then jump InstructionException
            else thn (add_sp 1)
                (thn (run_if (i AND 0x10 \<noteq> 0) (set_tos ((snd x)\<lparr>TAG := TagType (TAG (snd x))\<rparr>)))
                     (and_next (run_if (i AND 4 = 0) (advance_bar n)))))))"

definition DispatchBlockReadShift :: "nat \<Rightarrow> exec" where
  "DispatchBlockReadShift n = jump UnimplementedInstruction"

definition DispatchBlockReadTest :: "nat \<Rightarrow> exec" where
  "DispatchBlockReadTest n = jump UnimplementedInstruction"

definition DispatchBlockReadAlu :: "nat \<Rightarrow> operand_mode \<Rightarrow> exec" where
  "DispatchBlockReadAlu n mode = with_operand stack_modes mode (jump UnimplementedInstruction)"

definition DispatchBlockWrite :: "nat \<Rightarrow> operand_mode \<Rightarrow> exec" where
  "DispatchBlockWrite n mode = with_operand all_modes mode (bnd op2_obj (\<lambda>b.
     bnd (gets (\<lambda>s. bar_address s n)) (\<lambda>bar.
       thn (WriteVirtualMemory (ucast (DATA bar)) b) (and_next (advance_bar n)))))"

end
