(* ===== verification/BindInstructions.thy ===== *)
theory BindInstructions
  imports BranchInstructions
begin

text \<open>
  Special variable bindings, catch blocks, lexical variables and instance variables:
  \<open>Unbind\<close> and the binding, catch, lexical and instance instructions of
  \<open>InstructionSequencer\<close>.

  The binding stack grows upwards: a binding is two words, the locative (with the previous
  value of the \<open>CleanupBindings\<close> bit as bit 6 of its tag) and the old value. A catch block is
  the three words at \<open>CatchBlockPointer\<close>: a program counter, the binding stack pointer and the
  previous catch block.
\<close>

unbundle bit_operations_syntax

subsection \<open>Bindings\<close>

definition set_control :: "(u64 \<Rightarrow> u64) \<Rightarrow> unit action" where
  "set_control f = modify (control_update f)"

text \<open>\<open>Unbind\<close> returns -1 (here \<open>False\<close>) when the frame has no bindings.\<close>

definition Unbind :: "bool action" where
  "Unbind = bnd (gets BindingStackPointer) (\<lambda>bsp. bnd (gets control) (\<lambda>c.
     if ReadControlCleanupBindings c = 0 then ret False
     else bnd (MemoryRead bsp Auto CycleBindRead) (\<lambda>old.
       bnd (MemoryRead (bsp - 1) Auto CycleBindRead) (\<lambda>loc.
         thn (StoreContents (ucast (DATA (snd loc))) (snd old) CycleBindWrite)
        (thn (modify (BindingStackPointer_update (\<lambda>_. bsp - 2)))
        (thn (set_control (\<lambda>c. WriteControlCleanupBindings c (ldb 1 6 (TAG (snd loc)))))
        (thn (modify (PreemptRegister_update (\<lambda>p. if ldb 1 1 p \<noteq> 0 then p OR 1 else p)))
             (ret True))))))))"

definition binding_room :: "bool action" where
  "binding_room = gets (\<lambda>s. \<not> (BindingStackLimit s \<le> BindingStackPointer s \<or> DeepBoundP s \<noteq> 0))"

text \<open>Saving the old value of the locative's location on the binding stack.\<close>

definition save_binding :: "LispObj \<Rightarrow> unit action" where
  "save_binding loc =
     bnd (MemoryRead (ucast (DATA loc)) Scratch_var CycleBindRead) (\<lambda>old.
     bnd (gets (\<lambda>s. (control s, BindingStackPointer s))) (\<lambda>(c, bsp).
       thn (WriteVirtualMemory (bsp + 1)
              (loc\<lparr>TAG := TAG loc OR push_bit 6 (ReadControlCleanupBindings c)\<rparr>))
           (WriteVirtualMemory (bsp + 2) (snd old))))"

definition commit_binding :: "unit action" where
  "commit_binding = thn (set_control (\<lambda>c. WriteControlCleanupBindings c 1))
     (modify (BindingStackPointer_update (\<lambda>b. b + 2)))"

definition DispatchBindLocativeToValue :: "operand_mode \<Rightarrow> exec" where
  "DispatchBindLocativeToValue mode = with_operand all_modes mode (bnd tos (\<lambda>loc.
     if TypeEqualP (TAG loc) TypeLocative then
       thn (add_sp (- 1)) (bnd binding_room (\<lambda>room.
         if \<not> room then jump IllegalOperand
         else thn (save_binding loc) (bnd op2_obj (\<lambda>b.
           thn (StoreContents (ucast (DATA loc)) b CycleBindWrite) (and_next commit_binding)))))
     else SpSpareExceptions))"

definition DispatchBindLocative :: "operand_mode \<Rightarrow> exec" where
  "DispatchBindLocative mode = with_operand source_modes mode (bnd op2_obj (\<lambda>loc.
     if TypeEqualP (TAG loc) TypeLocative then
       bnd binding_room (\<lambda>room.
         if \<not> room then jump IllegalOperand
         else thn (save_binding loc) (and_next commit_binding))
     else Op2SpareExceptions))"

fun unbind_times :: "nat \<Rightarrow> exec" where
  "unbind_times 0 = jump NextInstruction"
| "unbind_times (Suc n) = bnd Unbind (\<lambda>ok. if ok then unbind_times n else jump IllegalOperand)"

definition DispatchUnbindN :: "operand_mode \<Rightarrow> exec" where
  "DispatchUnbindN mode = with_operand [ModeImmediate, ModePop] mode (bnd op2_obj (\<lambda>b.
     bnd (gets DeepBoundP) (\<lambda>deep.
       if \<not> TypeFixnumP (TAG b) \<or> deep \<noteq> 0 then jump IllegalOperand
       else unbind_times (unat (DATA b)))))"

text \<open>\<open>for (; ps->BindingStackPointer > limit;) if (Unbind()) IllegalOperand;\<close> gives \<open>True\<close> when it
  ends, \<open>False\<close> for the illegal operand. The limit is read again every time.\<close>

partial_function (option) unbind_down_to :: "LispObj action \<Rightarrow> bool action" where
  "unbind_down_to limit s =
     bnd limit (\<lambda>l. bnd (gets BindingStackPointer) (\<lambda>bsp.
       if ucast (DATA l) < bsp
       then bnd Unbind (\<lambda>ok. if ok then unbind_down_to limit else ret False)
       else ret True)) s"

definition DispatchRestoreBindingStack :: "operand_mode \<Rightarrow> exec" where
  "DispatchRestoreBindingStack mode = with_operand all_modes mode (bnd op2_obj (\<lambda>b.
     if TypeEqualP (TAG b) TypeLocative then
       bnd (gets DeepBoundP) (\<lambda>deep.
         if deep \<noteq> 0 then jump IllegalOperand
         else bnd (unbind_down_to op2_obj) (\<lambda>ok. jump (if ok then NextInstruction else IllegalOperand)))
     else Op2SpareExceptions))"

definition DispatchBind :: "bind_op \<Rightarrow> operand_mode \<Rightarrow> exec" where
  "DispatchBind i mode = (case i of
     OpBindLocativeToValue \<Rightarrow> DispatchBindLocativeToValue mode
   | OpBindLocative \<Rightarrow> DispatchBindLocative mode
   | OpUnbindN \<Rightarrow> DispatchUnbindN mode
   | OpRestoreBindingStack \<Rightarrow> DispatchRestoreBindingStack mode)"

subsection \<open>Catch blocks\<close>

text \<open>\<open>cbp\<close>: the slot of the current catch block.\<close>

definition catch_slot :: "int action" where
  "catch_slot = gets (\<lambda>s. slot_of_vma s (DATA (CatchBlockPointer s)))"

definition DispatchCatchOpen :: exec where
  "DispatchCatchOpen = bnd (gets (\<lambda>s. (stack_vma s (sp s), cp_operand s))) (\<lambda>(newpointer, i).
     let unwindprotect = ldb 1 0 i in
     bnd (gets BindingStackPointer) (\<lambda>bsp.
       thn (PushConstant (SetTagCdr TypeLocative unwindprotect) bsp)
      (bnd (gets (\<lambda>s. (CatchBlockPointer s, control s, continuation s))) (\<lambda>(old, c, k).
       thn (PushConstant (SetTagCdr (TAG old)
              (dpb (ReadControlExtraArgument c) 1 1 (ReadControlCleanupCatch c)))
              (ucast (DATA old)))
      (thn (run_if (unwindprotect = 0)
              (PushConstant (SetTagCdr (TAG k) (ldb 2 6 i)) (ucast (DATA k))))
      (thn (modify (CatchBlockPointer_update (\<lambda>_. mkobj TypeLocative (ucast newpointer))))
           (and_next (set_control (\<lambda>c. WriteControlCleanupCatch c 1)))))))))"

text \<open>The restoring of the two control bits that the catch block saved, and the step back to the
  previous block, from the word \<open>cbp[2]\<close>. The control register is read when the block is
  entered, as \<open>Integer control = ps->control\<close>.\<close>

definition pop_catch_block :: "u64 \<Rightarrow> LispObj \<Rightarrow> unit action" where
  "pop_catch_block c previous =
     thn (set_control (\<lambda>_. WriteControlCleanupCatch
            (WriteControlExtraArgument c (ldb 1 7 (TAG previous))) (ldb 1 6 (TAG previous))))
         (modify (CatchBlockPointer_update (\<lambda>_. cdr_next previous)))"

text \<open>Unbinding to the level of the catch block at \<open>cbp\<close>: \<open>None\<close> when it is done, the label to go
  to when it cannot be.\<close>

definition unbind_to_catch :: "int \<Rightarrow> goto option action" where
  "unbind_to_catch cbp = bnd (stack_at (cbp + 1)) (\<lambda>b.
     bnd (gets (\<lambda>s. (BindingStackPointer s, DeepBoundP s))) (\<lambda>(bsp, deep).
       if bsp = ucast (DATA b) then ret None
       else if deep \<noteq> 0 then ret (Some UnimplementedInstruction)
       else bnd (unbind_down_to (stack_at (cbp + 1))) (\<lambda>ok.
         ret (if ok then None else Some IllegalOperand))))"

definition cleanup_cdr :: "u64 \<Rightarrow> u32" where
  "cleanup_cdr c = dpb (ReadControlCleanupInProgress c) 1 0 2"

definition DispatchCatchClose :: exec where
  "DispatchCatchClose = bnd catch_slot (\<lambda>cbp. bnd (gets control) (\<lambda>c.
     bnd (unbind_to_catch cbp) (\<lambda>l. case l of Some t \<Rightarrow> jump t | None \<Rightarrow>
       bnd (stack_at (cbp + 2)) (\<lambda>previous.
       thn (pop_catch_block c previous)
      (bnd (stack_at (cbp + 1)) (\<lambda>b.
         if ldb 1 6 (TAG b) \<noteq> 0 then
           bnd (gets (\<lambda>s. (next_pc (current_line s), control s))) (\<lambda>(n, c').
             thn (PushConstant (SetTagCdr (TAG n) (cleanup_cdr c')) (ucast (DATA n)))
            (thn (set_control (\<lambda>c. WriteControlCleanupInProgress c 1))
            (bnd (stack_at cbp) (\<lambda>h.
               thn (modify (pc_update (\<lambda>_. h))) (jump InstructionCacheLookup)))))
         else jump NextInstruction))))))"

text \<open>The label \<open>HandleUnwindProtect\<close>: running the cleanup handler of the catch block.\<close>

definition ExecuteHandleUnwindProtect :: exec where
  "ExecuteHandleUnwindProtect = bnd catch_slot (\<lambda>cbp. bnd (gets control) (\<lambda>c.
     thn (modify (\<lambda>s. s\<lparr>sp := restartsp s\<rparr>))
    (bnd (unbind_to_catch cbp) (\<lambda>l. case l of Some t \<Rightarrow> jump t | None \<Rightarrow>
       bnd (gets pc) (\<lambda>p.
       thn (PushConstant (SetTagCdr (TAG p) (cleanup_cdr c)) (ucast (DATA p)))
      (bnd (stack_at (cbp + 2)) (\<lambda>previous.
       thn (pop_catch_block (WriteControlCleanupInProgress c 1) previous)
      (bnd (stack_at cbp) (\<lambda>h.
         thn (modify (pc_update (\<lambda>_. h))) (jump InstructionCacheLookup)))))))))) "

end
