(* ===== verification/InstanceInstructions.thy ===== *)
theory InstanceInstructions
  imports BindInstructions
begin

text \<open>
  Lexical variables and instance variables: the location of an instance variable through the
  mapping table in \<open>fp[2]\<close> or by its offset, and the instructions that use them. The location,
  an \<open>Integer\<close>, is held in the \<open>int\<close> variable \<open>i\<close> of \<open>InstructionSequencer\<close> and is sign extended
  when it is used as an address.
\<close>

unbundle bit_operations_syntax

subsection \<open>Lexical variables\<close>

definition lexical_vma :: "machine \<Rightarrow> LispObj \<Rightarrow> u64" where
  "lexical_vma s b = ucast (DATA b + ldb 3 10 (instruction (current_line s)))"

definition lexical_access :: "operand_mode \<Rightarrow> (u64 \<Rightarrow> exec) \<Rightarrow> exec" where
  "lexical_access mode f = with_operand source_modes mode (bnd op2_obj (\<lambda>b.
     if TagType (TAG b) = TypeList \<or> TagType (TAG b) = TypeLocative
     then bnd (gets (\<lambda>s. lexical_vma s b)) f else jump IllegalOperand))"

definition DispatchPushLexicalVar :: "operand_mode \<Rightarrow> exec" where
  "DispatchPushLexicalVar mode = lexical_access mode (\<lambda>vma.
     bnd (MemoryReadData vma Scratch_var) (\<lambda>x. and_next (PushObject (snd x))))"

definition DispatchPopLexicalVar :: "operand_mode \<Rightarrow> exec" where
  "DispatchPopLexicalVar mode = lexical_access mode (\<lambda>vma.
     bnd tos (\<lambda>a. thn (StoreContents vma a CycleDataWrite) (and_next (add_sp (- 1)))))"

definition DispatchMovemLexicalVar :: "operand_mode \<Rightarrow> exec" where
  "DispatchMovemLexicalVar mode = lexical_access mode (\<lambda>vma.
     bnd tos (\<lambda>a. and_next (StoreContents vma a CycleDataWrite)))"

definition DispatchLexical :: "lexical_op \<Rightarrow> operand_mode \<Rightarrow> exec" where
  "DispatchLexical i mode = (case i of
     OpPushLexicalVar \<Rightarrow> DispatchPushLexicalVar mode
   | OpPopLexicalVar \<Rightarrow> DispatchPopLexicalVar mode
   | OpMovemLexicalVar \<Rightarrow> DispatchMovemLexicalVar mode)"

subsection \<open>Locating instance variables\<close>

definition instance_type :: "u32 \<Rightarrow> bool" where
  "instance_type tag \<longleftrightarrow> ldb 4 2 tag = ldb 4 2 TypeInstance"

definition LocateInstanceVariableMapped :: "int \<Rightarrow> int \<Rightarrow> u64 \<Rightarrow> u64 action" where
  "LocateInstanceVariableMapped map_slot self_slot n = bnd (stack_at map_slot) (\<lambda>m.
     if \<not> TypeEqualP (TAG m) TypeArray then TakeIllegalOperandTrap 0 (StackSlot map_slot)
     else bnd (MemoryReadHeader (ucast (DATA m)) Auto) (\<lambda>h.
       if ucast (ArrayShortLength (DATA (snd h))) \<le> n
       then TakeIllegalOperandTrap 0 (StackSlot map_slot)
       else bnd (MemoryReadData (ucast (DATA m) + n + 1) Auto) (\<lambda>offset.
         if \<not> TypeFixnumP (TAG (snd offset)) then TakeInstructionExceptionTrap
         else bnd (stack_at self_slot) (\<lambda>self.
           if \<not> instance_type (TAG self) then TakeIllegalOperandTrap 0 (StackSlot self_slot)
           else if TagCdr (TAG self) = 1 then ret (ucast (DATA self + DATA (snd offset)))
           else bnd (MemoryReadHeader (ucast (DATA self)) Auto) (\<lambda>x.
             thn (run_if (fst x = ucast (DATA self))
                    (set_stack self_slot (self\<lparr>TAG := SetTagCdr (TAG self) 1\<rparr>)))
               (ret (fst x + ucast (DATA (snd offset)))))))))"

definition LocateArbitraryInstanceVariable :: "ptr \<Rightarrow> ptr \<Rightarrow> u64 action" where
  "LocateArbitraryInstanceVariable inst offset = bnd (read_ptr inst) (\<lambda>x.
     if \<not> instance_type (TAG x) then
       (if TypeSpareP (TAG x) then TakeInstructionExceptionTrap else TakeIllegalOperandTrap 0 inst)
     else bnd (read_ptr offset) (\<lambda>o'.
       if \<not> TypeFixnumP (TAG o') then TakeIllegalOperandTrap 0 offset
       else bnd (MemoryReadHeader (ucast (DATA x)) Auto) (\<lambda>f.
         bnd (MemoryReadData (ucast (DATA (snd f) - 1)) Auto) (\<lambda>size.
           if \<not> TypeFixnumP (TAG (snd size)) \<or> DATA (snd size) \<le> DATA o'
           then TakeIllegalOperandTrap 0 offset
           else ret (fst f + ucast (DATA o'))))))"

subsection \<open>Instance variables of \<open>self\<close>\<close>

text \<open>\<open>i = LocateInstanceVariableMapped(&fp[2], &fp[3], cp->operand)\<close>.\<close>

definition mapped_variable :: "u32 action" where
  "mapped_variable = bnd (gets (\<lambda>s. (fp s, cp_operand s))) (\<lambda>(f, n).
     bnd (LocateInstanceVariableMapped (f + 2) (f + 3) (scast n)) (\<lambda>v. ret (ucast v)))"

definition push_contents :: "u64 \<Rightarrow> exec" where
  "push_contents vma = bnd (gets sp) (\<lambda>p.
     bnd (MemoryReadData vma (StackSlot (p + 1))) (\<lambda>_. and_next (add_sp 1)))"

definition store_tos :: "u64 \<Rightarrow> unit action" where
  "store_tos vma = bnd tos (\<lambda>a. StoreContents vma a CycleDataWrite)"

definition DispatchPushInstanceVariable :: exec where
  "DispatchPushInstanceVariable = bnd mapped_variable (\<lambda>i. push_contents (scast i))"

definition DispatchPopInstanceVariable :: exec where
  "DispatchPopInstanceVariable =
     bnd mapped_variable (\<lambda>i. thn (store_tos (scast i)) (and_next (add_sp (- 1))))"

definition DispatchMovemInstanceVariable :: exec where
  "DispatchMovemInstanceVariable = bnd mapped_variable (\<lambda>i. and_next (store_tos (scast i)))"

definition DispatchPushAddressInstanceVariable :: exec where
  "DispatchPushAddressInstanceVariable =
     bnd mapped_variable (\<lambda>i. and_next (PushConstant TypeLocative (scast i)))"

text \<open>The ordered variants take the operand as the offset itself.\<close>

definition ordered_variable :: "(u64 \<Rightarrow> exec) \<Rightarrow> exec" where
  "ordered_variable f = bnd (fp_at 3) (\<lambda>self.
     if \<not> instance_type (TAG self) then jump IllegalOperand
     else bnd (gets cp_operand) (\<lambda>n. f (ucast (DATA self + n))))"

definition DispatchPushInstanceVariableOrdered :: exec where
  "DispatchPushInstanceVariableOrdered = ordered_variable push_contents"

definition DispatchPopInstanceVariableOrdered :: exec where
  "DispatchPopInstanceVariableOrdered =
     ordered_variable (\<lambda>vma. thn (store_tos vma) (and_next (add_sp (- 1))))"

definition DispatchMovemInstanceVariableOrdered :: exec where
  "DispatchMovemInstanceVariableOrdered = ordered_variable (\<lambda>vma. and_next (store_tos vma))"

definition DispatchPushAddressInstanceVariableOrdered :: exec where
  "DispatchPushAddressInstanceVariableOrdered =
     ordered_variable (\<lambda>vma. and_next (PushConstant TypeLocative vma))"

definition DispatchIvar :: "ivar_op \<Rightarrow> exec" where
  "DispatchIvar i = (case i of
     OpPushInstanceVariable \<Rightarrow> DispatchPushInstanceVariable
   | OpPopInstanceVariable \<Rightarrow> DispatchPopInstanceVariable
   | OpMovemInstanceVariable \<Rightarrow> DispatchMovemInstanceVariable
   | OpPushAddressInstanceVariable \<Rightarrow> DispatchPushAddressInstanceVariable
   | OpPushInstanceVariableOrdered \<Rightarrow> DispatchPushInstanceVariableOrdered
   | OpPopInstanceVariableOrdered \<Rightarrow> DispatchPopInstanceVariableOrdered
   | OpMovemInstanceVariableOrdered \<Rightarrow> DispatchMovemInstanceVariableOrdered
   | OpPushAddressInstanceVariableOrdered \<Rightarrow> DispatchPushAddressInstanceVariableOrdered)"

subsection \<open>Instance variables by offset\<close>

definition arbitrary_variable :: "int \<Rightarrow> u32 action" where
  "arbitrary_variable k = bnd (gets (\<lambda>s. (sp s, op2 s))) (\<lambda>(p, offset).
     bnd (LocateArbitraryInstanceVariable (StackSlot (p + k)) offset) (\<lambda>v. ret (ucast v)))"

definition ExecuteInstanceSet :: exec where
  "ExecuteInstanceSet = bnd (arbitrary_variable (- 1)) (\<lambda>i.
     thn (store_tos (scast i)) (and_next (add_sp (- 2))))"

definition DispatchInstanceRef :: "operand_mode \<Rightarrow> exec" where
  "DispatchInstanceRef mode = with_operand all_modes mode (bnd (arbitrary_variable 0) (\<lambda>i.
     bnd (MemoryReadData (scast i) Scratch_var) (\<lambda>x. and_next (SetObject (snd x)))))"

definition DispatchInstanceSet :: "operand_mode \<Rightarrow> exec" where
  "DispatchInstanceSet mode = with_operand all_modes mode ExecuteInstanceSet"

text \<open>The immediate case of \<open>instance-loc\<close> goes to \<open>ExecuteInstanceSet\<close>.\<close>

definition DispatchInstanceLoc :: "operand_mode \<Rightarrow> exec" where
  "DispatchInstanceLoc mode =
     (if mode = ModeImmediate then with_operand [ModeImmediate] mode ExecuteInstanceSet
      else with_operand source_modes mode (bnd (arbitrary_variable 0) (\<lambda>i.
        and_next (SetConstant TypeLocative (scast i)))))"

definition DispatchInstance :: "instance_op \<Rightarrow> operand_mode \<Rightarrow> exec" where
  "DispatchInstance i mode = (case i of
     OpInstanceRef \<Rightarrow> DispatchInstanceRef mode
   | OpInstanceSet \<Rightarrow> DispatchInstanceSet mode
   | OpInstanceLoc \<Rightarrow> DispatchInstanceLoc mode)"

end
