(* ===== verification/CallInstructions.thy ===== *)
theory CallInstructions
  imports InstanceInstructions
begin

text \<open>
  Function calls: the instructions that start and finish a call, take the arguments of the
  called function (\<open>PullApplyArgsQuickly\<close> included) and return from it.

  A frame starts at \<open>fp\<close> with the caller's continuation and control register, and the
  arguments follow; \<open>lp\<close> is the first slot after them. The control register holds the size of
  the arguments, the size of the caller's frame and what happens to the values.
\<close>

unbundle bit_operations_syntax

subsection \<open>Starting a call\<close>

text \<open>Pushing the continuation and the control register, in every way to start a call.\<close>

definition push_frame_words :: "unit action" where
  "push_frame_words = thn (bnd (gets continuation) PushContinuation) (bnd (gets control) PushControl)"

definition start_compiled :: "LispObj \<Rightarrow> exec" where
  "start_compiled entry = thn push_frame_words
    (thn (set_control (\<lambda>c. (c OR ControlCallStarted) AND NOT ControlExtraArgument))
         (and_next (modify (continuation_update (\<lambda>_. entry)))))"

definition start_with_extra :: "LispObj \<Rightarrow> LispObj \<Rightarrow> exec" where
  "start_with_extra extra entry = thn push_frame_words
    (thn (PushObject extra)
    (thn (set_control (\<lambda>c. c OR ControlCallStarted OR ControlExtraArgument))
         (and_next (modify (continuation_update (\<lambda>_. entry))))))"

definition start_interpreted :: exec where
  "start_interpreted = bnd (gets scratch) (\<lambda>f.
     bnd (MemoryReadData (TrapVectorBase + word_of_int InterpreterFunctionVector
            + ucast (TagType (TAG f))) Auto) (\<lambda>x.
       if TagType (TAG (snd x)) = TypeEvenPC \<or> TagType (TAG (snd x)) = TypeOddPC
       then start_with_extra f (snd x)
       else jump IllegalOperand))"

definition StartCallDispatch :: exec where
  "StartCallDispatch = bnd (gets scratch) (\<lambda>f.
     if TagType (TAG f) = TypeCompiledFunction then start_compiled (mkobj TypeEvenPC (DATA f))
     else if TagType (TAG f) = TypeLexicalClosure then
       bnd (MemoryReadData (ucast (DATA f)) Auto) (\<lambda>environment.
       bnd (MemoryReadData (ucast (DATA f + 1)) Auto) (\<lambda>function.
         if TypeEqualP (TAG (snd function)) TypeCompiledFunction
         then start_with_extra (snd environment) (mkobj TypeEvenPC (DATA (snd function)))
         else start_interpreted))
     else start_interpreted)"

definition DispatchStartCall :: "operand_mode \<Rightarrow> exec" where
  "DispatchStartCall mode = with_operand source_modes mode
     (bnd op2_obj (\<lambda>b. thn (set_scratch b) StartCallDispatch))"

definition DispatchCallCompiledEven :: exec where
  "DispatchCallCompiledEven = bnd (gets cp_operand) (\<lambda>i. start_compiled (mkobj TypeEvenPC i))"

definition DispatchCallCompiledOdd :: exec where
  "DispatchCallCompiledOdd = bnd (gets cp_operand) (\<lambda>i. start_compiled (mkobj TypeOddPC i))"

definition DispatchCallGeneric :: exec where
  "DispatchCallGeneric = bnd (gets cp_operand) (\<lambda>i.
     thn (set_scratch (mkobj TypeGenericFunction i)) StartCallDispatch)"

text \<open>The address is the \<open>int\<close> operand, sign extended.\<close>

definition DispatchCallIndirect :: exec where
  "DispatchCallIndirect = bnd (gets cp_operand) (\<lambda>i.
     bnd (MemoryReadData (scast i) Scratch_var) (\<lambda>_. StartCallDispatch))"

subsection \<open>Finishing a call\<close>

text \<open>
  The control register of the new frame, from the old one, the fields to clear, the new frame
  pointer \<open>op1\<close> and local pointer \<open>op2\<close> and the operand's value disposition.
\<close>

definition finish_call_control :: "bool \<Rightarrow> u64 \<Rightarrow> int \<Rightarrow> int \<Rightarrow> int \<Rightarrow> u32 \<Rightarrow> u64" where
  "finish_call_control apply_p c nfp nlp cfp i =
     ((if apply_p
       then (c AND NOT (ControlCleanupBits OR ControlExtraArgument OR ControlCallStarted
               OR ControlArgumentSize OR ControlValueDisposition OR ControlCallerFrameSize))
              OR ControlApply
       else c AND NOT (ControlApply OR ControlCleanupBits OR ControlExtraArgument
               OR ControlCallStarted OR ControlArgumentSize OR ControlValueDisposition
               OR ControlCallerFrameSize))
      OR word_of_int (nlp - nfp)
      OR scast (push_bit 10 (i AND 0x300))
      OR push_bit 9 (word_of_int (nfp - cfp)))"

definition FinishCallInternal :: "int \<Rightarrow> int \<Rightarrow> exec" where
  "FinishCallInternal nfp nlp =
     thn (modify (\<lambda>s. s\<lparr>fp := nfp, lp := nlp, pc := continuation s,
                        continuation := next_pc (current_line s)\<rparr>))
    (bnd (gets (\<lambda>s. StackCacheLimit s < fp s)) (\<lambda>over.
       thn (run_if over (thn DecacheRegisters (thn StackCacheScrollUp EncacheRegisters)))
           (jump InstructionCacheLookup)))"

text \<open>\<open>n\<close> is what is subtracted from \<open>sp\<close>, besides the extra argument.\<close>

definition finish_call :: "bool \<Rightarrow> int \<Rightarrow> exec" where
  "finish_call apply_p n = bnd (gets (\<lambda>s. sp s - n - uint (ReadControlExtraArgument (control s))))
     (\<lambda>nfp. bnd (gets (\<lambda>s. if apply_p then sp s else sp s + 1)) (\<lambda>nlp.
       thn (set_op2 (StackSlot nlp))
      (thn (modify (\<lambda>s. s\<lparr>control := finish_call_control apply_p (control s) nfp nlp (fp s) (cp_operand s)\<rparr>))
           (FinishCallInternal nfp nlp))))"

definition DispatchFinishCallN :: exec where
  "DispatchFinishCallN = bnd (gets cp_operand) (\<lambda>i. finish_call False (uint (ldb 8 0 i)))"

definition DispatchFinishCallNApply :: exec where
  "DispatchFinishCallNApply = bnd (gets cp_operand) (\<lambda>i. finish_call True (uint (ldb 8 0 i)))"

definition DispatchFinishCallTos :: exec where
  "DispatchFinishCallTos = thn (PopObject Scratch_var)
     (bnd (gets scratch) (\<lambda>n. finish_call False (sint (DATA n + 1))))"

definition DispatchFinishCallTosApply :: exec where
  "DispatchFinishCallTosApply = thn (PopObject Scratch_var)
     (bnd (gets scratch) (\<lambda>n. finish_call True (uint (DATA n + 1))))"

subsection \<open>Taking arguments from a list\<close>

text \<open>
  \<open>PullApplyArgsQuickly\<close>: \<open>n\<close> arguments are still wanted, \<open>i\<close> have been counted, \<open>sp\<close> and \<open>rest\<close>
  are the function's variables. The inner \<open>switch\<close> of the case \<open>CdrNormal\<close> is left by its
  \<open>break\<close> into the outer \<open>default\<close>, which goes to \<open>trap\<close>.
\<close>

definition pull_trap :: "u32 \<Rightarrow> u32 \<Rightarrow> u32 \<Rightarrow> int \<Rightarrow> int \<Rightarrow> u32 action" where
  "pull_trap count supplied i p rest =
     thn (bnd (gets (\<lambda>s. stack_vma s rest)) (\<lambda>v. set_stack (p + 1) (mkobj TypeList (ucast v))))
    (thn (set_control (\<lambda>c. WriteControlArgumentSize c (supplied + i)))
    (thn (modify (\<lambda>s. s\<lparr>ps_lp := ps_lp s + sint i, ps_sp := p + 1\<rparr>))
         (ret (count - i))))"

text \<open>Leaving with \<open>i + 1\<close> arguments; \<open>last_p\<close> when the list is at its end.\<close>

definition pull_done :: "bool \<Rightarrow> u32 \<Rightarrow> u32 \<Rightarrow> int \<Rightarrow> u32 \<Rightarrow> u32 action" where
  "pull_done last_p supplied i p left =
     thn (run_if last_p (set_control (\<lambda>c. WriteControlApply c 0)))
    (thn (set_control (\<lambda>c. WriteControlArgumentSize c (supplied + i + 1)))
    (thn (modify (\<lambda>s. s\<lparr>ps_lp := ps_lp s + sint (i + 1), ps_sp := p\<rparr>))
         (ret left)))"

definition pull_scroll :: "int \<Rightarrow> int \<Rightarrow> (int \<times> int) action" where
  "pull_scroll p rest = bnd (gets StackCacheLimit) (\<lambda>limit.
     if limit \<le> p then
       thn (modify (ps_sp_update (\<lambda>_. p))) (thn StackCacheScrollUp
         (bnd (gets ps_sp) (\<lambda>q. ret (q, rest + (q - p)))))
     else ret (p, rest))"

definition copy_arg :: "int \<Rightarrow> int \<Rightarrow> unit action" where
  "copy_arg to from = bnd (stack_at from) (\<lambda>a. set_stack to (cdr_next a))"

fun pull_loop :: "u32 \<Rightarrow> u32 \<Rightarrow> nat \<Rightarrow> u32 \<Rightarrow> int \<Rightarrow> int \<Rightarrow> u32 action" where
  "pull_loop count supplied 0 i p0 rest0 = pull_trap count supplied i p0 rest0"
| "pull_loop count supplied (Suc n) i p0 rest0 =
     bnd (pull_scroll p0 rest0) (\<lambda>(p, rest). bnd (stack_at rest) (\<lambda>a.
       if TagCdr (TAG a) = CdrNext then
         thn (copy_arg (p + 1) rest) (pull_loop count supplied n (i + 1) (p + 1) (rest + 1))
       else if TagCdr (TAG a) = CdrNil then
         thn (copy_arg (p + 1) rest) (pull_done True supplied i (p + 1) 0)
       else if TagCdr (TAG a) = CdrNormal then
         thn (copy_arg (p + 1) rest) (bnd (stack_at (rest + 1)) (\<lambda>r.
           if TagType (TAG r) = TypeNIL then pull_done True supplied i (p + 1) 0
           else bnd (gets (\<lambda>s. (in_stack_cache s (ucast (DATA r)), slot_of_vma s (DATA r))))
             (\<lambda>(cached, slot).
               if TagType (TAG r) = TypeList \<and> cached
               then pull_trap count supplied i (p + 1) slot
               else thn (copy_arg (p + 2) (rest + 1))
                      (pull_done False supplied i (p + 2) (count - (i + 1))))))
       else pull_trap count supplied i p rest))"

definition PullApplyArgsQuickly :: "u32 \<Rightarrow> u32 action" where
  "PullApplyArgsQuickly count = bnd (gets ps_sp) (\<lambda>p. bnd (stack_at p) (\<lambda>a.
     bnd (gets (\<lambda>s. (slot_of_vma s (DATA a), ReadControlArgumentSize (control s))))
       (\<lambda>(rest, supplied). pull_loop count supplied (nat (sint count)) 0 (p - 1) rest)))"

subsection \<open>Entering a function\<close>

definition add_pc :: "u32 \<Rightarrow> exec" where
  "add_pc n = thn (modify (\<lambda>s. s\<lparr>pc := (pc s)\<lparr>DATA := DATA (pc s) + n\<rparr>\<rparr>)) (jump InstructionCacheLookup)"

definition clear_apply :: "unit action" where
  "clear_apply = thn (add_sp (- 1)) (set_control (\<lambda>c. WriteControlApply c 0))"

definition mark_cdr :: "int \<Rightarrow> u32 \<Rightarrow> unit action" where
  "mark_cdr k cdr = bnd (sp_at k) (\<lambda>a. set_sp_at k (a\<lparr>TAG := SetTagCdr (TAG a) cdr\<rparr>))"

text \<open>The \<open>&rest\<close> list: a list whose cells are the arguments from \<open>maximum\<close> on.\<close>

definition push_rest :: "u32 \<Rightarrow> unit action" where
  "push_rest maximum = bnd (gets (\<lambda>s. stack_vma s (fp s) + ucast maximum)) (PushConstant TypeList)"

definition pull_args :: "u32 \<Rightarrow> u32 action" where
  "pull_args i = bnd tos (\<lambda>a. bnd (gets (\<lambda>s. in_stack_cache s (ucast (DATA a)))) (\<lambda>cached.
     if cached
     then thn DecacheRegisters (bnd (PullApplyArgsQuickly i) (\<lambda>left. thn EncacheRegisters (ret left)))
     else ret i))"

text \<open>The label \<open>applynil\<close>: no list of arguments (any more).\<close>

definition rest_accepted_nil :: "u32 \<Rightarrow> u32 \<Rightarrow> u32 \<Rightarrow> exec" where
  "rest_accepted_nil supplied minimum maximum =
     (if maximum < supplied then
        thn (mark_cdr 0 CdrNil) (thn (push_rest maximum) (add_pc (maximum - minimum + 2)))
      else if supplied < minimum then jump IllegalOperand
      else add_pc (supplied - minimum + 1))"

partial_function (option) rest_accepted :: exec where
  "rest_accepted s = bnd (gets (\<lambda>s. (cp_operand s, control s))) (\<lambda>(i, c).
     let minimum = ldb 8 0 i; maximum = ldb 8 8 i; supplied = ReadControlArgumentSize c in
     if ReadControlApply c = 0 then rest_accepted_nil supplied minimum maximum
     else bnd tos (\<lambda>a.
       if TypeEqualP (TAG a) TypeNIL
       then bnd clear_apply (\<lambda>_. rest_accepted_nil supplied minimum maximum)
       else if maximum < supplied then
         bnd (mark_cdr 0 CdrNil) (\<lambda>_. bnd (mark_cdr (- 1) CdrNormal) (\<lambda>_.
         bnd (push_rest maximum) (\<lambda>_.
         bnd (modify (lp_update (\<lambda>l. l + 1))) (\<lambda>_.
         bnd (set_control (\<lambda>c. WriteControlArgumentSize c (1 + supplied))) (\<lambda>_.
           add_pc (maximum - minimum + 2))))))
       else if supplied < maximum then
         (if TagType (TAG a) = TypeList then
            bnd (pull_args (maximum - supplied)) (\<lambda>left.
              if left \<noteq> 0 then jump (PullApplyArgsTrap left) else rest_accepted)
          else jump (PullApplyArgsTrap (maximum - supplied)))
       else add_pc (supplied - minimum + 2))) s"

definition DispatchEntryRestAccepted :: exec where
  "DispatchEntryRestAccepted = rest_accepted"

definition rest_not_accepted_nil :: "u32 \<Rightarrow> u32 \<Rightarrow> u32 \<Rightarrow> exec" where
  "rest_not_accepted_nil supplied minimum maximum =
     (if minimum \<le> supplied \<and> supplied \<le> maximum then add_pc (supplied - minimum + 1)
      else jump IllegalOperand)"

partial_function (option) rest_not_accepted :: exec where
  "rest_not_accepted s = bnd (gets (\<lambda>s. (cp_operand s, control s))) (\<lambda>(i, c).
     let minimum = ldb 8 0 i; maximum = ldb 8 8 i; supplied = ReadControlArgumentSize c in
     if ReadControlApply c = 0 then rest_not_accepted_nil supplied minimum maximum
     else bnd tos (\<lambda>a.
       if TypeEqualP (TAG a) TypeNIL
       then bnd clear_apply (\<lambda>_. rest_not_accepted_nil supplied minimum maximum)
       else if maximum \<le> supplied then jump IllegalOperand
       else if TypeEqualP (TAG a) TypeList then
         bnd (pull_args (maximum - supplied)) (\<lambda>left.
           if left \<noteq> 0 then jump (PullApplyArgsTrap left) else rest_not_accepted)
       else jump (PullApplyArgsTrap (maximum - supplied)))) s"

definition DispatchEntryRestNotAccepted :: exec where
  "DispatchEntryRestNotAccepted = rest_not_accepted"

definition DispatchLocateLocals :: exec where
  "DispatchLocateLocals = thn (modify (\<lambda>s. s\<lparr>lp := sp s\<rparr>))
    (thn (bnd (gets (\<lambda>s. ReadControlArgumentSize (control s))) (\<lambda>n. PushFixnum (n - 2)))
         (and_next (modify (\<lambda>s. s\<lparr>control :=
            WriteControlArgumentSize (control s) (word_of_int (lp s - fp s))\<rparr>))))"

subsection \<open>Returning\<close>

text \<open>
  Before a frame is left its catch blocks are popped (\<open>True\<close> when one has a cleanup handler to
  run first) and its bindings are undone; \<open>None\<close> when the frame can be left.
\<close>

partial_function (option) pop_catches :: "bool action" where
  "pop_catches s = bnd (gets control) (\<lambda>c.
     if ReadControlCleanupCatch c = 0 then ret False
     else bnd catch_slot (\<lambda>cbp. bnd (stack_at (cbp + 1)) (\<lambda>b.
       if ldb 1 6 (TAG b) \<noteq> 0 then ret True
       else bnd (stack_at (cbp + 2)) (\<lambda>previous.
         bnd (pop_catch_block c previous) (\<lambda>_. pop_catches))))) s"

partial_function (option) unbind_all :: "unit action" where
  "unbind_all s = bnd (gets control) (\<lambda>c.
     if ReadControlCleanupBindings c = 0 then ret () else bnd Unbind (\<lambda>_. unbind_all)) s"

definition leave_trap :: "goto option action" where
  "leave_trap = bnd (gets control) (\<lambda>c.
     ret (if ReadControlTrapOnExit c \<noteq> 0 then Some IllegalOperand else None))"

definition cleanup_frame :: "goto option action" where
  "cleanup_frame = bnd (gets control) (\<lambda>c.
     if ReadControlCleanupBits c = 0 then ret None
     else bnd pop_catches (\<lambda>unwind.
       if unwind then ret (Some HandleUnwindProtect)
       else bnd (gets (\<lambda>s. (control s, DeepBoundP s))) (\<lambda>(c, deep).
         if ReadControlCleanupBindings c \<noteq> 0 \<and> deep \<noteq> 0
         then ret (Some UnimplementedInstruction)
         else thn unbind_all leave_trap)))"

text \<open>The registers of the caller: \<open>saved\<close> is the caller's control register, from \<open>fp[1]\<close>.\<close>

definition pop_frame :: "bool \<Rightarrow> int \<Rightarrow> u64 \<Rightarrow> unit action" where
  "pop_frame set_pc framesize saved = bnd (fp_at 0) (\<lambda>k. modify (\<lambda>s.
     s\<lparr>pc := (if set_pc then continuation s else pc s), continuation := k,
       sp := fp s - 1, fp := fp s - framesize,
       lp := fp s - framesize + uint (ReadControlArgumentSize saved), control := saved\<rparr>))"

definition underflow_check :: "unit action" where
  "underflow_check = bnd (gets fp) (\<lambda>f.
     run_if (f < 0) (thn DecacheRegisters (thn StackCacheScrollDown EncacheRegisters)))"

definition return_value :: "u32 \<Rightarrow> unit action" where
  "return_value disp = bnd (gets scratch) (\<lambda>v.
     if disp = ValueDispositionValue then PushObject v
     else if disp = ValueDispositionMultiple then thn (PushObject v) (PushFixnum 1)
     else ret ())"

partial_function (option) return_single :: exec where
  "return_single s = bnd (gets control) (\<lambda>c. bnd (fp_at 1) (\<lambda>saved.
     let disp = ReadControlValueDisposition c in
     bnd cleanup_frame (\<lambda>l. case l of Some t \<Rightarrow> jump t | None \<Rightarrow>
       bnd (gets (\<lambda>s. uint (ReadControlCallerFrameSize (control s)))) (\<lambda>framesize.
       bnd (pop_frame (disp \<noteq> ValueDispositionReturn) framesize (ucast (DATA saved))) (\<lambda>_.
       bnd (return_value disp) (\<lambda>_.
       bnd underflow_check (\<lambda>_.
         if disp = ValueDispositionReturn then bnd AllowSequenceBreaks (\<lambda>_. return_single)
         else jump InstructionCacheLookup)))))))  s"

definition DispatchReturnSingleTOS :: exec where
  "DispatchReturnSingleTOS = bnd tos (\<lambda>a. thn (set_scratch a) return_single)"

definition DispatchReturnSingleNIL :: exec where
  "DispatchReturnSingleNIL = thn (set_scratch ObjectNIL) return_single"

definition DispatchReturnSingleT :: exec where
  "DispatchReturnSingleT = thn (set_scratch ObjectT) return_single"

fun copy_values :: "(LispObj \<Rightarrow> LispObj) \<Rightarrow> nat \<Rightarrow> int \<Rightarrow> unit action" where
  "copy_values f 0 from = ret ()"
| "copy_values f (Suc n) from =
     bnd (stack_at from) (\<lambda>v. thn (push (f v)) (copy_values f n (from + 1)))"

definition return_block :: "u32 \<Rightarrow> u32 \<Rightarrow> int \<Rightarrow> unit action" where
  "return_block disp count valueblock =
     (if disp = ValueDispositionEffect then ret ()
      else if disp = ValueDispositionValue then
        (if 0 < sint count then bnd (stack_at valueblock) PushObject else PushNIL)
      else if disp = ValueDispositionMultiple then
        thn (defined (0 \<le> sint count))
          (thn (copy_values cdr_next (unat count) valueblock) (PushFixnum count))
      else thn (defined (0 \<le> sint count)) (copy_values (\<lambda>v. v) (unat count) valueblock))"

definition values_too_many :: "u32 \<Rightarrow> u32 \<Rightarrow> bool" where
  "values_too_many framesize count \<longleftrightarrow> 112 < sint (framesize + count + 1)"

partial_function (option) return_multiple :: "u32 \<Rightarrow> exec" where
  "return_multiple count s = bnd (gets control) (\<lambda>c. bnd (fp_at 1) (\<lambda>saved. bnd (gets sp) (\<lambda>top.
     let disp = ReadControlValueDisposition c; framesize = ReadControlCallerFrameSize c in
     if (disp = ValueDispositionMultiple \<or> disp = ValueDispositionReturn)
          \<and> values_too_many framesize count
     then jump IllegalOperand
     else bnd cleanup_frame (\<lambda>l. case l of Some t \<Rightarrow> jump t | None \<Rightarrow>
       bnd (pop_frame (disp \<noteq> ValueDispositionReturn) (uint framesize) (ucast (DATA saved))) (\<lambda>_.
       bnd (return_block disp count (top - sint (count - 1))) (\<lambda>_.
       bnd underflow_check (\<lambda>_.
         if disp = ValueDispositionReturn then bnd AllowSequenceBreaks (\<lambda>_. return_multiple count)
         else jump InstructionCacheLookup)))))))  s"

definition DispatchReturnMultiple :: "operand_mode \<Rightarrow> exec" where
  "DispatchReturnMultiple mode = with_operand [ModeImmediate, ModePop] mode (bnd op2_obj (\<lambda>b.
     if \<not> TypeFixnumP (TAG b) then jump IllegalOperand else return_multiple (DATA b)))"

definition DispatchReturnKludge :: "operand_mode \<Rightarrow> exec" where
  "DispatchReturnKludge mode = with_operand [ModeImmediate, ModePop] mode (bnd op2_obj (\<lambda>b.
     if \<not> TypeFixnumP (TAG b) then jump IllegalOperand
     else bnd (gets control) (\<lambda>c. bnd (fp_at 1) (\<lambda>saved. bnd (gets sp) (\<lambda>top.
       let count = DATA b; framesize = ReadControlCallerFrameSize c in
       if values_too_many framesize count then jump IllegalOperand
       else bnd cleanup_frame (\<lambda>l. case l of Some t \<Rightarrow> jump t | None \<Rightarrow>
         thn (pop_frame True (uint framesize) (ucast (DATA saved)))
        (thn (defined (0 \<le> sint count))
        (thn (copy_values (\<lambda>v. v) (unat count) (top - sint (count - 1)))
        (thn underflow_check (jump InstructionCacheLookup))))))))))"

definition DispatchTakeValues :: exec where
  "DispatchTakeValues = bnd tos (\<lambda>a.
     if \<not> TypeFixnumP (TAG a) then jump IllegalOperand
     else bnd (gets (\<lambda>s. cp_operand s - DATA a)) (\<lambda>i.
       thn (add_sp (- 1))
         (if 0 < sint i then PushNNilsInternal i
          else thn (run_if (sint i < 0) (add_sp (sint i))) (jump NextInstruction))))"

end
