(* ===== verification/VMCommands.thy ===== *)
theory VMCommands
  imports MemoryCycles
begin

text \<open>
  The virtual memory coprocessor: copying and scanning memory and the command interpreter
  \<open>VMCommand\<close> of \<open>memory.c\<close>, which the coprocessor instructions drive through the registers
  in \<open>VM\<close>.
\<close>

unbundle bit_operations_syntax

subsection \<open>Copying\<close>

text \<open>\<open>memmove\<close>: all of the source is read before the destination is written.\<close>

fun fetch_all :: "(machine \<Rightarrow> u64 \<Rightarrow> 'a) \<Rightarrow> u64 \<Rightarrow> nat \<Rightarrow> 'a list action" where
  "fetch_all get vma 0 = ret []"
| "fetch_all get vma (Suc n) =
     thn (access vma) (bnd (gets (\<lambda>s. get s vma)) (\<lambda>x.
       bnd (fetch_all get (vma + 1) n) (\<lambda>xs. ret (x # xs))))"

fun store_all :: "(u64 \<Rightarrow> 'a \<Rightarrow> unit action) \<Rightarrow> u64 \<Rightarrow> 'a list \<Rightarrow> unit action" where
  "store_all put vma [] = ret ()"
| "store_all put vma (x # xs) = thn (put vma x) (store_all put (vma + 1) xs)"

definition memmove_tags :: "u64 \<Rightarrow> u64 \<Rightarrow> nat \<Rightarrow> unit action" where
  "memmove_tags to from n = bnd (fetch_all TagSpace from n) (store_all write_tag to)"

definition memmove_data :: "u64 \<Rightarrow> u64 \<Rightarrow> nat \<Rightarrow> unit action" where
  "memmove_data to from n = bnd (fetch_all DataSpace from n) (store_all write_data to)"

text \<open>The row of the action table is indexed by the whole tag, cdr code included, here.\<close>

fun copy_loop :: "nat \<Rightarrow> u64 \<Rightarrow> u64 \<Rightarrow> nat \<Rightarrow> unit action" where
  "copy_loop cycle from to 0 = ret ()"
| "copy_loop cycle from to (Suc n) =
     thn (access from) (bnd (gets (\<lambda>s. (TagSpace s from, DataSpace s from))) (\<lambda>(tag, data).
     bnd (memory_action cycle (unat tag)) (\<lambda>action.
     bnd (gets (\<lambda>s. OldspaceAddressP s data)) (\<lambda>old.
       thn (run_if (action AND (MemoryActionTransport OR MemoryActionTrap) = MemoryActionTransport
                     \<and> old) (TakeMemoryTrap TransportTrapVector data))
      (thn (if action \<noteq> 0
            then bnd (MemoryRead from Auto cycle) (\<lambda>x.
              thn (write_tag to (ucast (TAG (snd x)))) (write_data to (ucast (DATA (snd x)))))
            else thn (write_tag to tag) (bnd (gets (\<lambda>s. DataSpace s from)) (write_data to)))
      (thn next_memory_vma (copy_loop cycle (from + 1) (to + 1) n)))))))"

definition VirtualMemoryCopy :: "u64 \<Rightarrow> u64 \<Rightarrow> u32 \<Rightarrow> nat \<Rightarrow> u32 action" where
  "VirtualMemoryCopy from to count cycle =
     thn (set_memory_vma from)
    (if cycle = CycleRaw
     then thn (defined (0 \<le> sint count))
         (thn (memmove_tags to from (nat (sint count)))
         (thn (memmove_data to from (nat (sint count))) (ret 0)))
     else thn (copy_loop cycle from to (nat (sint count))) (ret 0))"

subsection \<open>Scanning\<close>

fun scan_page :: "u64 \<Rightarrow> nat \<Rightarrow> u64 option action" where
  "scan_page vma 0 = ret None"
| "scan_page vma (Suc n) =
     thn (access vma) (bnd (gets (\<lambda>s. TagSpace s vma)) (\<lambda>tag.
     bnd (pointer_and (ucast tag) (\<lambda>s. OldspaceAddressP s (DataSpace s vma))) (\<lambda>found.
       if found then ret (Some vma) else scan_page (vma + 1) n)))"

text \<open>\<open>pages\<close> pages from number \<open>vpn\<close> on, \<open>count\<close> words in all.\<close>

fun scan_loop :: "u64 \<Rightarrow> int \<Rightarrow> nat \<Rightarrow> u64 option action" where
  "scan_loop vpn count 0 = ret None"
| "scan_loop vpn count (Suc pages) =
     bnd (read_attribute vpn) (\<lambda>attr.
     bnd (if VMTransportFault attr
          then scan_page (PageNumberMemory vpn) (nat (if 8192 < count then 8192 else count))
          else ret None) (\<lambda>found.
       if found \<noteq> None then ret found else scan_loop (vpn + 1) (count - 8192) pages))"

definition VirtualMemoryScan :: "u64 \<Rightarrow> u32 \<Rightarrow> u64 option action" where
  "VirtualMemoryScan vma count =
     scan_loop (MemoryPageNumber vma) (sint count) (nat ((sint count + 8191) div 8192))"

subsection \<open>Commands\<close>

definition VMCommandOpcode :: "u32 \<Rightarrow> u32" where
  "VMCommandOpcode command = ldb 13 19 command"

definition VMCommandOperand :: "u32 \<Rightarrow> u32" where
  "VMCommandOperand command = ldb 19 0 command"

text \<open>Result code 0 is success, 1 failure.\<close>

definition SetVMReplyResult :: "u32 \<Rightarrow> bool \<Rightarrow> u32" where
  "SetVMReplyResult reply result = dpb (if result then 0 else 1) 13 19 reply"

abbreviation (input) VMOpcodeLookup :: u32 where "VMOpcodeLookup \<equiv> 0"
abbreviation (input) VMOpcodeCreate :: u32 where "VMOpcodeCreate \<equiv> 1"
abbreviation (input) VMOpcodeDestroy :: u32 where "VMOpcodeDestroy \<equiv> 2"
abbreviation (input) VMOpcodeReadAttributes :: u32 where "VMOpcodeReadAttributes \<equiv> 3"
abbreviation (input) VMOpcodeWriteAttributes :: u32 where "VMOpcodeWriteAttributes \<equiv> 4"
abbreviation (input) VMOpcodeFill :: u32 where "VMOpcodeFill \<equiv> 5"
abbreviation (input) VMOpcodeSearch :: u32 where "VMOpcodeSearch \<equiv> 6"
abbreviation (input) VMOpcodeCopy :: u32 where "VMOpcodeCopy \<equiv> 7"
abbreviation (input) VMOpcodeScan :: u32 where "VMOpcodeScan \<equiv> 8"
abbreviation (input) VMOpcodeEnable :: u32 where "VMOpcodeEnable \<equiv> 9"

definition reply :: "u32 \<Rightarrow> bool \<Rightarrow> u32 action" where
  "reply r result = ret (SetVMReplyResult r result)"

definition found_address :: "u64 option \<Rightarrow> u32 action" where
  "found_address r = (case r of
     None \<Rightarrow> reply 0 False
   | Some vma \<Rightarrow> thn (modify (AddressRegister_update (\<lambda>_. vma))) (reply 0 True))"

definition vm_lookup :: "u32 action" where
  "vm_lookup = bnd (gets AddressRegister) (\<lambda>vma.
     let vpn = ucast (MemoryPageNumber vma) :: u32 in
     bnd (read_attribute (scast vpn)) (\<lambda>a. reply vpn (VMExists a)))"

definition vm_read_attributes :: "u32 \<Rightarrow> u32 action" where
  "vm_read_attributes command =
     bnd (read_attribute (ucast (VMCommandOperand command))) (\<lambda>attr.
       if VMExists attr
       then thn (modify (AttributesRegister_update (\<lambda>_. ucast attr))) (reply command True)
       else reply command False)"

definition vm_write_attributes :: "u32 \<Rightarrow> u32 action" where
  "vm_write_attributes command =
     bnd (read_attribute (ucast (VMCommandOperand command))) (\<lambda>attr.
       if VMExists attr
       then thn (modify (AttributesRegister_update (\<lambda>a. a OR 64)))
           (bnd (gets AttributesRegister) (\<lambda>a.
             thn (write_attribute (ucast (VMCommandOperand command)) (ucast a))
                 (reply command True)))
       else reply command False)"

text \<open>A command with another opcode runs off the end of the function, whose value is then used.\<close>

definition VMCommand :: "u32 \<Rightarrow> u32 action" where
  "VMCommand command = bnd (gets (\<lambda>s. (AddressRegister s, ucast (ExtentRegister s)))) (\<lambda>(vma, extent).
     let opcode = VMCommandOpcode command; i = VMCommandOperand command in
     if opcode = VMOpcodeLookup then vm_lookup
     else if opcode = VMOpcodeCreate
       then thn (EnsureVirtualAddressRange vma extent) (reply 0 True)
     else if opcode = VMOpcodeDestroy
       then thn (DestroyVirtualAddressRange vma extent) (reply 0 True)
     else if opcode = VMOpcodeReadAttributes then vm_read_attributes command
     else if opcode = VMOpcodeWriteAttributes then vm_write_attributes command
     else if opcode = VMOpcodeFill
       then bnd (gets DataRegister) (\<lambda>obj.
         thn (VirtualMemoryWriteBlockConstant vma obj extent i) (reply 0 True))
     else if opcode = VMOpcodeSearch
       then bnd (gets DataRegister) (\<lambda>obj. bnd (VirtualMemorySearch vma obj extent) found_address)
     else if opcode = VMOpcodeCopy
       then bnd (gets DestinationRegister) (\<lambda>dest.
         bnd (VirtualMemoryCopy vma dest extent (unat i)) (\<lambda>r. reply 0 (r \<noteq> 0)))
     else if opcode = VMOpcodeScan
       then bnd (VirtualMemoryScan vma extent) found_address
     else if opcode = VMOpcodeEnable
       then thn (VirtualMemoryEnable vma extent) (reply 0 True)
     else undef)"

end
