(* ===== verification/RegisterInstructions.thy ===== *)
theory RegisterInstructions
  imports CallInstructions VMCommands
begin

text \<open>
  The instructions on internal registers and coprocessor registers, and the emulated arithmetic
  and logic unit (\<open>ALUFunctionBoolean\<close>, \<open>ALUFunctionByte\<close>, \<open>ALUFunctionAdder\<close>,
  \<open>ALUComputeCondition\<close> and the \<open>alu\<close> instruction).
\<close>

unbundle bit_operations_syntax

subsection \<open>Internal registers\<close>

abbreviation (input) InternalRegisterFP :: u32 where "InternalRegisterFP \<equiv> 1"
abbreviation (input) InternalRegisterLP :: u32 where "InternalRegisterLP \<equiv> 2"
abbreviation (input) InternalRegisterMacroSP :: u32 where "InternalRegisterMacroSP \<equiv> 4"
abbreviation (input) InternalRegisterSP :: u32 where "InternalRegisterSP \<equiv> 3"
abbreviation (input) InternalRegisterStackCacheLowerBound :: u32 where "InternalRegisterStackCacheLowerBound \<equiv> 5"
abbreviation (input) InternalRegisterBAR1 :: u32 where "InternalRegisterBAR1 \<equiv> 134"
abbreviation (input) InternalRegisterBAR2 :: u32 where "InternalRegisterBAR2 \<equiv> 262"
abbreviation (input) InternalRegisterBAR3 :: u32 where "InternalRegisterBAR3 \<equiv> 390"
abbreviation (input) InternalRegisterContinuation :: u32 where "InternalRegisterContinuation \<equiv> 10"
abbreviation (input) InternalRegisterAluAndRotateControl :: u32 where "InternalRegisterAluAndRotateControl \<equiv> 11"
abbreviation (input) InternalRegisterControlRegister :: u32 where "InternalRegisterControlRegister \<equiv> 12"
abbreviation (input) InternalRegisterCRArgumentSize :: u32 where "InternalRegisterCRArgumentSize \<equiv> 13"
abbreviation (input) InternalRegisterEphemeralOldspaceRegister :: u32 where "InternalRegisterEphemeralOldspaceRegister \<equiv> 14"
abbreviation (input) InternalRegisterZoneOldspaceRegister :: u32 where "InternalRegisterZoneOldspaceRegister \<equiv> 15"
abbreviation (input) InternalRegisterChipRevision :: u32 where "InternalRegisterChipRevision \<equiv> 16"
abbreviation (input) InternalRegisterFPCoprocessorPresent :: u32 where "InternalRegisterFPCoprocessorPresent \<equiv> 17"
abbreviation (input) InternalRegisterPreemptRegister :: u32 where "InternalRegisterPreemptRegister \<equiv> 19"
abbreviation (input) InternalRegisterStackCacheOverflowLimit :: u32 where "InternalRegisterStackCacheOverflowLimit \<equiv> 28"
abbreviation (input) InternalRegisterMicrosecondClock :: u32 where "InternalRegisterMicrosecondClock \<equiv> 39"
abbreviation (input) InternalRegisterTOS :: u32 where "InternalRegisterTOS \<equiv> 512"
abbreviation (input) InternalRegisterEventCount :: u32 where "InternalRegisterEventCount \<equiv> 513"
abbreviation (input) InternalRegisterBindingStackPointer :: u32 where "InternalRegisterBindingStackPointer \<equiv> 514"
abbreviation (input) InternalRegisterBindingStackLimit :: u32 where "InternalRegisterBindingStackLimit \<equiv> 518"
abbreviation (input) InternalRegisterCatchBlockList :: u32 where "InternalRegisterCatchBlockList \<equiv> 515"
abbreviation (input) InternalRegisterControlStackLimit :: u32 where "InternalRegisterControlStackLimit \<equiv> 516"
abbreviation (input) InternalRegisterControlStackExtraLimit :: u32 where "InternalRegisterControlStackExtraLimit \<equiv> 517"
abbreviation (input) InternalRegisterListCacheArea :: u32 where "InternalRegisterListCacheArea \<equiv> 522"
abbreviation (input) InternalRegisterListCacheAddress :: u32 where "InternalRegisterListCacheAddress \<equiv> 523"
abbreviation (input) InternalRegisterListCacheLength :: u32 where "InternalRegisterListCacheLength \<equiv> 524"
abbreviation (input) InternalRegisterStructureCacheArea :: u32 where "InternalRegisterStructureCacheArea \<equiv> 525"
abbreviation (input) InternalRegisterStructureCacheAddress :: u32 where "InternalRegisterStructureCacheAddress \<equiv> 526"
abbreviation (input) InternalRegisterStructureCacheLength :: u32 where "InternalRegisterStructureCacheLength \<equiv> 527"
abbreviation (input) InternalRegisterDynamicBindingCacheBase :: u32 where "InternalRegisterDynamicBindingCacheBase \<equiv> 528"
abbreviation (input) InternalRegisterDynamicBindingCacheMask :: u32 where "InternalRegisterDynamicBindingCacheMask \<equiv> 529"
abbreviation (input) InternalRegisterFEPModeTrapVectorAddress :: u32 where "InternalRegisterFEPModeTrapVectorAddress \<equiv> 532"
abbreviation (input) InternalRegisterMappingTableCache :: u32 where "InternalRegisterMappingTableCache \<equiv> 534"
abbreviation (input) InternalRegisterMappingTableLength :: u32 where "InternalRegisterMappingTableLength \<equiv> 535"
abbreviation (input) InternalRegisterStackCacheDumpQuantum :: u32 where "InternalRegisterStackCacheDumpQuantum \<equiv> 537"
abbreviation (input) InternalRegisterConstantNIL :: u32 where "InternalRegisterConstantNIL \<equiv> 544"
abbreviation (input) InternalRegisterConstantT :: u32 where "InternalRegisterConstantT \<equiv> 545"

text \<open>\<open>times\<close> and \<open>sysconf\<close>: the processor time in microseconds.\<close>

definition read_microsecond_clock :: "unit action" where
  "read_microsecond_clock = bnd (gets (\<lambda>s. (cpu_ticks s, ticks_per_second s))) (\<lambda>(t, tps).
     thn (defined (tps \<noteq> 0)) (PushFixnum (ucast (t * 1000000 div tps))))"

definition push_bar :: "nat \<Rightarrow> unit action" where
  "push_bar n = bnd (gets (\<lambda>s. bar_address s n)) PushObject"

text \<open>What reading a register pushes; \<open>None\<close> is an instruction exception. The cases of the address
  registers 2 and 3 push register 1.\<close>

definition read_register :: "u32 \<Rightarrow> unit action option" where
  "read_register r =
     (if r = InternalRegisterFP then Some (bnd (gets (\<lambda>s. stack_vma s (fp s))) (PushConstant TypeLocative))
      else if r = InternalRegisterLP then Some (bnd (gets (\<lambda>s. stack_vma s (lp s))) (PushConstant TypeLocative))
      else if r = InternalRegisterMacroSP \<or> r = InternalRegisterSP then Some (bnd (gets (\<lambda>s. stack_vma s (sp s))) (PushConstant TypeLocative))
      else if r = InternalRegisterStackCacheLowerBound then Some (bnd (gets StackCacheBase) (PushConstant TypeLocative))
      else if r = InternalRegisterBAR1 then Some (push_bar 1)
      else if r = InternalRegisterBAR2 then Some (push_bar 1)
      else if r = InternalRegisterBAR3 then Some (push_bar 1)
      else if r = InternalRegisterContinuation then Some (bnd (gets continuation) PushObject)
      else if r = InternalRegisterAluAndRotateControl then Some (bnd (gets AluAndRotateControl) (\<lambda>r. PushFixnum (ucast r)))
      else if r = InternalRegisterControlRegister then Some (bnd (gets control) (\<lambda>r. PushFixnum (ucast r)))
      else if r = InternalRegisterCRArgumentSize then Some (PushFixnum 3)
      else if r = InternalRegisterEphemeralOldspaceRegister then Some (bnd (gets EphemeralOldspaceRegister) (\<lambda>r. PushFixnum (ucast r)))
      else if r = InternalRegisterZoneOldspaceRegister then Some (bnd (gets ZoneOldspaceRegister) (\<lambda>r. PushFixnum (ucast r)))
      else if r = InternalRegisterChipRevision then Some (PushFixnum 5)
      else if r = InternalRegisterFPCoprocessorPresent then Some (PushFixnum 0)
      else if r = InternalRegisterPreemptRegister then Some (bnd (gets PreemptRegister) (\<lambda>r. PushFixnum (ucast r)))
      else if r = InternalRegisterStackCacheOverflowLimit then Some (bnd (gets (\<lambda>s. stack_vma s (StackCacheLimit s))) (PushConstant TypeLocative))
      else if r = InternalRegisterMicrosecondClock then Some (read_microsecond_clock)
      else if r = InternalRegisterTOS then Some (bnd tos PushObject)
      else if r = InternalRegisterEventCount then Some (bnd (gets ArrayEventCount) (\<lambda>r. PushFixnum (ucast r)))
      else if r = InternalRegisterBindingStackPointer then Some (bnd (gets BindingStackPointer) (PushConstant TypeLocative))
      else if r = InternalRegisterBindingStackLimit then Some (bnd (gets BindingStackLimit) (PushConstant TypeLocative))
      else if r = InternalRegisterCatchBlockList then Some (bnd (gets CatchBlockPointer) PushObject)
      else if r = InternalRegisterControlStackLimit then Some (bnd (gets ControlStackLimit) (PushConstant TypeLocative))
      else if r = InternalRegisterControlStackExtraLimit then Some (bnd (gets ControlStackExtraLimit) (PushConstant TypeLocative))
      else if r = InternalRegisterListCacheArea then Some (bnd (gets ListCacheArea) PushObject)
      else if r = InternalRegisterListCacheAddress then Some (bnd (gets ListCacheAddress) PushObject)
      else if r = InternalRegisterListCacheLength then Some (bnd (gets ListCacheLength) (\<lambda>r. PushFixnum (ucast r)))
      else if r = InternalRegisterStructureCacheArea then Some (bnd (gets StructureCacheArea) PushObject)
      else if r = InternalRegisterStructureCacheAddress then Some (bnd (gets StructureCacheAddress) PushObject)
      else if r = InternalRegisterStructureCacheLength then Some (bnd (gets StructureCacheLength) (\<lambda>r. PushFixnum (ucast r)))
      else if r = InternalRegisterDynamicBindingCacheBase then Some (bnd (gets DynamicBindingCacheBase) (PushConstant TypeLocative))
      else if r = InternalRegisterDynamicBindingCacheMask then Some (bnd (gets DynamicBindingCacheMask) (\<lambda>r. PushFixnum (ucast r)))
      else if r = InternalRegisterFEPModeTrapVectorAddress then Some (bnd (gets FEPModeTrapVectorAddress) (PushConstant TypeLocative))
      else if r = InternalRegisterMappingTableCache then Some (bnd (gets MappingTableCache) (PushConstant TypeLocative))
      else if r = InternalRegisterMappingTableLength then Some (bnd (gets MappingTableLength) (\<lambda>r. PushFixnum (ucast r)))
      else if r = InternalRegisterStackCacheDumpQuantum then Some (PushFixnum 0x100)
      else if r = InternalRegisterConstantNIL then Some (PushNIL)
      else if r = InternalRegisterConstantT then Some (PushT)
      else None)"

definition DispatchReadInternalRegister :: exec where
  "DispatchReadInternalRegister = bnd (gets cp_operand) (\<lambda>r.
     case read_register r of Some m \<Rightarrow> and_next m | None \<Rightarrow> jump InstructionException)"

text \<open>What writing the top of the stack to a register does.\<close>

definition from_tos :: "(LispObj \<Rightarrow> machine \<Rightarrow> machine) \<Rightarrow> unit action" where
  "from_tos f = bnd tos (\<lambda>a. modify (f a))"

definition write_register :: "u32 \<Rightarrow> unit action option" where
  "write_register r =
     (if r = InternalRegisterBAR1 then Some (from_tos (\<lambda>a s. s\<lparr>bar_address := (bar_address s)(1 := a)\<rparr>))
      else if r = InternalRegisterBAR2 then Some (from_tos (\<lambda>a s. s\<lparr>bar_address := (bar_address s)(2 := a)\<rparr>))
      else if r = InternalRegisterBAR3 then Some (from_tos (\<lambda>a s. s\<lparr>bar_address := (bar_address s)(3 := a)\<rparr>))
      else if r = InternalRegisterContinuation then Some (from_tos (\<lambda>a s. s\<lparr>continuation := a\<rparr>))
      else if r = InternalRegisterAluAndRotateControl then Some (from_tos (\<lambda>a s. s\<lparr>AluAndRotateControl := ucast (DATA a), AluOp := unat (ldb 2 14 (DATA a)),
         ByteSize := ucast (ldb 5 5 (DATA a)), ByteRotate := ucast (ldb 5 0 (DATA a))\<rparr>))
      else if r = InternalRegisterControlRegister then Some (from_tos (\<lambda>a s. s\<lparr>control := ucast (DATA a)\<rparr>))
      else if r = InternalRegisterEphemeralOldspaceRegister then Some (from_tos (\<lambda>a s. s\<lparr>EphemeralOldspaceRegister := ucast (DATA a)\<rparr>))
      else if r = InternalRegisterZoneOldspaceRegister then Some (from_tos (\<lambda>a s. s\<lparr>ZoneOldspaceRegister := ucast (DATA a)\<rparr>))
      else if r = InternalRegisterFPCoprocessorPresent then Some (ret ())
      else if r = InternalRegisterPreemptRegister then Some (from_tos (\<lambda>a s. s\<lparr>PreemptRegister := ucast (DATA a)\<rparr>))
      else if r = InternalRegisterMicrosecondClock then Some (ret ())
      else if r = InternalRegisterTOS then Some (ret ())
      else if r = InternalRegisterEventCount then Some (from_tos (\<lambda>a s. s\<lparr>ArrayEventCount := ucast (DATA a)\<rparr>))
      else if r = InternalRegisterBindingStackPointer then Some (from_tos (\<lambda>a s. s\<lparr>BindingStackPointer := ucast (DATA a)\<rparr>))
      else if r = InternalRegisterBindingStackLimit then Some (from_tos (\<lambda>a s. s\<lparr>BindingStackLimit := ucast (DATA a)\<rparr>))
      else if r = InternalRegisterCatchBlockList then Some (from_tos (\<lambda>a s. s\<lparr>CatchBlockPointer := a\<rparr>))
      else if r = InternalRegisterControlStackLimit then Some (from_tos (\<lambda>a s. s\<lparr>ControlStackLimit := ucast (DATA a)\<rparr>))
      else if r = InternalRegisterControlStackExtraLimit then Some (from_tos (\<lambda>a s. s\<lparr>ControlStackExtraLimit := ucast (DATA a)\<rparr>))
      else if r = InternalRegisterListCacheArea then Some (from_tos (\<lambda>a s. s\<lparr>ListCacheArea := a\<rparr>))
      else if r = InternalRegisterListCacheAddress then Some (from_tos (\<lambda>a s. s\<lparr>ListCacheAddress := a\<rparr>))
      else if r = InternalRegisterListCacheLength then Some (from_tos (\<lambda>a s. s\<lparr>ListCacheLength := ucast (DATA a)\<rparr>))
      else if r = InternalRegisterStructureCacheArea then Some (from_tos (\<lambda>a s. s\<lparr>StructureCacheArea := a\<rparr>))
      else if r = InternalRegisterStructureCacheAddress then Some (from_tos (\<lambda>a s. s\<lparr>StructureCacheAddress := a\<rparr>))
      else if r = InternalRegisterStructureCacheLength then Some (from_tos (\<lambda>a s. s\<lparr>StructureCacheLength := ucast (DATA a)\<rparr>))
      else if r = InternalRegisterDynamicBindingCacheBase then Some (from_tos (\<lambda>a s. s\<lparr>DynamicBindingCacheBase := ucast (DATA a)\<rparr>))
      else if r = InternalRegisterDynamicBindingCacheMask then Some (from_tos (\<lambda>a s. s\<lparr>DynamicBindingCacheMask := ucast (DATA a)\<rparr>))
      else if r = InternalRegisterFEPModeTrapVectorAddress then Some (from_tos (\<lambda>a s. s\<lparr>FEPModeTrapVectorAddress := ucast (DATA a)\<rparr>))
      else if r = InternalRegisterMappingTableCache then Some (from_tos (\<lambda>a s. s\<lparr>MappingTableCache := ucast (DATA a)\<rparr>))
      else if r = InternalRegisterMappingTableLength then Some (from_tos (\<lambda>a s. s\<lparr>MappingTableLength := ucast (DATA a)\<rparr>))
      else None)"

definition DispatchWriteInternalRegister :: exec where
  "DispatchWriteInternalRegister = bnd (gets cp_operand) (\<lambda>r.
     case write_register r of Some m \<Rightarrow> thn m (and_next (add_sp (- 1)))
     | None \<Rightarrow> jump InstructionException)"

end
