(* ===== verification/SubprimInstructions.thy ===== *)
theory SubprimInstructions
  imports RegisterInstructions
begin

text \<open>
  The emulated arithmetic and logic unit, the coprocessor registers, consing from the list and
  structure caches, and the remaining system primitives of \<open>InstructionSequencer\<close>.
\<close>

unbundle bit_operations_syntax

subsection \<open>The arithmetic and logic unit\<close>

definition ALUFunctionBoolean :: "u64 \<Rightarrow> u64 \<Rightarrow> u64 \<Rightarrow> u64" where
  "ALUFunctionBoolean ALU op1 opn2 =
     (let f = ldb 4 10 ALU in
      if f = 0 then 0
      else if f = 1 then op1 AND opn2
      else if f = 2 then NOT op1 AND opn2
      else if f = 3 then opn2
      else if f = 4 then op1 AND NOT opn2
      else if f = 5 then op1
      else if f = 6 then op1 XOR opn2
      else if f = 7 then op1 OR opn2
      else if f = 8 then NOT (op1 OR opn2)
      else if f = 9 then NOT (op1 XOR opn2)
      else if f = 10 then NOT op1
      else if f = 11 then NOT op1 OR opn2
      else if f = 12 then NOT opn2
      else if f = 13 then op1 OR NOT opn2
      else if f = 14 then NOT (op1 AND opn2)
      else - 1)"

text \<open>The background of a byte operation; selector 3 leaves the variable uninitialised.\<close>

definition alu_background :: "u64 \<Rightarrow> u64 \<Rightarrow> u64 action" where
  "alu_background ALU op1 = bnd (gets RotateLatch) (\<lambda>latch.
     let b = ldb 2 10 ALU in
     if b = 0 then ret op1 else if b = 1 then ret latch else if b = 2 then ret 0 else undef)"

definition low_mask :: "nat \<Rightarrow> u32" where
  "low_mask sz = NOT (push_bit sz (- 2))"

definition ALUFunctionByte :: "u64 \<Rightarrow> u64 \<Rightarrow> u64 \<Rightarrow> u64 action" where
  "ALUFunctionByte ALU op1 opn2 = bnd (gets (\<lambda>s. (unat (ByteRotate s), unat (ByteSize s))))
     (\<lambda>(rot, sz). thn (defined (rot < 32 \<and> sz < 32)) (bnd (alu_background ALU op1) (\<lambda>background.
       let right = drop_bit (unat ((32 - of_nat rot) AND 0x1f :: u32)) (ucast opn2 :: u32);
           latchp = ldb 1 12 ALU \<noteq> 0 in
       if ldb 1 13 ALU = 0 then
         (let rotated = ucast (push_bit rot opn2) :: u32; m = push_bit rot (low_mask sz) in
          thn (run_if latchp (modify (RotateLatch_update (\<lambda>_. ucast (rotated OR right)))))
              (ret (scast (rotated AND m) OR (background AND scast (NOT m)))))
       else
         (let m = low_mask sz in
          thn (run_if latchp (modify (RotateLatch_update (\<lambda>_. scast right OR push_bit rot opn2))))
              (ret (scast (right AND m) OR (background AND scast (NOT m))))))))"

text \<open>The cases of \<open>switch (ReadALUAdderOp2(ALU))\<close> fall through, so that every selector but 0 ends
  in the last one. The comparisons are of unsigned values.\<close>

definition ALUFunctionAdder :: "u64 \<Rightarrow> u64 \<Rightarrow> u64 \<Rightarrow> u64 action" where
  "ALUFunctionAdder ALU op1 opn2 =
     (let b = (if ldb 2 11 ALU = 0 then opn2 else - 1);
          sum = scast (ucast (op1 + b + ucast (ldb 1 10 ALU)) :: u32) :: u64 in
      thn (modify (\<lambda>s. s\<lparr>ALUOverflow := (op1 \<le> sum) \<noteq> True,
                        ALUBorrow := (ucast op1 :: u32) < ucast b,
                        ALULessThan := op1 < b\<rparr>))
          (ret sum))"

text \<open>\<open>ALUFunctionClass[4]\<close>; \<open>ALUFunctionMultiplyDivide\<close> prints a message and returns no value,
  and any other number stands for the null pointer that \<open>AluOp\<close> is at first.\<close>

definition ALUFunctionClass :: "nat \<Rightarrow> u64 \<Rightarrow> u64 \<Rightarrow> u64 \<Rightarrow> u64 action" where
  "ALUFunctionClass k ALU op1 opn2 =
     (if k = 0 then ret (ALUFunctionBoolean ALU op1 opn2)
      else if k = 1 then ALUFunctionByte ALU op1 opn2
      else if k = 2 then ALUFunctionAdder ALU op1 opn2
      else undef)"

definition DispatchAlu :: "operand_mode \<Rightarrow> exec" where
  "DispatchAlu mode = fixnum_op mode (\<lambda>a b.
     thn (modify (ALUOverflow_update (\<lambda>_. False)))
    (bnd (gets (\<lambda>s. (AluOp s, AluAndRotateControl s))) (\<lambda>(k, c).
     bnd (ALUFunctionClass k c (ucast (DATA a)) (ucast (DATA b))) (\<lambda>result.
     bnd (gets ALUOverflow) (\<lambda>overflow.
       if overflow then jump InstructionException
       else and_next (set_tos_data (ucast result)))))))"

text \<open>The conditions that only print a message, and the numbers without a name, have no value.\<close>

definition ALUComputeCondition :: "u64 \<Rightarrow> LispObj \<Rightarrow> LispObj \<Rightarrow> u32 \<Rightarrow> bool action" where
  "ALUComputeCondition ALU op1 opn2 result =
     bnd (gets (\<lambda>s. (ALUOverflow s, ALUBorrow s, ALULessThan s))) (\<lambda>(overflow, borrow, lessthan).
     bnd (gets control) (\<lambda>c.
     let k = ldb 5 16 ALU in
     if k = 0 then ret (lessthan \<or> result = 0)
     else if k = 1 then ret lessthan
     else if k = 2 then ret (sint result < 0)
     else if k = 3 then ret overflow
     else if k = 4 then ret (borrow \<or> result = 0)
     else if k = 5 then ret borrow
     else if k = 6 then ret (result = 0)
     else if k = 7 then ret (ldb 25 7 result = 0)
     else if k = 8 then ret (ObjectEqP op1 opn2)
     else if k = 9 then EphemeralP op1
     else if k = 12 then ret (TypeEqualP (TAG op1) TypeNIL)
     else if k = 13 then ret (TypeFixnumP (TAG opn2))
     else if k = 14 then ret False
     else if k = 15 then ret (TagCdr (TAG op1) AND 1 \<noteq> 0)
     else if k = 16 then ret (ReadControlCleanupBits c \<noteq> 0)
     else if k = 17 then gets (\<lambda>s. in_stack_cache s (ucast (DATA op1)))
     else if k = 19 then ret (ReadControlTrapMode c = 0)
     else if k = 20 then ret (ReadControlTrapMode c = 3)
     else if k = 21 then ret False
     else if k = 22 then OldspaceP op1
     else undef))"

subsection \<open>Coprocessor registers\<close>

abbreviation (input) CoprocessorRegisterMicrosecondClock :: u32 where "CoprocessorRegisterMicrosecondClock \<equiv> 0x202"
abbreviation (input) VMRegisterCommand :: u32 where "VMRegisterCommand \<equiv> 0x240"
abbreviation (input) VMRegisterAddress :: u32 where "VMRegisterAddress \<equiv> 0x241"
abbreviation (input) VMRegisterExtent :: u32 where "VMRegisterExtent \<equiv> 0x242"
abbreviation (input) VMRegisterAttributes :: u32 where "VMRegisterAttributes \<equiv> 0x243"
abbreviation (input) VMRegisterDestination :: u32 where "VMRegisterDestination \<equiv> 0x244"
abbreviation (input) VMRegisterData :: u32 where "VMRegisterData \<equiv> 0x245"

definition read_coprocessor :: "u32 \<Rightarrow> unit action option" where
  "read_coprocessor r =
     (if r = CoprocessorRegisterMicrosecondClock then Some read_microsecond_clock
      else if r = VMRegisterCommand then Some (bnd (gets CommandRegister) (\<lambda>x. PushFixnum (ucast x)))
      else if r = VMRegisterAddress then Some (bnd (gets AddressRegister) (PushConstant TypeLocative))
      else if r = VMRegisterExtent then Some (bnd (gets ExtentRegister) (\<lambda>x. PushFixnum (ucast x)))
      else if r = VMRegisterAttributes then Some (bnd (gets AttributesRegister) (\<lambda>x. PushFixnum (ucast x)))
      else if r = VMRegisterDestination
        then Some (bnd (gets DestinationRegister) (PushConstant TypeLocative))
      else if r = VMRegisterData then Some (bnd (gets DataRegister) PushObject)
      else None)"

definition DispatchCoprocessorRead :: exec where
  "DispatchCoprocessorRead = bnd (gets cp_operand) (\<lambda>r.
     case read_coprocessor r of Some m \<Rightarrow> and_next m | None \<Rightarrow> jump InstructionException)"

text \<open>Register \<open>01010\<close> is the interrupt of the life support.\<close>

definition SendInterruptToLifeSupport :: "unit action" where
  "SendInterruptToLifeSupport = modify (life_support_interrupts_update Suc)"

definition write_coprocessor :: "u32 \<Rightarrow> unit action option" where
  "write_coprocessor r =
     (if r = 0x208 then Some SendInterruptToLifeSupport
      else if r = CoprocessorRegisterMicrosecondClock then Some (ret ())
      else if r = VMRegisterCommand then Some (bnd tos (\<lambda>a. bnd (VMCommand (DATA a))
        (\<lambda>x. modify (CommandRegister_update (\<lambda>_. scast x)))))
      else if r = VMRegisterAddress then Some (from_tos (\<lambda>a. AddressRegister_update (\<lambda>_. ucast (DATA a))))
      else if r = VMRegisterExtent then Some (from_tos (\<lambda>a. ExtentRegister_update (\<lambda>_. ucast (DATA a))))
      else if r = VMRegisterAttributes
        then Some (from_tos (\<lambda>a. AttributesRegister_update (\<lambda>_. ucast (DATA a))))
      else if r = VMRegisterDestination
        then Some (from_tos (\<lambda>a. DestinationRegister_update (\<lambda>_. ucast (DATA a))))
      else if r = VMRegisterData then Some (from_tos (\<lambda>a. DataRegister_update (\<lambda>_. a)))
      else None)"

definition DispatchCoprocessorWrite :: exec where
  "DispatchCoprocessorWrite = bnd (gets cp_operand) (\<lambda>r.
     case write_coprocessor r of Some m \<Rightarrow> thn m (and_next (add_sp (- 1)))
     | None \<Rightarrow> jump InstructionException)"

subsection \<open>Consing\<close>

text \<open>Both instructions check the area on top of the stack and the room left in the cache.\<close>

definition enter_extra_stack_mode :: "unit action" where
  "enter_extra_stack_mode =
     set_control (\<lambda>c. if ReadControlTrapMode c < 1 then WriteControlTrapMode c 1 else c)"

definition ExecuteAllocateListBlock :: exec where
  "ExecuteAllocateListBlock = bnd op2_obj (\<lambda>b.
     if \<not> TypeFixnumP (TAG b) then jump IllegalOperand
     else bnd tos (\<lambda>a. bnd (gets (\<lambda>s. (ListCacheArea s, ListCacheLength s, ListCacheAddress s)))
       (\<lambda>(area, len, address).
         if \<not> ObjectEqP area a \<or> len < ucast (DATA b) then jump InstructionException
         else thn (SetObject address)
             (thn (modify (\<lambda>s. s\<lparr>bar_address := (bar_address s)(1 := address)\<rparr>))
             (thn enter_extra_stack_mode
             (bnd op2_obj (\<lambda>b. and_next (modify (\<lambda>s. s\<lparr>
                ListCacheLength := ListCacheLength s - ucast (DATA b),
                ListCacheAddress := (ListCacheAddress s)
                  \<lparr>DATA := DATA (ListCacheAddress s) + DATA b\<rparr>\<rparr>))))))))) "

definition ExecuteAllocateStructureBlock :: exec where
  "ExecuteAllocateStructureBlock = bnd op2_obj (\<lambda>b.
     if \<not> TypeFixnumP (TAG b) then jump IllegalOperand
     else bnd tos (\<lambda>a. bnd (gets (\<lambda>s. (StructureCacheArea s, StructureCacheLength s,
           StructureCacheAddress s)))
       (\<lambda>(area, len, address).
         if \<not> ObjectEqP area a \<or> len < ucast (DATA b) then jump InstructionException
         else thn (SetObject address)
             (thn (modify (\<lambda>s. s\<lparr>bar_address := (bar_address s)(1 := address)\<rparr>))
             (thn enter_extra_stack_mode
             (bnd op2_obj (\<lambda>b. and_next (modify (\<lambda>s. s\<lparr>
                StructureCacheLength := StructureCacheLength s - ucast (DATA b),
                StructureCacheAddress := (StructureCacheAddress s)
                  \<lparr>DATA := DATA (StructureCacheAddress s) + DATA b\<rparr>\<rparr>))))))))) "

definition DispatchAllocateListBlock :: "operand_mode \<Rightarrow> exec" where
  "DispatchAllocateListBlock mode = with_operand all_modes mode ExecuteAllocateListBlock"

text \<open>The immediate case goes to \<open>ExecuteAllocateListBlock\<close>.\<close>

definition DispatchAllocateStructureBlock :: "operand_mode \<Rightarrow> exec" where
  "DispatchAllocateStructureBlock mode =
     (if mode = ModeImmediate then with_operand [ModeImmediate] mode ExecuteAllocateListBlock
      else with_operand source_modes mode ExecuteAllocateStructureBlock)"

subsection \<open>Pointers and tags\<close>

definition DispatchPointerPlus :: "operand_mode \<Rightarrow> exec" where
  "DispatchPointerPlus mode =
     (if mode = ModeImmediate
      then bnd tos (\<lambda>a. bnd (gets cp_operand) (\<lambda>i. and_next (set_tos_data (DATA a + i))))
      else with_operand source_modes mode
        (bnd tos (\<lambda>a. bnd op2_obj (\<lambda>b. and_next (set_tos_data (DATA a + DATA b))))))"

definition DispatchPointerDifference :: "operand_mode \<Rightarrow> exec" where
  "DispatchPointerDifference mode =
     (if mode = ModeImmediate
      then bnd tos (\<lambda>a. bnd (gets cp_operand) (\<lambda>i. and_next (SetFixnum (DATA a - i))))
      else with_operand source_modes mode
        (bnd tos (\<lambda>a. bnd op2_obj (\<lambda>b. and_next (SetFixnum (DATA a - DATA b))))))"

definition DispatchPointerIncrement :: "operand_mode \<Rightarrow> exec" where
  "DispatchPointerIncrement mode = with_operand stack_modes mode
     (bnd op2_obj (\<lambda>b. and_next (set_op2_obj (b\<lparr>DATA := DATA b + 1\<rparr>))))"

definition DispatchTag :: "operand_mode \<Rightarrow> exec" where
  "DispatchTag mode =
     (if mode = ModeImmediate then and_next (PushFixnum TypeFixnum)
      else with_operand source_modes mode (bnd op2_obj (\<lambda>b. and_next (PushFixnum (TAG b)))))"

definition DispatchSetTag :: "operand_mode \<Rightarrow> exec" where
  "DispatchSetTag mode =
     (if mode = ModeImmediate
      then bnd tos (\<lambda>a. bnd (gets cp_operand) (\<lambda>i. and_next (set_tos (a\<lparr>TAG := i\<rparr>))))
      else with_operand source_modes mode (bnd op2_obj (\<lambda>b.
        if TypeEqualP (TAG b) TypeFixnum
        then bnd tos (\<lambda>a. and_next (set_tos (a\<lparr>TAG := DATA b\<rparr>)))
        else jump InstructionException)))"

definition set_cdr_code :: "u32 \<Rightarrow> operand_mode \<Rightarrow> exec" where
  "set_cdr_code cdr mode = with_operand stack_modes mode
     (bnd op2_obj (\<lambda>b. and_next (set_op2_obj (b\<lparr>TAG := push_bit 6 cdr OR TagType (TAG b)\<rparr>))))"

definition DispatchSetCdrCode1 :: "operand_mode \<Rightarrow> exec" where
  "DispatchSetCdrCode1 mode = set_cdr_code 1 mode"

definition DispatchSetCdrCode2 :: "operand_mode \<Rightarrow> exec" where
  "DispatchSetCdrCode2 mode = set_cdr_code 2 mode"

definition DispatchMergeCdrNoPop :: "operand_mode \<Rightarrow> exec" where
  "DispatchMergeCdrNoPop mode = with_operand stack_modes mode
     (bnd tos (\<lambda>a. bnd op2_obj (\<lambda>b.
        and_next (set_op2_obj (b\<lparr>TAG := MergeCdr (TAG a) (TAG b)\<rparr>)))))"

subsection \<open>Memory access\<close>

text \<open>The operand of the memory reads: the cycle and two flags.\<close>

definition read_cycle :: "u32 \<Rightarrow> nat" where
  "read_cycle i = unat (drop_bit 6 (i AND 0x3C0))"

definition memory_read :: "(u64 \<times> LispObj \<Rightarrow> LispObj \<Rightarrow> LispObj) \<Rightarrow> exec" where
  "memory_read f = bnd (gets cp_operand) (\<lambda>i. bnd tos (\<lambda>a.
     bnd (MemoryRead (ucast (DATA a)) Scratch_var (read_cycle i)) (\<lambda>x.
       if i AND 0x20 \<noteq> 0 \<and> \<not> TypeFixnumP (TAG (snd x)) then jump IllegalOperand
       else bnd tos (\<lambda>a. let r = f x a in
         and_next (set_tos (if i AND 0x10 \<noteq> 0 then r\<lparr>TAG := TagType (TAG r)\<rparr> else r))))))"

definition DispatchMemoryRead :: exec where
  "DispatchMemoryRead = memory_read (\<lambda>x a. snd x)"

definition DispatchMemoryReadAddress :: exec where
  "DispatchMemoryReadAddress = memory_read (\<lambda>x a. a\<lparr>DATA := ucast (fst x)\<rparr>)"

definition DispatchStoreConditional :: "operand_mode \<Rightarrow> exec" where
  "DispatchStoreConditional mode = with_operand all_modes mode (bnd (sp_at (- 1)) (\<lambda>p.
     if TypeEqualP (TagType (TAG p)) TypeLocative then
       bnd (MemoryReadData (ucast (DATA p)) Scratch_var) (\<lambda>x. bnd tos (\<lambda>old.
         if ObjectEqP old (snd x)
         then bnd op2_obj (\<lambda>b. thn (WriteVirtualMemory (fst x) b)
                (thn (add_sp (- 1)) (and_next SetT)))
         else thn (add_sp (- 1)) (and_next SetNIL)))
     else jump (if TypeSpareP (TAG p) then InstructionException else IllegalOperand)))"

definition DispatchMemoryWrite :: "operand_mode \<Rightarrow> exec" where
  "DispatchMemoryWrite mode = with_operand all_modes mode (bnd tos (\<lambda>a.
     if TypeEqualP (TAG a) TypePhysicalAddress then jump InstructionException
     else bnd op2_obj (\<lambda>b. thn (WriteVirtualMemory (ucast (DATA a)) b) (and_next (add_sp (- 1))))))"

definition DispatchPStoreContents :: "operand_mode \<Rightarrow> exec" where
  "DispatchPStoreContents mode = with_operand all_modes mode (bnd tos (\<lambda>a.
     if TypeEqualP (TAG a) TypePhysicalAddress then jump InstructionException
     else bnd op2_obj (\<lambda>b. thn (StoreContents (ucast (DATA a)) b CycleRaw) (and_next (add_sp (- 1))))))"

subsection \<open>Jumps and constants\<close>

definition DispatchJump :: "operand_mode \<Rightarrow> exec" where
  "DispatchJump mode = with_operand source_modes mode (bnd op2_obj (\<lambda>b.
     if TagType (TAG b) = TypeEvenPC \<or> TagType (TAG b) = TypeOddPC then
       thn (modify (pc_update (\<lambda>_. b)))
      (thn (run_if (ldb 1 7 (TAG b) \<noteq> 0)
              (set_control (\<lambda>c. WriteControlCleanupInProgress c (ldb 1 6 (TAG b)))))
           (jump InstructionCacheLookup))
     else jump InstructionException))"

definition DispatchPushExternalValueCellPointer :: exec where
  "DispatchPushExternalValueCellPointer = bnd (gets (\<lambda>s. (cp_operand s, sp s))) (\<lambda>(i, p).
     bnd (MemoryReadData (scast i) (StackSlot (p + 1))) (\<lambda>x.
       thn (add_sp 1) (and_next (set_tos ((snd x)\<lparr>TAG := TAG (snd x) AND TagTypeMask\<rparr>)))))"

text \<open>The full-word instructions that push a constant of type \<open>t\<close>; there is no case for the
  data types below \<open>TypeFixnum\<close> (\<open>TypeExternalValueCellPointer\<close> apart) or above \<open>TypeOddPC\<close>.\<close>

definition DispatchPushTyped :: "u32 \<Rightarrow> exec" where
  "DispatchPushTyped t =
     (if t = TypeExternalValueCellPointer then DispatchPushExternalValueCellPointer
      else if TypeFixnum \<le> t \<and> t \<le> TypeOddPC
        then bnd (gets cp_operand) (\<lambda>i. and_next (PushConstant t (scast i)))
      else jump UnimplementedInstruction)"

definition DispatchLogic :: "logic_op \<Rightarrow> operand_mode \<Rightarrow> exec" where
  "DispatchLogic i mode = (case i of
     OpDereference \<Rightarrow> with_operand source_modes mode (jump UnimplementedInstruction)
   | OpUnify \<Rightarrow> with_operand source_modes mode (jump UnimplementedInstruction)
   | OpPushLocalLogicVariables \<Rightarrow> with_operand source_modes mode (jump UnimplementedInstruction)
   | OpLogicTailTest \<Rightarrow> with_operand source_modes mode (jump UnimplementedInstruction))"

definition DispatchEphemeralp :: "operand_mode \<Rightarrow> exec" where
  "DispatchEphemeralp mode = with_operand source_modes mode (jump UnimplementedInstruction)"

end
