(* ===== verification/Traps.thy ===== *)
theory Traps
  imports SubprimInstructions
begin

text \<open>
  Traps (\<open>traps.c\<close>): finding the handler in the trap vector, and building its frame before the
  instruction (\<open>TakePreTrap\<close>, which runs it again) or after it (\<open>TakePostTrap\<close>, which goes on
  behind it). Here the registers are the fields of \<open>processor\<close>, where the sequencer has saved
  its own.
\<close>

unbundle bit_operations_syntax

subsection \<open>The table of instruction exceptions\<close>

text \<open>For every opcode the number of operands, whether they are all on the stack already, and
  whether the handler is found by the operands' types.\<close>

definition InstructionExceptionInfo :: "(nat \<times> bool \<times> bool) list" where
  "InstructionExceptionInfo = [
    (1, False, False), (1, False, False), (0, True, False), (1, False, False),
    (1, False, False), (1, False, False), (1, False, False), (0, True, False),
    (0, True, False), (0, True, False), (0, True, False), (0, True, False),
    (1, False, False), (0, True, False), (0, True, False), (0, True, False),
    (1, False, False), (0, True, False), (0, True, False), (0, True, False),
    (0, True, False), (0, True, False), (0, True, False), (0, True, False),
    (0, True, False), (0, True, False), (0, True, False), (0, True, False),
    (1, False, True), (1, False, True), (1, False, True), (0, True, False),
    (0, True, False), (0, True, False), (0, True, False), (0, True, False),
    (0, True, False), (0, True, False), (0, True, False), (0, True, False),
    (0, True, False), (0, True, False), (0, True, False), (0, True, False),
    (0, True, False), (0, True, False), (0, True, False), (0, True, False),
    (0, True, False), (0, True, False), (0, True, False), (0, True, False),
    (0, True, False), (0, True, False), (0, True, False), (0, True, False),
    (0, True, False), (0, True, False), (0, True, False), (0, True, False),
    (0, True, False), (0, True, False), (0, True, False), (0, True, False),
    (0, True, False), (0, True, False), (1, False, False), (0, True, False),
    (0, True, False), (0, True, False), (0, True, False), (0, True, False),
    (1, False, False), (1, False, False), (0, True, False), (0, True, False),
    (1, False, True), (0, True, False), (0, True, False), (0, True, False),
    (0, True, False), (0, True, False), (0, True, False), (0, True, False),
    (0, True, False), (0, True, False), (0, True, False), (0, True, False),
    (2, True, False), (2, True, False), (2, True, False), (2, True, False),
    (0, True, False), (0, True, False), (0, True, False), (0, True, False),
    (1, False, False), (1, False, False), (1, False, False), (1, False, False),
    (1, False, False), (0, True, False), (0, True, False), (0, True, False),
    (0, True, False), (0, True, False), (0, True, False), (0, True, False),
    (0, True, False), (0, True, False), (0, True, False), (0, True, False),
    (1, False, False), (1, False, False), (1, False, False), (1, False, False),
    (0, True, False), (0, True, False), (0, True, False), (0, True, False),
    (1, True, False), (1, True, False), (0, True, False), (0, True, False),
    (0, True, False), (1, True, False), (0, True, False), (0, True, False),
    (2, False, False), (2, False, False), (2, False, True), (2, False, True),
    (2, False, True), (2, False, True), (2, False, True), (2, False, True),
    (0, True, False), (2, False, True), (2, False, True), (2, False, True),
    (2, False, False), (2, False, True), (2, False, True), (2, False, True),
    (0, True, False), (0, True, False), (0, True, False), (0, True, False),
    (2, False, False), (2, False, False), (2, False, False), (2, False, False),
    (0, True, False), (0, True, False), (2, False, True), (0, True, False),
    (0, True, False), (0, True, False), (2, False, False), (2, False, False),
    (2, False, False), (0, True, False), (0, True, False), (0, True, False),
    (0, True, False), (0, True, False), (0, True, False), (0, True, False),
    (2, False, False), (0, True, False), (0, True, False), (0, True, False),
    (0, True, False), (0, True, False), (0, True, False), (0, True, False),
    (2, False, True), (2, False, True), (2, False, True), (2, False, True),
    (2, False, True), (2, False, True), (2, False, True), (2, False, True),
    (0, True, False), (0, True, False), (0, True, False), (2, False, True),
    (0, True, False), (0, True, False), (0, True, False), (2, False, True),
    (2, False, True), (2, False, True), (0, True, False), (0, True, False),
    (0, True, False), (0, True, False), (0, True, False), (0, True, False),
    (3, False, False), (2, False, False), (2, False, False), (2, False, False),
    (3, False, False), (2, False, False), (2, False, False), (2, False, False),
    (2, False, False), (2, False, False), (0, True, False), (0, True, False),
    (2, False, False), (3, False, False), (2, False, False), (0, True, False),
    (0, True, False), (0, True, False), (0, True, False), (0, True, False),
    (0, True, False), (0, True, False), (0, True, False), (0, True, False),
    (0, True, False), (0, True, False), (0, True, False), (0, True, False),
    (0, True, False), (0, True, False), (0, True, False), (0, True, False),
    (2, False, False), (3, False, False), (2, False, False), (0, True, False),
    (0, True, False), (0, True, False), (0, True, False), (0, True, False),
    (0, True, False), (0, True, False), (0, True, False), (0, True, False),
    (0, True, False), (0, True, False), (0, True, False), (0, True, False),
    (2, True, False), (2, True, False), (0, True, False), (0, True, False),
    (0, True, False), (2, True, False), (0, True, False), (0, True, False)]"

subsection \<open>Trap handlers\<close>

text \<open>The result is \<open>None\<close> where the C function returns 0; the trap mode is then left at 3.\<close>

partial_function (option) FetchTrapVectorEntry :: "u64 \<Rightarrow> LispObj option action" where
  "FetchTrapVectorEntry index s =
     bnd (gets (\<lambda>s. ReadControlTrapMode (control s))) (\<lambda>previous.
     bnd (set_control (\<lambda>c. WriteControlTrapMode c 3)) (\<lambda>_.
     bnd (MemoryReadData (TrapVectorBase
            + (if previous < 3 then index else word_of_int FepModeTrapVector)) Auto) (\<lambda>x.
       if TypeEqualP (TAG (snd x)) TypeOddPC \<or> TypeEqualP (TAG (snd x)) TypeEvenPC
       then bnd (set_control (\<lambda>c. WriteControlTrapMode c previous)) (\<lambda>_. ret (Some (snd x)))
       else if previous = 3 then ret None
       else bnd (FetchTrapVectorEntry index) (\<lambda>r. case r of
           None \<Rightarrow> ret None
         | Some entry \<Rightarrow> bnd (set_control (\<lambda>c. WriteControlTrapMode c previous))
                                (\<lambda>_. ret (Some entry)))))) s"

definition ps_push :: "LispObj \<Rightarrow> unit action" where
  "ps_push obj = bnd (gets ps_sp) (\<lambda>p.
     thn (set_stack (p + 1) obj) (modify (ps_sp_update (\<lambda>i. i + 1))))"

definition masked :: "LispObj \<Rightarrow> LispObj" where
  "masked obj = obj\<lparr>TAG := TAG obj AND TagTypeMask\<rparr>"

definition ps_make_room :: "unit action" where
  "ps_make_room = bnd (gets (\<lambda>s. StackCacheLimit s < ps_sp s + 8)) (\<lambda>full.
     run_if full StackCacheScrollUp)"

definition continuation_word :: "machine \<Rightarrow> LispObj" where
  "continuation_word s = (continuation s)\<lparr>TAG := 192 OR TAG (continuation s)\<rparr>"

definition control_word :: "machine \<Rightarrow> LispObj" where
  "control_word s = mkobj (192 OR TypeFixnum) (ucast (control s))"

text \<open>The control register of a trap frame, which is called for effect.\<close>

definition trap_control :: "u64 \<Rightarrow> int \<Rightarrow> int \<Rightarrow> int \<Rightarrow> u64" where
  "trap_control c nfp nlp oldfp =
     (c AND NOT (ControlApply OR ControlTraceBits OR ControlCleanupBits OR ControlExtraArgument
         OR ControlCallStarted OR ControlArgumentSize OR ControlValueDisposition
         OR ControlCallerFrameSize))
     OR word_of_int (nlp - nfp)
     OR push_bit 10 (ucast ValueDispositionEffect)
     OR push_bit 9 (word_of_int (nfp - oldfp))"

text \<open>Going to the handler: its entry's cdr code is the least trap mode it runs in.\<close>

definition enter_handler :: "u64 \<Rightarrow> bool action" where
  "enter_handler index = bnd (FetchTrapVectorEntry index) (\<lambda>r. case r of
     None \<Rightarrow> ret False
   | Some entry \<Rightarrow>
       thn (set_control (\<lambda>c. if ReadControlTrapMode c < TagCdr (TAG entry)
              then WriteControlTrapMode c (TagCdr (TAG entry)) else c))
      (thn (modify (ps_pc_update (\<lambda>_. entry))) (ret True)))"

definition push_extra :: "LispObj option \<Rightarrow> unit action" where
  "push_extra e = (case e of None \<Rightarrow> ret () | Some obj \<Rightarrow> ps_push (masked obj))"

definition TakePreTrap :: "u64 \<Rightarrow> LispObj option \<Rightarrow> LispObj option \<Rightarrow> bool action" where
  "TakePreTrap index extra1 extra2 =
     bnd (gets (\<lambda>s. (ps_fp s, ps_restartsp s))) (\<lambda>(oldfp, restart).
     thn (modify (ps_sp_update (\<lambda>_. restart)))
    (thn ps_make_room
    (thn (bnd (gets continuation_word) ps_push)
    (thn (bnd (gets control_word) ps_push)
    (thn (ps_push (mkobj TypeFixnum (ucast index)))
    (thn (bnd (gets (\<lambda>s. masked (ps_pc s))) ps_push)
    (thn (push_extra extra1)
    (thn (push_extra extra2)
    (thn (modify (\<lambda>s. s\<lparr>ps_fp := restart + 1, ps_lp := ps_sp s + 1,
            control := trap_control (control s) (restart + 1) (ps_sp s + 1) oldfp,
            continuation := ps_pc s\<rparr>))
         (enter_handler index))))))))))"

text \<open>Moving \<open>arity\<close> operands up by four slots, the topmost first.\<close>

fun move_operands :: "int \<Rightarrow> nat \<Rightarrow> unit action" where
  "move_operands p 0 = ret ()"
| "move_operands p (Suc n) =
     bnd (stack_at p) (\<lambda>a. thn (set_stack (p + 4) a) (move_operands (p - 1) n))"

definition traced :: "u64 \<Rightarrow> LispObj \<Rightarrow> LispObj" where
  "traced c w = (if ReadControlInstructionTrace c \<noteq> 0 then w\<lparr>DATA := dpb 1 1 27 (DATA w)\<rparr> else w)"

definition TakePostTrap :: "u32 \<Rightarrow> nat \<Rightarrow> LispObj \<Rightarrow> bool action" where
  "TakePostTrap index arity nextpc =
     bnd (gets ps_fp) (\<lambda>oldfp.
     thn ps_make_room
    (bnd (gets ps_sp) (\<lambda>p.
     thn (move_operands p arity)
    (thn (modify (\<lambda>s. s\<lparr>ps_fp := p - (int arity - 1), ps_sp := p + 4\<rparr>))
    (bnd (gets ps_fp) (\<lambda>f.
     thn (bnd (gets continuation_word) (set_stack f))
    (thn (bnd (gets (\<lambda>s. traced (control s) (control_word s))) (set_stack (f + 1)))
    (thn (set_stack (f + 2) (mkobj TypeFixnum index))
    (thn (bnd (gets (\<lambda>s. masked (ps_pc s))) (set_stack (f + 3)))
    (thn (modify (\<lambda>s. s\<lparr>ps_lp := ps_sp s + 1,
            control := trap_control (control s) f (ps_sp s + 1) oldfp,
            continuation := nextpc\<rparr>))
         (enter_handler (scast index))))))))))))"

text \<open>The operand of the failed instruction, when it is not on the stack: its address for the
  instructions that take an address, its value unless it was popped.\<close>

definition push_failed_operand :: "u32 \<Rightarrow> ptr \<Rightarrow> unit action" where
  "push_failed_operand instr opn =
     (if ldb 2 15 instr = 3
      then bnd (gets (\<lambda>s. ptr_vma s opn)) (\<lambda>a. ps_push (mkobj TypeLocative (ucast a)))
      else if ldb 10 0 instr \<noteq> 0x200 then bnd (read_ptr opn) (\<lambda>b. ps_push (masked b))
      else ret ())"

definition arithmetic_vector :: "u32 \<Rightarrow> nat \<Rightarrow> u32 action" where
  "arithmetic_vector opcode arity = bnd (gets ps_sp) (\<lambda>p. bnd (stack_at p) (\<lambda>b.
     if 1 < arity
     then bnd (stack_at (p - 1)) (\<lambda>a. ret (dpb opcode 5 6 (dpb (TAG a) 3 3 (TAG b))))
     else ret (dpb opcode 5 6 (dpb (TAG b) 3 3 0))))"

definition TakeInstructionException :: "u32 \<Rightarrow> ptr \<Rightarrow> LispObj \<Rightarrow> bool action" where
  "TakeInstructionException instr opn nextpc =
     (let opcode = ldb 8 10 instr; (arity, stackp, arithp) = InstructionExceptionInfo ! unat opcode in
      thn (modify (\<lambda>s. s\<lparr>ps_sp := ps_restartsp s\<rparr>))
     (thn (run_if (\<not> stackp) (push_failed_operand instr opn))
     (bnd (if arithp then arithmetic_vector opcode arity
           else ret (word_of_int InstructionExceptionVector + opcode)) (\<lambda>v.
        TakePostTrap v arity nextpc))))"

end
