(* ===== verification/Decode.thy ===== *)
theory Decode
  imports Machine
begin

text \<open>
  Instruction decoding (\<open>dispatch.c\<close>): the three decoder tables, the operand decoders, and
  \<open>InstructionCacheMiss\<close>, which decodes a block of 32 words into 64 lines of the instruction
  cache and links them in the order the program counter takes.

  A packed word holds two 18-bit instructions; the cdr code of a word says where the program
  counter goes from it.
\<close>

unbundle bit_operations_syntax

subsection \<open>Tables\<close>

definition ReturnInstructionDecoder :: "dispatch list" where
  "ReturnInstructionDecoder =
     [PlainI OpReturnSingleNIL, PlainI OpReturnSingleT, PlainI OpReturnSingleTOS]"

definition WordInstructionDecoder :: "dispatch list" where
  "WordInstructionDecoder = [
     WordI (PushTyped 0), WordI (PushTyped 1), WordI (PushTyped 2), WordI (PushTyped 3),
     WordI (PushTyped 4), WordI (PushTyped 5), WordI (PushTyped 6), WordI (PushTyped 7),
     WordI (PushTyped 8), WordI (PushTyped 9), WordI (PushTyped 10), WordI (PushTyped 11),
     WordI (PushTyped 12), WordI (PushTyped 13), WordI (PushTyped 14), WordI (PushTyped 15),
     WordI (PushTyped 16), WordI (PushTyped 17), WordI (PushTyped 18), WordI (PushTyped 19),
     WordI (PushTyped 20), WordI (PushTyped 21), WordI (PushTyped 22), WordI (PushTyped 23),
     WordI (PushTyped 24), WordI (PushTyped 25), WordI (PushTyped 26), WordI (PushTyped 27),
     WordI (PushTyped 28), WordI (PushTyped 29), WordI (PushTyped 30), WordI (PushTyped 31),
     WordI (PushTyped 32), WordI (PushTyped 33), WordI (PushTyped 34), WordI (PushTyped 35),
     WordI (PushTyped 36), WordI (PushTyped 37), WordI (PushTyped 38), WordI (PushTyped 39),
     WordI CallCompiledEven, WordI CallCompiledOdd, WordI CallIndirect, WordI CallGeneric,
     WordI CallCompiledEvenPrefetch, WordI CallCompiledOddPrefetch, WordI CallIndirectPrefetch, WordI CallGenericPrefetch,
     WordI (PushTyped 48), WordI (PushTyped 49), WordI (PushTyped 50), WordI (PushTyped 51),
     WordI (PushTyped 52), WordI (PushTyped 53), WordI (PushTyped 54), WordI (PushTyped 55),
     WordI (PushTyped 56), WordI (PushTyped 57), WordI (PushTyped 58), WordI (PushTyped 59),
     WordI (PushTyped 60), WordI (PushTyped 61), WordI (PushTyped 62), WordI (PushTyped 63)]"

text \<open>The instructions whose operand is popped, by opcode.\<close>

definition PopInstructionDecoder_000 :: "dispatch list" where
  "PopInstructionDecoder_000 = [
     ListI OpCar ModePop, ListI OpCdr ModePop, PredicateI OpEndp ModePop, ArrayI OpSetup1dArray ModePop,
     ArrayI OpSetupForce1dArray ModePop, BindI OpBindLocative ModePop, BindI OpRestoreBindingStack ModePop, SubprimI OpEphemeralp ModePop,
     CallI OpStartCall ModePop, CallI OpJump ModePop, SubprimI OpTag ModePop, LogicI OpDereference ModePop,
     LogicI OpLogicTailTest ModePop, SubprimI OpProcBreakpoint ModePop, DispatchIllegalInstruction, DispatchIllegalInstruction,
     LexicalI OpPushLexicalVar ModePop, LexicalI OpPushLexicalVar ModePop, LexicalI OpPushLexicalVar ModePop, LexicalI OpPushLexicalVar ModePop,
     LexicalI OpPushLexicalVar ModePop, LexicalI OpPushLexicalVar ModePop, LexicalI OpPushLexicalVar ModePop, LexicalI OpPushLexicalVar ModePop,
     BlockWriteI 0 ModePop, BlockWriteI 1 ModePop, BlockWriteI 2 ModePop, BlockWriteI 3 ModePop,
     PredicateI OpZerop ModePop, PredicateI OpMinusp ModePop, PredicateI OpPlusp ModePop, DispatchIllegalInstruction,
     DispatchIllegalInstruction, DispatchIllegalInstruction, DispatchIllegalInstruction, DispatchIllegalInstruction,
     DispatchIllegalInstruction, DispatchIllegalInstruction, DispatchIllegalInstruction, DispatchIllegalInstruction,
     DispatchIllegalInstruction, DispatchIllegalInstruction, DispatchIllegalInstruction, DispatchIllegalInstruction,
     DispatchIllegalInstruction, DispatchIllegalInstruction, DispatchIllegalInstruction, DispatchIllegalInstruction,
     DispatchIllegalInstruction, DispatchIllegalInstruction, DispatchIllegalInstruction, DispatchIllegalInstruction,
     DispatchIllegalInstruction, DispatchIllegalInstruction, DispatchIllegalInstruction, DispatchIllegalInstruction,
     DispatchIllegalInstruction, DispatchIllegalInstruction, DispatchIllegalInstruction, DispatchIllegalInstruction,
     DispatchIllegalInstruction, DispatchIllegalInstruction, DispatchIllegalInstruction, DispatchIllegalInstruction,
     MoveI OpPush ModePop, DispatchIllegalInstruction, MoveI OpPushAddressSpRelative ModePop, LogicI OpPushLocalLogicVariables ModePop,
     CallI OpReturnMultiple ModePop, CallI OpReturnKludge ModePop, DispatchIllegalInstruction, BindI OpUnbindN ModePop,
     DispatchIllegalInstruction, DispatchIllegalInstruction, DispatchIllegalInstruction, DispatchIllegalInstruction,
     NumericI OpUnaryMinus ModePop, DispatchIllegalInstruction, DispatchIllegalInstruction, DispatchIllegalInstruction,
     DispatchIllegalInstruction, DispatchIllegalInstruction, DispatchIllegalInstruction, DispatchIllegalInstruction,
     DispatchIllegalInstruction, DispatchIllegalInstruction, DispatchIllegalInstruction, DispatchIllegalInstruction,
     DispatchIllegalInstruction, DispatchIllegalInstruction, DispatchIllegalInstruction, DispatchIllegalInstruction,
     DispatchIllegalInstruction, DispatchIllegalInstruction, DispatchIllegalInstruction, DispatchIllegalInstruction,
     ListI OpSetToCar ModePop, ListI OpSetToCdr ModePop, ListI OpSetToCdrPushCar ModePop, NumericI OpIncrement ModePop,
     NumericI OpDecrement ModePop, SubprimI OpPointerIncrement ModePop, SubprimI OpSetCdrCode1 ModePop, SubprimI OpSetCdrCode2 ModePop,
     MoveI OpPushAddress ModePop, MoveI OpSetSpToAddress ModePop, MoveI OpSetSpToAddressSaveTos ModePop, DispatchIllegalInstruction,
     DispatchIllegalInstruction, DispatchIllegalInstruction, DispatchIllegalInstruction, DispatchIllegalInstruction,
     BlockReadAluI 0 ModePop, BlockReadAluI 1 ModePop, BlockReadAluI 2 ModePop, BlockReadAluI 3 ModePop,
     DispatchIllegalInstruction, DispatchIllegalInstruction, DispatchIllegalInstruction, DispatchIllegalInstruction,
     DispatchIllegalInstruction, DispatchIllegalInstruction, DispatchIllegalInstruction, DispatchIllegalInstruction,
     DispatchIllegalInstruction, DispatchIllegalInstruction, DispatchIllegalInstruction, DispatchIllegalInstruction]"

definition PopInstructionDecoder_200 :: "dispatch list" where
  "PopInstructionDecoder_200 = [
     ListI OpRplaca ModePop, ListI OpRplacd ModePop, NumericI OpMultiply ModePop, NumericI OpQuotient ModePop,
     NumericI OpCeiling ModePop, NumericI OpFloor ModePop, NumericI OpTruncate ModePop, NumericI OpRound ModePop,
     DispatchIllegalInstruction, NumericI OpRationalQuotient ModePop, NumericI OpMin ModePop, NumericI OpMax ModePop,
     NumericI OpAlu ModePop, NumericI OpLogand ModePop, NumericI OpLogxor ModePop, NumericI OpLogior ModePop,
     NumericI OpRot ModePop, NumericI OpLsh ModePop, NumericI OpMultiplyDouble ModePop, NumericI OpLshcBignumStep ModePop,
     MoveI OpStackBlt ModePop, ListI OpRgetf ModePop, ListI OpMember ModePop, ListI OpAssoc ModePop,
     SubprimI OpPointerPlus ModePop, SubprimI OpPointerDifference ModePop, NumericI OpAsh ModePop, SubprimI OpStoreConditional ModePop,
     SubprimI OpMemoryWrite ModePop, SubprimI OpPStoreContents ModePop, BindI OpBindLocativeToValue ModePop, LogicI OpUnify ModePop,
     LexicalI OpPopLexicalVar ModePop, LexicalI OpPopLexicalVar ModePop, LexicalI OpPopLexicalVar ModePop, LexicalI OpPopLexicalVar ModePop,
     LexicalI OpPopLexicalVar ModePop, LexicalI OpPopLexicalVar ModePop, LexicalI OpPopLexicalVar ModePop, LexicalI OpPopLexicalVar ModePop,
     LexicalI OpMovemLexicalVar ModePop, LexicalI OpMovemLexicalVar ModePop, LexicalI OpMovemLexicalVar ModePop, LexicalI OpMovemLexicalVar ModePop,
     LexicalI OpMovemLexicalVar ModePop, LexicalI OpMovemLexicalVar ModePop, LexicalI OpMovemLexicalVar ModePop, LexicalI OpMovemLexicalVar ModePop,
     PredicateI OpEqualNumber ModePop, PredicateI OpLessp ModePop, PredicateI OpGreaterp ModePop, PredicateI OpEql ModePop,
     PredicateI OpEqualNumberNoPop ModePop, PredicateI OpLesspNoPop ModePop, PredicateI OpGreaterpNoPop ModePop, PredicateI OpEqlNoPop ModePop,
     PredicateI OpEq ModePop, DispatchIllegalInstruction, DispatchIllegalInstruction, PredicateI OpLogtest ModePop,
     PredicateI OpEqNoPop ModePop, DispatchIllegalInstruction, DispatchIllegalInstruction, PredicateI OpLogtestNoPop ModePop,
     NumericI OpAdd ModePop, NumericI OpSub ModePop, NumericI Op32BitPlus ModePop, NumericI Op32BitDifference ModePop,
     NumericI OpAddBignumStep ModePop, NumericI OpSubBignumStep ModePop, NumericI OpMultiplyBignumStep ModePop, NumericI OpDivideBignumStep ModePop,
     ArrayI OpAset1 ModePop, SubprimI OpAllocateListBlock ModePop, ArrayI OpAref1 ModePop, ArrayI OpAloc1 ModePop,
     ArrayI OpStoreArrayLeader ModePop, SubprimI OpAllocateStructureBlock ModePop, ArrayI OpArrayLeader ModePop, ArrayI OpAlocLeader ModePop,
     DispatchIllegalInstruction, DispatchIllegalInstruction, DispatchIllegalInstruction, DispatchIllegalInstruction,
     InstanceI OpInstanceRef ModePop, InstanceI OpInstanceSet ModePop, InstanceI OpInstanceLoc ModePop, SubprimI OpSetTag ModePop,
     DispatchIllegalInstruction, PredicateI OpUnsignedLessp ModePop, DispatchIllegalInstruction, DispatchIllegalInstruction,
     DispatchIllegalInstruction, PredicateI OpUnsignedLesspNoPop ModePop, DispatchIllegalInstruction, DispatchIllegalInstruction,
     MoveI OpPop ModePop, MoveI OpMovem ModePop, SubprimI OpMergeCdrNoPop ModePop, DispatchIllegalInstruction,
     DispatchIllegalInstruction, DispatchIllegalInstruction, DispatchIllegalInstruction, DispatchIllegalInstruction,
     ArrayI OpFastAref1 ModePop, ArrayI OpFastAset1 ModePop, MoveI OpStackBltAddress ModePop, DispatchIllegalInstruction,
     DispatchIllegalInstruction, DispatchIllegalInstruction, DispatchIllegalInstruction, DispatchIllegalInstruction,
     DispatchIllegalInstruction, DispatchIllegalInstruction, DispatchIllegalInstruction, DispatchIllegalInstruction,
     DispatchIllegalInstruction, DispatchIllegalInstruction, DispatchIllegalInstruction, DispatchIllegalInstruction,
     DispatchIllegalInstruction, DispatchIllegalInstruction, DispatchIllegalInstruction, DispatchIllegalInstruction,
     DispatchIllegalInstruction, DispatchIllegalInstruction, DispatchIllegalInstruction, DispatchIllegalInstruction]"

definition PopInstructionDecoder :: "dispatch list" where
  "PopInstructionDecoder = PopInstructionDecoder_000 @ PopInstructionDecoder_200"

text \<open>A decoder pair names the function that decodes the operand.\<close>

datatype decoder = DecodeNone | Decode8BitUnsigned | Decode8BitSigned | Decode10BitUnsigned
  | Decode12BitUnsigned | DecodeFP | DecodeLP | DecodeSP | DecodeBranch | DecodeReturn
  | DecodeEntry

text \<open>The four entries of an opcode: alike, or one for each way to address the operand.\<close>

definition same4 :: "dispatch \<Rightarrow> decoder \<Rightarrow> (dispatch \<times> decoder) list" where
  "same4 d f = [(d, f), (d, f), (d, f), (d, f)]"

definition modes4 :: "(operand_mode \<Rightarrow> dispatch) \<Rightarrow> decoder \<Rightarrow> (dispatch \<times> decoder) list" where
  "modes4 i f = [(i ModeFP, DecodeFP), (i ModeLP, DecodeLP), (i ModeSP, DecodeSP), (i ModeImmediate, f)]"

definition PackedInstructionDecoder_0000 :: "(dispatch \<times> decoder) list" where
  "PackedInstructionDecoder_0000 =
     modes4 (ListI OpCar) Decode8BitUnsigned @
     modes4 (ListI OpCdr) Decode8BitUnsigned @
     modes4 (PredicateI OpEndp) Decode8BitSigned @
     modes4 (ArrayI OpSetup1dArray) Decode8BitSigned @
     modes4 (ArrayI OpSetupForce1dArray) Decode8BitSigned @
     modes4 (BindI OpBindLocative) Decode8BitUnsigned @
     modes4 (BindI OpRestoreBindingStack) Decode8BitUnsigned @
     modes4 (SubprimI OpEphemeralp) Decode8BitUnsigned @
     modes4 (CallI OpStartCall) Decode8BitSigned @
     modes4 (CallI OpJump) Decode8BitUnsigned @
     modes4 (SubprimI OpTag) Decode8BitSigned @
     modes4 (LogicI OpDereference) Decode8BitSigned @
     modes4 (LogicI OpLogicTailTest) Decode8BitSigned @
     modes4 (SubprimI OpProcBreakpoint) Decode8BitSigned @
     same4 (DispatchIllegalInstruction) DecodeNone @
     same4 (DispatchIllegalInstruction) DecodeNone @
     modes4 (LexicalI OpPushLexicalVar) Decode8BitSigned @
     modes4 (LexicalI OpPushLexicalVar) Decode8BitSigned @
     modes4 (LexicalI OpPushLexicalVar) Decode8BitSigned @
     modes4 (LexicalI OpPushLexicalVar) Decode8BitSigned @
     modes4 (LexicalI OpPushLexicalVar) Decode8BitSigned @
     modes4 (LexicalI OpPushLexicalVar) Decode8BitSigned @
     modes4 (LexicalI OpPushLexicalVar) Decode8BitSigned @
     modes4 (LexicalI OpPushLexicalVar) Decode8BitSigned @
     modes4 (BlockWriteI 0) Decode8BitSigned @
     modes4 (BlockWriteI 1) Decode8BitSigned @
     modes4 (BlockWriteI 2) Decode8BitSigned @
     modes4 (BlockWriteI 3) Decode8BitSigned @
     modes4 (PredicateI OpZerop) Decode8BitSigned @
     modes4 (PredicateI OpMinusp) Decode8BitSigned @
     modes4 (PredicateI OpPlusp) Decode8BitSigned @
     same4 (DispatchIllegalInstruction) DecodeNone"

definition PackedInstructionDecoder_0200 :: "(dispatch \<times> decoder) list" where
  "PackedInstructionDecoder_0200 =
     same4 (PlainI OpTypeMember) Decode12BitUnsigned @
     same4 (PlainI OpTypeMember) Decode12BitUnsigned @
     same4 (PlainI OpTypeMember) Decode12BitUnsigned @
     same4 (PlainI OpTypeMember) Decode12BitUnsigned @
     same4 (PlainI OpTypeMemberNoPop) Decode12BitUnsigned @
     same4 (PlainI OpTypeMemberNoPop) Decode12BitUnsigned @
     same4 (PlainI OpTypeMemberNoPop) Decode12BitUnsigned @
     same4 (PlainI OpTypeMemberNoPop) Decode12BitUnsigned @
     same4 (PlainI OpLocateLocals) DecodeNone @
     same4 (PlainI OpCatchClose) DecodeNone @
     same4 (PlainI OpGenericDispatch) DecodeNone @
     same4 (PlainI OpMessageDispatch) DecodeNone @
     same4 (PlainI OpCheckPreemptRequest) DecodeNone @
     same4 (PlainI OpPushGlobalLogicVariable) DecodeNone @
     same4 (PlainI OpNoOp) DecodeNone @
     same4 (PlainI OpHalt) DecodeNone @
     same4 (BranchI OpBranchTrue) DecodeBranch @
     same4 (BranchI OpBranchTrueElseExtraPop) DecodeBranch @
     same4 (BranchI OpBranchTrueAndExtraPop) DecodeBranch @
     same4 (BranchI OpBranchTrueExtraPop) DecodeBranch @
     same4 (BranchI OpBranchTrueNoPop) DecodeBranch @
     same4 (BranchI OpBranchTrueAndNoPop) DecodeBranch @
     same4 (BranchI OpBranchTrueElseNoPop) DecodeBranch @
     same4 (BranchI OpBranchTrueAndNoPopElseNoPopExtraPop) DecodeBranch @
     same4 (BranchI OpBranchFalse) DecodeBranch @
     same4 (BranchI OpBranchFalseElseExtraPop) DecodeBranch @
     same4 (BranchI OpBranchFalseAndExtraPop) DecodeBranch @
     same4 (BranchI OpBranchFalseExtraPop) DecodeBranch @
     same4 (BranchI OpBranchFalseNoPop) DecodeBranch @
     same4 (BranchI OpBranchFalseAndNoPop) DecodeBranch @
     same4 (BranchI OpBranchFalseElseNoPop) DecodeBranch @
     same4 (BranchI OpBranchFalseAndNoPopElseNoPopExtraPop) DecodeBranch"

definition PackedInstructionDecoder_0400 :: "(dispatch \<times> decoder) list" where
  "PackedInstructionDecoder_0400 =
     modes4 (MoveI OpPush) Decode8BitUnsigned @
     same4 (PlainI OpPushNNils) Decode8BitUnsigned @
     modes4 (MoveI OpPushAddressSpRelative) Decode8BitUnsigned @
     modes4 (LogicI OpPushLocalLogicVariables) Decode8BitUnsigned @
     modes4 (CallI OpReturnMultiple) Decode8BitUnsigned @
     modes4 (CallI OpReturnKludge) Decode8BitUnsigned @
     same4 (PlainI OpTakeValues) Decode8BitUnsigned @
     [(DispatchIllegalInstruction, Decode8BitUnsigned), (DispatchIllegalInstruction, Decode8BitUnsigned), (DispatchIllegalInstruction, Decode8BitUnsigned), (BindI OpUnbindN ModeImmediate, Decode8BitUnsigned)] @
     same4 (IvarI OpPushInstanceVariable) Decode8BitUnsigned @
     same4 (IvarI OpPushAddressInstanceVariable) Decode8BitUnsigned @
     same4 (IvarI OpPushInstanceVariableOrdered) Decode8BitUnsigned @
     same4 (IvarI OpPushAddressInstanceVariableOrdered) Decode8BitUnsigned @
     modes4 (NumericI OpUnaryMinus) Decode8BitUnsigned @
     same4 (PlainI OpReturnSingleTOS) DecodeReturn @
     same4 (PlainI OpMemoryRead) Decode10BitUnsigned @
     same4 (PlainI OpMemoryReadAddress) Decode10BitUnsigned @
     same4 (BlockReadI 0) Decode10BitUnsigned @
     same4 (BlockReadI 1) Decode10BitUnsigned @
     same4 (BlockReadI 2) Decode10BitUnsigned @
     same4 (BlockReadI 3) Decode10BitUnsigned @
     same4 (BlockReadShiftI 0) Decode10BitUnsigned @
     same4 (BlockReadShiftI 1) Decode10BitUnsigned @
     same4 (BlockReadShiftI 2) Decode10BitUnsigned @
     same4 (BlockReadShiftI 3) Decode10BitUnsigned @
     same4 (BlockReadTestI 0) Decode10BitUnsigned @
     same4 (BlockReadTestI 1) Decode10BitUnsigned @
     same4 (BlockReadTestI 2) Decode10BitUnsigned @
     same4 (BlockReadTestI 3) Decode10BitUnsigned @
     same4 (PlainI OpFinishCallN) Decode10BitUnsigned @
     same4 (PlainI OpFinishCallNApply) Decode10BitUnsigned @
     same4 (PlainI OpFinishCallTos) Decode10BitUnsigned @
     same4 (PlainI OpFinishCallTosApply) Decode10BitUnsigned"

definition PackedInstructionDecoder_0600 :: "(dispatch \<times> decoder) list" where
  "PackedInstructionDecoder_0600 =
     modes4 (ListI OpSetToCar) Decode8BitUnsigned @
     modes4 (ListI OpSetToCdr) Decode8BitUnsigned @
     modes4 (ListI OpSetToCdrPushCar) Decode8BitUnsigned @
     modes4 (NumericI OpIncrement) Decode8BitUnsigned @
     modes4 (NumericI OpDecrement) Decode8BitUnsigned @
     modes4 (SubprimI OpPointerIncrement) Decode8BitUnsigned @
     modes4 (SubprimI OpSetCdrCode1) Decode8BitUnsigned @
     modes4 (SubprimI OpSetCdrCode2) Decode8BitUnsigned @
     modes4 (MoveI OpPushAddress) Decode8BitUnsigned @
     modes4 (MoveI OpSetSpToAddress) Decode8BitUnsigned @
     modes4 (MoveI OpSetSpToAddressSaveTos) Decode8BitUnsigned @
     same4 (DispatchIllegalInstruction) DecodeNone @
     same4 (PlainI OpReadInternalRegister) Decode10BitUnsigned @
     same4 (PlainI OpWriteInternalRegister) Decode10BitUnsigned @
     same4 (PlainI OpCoprocessorRead) Decode10BitUnsigned @
     same4 (PlainI OpCoprocessorWrite) Decode10BitUnsigned @
     modes4 (BlockReadAluI 0) Decode8BitUnsigned @
     modes4 (BlockReadAluI 1) Decode8BitUnsigned @
     modes4 (BlockReadAluI 2) Decode8BitUnsigned @
     modes4 (BlockReadAluI 3) Decode8BitUnsigned @
     same4 (DispatchIllegalInstruction) DecodeNone @
     same4 (DispatchIllegalInstruction) DecodeNone @
     same4 (DispatchIllegalInstruction) DecodeNone @
     same4 (DispatchIllegalInstruction) DecodeNone @
     same4 (FieldI OpLdb) Decode10BitUnsigned @
     same4 (FieldI OpCharLdb) Decode10BitUnsigned @
     same4 (FieldI OpPLdb) Decode10BitUnsigned @
     same4 (FieldI OpPTagLdb) Decode10BitUnsigned @
     same4 (BranchI OpBranch) DecodeBranch @
     same4 (BranchI OpLoopDecrementTos) DecodeBranch @
     same4 (PlainI OpEntryRestAccepted) DecodeEntry @
     same4 (PlainI OpEntryRestNotAccepted) DecodeEntry"

definition PackedInstructionDecoder_1000 :: "(dispatch \<times> decoder) list" where
  "PackedInstructionDecoder_1000 =
     modes4 (ListI OpRplaca) Decode8BitSigned @
     modes4 (ListI OpRplacd) Decode8BitSigned @
     modes4 (NumericI OpMultiply) Decode8BitSigned @
     modes4 (NumericI OpQuotient) Decode8BitSigned @
     modes4 (NumericI OpCeiling) Decode8BitSigned @
     modes4 (NumericI OpFloor) Decode8BitSigned @
     modes4 (NumericI OpTruncate) Decode8BitSigned @
     modes4 (NumericI OpRound) Decode8BitSigned @
     same4 (DispatchIllegalInstruction) DecodeNone @
     modes4 (NumericI OpRationalQuotient) Decode8BitSigned @
     modes4 (NumericI OpMin) Decode8BitSigned @
     modes4 (NumericI OpMax) Decode8BitSigned @
     modes4 (NumericI OpAlu) Decode8BitSigned @
     modes4 (NumericI OpLogand) Decode8BitSigned @
     modes4 (NumericI OpLogxor) Decode8BitSigned @
     modes4 (NumericI OpLogior) Decode8BitSigned @
     modes4 (NumericI OpRot) Decode8BitSigned @
     modes4 (NumericI OpLsh) Decode8BitSigned @
     modes4 (NumericI OpMultiplyDouble) Decode8BitSigned @
     modes4 (NumericI OpLshcBignumStep) Decode8BitSigned @
     modes4 (MoveI OpStackBlt) Decode8BitSigned @
     modes4 (ListI OpRgetf) Decode8BitUnsigned @
     modes4 (ListI OpMember) Decode8BitUnsigned @
     modes4 (ListI OpAssoc) Decode8BitUnsigned @
     modes4 (SubprimI OpPointerPlus) Decode8BitSigned @
     modes4 (SubprimI OpPointerDifference) Decode8BitSigned @
     modes4 (NumericI OpAsh) Decode8BitSigned @
     modes4 (SubprimI OpStoreConditional) Decode8BitSigned @
     modes4 (SubprimI OpMemoryWrite) Decode8BitSigned @
     modes4 (SubprimI OpPStoreContents) Decode8BitSigned @
     modes4 (BindI OpBindLocativeToValue) Decode8BitSigned @
     modes4 (LogicI OpUnify) Decode8BitSigned"

definition PackedInstructionDecoder_1200 :: "(dispatch \<times> decoder) list" where
  "PackedInstructionDecoder_1200 =
     modes4 (LexicalI OpPopLexicalVar) Decode8BitSigned @
     modes4 (LexicalI OpPopLexicalVar) Decode8BitSigned @
     modes4 (LexicalI OpPopLexicalVar) Decode8BitSigned @
     modes4 (LexicalI OpPopLexicalVar) Decode8BitSigned @
     modes4 (LexicalI OpPopLexicalVar) Decode8BitSigned @
     modes4 (LexicalI OpPopLexicalVar) Decode8BitSigned @
     modes4 (LexicalI OpPopLexicalVar) Decode8BitSigned @
     modes4 (LexicalI OpPopLexicalVar) Decode8BitSigned @
     modes4 (LexicalI OpMovemLexicalVar) Decode8BitSigned @
     modes4 (LexicalI OpMovemLexicalVar) Decode8BitSigned @
     modes4 (LexicalI OpMovemLexicalVar) Decode8BitSigned @
     modes4 (LexicalI OpMovemLexicalVar) Decode8BitSigned @
     modes4 (LexicalI OpMovemLexicalVar) Decode8BitSigned @
     modes4 (LexicalI OpMovemLexicalVar) Decode8BitSigned @
     modes4 (LexicalI OpMovemLexicalVar) Decode8BitSigned @
     modes4 (LexicalI OpMovemLexicalVar) Decode8BitSigned @
     modes4 (PredicateI OpEqualNumber) Decode8BitSigned @
     modes4 (PredicateI OpLessp) Decode8BitSigned @
     modes4 (PredicateI OpGreaterp) Decode8BitSigned @
     modes4 (PredicateI OpEql) Decode8BitSigned @
     modes4 (PredicateI OpEqualNumberNoPop) Decode8BitSigned @
     modes4 (PredicateI OpLesspNoPop) Decode8BitSigned @
     modes4 (PredicateI OpGreaterpNoPop) Decode8BitSigned @
     modes4 (PredicateI OpEqlNoPop) Decode8BitSigned @
     modes4 (PredicateI OpEq) Decode8BitSigned @
     same4 (DispatchIllegalInstruction) DecodeNone @
     same4 (DispatchIllegalInstruction) DecodeNone @
     modes4 (PredicateI OpLogtest) Decode8BitSigned @
     modes4 (PredicateI OpEqNoPop) Decode8BitSigned @
     same4 (DispatchIllegalInstruction) DecodeNone @
     same4 (DispatchIllegalInstruction) DecodeNone @
     modes4 (PredicateI OpLogtestNoPop) Decode8BitSigned"

definition PackedInstructionDecoder_1400 :: "(dispatch \<times> decoder) list" where
  "PackedInstructionDecoder_1400 =
     modes4 (NumericI OpAdd) Decode8BitUnsigned @
     modes4 (NumericI OpSub) Decode8BitUnsigned @
     modes4 (NumericI Op32BitPlus) Decode8BitUnsigned @
     modes4 (NumericI Op32BitDifference) Decode8BitUnsigned @
     modes4 (NumericI OpAddBignumStep) Decode8BitUnsigned @
     modes4 (NumericI OpSubBignumStep) Decode8BitUnsigned @
     modes4 (NumericI OpMultiplyBignumStep) Decode8BitUnsigned @
     modes4 (NumericI OpDivideBignumStep) Decode8BitUnsigned @
     modes4 (ArrayI OpAset1) Decode8BitUnsigned @
     modes4 (SubprimI OpAllocateListBlock) Decode8BitUnsigned @
     modes4 (ArrayI OpAref1) Decode8BitUnsigned @
     modes4 (ArrayI OpAloc1) Decode8BitUnsigned @
     modes4 (ArrayI OpStoreArrayLeader) Decode8BitUnsigned @
     modes4 (SubprimI OpAllocateStructureBlock) Decode8BitUnsigned @
     modes4 (ArrayI OpArrayLeader) Decode8BitUnsigned @
     modes4 (ArrayI OpAlocLeader) Decode8BitUnsigned @
     same4 (IvarI OpPopInstanceVariable) Decode8BitUnsigned @
     same4 (IvarI OpMovemInstanceVariable) Decode8BitUnsigned @
     same4 (IvarI OpPopInstanceVariableOrdered) Decode8BitUnsigned @
     same4 (IvarI OpMovemInstanceVariableOrdered) Decode8BitUnsigned @
     modes4 (InstanceI OpInstanceRef) Decode8BitUnsigned @
     modes4 (InstanceI OpInstanceSet) Decode8BitUnsigned @
     modes4 (InstanceI OpInstanceLoc) Decode8BitUnsigned @
     modes4 (SubprimI OpSetTag) Decode8BitUnsigned @
     same4 (DispatchIllegalInstruction) DecodeNone @
     modes4 (PredicateI OpUnsignedLessp) Decode8BitUnsigned @
     same4 (DispatchIllegalInstruction) DecodeNone @
     same4 (DispatchIllegalInstruction) DecodeNone @
     same4 (DispatchIllegalInstruction) DecodeNone @
     modes4 (PredicateI OpUnsignedLesspNoPop) Decode8BitUnsigned @
     same4 (DispatchIllegalInstruction) DecodeNone @
     same4 (DispatchIllegalInstruction) DecodeNone"

definition PackedInstructionDecoder_1600 :: "(dispatch \<times> decoder) list" where
  "PackedInstructionDecoder_1600 =
     modes4 (MoveI OpPop) Decode8BitUnsigned @
     modes4 (MoveI OpMovem) Decode8BitUnsigned @
     modes4 (SubprimI OpMergeCdrNoPop) Decode8BitUnsigned @
     same4 (DispatchIllegalInstruction) DecodeNone @
     same4 (DispatchIllegalInstruction) DecodeNone @
     same4 (DispatchIllegalInstruction) DecodeNone @
     same4 (DispatchIllegalInstruction) DecodeNone @
     same4 (DispatchIllegalInstruction) DecodeNone @
     modes4 (ArrayI OpFastAref1) Decode8BitUnsigned @
     modes4 (ArrayI OpFastAset1) Decode8BitUnsigned @
     modes4 (MoveI OpStackBltAddress) Decode8BitUnsigned @
     same4 (DispatchIllegalInstruction) DecodeNone @
     same4 (DispatchIllegalInstruction) DecodeNone @
     same4 (DispatchIllegalInstruction) DecodeNone @
     same4 (DispatchIllegalInstruction) DecodeNone @
     same4 (DispatchIllegalInstruction) DecodeNone @
     same4 (DispatchIllegalInstruction) DecodeNone @
     same4 (DispatchIllegalInstruction) DecodeNone @
     same4 (DispatchIllegalInstruction) DecodeNone @
     same4 (DispatchIllegalInstruction) DecodeNone @
     same4 (DispatchIllegalInstruction) DecodeNone @
     same4 (DispatchIllegalInstruction) DecodeNone @
     same4 (DispatchIllegalInstruction) DecodeNone @
     same4 (DispatchIllegalInstruction) DecodeNone @
     same4 (FieldI OpDpb) Decode10BitUnsigned @
     same4 (FieldI OpCharDpb) Decode10BitUnsigned @
     same4 (FieldI OpPDpb) Decode10BitUnsigned @
     same4 (FieldI OpPTagDpb) Decode10BitUnsigned @
     same4 (DispatchIllegalInstruction) DecodeNone @
     same4 (BranchI OpLoopIncrementTosLessThan) DecodeBranch @
     same4 (PlainI OpCatchOpen) Decode8BitUnsigned @
     same4 (PlainI OpHack) Decode10BitUnsigned"

definition PackedInstructionDecoder :: "(dispatch \<times> decoder) list" where
  "PackedInstructionDecoder =
     PackedInstructionDecoder_0000 @
     PackedInstructionDecoder_0200 @
     PackedInstructionDecoder_0400 @
     PackedInstructionDecoder_0600 @
     PackedInstructionDecoder_1000 @
     PackedInstructionDecoder_1200 @
     PackedInstructionDecoder_1400 @
     PackedInstructionDecoder_1600"

subsection \<open>Operands\<close>

definition SignExtend8 :: "u32 \<Rightarrow> u32" where
  "SignExtend8 i = signed_drop_bit 24 (push_bit 24 i)"

definition SignExtend10 :: "u32 \<Rightarrow> u32" where
  "SignExtend10 i = signed_drop_bit 22 (push_bit 22 i)"

definition DecodeSPOperandFunction :: "u32 \<Rightarrow> InstructionCacheLine \<Rightarrow> InstructionCacheLine" where
  "DecodeSPOperandFunction i l =
     (let offset = i AND 0xFF in
      if offset = 0 then l\<lparr>code := PopInstructionDecoder ! unat (ldb 8 10 i), operand := 0\<rparr>
      else l\<lparr>operand := offset - 255\<rparr>)"

text \<open>Other operands of a return instruction leave the line as it is.\<close>

definition DecodeReturnOperandFunction :: "u32 \<Rightarrow> InstructionCacheLine \<Rightarrow> InstructionCacheLine" where
  "DecodeReturnOperandFunction i l =
     (if i AND 0x3FF = 0x200 then l\<lparr>code := ReturnInstructionDecoder ! 2, operand := 0\<rparr>
      else if i AND 0x3FF = 0x220 then l\<lparr>code := ReturnInstructionDecoder ! 0, operand := 0\<rparr>
      else if i AND 0x3FF = 0x221 then l\<lparr>code := ReturnInstructionDecoder ! 1, operand := 0\<rparr>
      else l)"

definition DecodeEntryOperandFunction :: "u32 \<Rightarrow> InstructionCacheLine \<Rightarrow> InstructionCacheLine" where
  "DecodeEntryOperandFunction i l = l\<lparr>operand := dpb (ldb 8 18 i) 8 8 (i AND 0xFF)\<rparr>"

fun decode_operand :: "decoder \<Rightarrow> u32 \<Rightarrow> InstructionCacheLine \<Rightarrow> InstructionCacheLine" where
  "decode_operand DecodeNone i l = l\<lparr>operand := 0\<rparr>"
| "decode_operand Decode8BitUnsigned i l = l\<lparr>operand := i AND 0xFF\<rparr>"
| "decode_operand Decode8BitSigned i l = l\<lparr>operand := SignExtend8 i\<rparr>"
| "decode_operand Decode10BitUnsigned i l = l\<lparr>operand := i AND 0x3FF\<rparr>"
| "decode_operand Decode12BitUnsigned i l = l\<lparr>operand := i AND 0xFFF\<rparr>"
| "decode_operand DecodeFP i l = l\<lparr>operand := i AND 0xFF\<rparr>"
| "decode_operand DecodeLP i l = l\<lparr>operand := i AND 0xFF\<rparr>"
| "decode_operand DecodeSP i l = DecodeSPOperandFunction i l"
| "decode_operand DecodeBranch i l = l\<lparr>operand := SignExtend10 i\<rparr>"
| "decode_operand DecodeReturn i l = DecodeReturnOperandFunction i l"
| "decode_operand DecodeEntry i l = DecodeEntryOperandFunction i l"

subsection \<open>A word\<close>

text \<open>One 18-bit instruction; the operand decoder sees \<open>i\<close>.\<close>

definition decode_packed :: "u32 \<Rightarrow> u32 \<Rightarrow> InstructionCacheLine \<Rightarrow> InstructionCacheLine" where
  "decode_packed instr i l =
     (let (d, f) = PackedInstructionDecoder ! unat (drop_bit 8 instr) in
      decode_operand f i (l\<lparr>instruction := instr, code := d\<rparr>))"

definition illegal_line :: "InstructionCacheLine \<Rightarrow> InstructionCacheLine" where
  "illegal_line l = l\<lparr>code := DispatchIllegalInstruction, operand := 0, instruction := 0\<rparr>"

definition set_next :: "u32 \<Rightarrow> u64 \<Rightarrow> line_ptr \<Rightarrow> InstructionCacheLine \<Rightarrow> InstructionCacheLine" where
  "set_next t vma p l = l\<lparr>next_pc := mkobj t (ucast vma), next_cp := p\<rparr>"

definition set_line_pc :: "u64 \<Rightarrow> InstructionCacheLine \<Rightarrow> InstructionCacheLine" where
  "set_line_pc vma l = l\<lparr>line_pc := (line_pc l)\<lparr>DATA := ucast vma\<rparr>\<rparr>"

definition packed_even :: "u32 \<Rightarrow> InstructionCacheLine \<Rightarrow> InstructionCacheLine" where
  "packed_even data l = decode_packed (data AND 0x3FFFF) data l"

definition packed_odd :: "u8 \<Rightarrow> u32 \<Rightarrow> InstructionCacheLine \<Rightarrow> InstructionCacheLine" where
  "packed_odd tag data l =
     (let instr = push_bit 14 (ucast (tag AND 0xF)) OR ldb 14 18 data in decode_packed instr instr l)"

text \<open>The even and the odd line of the word \<open>(tag, data)\<close> at \<open>vma\<close>; \<open>e\<close> is the index of the
  even line. For a word with cdr code 2 in the first line of the cache, the C pointer to the line before lies in
  front of the array; the index here is then 0, as natural numbers do not go below it. Closing the block
  replaces that link, except in the block at address 0.\<close>

definition decode_lines ::
  "nat \<Rightarrow> u64 \<Rightarrow> u8 \<Rightarrow> u32 \<Rightarrow> InstructionCacheLine \<times> InstructionCacheLine
     \<Rightarrow> InstructionCacheLine \<times> InstructionCacheLine" where
  "decode_lines e vma tag data ls =
     (let even = set_line_pc vma (fst ls); odd = set_line_pc vma (snd ls); cdr = tag AND 0xC0 in
      if cdr = 0x40 then (illegal_line even, illegal_line odd)
      else
        (let even = (if cdr = 0 then set_next TypeOddPC vma (CacheLine (e + 1)) even
                     else if cdr = 0xC0 then set_next TypeEvenPC (vma + 1) (CacheLine (e + 2)) even
                     else set_next TypeOddPC (vma - 1) (CacheLine (e + 1 - 2)) even);
             odd = (if cdr = 0 then set_next TypeEvenPC (vma + 1) (CacheLine (e + 2)) odd
                    else if cdr = 0xC0 then set_next TypeEvenPC (vma + 2) (CacheLine (e + 4)) odd
                    else set_next TypeEvenPC vma LookupCP odd) in
         if cdr = 0 \<or> PackedInstructionP (ucast tag)
         then (packed_even data even, packed_odd tag data odd)
         else (even\<lparr>code := WordInstructionDecoder ! unat (TagType (ucast tag)), operand := data,
                    instruction := 0\<rparr>,
               illegal_line odd)))"

subsection \<open>A block\<close>

fun decode_block :: "nat \<Rightarrow> u64 \<Rightarrow> LispObj list \<Rightarrow> (nat \<Rightarrow> InstructionCacheLine)
    \<Rightarrow> nat \<Rightarrow> InstructionCacheLine" where
  "decode_block e vma [] c = c"
| "decode_block e vma (w # ws) c =
     (let (even, odd) = decode_lines e vma (ucast (TAG w)) (DATA w) (c e, c (e + 1)) in
      decode_block (e + 2) (vma + 1) ws (c(e := even, e + 1 := odd)))"

text \<open>Pointers out of the block are replaced: of the first line, and of the last four.\<close>

definition force_lookup :: "(u64 \<Rightarrow> bool) \<Rightarrow> nat \<Rightarrow> (nat \<Rightarrow> InstructionCacheLine)
    \<Rightarrow> nat \<Rightarrow> InstructionCacheLine" where
  "force_lookup outside i c =
     (if outside (ucast (DATA (next_pc (c i)))) then c(i := (c i)\<lparr>next_cp := LookupCP\<rparr>) else c)"

definition close_block :: "nat \<Rightarrow> u64 \<Rightarrow> (nat \<Rightarrow> InstructionCacheLine) \<Rightarrow> nat \<Rightarrow> InstructionCacheLine" where
  "close_block b vma c =
     (let after = (\<lambda>v. vma + 32 \<le> v) in
      force_lookup after (b + 63) (force_lookup after (b + 62) (force_lookup after (b + 61)
        (force_lookup after (b + 60) (force_lookup (\<lambda>v. v < vma) b c)))))"

definition block_start :: "u32 \<Rightarrow> u64" where
  "block_start vma = ucast (vma AND NOT 31)"

definition block_line :: "u64 \<Rightarrow> nat" where
  "block_line vma = unat (push_bit 1 vma AND 2047)"

text \<open>The words are read into a local array, from the virtual memory and not the stack cache.\<close>

definition InstructionCacheMiss :: "unit action" where
  "InstructionCacheMiss = bnd (gets (\<lambda>s. block_start (DATA (ps_pc s)))) (\<lambda>vma.
     thn (VirtualMemoryReadBlock vma (\<lambda>i obj. ret ()) 32)
    (bnd (gets (\<lambda>s. map (\<lambda>i. space_object s (vma + of_nat i)) [0..<32])) (\<lambda>words.
       modify (InstructionCache_update
         (\<lambda>c. close_block (block_line vma) vma (decode_block (block_line vma) vma words c))))))"

end
