(* ===== verification/Sequencer.thy ===== *)
theory Sequencer
  imports Traps Decode
begin

text \<open>
  \<open>InstructionSequencer\<close>: the dispatch on the code of an instruction cache line, the labels an
  instruction goes to, the trap handler behind \<open>setjmp\<close>, and one step of the whole machine.
\<close>

unbundle bit_operations_syntax

subsection \<open>The dispatch\<close>

definition DispatchPredicate :: "predicate_op \<Rightarrow> operand_mode \<Rightarrow> exec" where
  "DispatchPredicate i mode = (case i of
     OpEq \<Rightarrow> DispatchEq mode
   | OpEqNoPop \<Rightarrow> DispatchEqNoPop mode
   | OpEql \<Rightarrow> DispatchEql mode
   | OpEqlNoPop \<Rightarrow> DispatchEqlNoPop mode
   | OpEqualNumber \<Rightarrow> DispatchEqualNumber mode
   | OpEqualNumberNoPop \<Rightarrow> DispatchEqualNumberNoPop mode
   | OpGreaterp \<Rightarrow> DispatchGreaterp mode
   | OpGreaterpNoPop \<Rightarrow> DispatchGreaterpNoPop mode
   | OpLessp \<Rightarrow> DispatchLessp mode
   | OpLesspNoPop \<Rightarrow> DispatchLesspNoPop mode
   | OpLogtest \<Rightarrow> DispatchLogtest mode
   | OpLogtestNoPop \<Rightarrow> DispatchLogtestNoPop mode
   | OpEndp \<Rightarrow> DispatchEndp mode
   | OpPlusp \<Rightarrow> DispatchPlusp mode
   | OpMinusp \<Rightarrow> DispatchMinusp mode
   | OpZerop \<Rightarrow> DispatchZerop mode
   | OpUnsignedLessp \<Rightarrow> DispatchUnsignedLessp mode
   | OpUnsignedLesspNoPop \<Rightarrow> DispatchUnsignedLesspNoPop mode)"

definition DispatchNumeric :: "numeric_op \<Rightarrow> operand_mode \<Rightarrow> exec" where
  "DispatchNumeric i mode = (case i of
     OpAdd \<Rightarrow> DispatchAdd mode
   | OpSub \<Rightarrow> DispatchSub mode
   | OpUnaryMinus \<Rightarrow> DispatchUnaryMinus mode
   | OpIncrement \<Rightarrow> DispatchIncrement mode
   | OpDecrement \<Rightarrow> DispatchDecrement mode
   | OpMultiply \<Rightarrow> DispatchMultiply mode
   | OpQuotient \<Rightarrow> DispatchQuotient mode
   | OpCeiling \<Rightarrow> DispatchCeiling mode
   | OpFloor \<Rightarrow> DispatchFloor mode
   | OpTruncate \<Rightarrow> DispatchTruncate mode
   | OpRound \<Rightarrow> DispatchRound mode
   | OpRationalQuotient \<Rightarrow> DispatchRationalQuotient mode
   | OpMax \<Rightarrow> DispatchMax mode
   | OpMin \<Rightarrow> DispatchMin mode
   | OpLogand \<Rightarrow> DispatchLogand mode
   | OpLogior \<Rightarrow> DispatchLogior mode
   | OpLogxor \<Rightarrow> DispatchLogxor mode
   | OpAsh \<Rightarrow> DispatchAsh mode
   | OpRot \<Rightarrow> DispatchRot mode
   | OpLsh \<Rightarrow> DispatchLsh mode
   | Op32BitPlus \<Rightarrow> Dispatch32BitPlus mode
   | Op32BitDifference \<Rightarrow> Dispatch32BitDifference mode
   | OpMultiplyDouble \<Rightarrow> DispatchMultiplyDouble mode
   | OpAddBignumStep \<Rightarrow> DispatchAddBignumStep mode
   | OpSubBignumStep \<Rightarrow> DispatchSubBignumStep mode
   | OpMultiplyBignumStep \<Rightarrow> DispatchMultiplyBignumStep mode
   | OpDivideBignumStep \<Rightarrow> DispatchDivideBignumStep mode
   | OpLshcBignumStep \<Rightarrow> DispatchLshcBignumStep mode
   | OpAlu \<Rightarrow> DispatchAlu mode)"

definition DispatchMove :: "move_op \<Rightarrow> operand_mode \<Rightarrow> exec" where
  "DispatchMove i mode = (case i of
     OpPush \<Rightarrow> DispatchPush mode
   | OpPop \<Rightarrow> DispatchPop mode
   | OpMovem \<Rightarrow> DispatchMovem mode
   | OpPushAddress \<Rightarrow> DispatchPushAddress mode
   | OpSetSpToAddress \<Rightarrow> DispatchSetSpToAddress mode
   | OpSetSpToAddressSaveTos \<Rightarrow> DispatchSetSpToAddressSaveTos mode
   | OpPushAddressSpRelative \<Rightarrow> DispatchPushAddressSpRelative mode
   | OpStackBlt \<Rightarrow> DispatchStackBlt mode
   | OpStackBltAddress \<Rightarrow> DispatchStackBltAddress mode)"

definition DispatchCall :: "call_op \<Rightarrow> operand_mode \<Rightarrow> exec" where
  "DispatchCall i mode = (case i of
     OpStartCall \<Rightarrow> DispatchStartCall mode
   | OpReturnMultiple \<Rightarrow> DispatchReturnMultiple mode
   | OpReturnKludge \<Rightarrow> DispatchReturnKludge mode
   | OpJump \<Rightarrow> DispatchJump mode)"

text \<open>There is no case for \<open>%proc-breakpoint\<close>.\<close>

definition DispatchSubprim :: "subprim_op \<Rightarrow> operand_mode \<Rightarrow> exec" where
  "DispatchSubprim i mode = (case i of
     OpEphemeralp \<Rightarrow> DispatchEphemeralp mode
   | OpAllocateListBlock \<Rightarrow> DispatchAllocateListBlock mode
   | OpAllocateStructureBlock \<Rightarrow> DispatchAllocateStructureBlock mode
   | OpPointerPlus \<Rightarrow> DispatchPointerPlus mode
   | OpPointerDifference \<Rightarrow> DispatchPointerDifference mode
   | OpPointerIncrement \<Rightarrow> DispatchPointerIncrement mode
   | OpTag \<Rightarrow> DispatchTag mode
   | OpSetTag \<Rightarrow> DispatchSetTag mode
   | OpStoreConditional \<Rightarrow> DispatchStoreConditional mode
   | OpMemoryWrite \<Rightarrow> DispatchMemoryWrite mode
   | OpPStoreContents \<Rightarrow> DispatchPStoreContents mode
   | OpSetCdrCode1 \<Rightarrow> DispatchSetCdrCode1 mode
   | OpSetCdrCode2 \<Rightarrow> DispatchSetCdrCode2 mode
   | OpMergeCdrNoPop \<Rightarrow> DispatchMergeCdrNoPop mode
   | OpProcBreakpoint \<Rightarrow> jump UnimplementedInstruction)"

text \<open>\<open>DispatchHack\<close> has no case; \<open>DispatchGenericDispatch\<close>, \<open>DispatchMessageDispatch\<close>,
  \<open>DispatchCheckPreemptRequest\<close> and \<open>DispatchPushGlobalLogicVariable\<close> are unimplemented.\<close>

definition DispatchPlain :: "plain_op \<Rightarrow> exec" where
  "DispatchPlain i = (case i of
     OpTypeMember \<Rightarrow> DispatchTypeMember
   | OpTypeMemberNoPop \<Rightarrow> DispatchTypeMemberNoPop
   | OpPushNNils \<Rightarrow> DispatchPushNNils
   | OpTakeValues \<Rightarrow> DispatchTakeValues
   | OpLocateLocals \<Rightarrow> DispatchLocateLocals
   | OpCatchOpen \<Rightarrow> DispatchCatchOpen
   | OpCatchClose \<Rightarrow> DispatchCatchClose
   | OpReturnSingleNIL \<Rightarrow> DispatchReturnSingleNIL
   | OpReturnSingleT \<Rightarrow> DispatchReturnSingleT
   | OpReturnSingleTOS \<Rightarrow> DispatchReturnSingleTOS
   | OpFinishCallN \<Rightarrow> DispatchFinishCallN
   | OpFinishCallNApply \<Rightarrow> DispatchFinishCallNApply
   | OpFinishCallTos \<Rightarrow> DispatchFinishCallTos
   | OpFinishCallTosApply \<Rightarrow> DispatchFinishCallTosApply
   | OpEntryRestAccepted \<Rightarrow> DispatchEntryRestAccepted
   | OpEntryRestNotAccepted \<Rightarrow> DispatchEntryRestNotAccepted
   | OpMemoryRead \<Rightarrow> DispatchMemoryRead
   | OpMemoryReadAddress \<Rightarrow> DispatchMemoryReadAddress
   | OpReadInternalRegister \<Rightarrow> DispatchReadInternalRegister
   | OpWriteInternalRegister \<Rightarrow> DispatchWriteInternalRegister
   | OpCoprocessorRead \<Rightarrow> DispatchCoprocessorRead
   | OpCoprocessorWrite \<Rightarrow> DispatchCoprocessorWrite
   | OpNoOp \<Rightarrow> jump NextInstruction
   | OpHalt \<Rightarrow> jump SaveAndHalt
   | _ \<Rightarrow> jump UnimplementedInstruction)"

definition DispatchWord :: "word_op \<Rightarrow> exec" where
  "DispatchWord i = (case i of
     PushTyped t \<Rightarrow> DispatchPushTyped t
   | CallCompiledEven \<Rightarrow> DispatchCallCompiledEven
   | CallCompiledEvenPrefetch \<Rightarrow> DispatchCallCompiledEven
   | CallCompiledOdd \<Rightarrow> DispatchCallCompiledOdd
   | CallCompiledOddPrefetch \<Rightarrow> DispatchCallCompiledOdd
   | CallIndirect \<Rightarrow> DispatchCallIndirect
   | CallIndirectPrefetch \<Rightarrow> DispatchCallIndirect
   | CallGeneric \<Rightarrow> DispatchCallGeneric
   | CallGenericPrefetch \<Rightarrow> DispatchCallGeneric)"

text \<open>The block instructions have cases for the address registers 1 to 3.\<close>

definition block_case :: "nat \<Rightarrow> exec \<Rightarrow> exec" where
  "block_case n m = (if 1 \<le> n \<and> n \<le> 3 then m else jump UnimplementedInstruction)"

definition ExecuteDispatch :: "dispatch \<Rightarrow> exec" where
  "ExecuteDispatch d = (case d of
     ListI i m \<Rightarrow> DispatchList i m
   | LogicI i m \<Rightarrow> DispatchLogic i m
   | PredicateI i m \<Rightarrow> DispatchPredicate i m
   | NumericI i m \<Rightarrow> DispatchNumeric i m
   | MoveI i m \<Rightarrow> DispatchMove i m
   | ArrayI i m \<Rightarrow> DispatchArray i m
   | CallI i m \<Rightarrow> DispatchCall i m
   | BindI i m \<Rightarrow> DispatchBind i m
   | LexicalI i m \<Rightarrow> DispatchLexical i m
   | InstanceI i m \<Rightarrow> DispatchInstance i m
   | SubprimI i m \<Rightarrow> DispatchSubprim i m
   | BlockWriteI n m \<Rightarrow> block_case n (DispatchBlockWrite n m)
   | BlockReadAluI n m \<Rightarrow> block_case n (DispatchBlockReadAlu n m)
   | BlockReadI n \<Rightarrow> block_case n (DispatchBlockRead n)
   | BlockReadShiftI n \<Rightarrow> block_case n (DispatchBlockReadShift n)
   | BlockReadTestI n \<Rightarrow> block_case n (DispatchBlockReadTest n)
   | BranchI i \<Rightarrow> DispatchBranches i
   | FieldI i \<Rightarrow> DispatchField i
   | PlainI i \<Rightarrow> DispatchPlain i
   | IvarI i \<Rightarrow> DispatchIvar i
   | WordI i \<Rightarrow> DispatchWord i
   | DispatchInstructionCacheLookup \<Rightarrow> jump InstructionCacheLookup
   | DispatchIllegalInstruction \<Rightarrow> jump UnimplementedInstruction)"

subsection \<open>Labels\<close>

text \<open>Where the sequencer is between two steps. \<open>Stopped b\<close>: it has returned, with
  \<open>HaltReason_SpyCalled\<close> when \<open>b\<close>; \<open>Broken\<close>: undefined behaviour.\<close>

datatype position = AtDispatch | AtLookup | AtTrap int | Stopped bool | Exited int | Broken

type_synonym seq = "(machine, position) prog"

definition halt :: seq where
  "halt = thn (modify (running_update (\<lambda>_. False))) (ret (Stopped False))"

text \<open>Saving the registers, taking a trap, and going on at the handler, or halting.\<close>

definition after_trap :: "bool action \<Rightarrow> seq" where
  "after_trap m = bnd m (\<lambda>ok. if ok then thn EncacheRegisters (ret AtLookup) else halt)"

definition microstate_zero :: LispObj where
  "microstate_zero = mkobj TypeFixnum 0"

definition at_UnimplementedInstruction :: seq where
  "at_UnimplementedInstruction = thn DecacheRegisters (bnd (gets pc) (\<lambda>p.
     after_trap (TakePreTrap (word_of_int ErrorTrapVector) (Some microstate_zero) (Some p))))"

definition at_IllegalOperand :: seq where
  "at_IllegalOperand = bnd (gets (\<lambda>s. ptr_vma s (op2 s))) (\<lambda>vma. thn DecacheRegisters
     (after_trap (TakePreTrap (word_of_int ErrorTrapVector) (Some microstate_zero)
        (Some (mkobj TypeLocative (ucast vma))))))"

definition at_InstructionException :: seq where
  "at_InstructionException = thn DecacheRegisters
     (bnd (gets (\<lambda>s. (current_line s, op2 s))) (\<lambda>(l, p).
        after_trap (TakeInstructionException (instruction l) p (next_pc l))))"

definition at_FollowPCInstructionException :: seq where
  "at_FollowPCInstructionException =
     bnd (gets (\<lambda>s. (IncrementPC (pc s) (cp_operand s), current_line s, op2 s))) (\<lambda>(n, l, p).
       thn DecacheRegisters (after_trap (TakeInstructionException (instruction l) p n)))"

definition at_PullApplyArgsTrap :: "u32 \<Rightarrow> seq" where
  "at_PullApplyArgsTrap i = bnd tos (\<lambda>args.
     thn (add_sp (- 1)) (thn (modify (\<lambda>s. s\<lparr>restartsp := sp s\<rparr>)) (thn DecacheRegisters
       (after_trap (TakePreTrap (word_of_int PullApplyArgsTrapVector)
          (Some (mkobj TypeFixnum i)) (Some args))))))"

definition at_NextInstruction :: seq where
  "at_NextInstruction = thn (modify (\<lambda>s. s\<lparr>pc := next_pc (current_line s),
     cp := next_cp (current_line s)\<rparr>)) (ret AtDispatch)"

text \<open>\<open>BranchTaken\<close> and \<open>HandleUnwindProtect\<close> lead to labels that are not these two again.\<close>

fun follow1 :: "goto \<Rightarrow> seq" where
  "follow1 NextInstruction = at_NextInstruction"
| "follow1 InstructionCacheLookup = ret AtLookup"
| "follow1 IllegalOperand = at_IllegalOperand"
| "follow1 InstructionException = at_InstructionException"
| "follow1 UnimplementedInstruction = at_UnimplementedInstruction"
| "follow1 (PullApplyArgsTrap i) = at_PullApplyArgsTrap i"
| "follow1 FollowPCInstructionException = at_FollowPCInstructionException"
| "follow1 SaveAndHalt = thn DecacheRegisters halt"
| "follow1 Halt = halt"
| "follow1 BranchTaken = undef"
| "follow1 HandleUnwindProtect = undef"

definition follow :: "goto \<Rightarrow> seq" where
  "follow l = (if l = BranchTaken then bnd ExecuteBranchTaken follow1
     else if l = HandleUnwindProtect then bnd ExecuteHandleUnwindProtect follow1
     else follow1 l)"

subsection \<open>Dispatch and instruction cache lookup\<close>

definition count_instruction :: "unit action" where
  "count_instruction = modify (\<lambda>s. if code (current_line s) = DispatchInstructionCacheLookup then s
     else s\<lparr>instruction_count := instruction_count s + 1\<rparr>)"

definition at_Dispatch :: seq where
  "at_Dispatch = thn (modify (\<lambda>s. s\<lparr>restartsp := sp s\<rparr>)) (thn AllowSequenceBreaks
     (thn count_instruction
       (bnd (gets (\<lambda>s. code (current_line s))) (\<lambda>d. bnd (ExecuteDispatch d) follow))))"

definition lookup_line :: "LispObj \<Rightarrow> nat" where
  "lookup_line p = unat (push_bit 1 (DATA p) AND 2047) + unat (TAG p AND 1)"

definition at_InstructionCacheLookup :: seq where
  "at_InstructionCacheLookup = bnd (gets pc) (\<lambda>p.
     if TypeEqualP (TAG p) TypeNIL then follow SaveAndHalt
     else if \<not> (TypeEqualP (TAG p) TypeEvenPC \<or> TypeEqualP (TAG p) TypeOddPC)
       then follow InstructionException
     else thn (modify (cp_update (\<lambda>_. CacheLine (lookup_line p))))
         (bnd (gets (\<lambda>s. DATA (line_pc (current_line s)) \<noteq> DATA p)) (\<lambda>miss.
            thn (run_if miss (thn DecacheRegisters (thn InstructionCacheMiss EncacheRegisters)))
              (ret AtDispatch))))"

subsection \<open>The trap handler\<close>

text \<open>An error while the trap vector itself is read stops the machine.\<close>

definition bad_spot :: "machine \<Rightarrow> bool" where
  "bad_spot s \<longleftrightarrow>
     (DATA (trap_vma s) XOR (0xf8040000 + word_of_int ResetTrapVector)) AND 0xffffff00 = 0"

definition trap_with :: "int \<Rightarrow> (machine \<Rightarrow> LispObj option) \<Rightarrow> (machine \<Rightarrow> LispObj option) \<Rightarrow> seq" where
  "trap_with vector e1 e2 = bnd (gets (\<lambda>s. (e1 s, e2 s))) (\<lambda>(x, y).
     after_trap (TakePreTrap (word_of_int vector) x y))"

definition unless_bad_spot :: "seq \<Rightarrow> seq" where
  "unless_bad_spot m = bnd (gets bad_spot) (\<lambda>bad. if bad then halt else m)"

definition at_Trap :: "int \<Rightarrow> seq" where
  "at_Trap vector = thn DecacheRegisters
     (if vector = - 1 then ret (Stopped True)
      else if vector = HighPrioritySequenceBreakTrapVector
            \<or> vector = LowPrioritySequenceBreakTrapVector \<or> vector = ResetTrapVector
        then trap_with vector (\<lambda>s. None) (\<lambda>s. None)
      else if vector = ErrorTrapVector
        then unless_bad_spot (trap_with vector (\<lambda>s. Some (trap_microstate s)) (\<lambda>s. Some (trap_vma s)))
      else if vector = MonitorTrapVector \<or> vector = TransportTrapVector
            \<or> vector = PageNotResidentTrapVector
        then unless_bad_spot (trap_with vector (\<lambda>s. Some (trap_vma s)) (\<lambda>s. None))
      else if vector = InstructionExceptionVector
        then bnd (gets (\<lambda>s. (current_line s, op2 s))) (\<lambda>(l, p).
               after_trap (TakeInstructionException (instruction l) p (next_pc l)))
      else exit_with 1)"

subsection \<open>Steps\<close>

definition position_action :: "position \<Rightarrow> seq" where
  "position_action p = (case p of AtDispatch \<Rightarrow> at_Dispatch
     | AtLookup \<Rightarrow> at_InstructionCacheLookup
     | AtTrap v \<Rightarrow> at_Trap v
     | _ \<Rightarrow> ret p)"

text \<open>The entry of \<open>InstructionSequencer\<close>.\<close>

definition InstructionSequencer :: seq where
  "InstructionSequencer = thn (modify (\<lambda>s. s\<lparr>sp := ps_sp s, restartsp := ps_sp s, fp := ps_fp s,
     lp := ps_lp s, pc := ps_pc s, immediate := mkobj TypeFixnum 0\<rparr>)) (ret AtLookup)"

text \<open>What an outcome makes of the position: \<open>longjmp\<close> returns from \<open>setjmp\<close> again.\<close>

fun position_after :: "position res \<Rightarrow> position" where
  "position_after (Ret p) = p"
| "position_after (Longjmp v) = AtTrap v"
| "position_after (Exit n) = Exited n"
| "position_after Undef = Broken"

text \<open>One step: the sequencer's own, or a signal that asks for a sequence break.\<close>

inductive seq_step :: "position \<times> machine \<Rightarrow> position \<times> machine \<Rightarrow> bool" where
  run: "p \<in> {AtDispatch, AtLookup} \<or> (\<exists>v. p = AtTrap v) \<Longrightarrow> position_action p s = Some (r, s')
          \<Longrightarrow> seq_step (p, s) (position_after r, s')"
| io: "io_handler s = Some (r, s') \<Longrightarrow> seq_step (p, s) (p, s')"
| interrupt: "SendInterruptToEmulator s = Some (r, s') \<Longrightarrow> seq_step (p, s) (p, s')"

inductive_cases seq_stepE: "seq_step c c'"

end
