(* ===== verification/Startup.thy ===== *)
theory Startup
  imports Sequencer
begin

text \<open>
  Starting and stopping the machine and its registers as seen from outside the sequencer
  (\<open>initialization.c\<close>). \<open>malloc\<close> is taken to succeed; \<open>run\<close> is the field \<open>run_flag\<close>.
\<close>

unbundle bit_operations_syntax

subsection \<open>Running and halting\<close>

definition quit_handler :: "unit action" where
  "quit_handler = modify (\<lambda>s. s\<lparr>suspend := 1, run_flag := False\<rparr>)"

definition Runningp :: "bool action" where
  "Runningp = gets run_flag"

definition HaltMachine :: "unit action" where
  "HaltMachine = bnd Runningp (\<lambda>r. run_if r (modify (suspend_update (\<lambda>_. 1))))"

definition ResetMachine :: "unit action" where
  "ResetMachine = ret ()"

definition StartMachine :: "unit action" where
  "StartMachine = modify (\<lambda>s. s\<lparr>run_flag := True, suspend := 0\<rparr>)"

subsection \<open>Fake frames\<close>

definition PushOneFakeFrame :: "unit action" where
  "PushOneFakeFrame = bnd (gets (\<lambda>s. ps_sp s + 1)) (\<lambda>f.
     thn (bnd (gets continuation) (\<lambda>k. set_stack f (k\<lparr>TAG := TAG k OR 0xc0\<rparr>)))
    (thn (bnd (gets control) (\<lambda>c. set_stack (f + 1) (mkobj (0xc0 OR TypeFixnum) (ucast c))))
         (modify (\<lambda>s. s\<lparr>control := WriteControlCallerFrameSize (WriteControlArgumentSize 0 2)
                                   (word_of_int (f - ps_fp s)),
            continuation := ps_pc s, ps_fp := f, ps_sp := f + 1\<rparr>))))"

definition PopOneFakeFrame :: "unit action" where
  "PopOneFakeFrame = bnd (gets ps_fp) (\<lambda>f. bnd (stack_at f) (\<lambda>k. bnd (stack_at (f + 1)) (\<lambda>c.
     modify (\<lambda>s. let nfp = f - uint (ReadControlCallerFrameSize (control s));
                     saved = ucast (DATA c) in
       s\<lparr>ps_sp := f - 1, ps_fp := nfp, ps_pc := continuation s, continuation := k,
         control := saved, ps_lp := nfp + uint (ReadControlArgumentSize saved)\<rparr>))))"

subsection \<open>Initialization\<close>

definition initial_line :: "nat \<Rightarrow> InstructionCacheLine \<Rightarrow> InstructionCacheLine" where
  "initial_line i l = l\<lparr>line_pc := mkobj (if even i then TypeEvenPC else TypeOddPC) (- 1)\<rparr>"

definition initial_registers :: "machine \<Rightarrow> machine" where
  "initial_registers s = s\<lparr>StackCacheLimit := 1024 - 128, running := False, instruction_count := 0,
     InstructionCache := (\<lambda>i. if i < 2048 then initial_line i (InstructionCache s i)
                            else InstructionCache s i),
     StackCacheBase := 0xf8000100,
     StackCache := (\<lambda>i. if 0 \<le> i \<and> i < 1024 then mkobj TypeNull (0xf8000100 + word_of_int i)
                      else StackCache s i),
     ps_fp := 4, ps_sp := 5, ps_lp := 6,
     control := WriteControlTrapMode (WriteControlCallerFrameSize (WriteControlArgumentSize 0 2) 2) 3,
     ps_pc := mkobj (0xc0 OR TypeNIL) 0, continuation := mkobj (0xc0 OR TypeNIL) 0\<rparr>"

definition InitializeIvoryProcessor :: "unit action" where
  "InitializeIvoryProcessor = thn (modify initial_registers)
    (thn PushOneFakeFrame (thn PushOneFakeFrame
    (thn (EnsureVirtualAddressRange 0xf8000100 0xf00)
    (thn (EnsureVirtualAddressRange 0xf8062000 0x9e000) (ret ())))))"

text \<open>The first function to run: the word at one of two addresses, when it is a compiled
  function. The result is the C function's.\<close>

definition find_boot_function :: "LispObj option action" where
  "find_boot_function = bnd (ReadVirtualMemory 0xf8041002) (\<lambda>q.
     if TAG q = TypeCompiledFunction then ret (Some q)
     else bnd (ReadVirtualMemory 0xf8041100) (\<lambda>q.
       ret (if TAG q = TypeCompiledFunction then Some q else None)))"

definition start_frames :: "bool action" where
  "start_frames = thn ResetMachine (thn PopOneFakeFrame (thn PopOneFakeFrame
     (thn StartMachine (ret True))))"

definition IvoryProcessorSystemStartup :: "bool \<Rightarrow> bool action" where
  "IvoryProcessorSystemStartup bootingP =
     (if bootingP then thn InitializeIvoryProcessor (bnd find_boot_function (\<lambda>r. case r of
        None \<Rightarrow> ret False
      | Some q \<Rightarrow> bnd (gets ps_fp) (\<lambda>f.
          thn (set_stack f (mkobj (0xc0 OR TypeEvenPC) (DATA q))) start_frames)))
      else start_frames)"

subsection \<open>Internal registers\<close>

definition ReadInternalRegister :: "u32 \<Rightarrow> LispObj option action" where
  "ReadInternalRegister regno = gets (\<lambda>s.
     if regno = InternalRegisterFP then Some (mkobj TypeLocative (ucast (stack_vma s (ps_fp s))))
     else if regno = InternalRegisterLP then Some (mkobj TypeLocative (ucast (stack_vma s (ps_lp s))))
     else if regno = InternalRegisterSP then Some (mkobj TypeLocative (ucast (stack_vma s (ps_sp s))))
     else if regno \<in> {6, InternalRegisterBAR1, InternalRegisterBAR2, InternalRegisterBAR3}
       then Some (bar_address s (unat (ldb 2 7 regno)))
     else if regno = InternalRegisterContinuation then Some (continuation s)
     else if regno = InternalRegisterControlRegister
       then Some (mkobj TypeFixnum (ucast (control s)))
     else None)"

text \<open>Setting the frame pointer scrolls the stack cache until it is inside.\<close>

partial_function (option) scroll_down_to_fp :: "unit action" where
  "scroll_down_to_fp s = bnd (gets ps_fp) (\<lambda>f.
     if f < 0 then bnd StackCacheScrollDown (\<lambda>_. scroll_down_to_fp) else ret ()) s"

partial_function (option) scroll_up_to_fp :: "unit action" where
  "scroll_up_to_fp s = bnd (gets (\<lambda>s. StackCacheLimit s < ps_fp s)) (\<lambda>over.
     if over then bnd StackCacheScrollUp (\<lambda>_. scroll_up_to_fp) else ret ()) s"

definition WriteInternalRegister :: "u32 \<Rightarrow> LispObj \<Rightarrow> bool action" where
  "WriteInternalRegister regno v =
     (if regno = InternalRegisterFP
      then thn (modify (\<lambda>s. s\<lparr>ps_fp := slot_of_vma s (DATA v)\<rparr>))
          (thn scroll_down_to_fp (thn scroll_up_to_fp (ret True)))
      else if regno = InternalRegisterSP
        then thn (modify (\<lambda>s. s\<lparr>ps_sp := slot_of_vma s (DATA v)\<rparr>)) (ret True)
      else if regno = InternalRegisterLP
        then thn (modify (\<lambda>s. s\<lparr>ps_lp := slot_of_vma s (DATA v)\<rparr>)) (ret True)
      else if regno \<in> {6, InternalRegisterBAR1, InternalRegisterBAR2, InternalRegisterBAR3}
        then thn (modify (\<lambda>s. s\<lparr>bar_address := (bar_address s)(unat (ldb 2 7 regno) := v)\<rparr>)) (ret True)
      else if regno = InternalRegisterContinuation
        then thn (modify (continuation_update (\<lambda>_. v))) (ret True)
      else if regno = InternalRegisterControlRegister
        then thn (modify (control_update (\<lambda>_. ucast (DATA v)))) (ret True)
      else ret False)"

end
