(* ===== verification/MachineInvariant.thy ===== *)
theory MachineInvariant
  imports Startup
begin

text \<open>
  Invariants of the whole machine. Attributes and mapping of pages change only through the virtual
  memory commands, and the instruction cache only when a block of it is filled. So a property of
  these three that those operations keep is kept by every instruction, every trap and every step
  of the sequencer, in whatever way it ends. The locale states this contract; here it is carried
  through the machine's macros and memory operations.
\<close>

locale machine_invariant =
  fixes P :: "machine \<Rightarrow> bool"
  assumes P_cong: "mapped s = mapped t \<Longrightarrow> VMAttributeTable s = VMAttributeTable t \<Longrightarrow>
      InstructionCache s = InstructionCache t \<Longrightarrow> P s = P t"
    and create_keeps [keeps_intros]: "keeps P (EnsureVirtualAddressRange vma count)"
    and destroy_keeps [keeps_intros]: "keeps P (DestroyVirtualAddressRange vma count)"
    and write_attributes_keeps [keeps_intros]: "keeps P (vm_write_attributes command)"
    and enable_keeps [keeps_intros]: "keeps P (VirtualMemoryEnable vma count)"
    and fill_keeps [keeps_intros]: "keeps P InstructionCacheMiss"
    and reset_keeps: "P s \<Longrightarrow> P (initial_registers s)"
begin

lemma P_updates [simp]:
  "P (DataSpace_update f0 s) = P s"
  "P (TagSpace_update f1 s) = P s"
  "P (memory_vma_update f2 s) = P s"
  "P (trap_vma_update f3 s) = P s"
  "P (CommandRegister_update f4 s) = P s"
  "P (AddressRegister_update f5 s) = P s"
  "P (ExtentRegister_update f6 s) = P s"
  "P (AttributesRegister_update f7 s) = P s"
  "P (DestinationRegister_update f8 s) = P s"
  "P (DataRegister_update f9 s) = P s"
  "P (sp_update f10 s) = P s"
  "P (restartsp_update f11 s) = P s"
  "P (fp_update f12 s) = P s"
  "P (lp_update f13 s) = P s"
  "P (pc_update f14 s) = P s"
  "P (cp_update f15 s) = P s"
  "P (op2_update f16 s) = P s"
  "P (scratch_update f17 s) = P s"
  "P (immediate_update f18 s) = P s"
  "P (immediate_index_update f19 s) = P s"
  "P (ps_sp_update f20 s) = P s"
  "P (ps_restartsp_update f21 s) = P s"
  "P (ps_fp_update f22 s) = P s"
  "P (ps_lp_update f23 s) = P s"
  "P (ps_pc_update f24 s) = P s"
  "P (continuation_update f25 s) = P s"
  "P (StackCache_update f26 s) = P s"
  "P (StackCacheLimit_update f27 s) = P s"
  "P (bar_address_update f28 s) = P s"
  "P (ListCacheArea_update f29 s) = P s"
  "P (ListCacheAddress_update f30 s) = P s"
  "P (StructureCacheArea_update f31 s) = P s"
  "P (StructureCacheAddress_update f32 s) = P s"
  "P (CatchBlockPointer_update f33 s) = P s"
  "P (control_update f34 s) = P s"
  "P (StackCacheBase_update f35 s) = P s"
  "P (ArrayEventCount_update f36 s) = P s"
  "P (ListCacheLength_update f37 s) = P s"
  "P (StructureCacheLength_update f38 s) = P s"
  "P (BindingStackPointer_update f39 s) = P s"
  "P (BindingStackLimit_update f40 s) = P s"
  "P (DeepBoundP_update f41 s) = P s"
  "P (PreemptRegister_update f42 s) = P s"
  "P (AluAndRotateControl_update f43 s) = P s"
  "P (AluOp_update f44 s) = P s"
  "P (ByteSize_update f45 s) = P s"
  "P (ByteRotate_update f46 s) = P s"
  "P (RotateLatch_update f47 s) = P s"
  "P (ALUOverflow_update f48 s) = P s"
  "P (ALUBorrow_update f49 s) = P s"
  "P (ALULessThan_update f50 s) = P s"
  "P (EphemeralOldspaceRegister_update f51 s) = P s"
  "P (ZoneOldspaceRegister_update f52 s) = P s"
  "P (ControlStackLimit_update f53 s) = P s"
  "P (ControlStackExtraLimit_update f54 s) = P s"
  "P (DynamicBindingCacheBase_update f55 s) = P s"
  "P (DynamicBindingCacheMask_update f56 s) = P s"
  "P (FEPModeTrapVectorAddress_update f57 s) = P s"
  "P (MappingTableCache_update f58 s) = P s"
  "P (MappingTableLength_update f59 s) = P s"
  "P (running_update f60 s) = P s"
  "P (instruction_count_update f61 s) = P s"
  "P (suspend_update f62 s) = P s"
  "P (trap_microstate_update f63 s) = P s"
  "P (run_flag_update f64 s) = P s"
  "P (life_support_interrupts_update f65 s) = P s"
  "P (cpu_ticks_update f66 s) = P s"
  "P (ticks_per_second_update f67 s) = P s"
  by (rule P_cong; simp)+


subsection \<open>VirtualMemory\<close>

lemma read_attribute_keeps [keeps_intros]: "keeps P (read_attribute a0)"
  unfolding read_attribute_def by (auto intro!: keeps_intros simp: Let_def)

lemma TakeMemoryTrap_keeps [keeps_intros]: "a0 \<in> longjmp_values \<Longrightarrow> keeps P (TakeMemoryTrap a0 a1)"
  unfolding TakeMemoryTrap_def by (auto intro!: keeps_intros simp: Let_def)

lemma segv_handler_keeps [keeps_intros]: "keeps P segv_handler"
  unfolding segv_handler_def by (auto intro!: keeps_intros simp: Let_def)

lemma set_memory_vma_keeps [keeps_intros]: "keeps P (set_memory_vma a0)"
  unfolding set_memory_vma_def by (auto intro!: keeps_intros simp: Let_def)

lemma access_keeps [keeps_intros]: "keeps P (access a0)"
  unfolding access_def by (auto intro!: keeps_intros simp: Let_def)

lemma write_data_keeps [keeps_intros]: "keeps P (write_data a0 a1)"
  unfolding write_data_def by (auto intro!: keeps_intros simp: Let_def)

lemma write_tag_keeps [keeps_intros]: "keeps P (write_tag a0 a1)"
  unfolding write_tag_def by (auto intro!: keeps_intros simp: Let_def)

lemma VirtualMemoryRead_keeps [keeps_intros]: "keeps P (VirtualMemoryRead a0)"
  unfolding VirtualMemoryRead_def by (auto intro!: keeps_intros simp: Let_def)

lemma VirtualMemoryWrite_keeps [keeps_intros]: "keeps P (VirtualMemoryWrite a0 a1)"
  unfolding VirtualMemoryWrite_def by (auto intro!: keeps_intros simp: Let_def)

lemma next_memory_vma_keeps [keeps_intros]: "keeps P next_memory_vma"
  unfolding next_memory_vma_def by (auto intro!: keeps_intros simp: Let_def)

lemma read_block_loop_keeps [keeps_intros]: "(\<And>x0 x1. keeps P (a0 x0 x1)) \<Longrightarrow> keeps P (read_block_loop a0 a1 a2 a3)"
  by (induction a0 a1 a2 a3 rule: read_block_loop.induct) (auto intro!: keeps_intros simp: Let_def)

lemma VirtualMemoryReadBlock_keeps [keeps_intros]: "(\<And>x0 x1. keeps P (a1 x0 x1)) \<Longrightarrow> keeps P (VirtualMemoryReadBlock a0 a1 a2)"
  unfolding VirtualMemoryReadBlock_def by (auto intro!: keeps_intros simp: Let_def)

lemma write_block_loop_keeps [keeps_intros]: "keeps P (write_block_loop a0 a1)"
  by (induction a0 a1 rule: write_block_loop.induct) (auto intro!: keeps_intros simp: Let_def)

lemma VirtualMemoryWriteBlock_keeps [keeps_intros]: "keeps P (VirtualMemoryWriteBlock a0 a1)"
  unfolding VirtualMemoryWriteBlock_def by (auto intro!: keeps_intros simp: Let_def)

lemma memset_tags_keeps [keeps_intros]: "keeps P (memset_tags a0 a1 a2)"
  by (induction a0 a1 a2 rule: memset_tags.induct) (auto intro!: keeps_intros simp: Let_def)

lemma memset_data_zero_keeps [keeps_intros]: "keeps P (memset_data_zero a0 a1)"
  by (induction a0 a1 rule: memset_data_zero.induct) (auto intro!: keeps_intros simp: Let_def)

lemma fill_data_loop_keeps [keeps_intros]: "keeps P (fill_data_loop a0 a1 a2 a3)"
  by (induction a0 a1 a2 a3 rule: fill_data_loop.induct) (auto intro!: keeps_intros simp: Let_def)

lemma VirtualMemoryWriteBlockConstant_keeps [keeps_intros]: "keeps P (VirtualMemoryWriteBlockConstant a0 a1 a2 a3)"
  unfolding VirtualMemoryWriteBlockConstant_def by (auto intro!: keeps_intros simp: Let_def)

lemma memchr_tags_keeps [keeps_intros]: "keeps P (memchr_tags a0 a1 a2)"
  by (induction a0 a1 a2 rule: memchr_tags.induct) (auto intro!: keeps_intros simp: Let_def)

lemma search_loop_keeps [keeps_intros]: "keeps P (search_loop a0 a1 a2 a3)"
proof (rule keeps_runI)
  fix s :: machine and y
  assume "search_loop a0 a1 a2 a3 s = Some y"
  then show "P s \<longrightarrow> ends_well P y"
  proof (induction rule: search_loop.raw_induct [rotated, consumes 1, case_names turn])
    case (turn g a0 a1 a2 a3 s y)
    have rec: "keeps P (g a0 a1 a2 a3)" for a0 a1 a2 a3 using turn(1) by (intro keeps_runI)
    from turn(2) show ?case by (rule keeps_run [rotated]) (auto intro!: keeps_intros rec simp: Let_def)
  qed
qed

lemma VirtualMemorySearch_keeps [keeps_intros]: "keeps P (VirtualMemorySearch a0 a1 a2)"
  unfolding VirtualMemorySearch_def by (auto intro!: keeps_intros simp: Let_def)

subsection \<open>Machine\<close>

lemma jump_keeps [keeps_intros]: "keeps P (jump a0)"
  unfolding jump_def by (auto intro!: keeps_intros simp: Let_def)

lemma stack_at_keeps [keeps_intros]: "keeps P (stack_at a0)"
  unfolding stack_at_def by (auto intro!: keeps_intros simp: Let_def)

lemma set_stack_keeps [keeps_intros]: "keeps P (set_stack a0 a1)"
  unfolding set_stack_def by (auto intro!: keeps_intros simp: Let_def)

lemma read_ptr_keeps [keeps_intros]: "keeps P (read_ptr a0)"
  by (induction a0 rule: read_ptr.induct) (auto intro!: keeps_intros simp: Let_def)

lemma write_ptr_keeps [keeps_intros]: "keeps P (write_ptr a0 a1)"
  by (induction a0 a1 rule: write_ptr.induct) (auto intro!: keeps_intros simp: Let_def)

lemma set_op2_keeps [keeps_intros]: "keeps P (set_op2 a0)"
  unfolding set_op2_def by (auto intro!: keeps_intros simp: Let_def)

lemma set_sp_keeps [keeps_intros]: "keeps P (set_sp a0)"
  unfolding set_sp_def by (auto intro!: keeps_intros simp: Let_def)

lemma AddressImmediateOperand_keeps [keeps_intros]: "keeps P AddressImmediateOperand"
  unfolding AddressImmediateOperand_def by (auto intro!: keeps_intros simp: Let_def)

lemma AddressSPOperand_keeps [keeps_intros]: "keeps P AddressSPOperand"
  unfolding AddressSPOperand_def by (auto intro!: keeps_intros simp: Let_def)

lemma AddressFPOperand_keeps [keeps_intros]: "keeps P AddressFPOperand"
  unfolding AddressFPOperand_def by (auto intro!: keeps_intros simp: Let_def)

lemma AddressLPOperand_keeps [keeps_intros]: "keeps P AddressLPOperand"
  unfolding AddressLPOperand_def by (auto intro!: keeps_intros simp: Let_def)

lemma AddressPopOperand_keeps [keeps_intros]: "keeps P AddressPopOperand"
  unfolding AddressPopOperand_def by (auto intro!: keeps_intros simp: Let_def)

lemma AddressOperand_keeps [keeps_intros]: "keeps P (AddressOperand a0)"
  by (induction a0 rule: AddressOperand.induct) (auto intro!: keeps_intros simp: Let_def)

lemma with_operand_keeps [keeps_intros]: "keeps P a2 \<Longrightarrow> keeps P (with_operand a0 a1 a2)"
  unfolding with_operand_def by (auto intro!: keeps_intros simp: Let_def)

lemma op2_obj_keeps [keeps_intros]: "keeps P op2_obj"
  unfolding op2_obj_def by (auto intro!: keeps_intros simp: Let_def)

lemma set_op2_obj_keeps [keeps_intros]: "keeps P (set_op2_obj a0)"
  unfolding set_op2_obj_def by (auto intro!: keeps_intros simp: Let_def)

lemma sp_at_keeps [keeps_intros]: "keeps P (sp_at a0)"
  unfolding sp_at_def by (auto intro!: keeps_intros simp: Let_def)

lemma set_sp_at_keeps [keeps_intros]: "keeps P (set_sp_at a0 a1)"
  unfolding set_sp_at_def by (auto intro!: keeps_intros simp: Let_def)

lemma fp_at_keeps [keeps_intros]: "keeps P (fp_at a0)"
  unfolding fp_at_def by (auto intro!: keeps_intros simp: Let_def)

lemma add_sp_keeps [keeps_intros]: "keeps P (add_sp a0)"
  unfolding add_sp_def by (auto intro!: keeps_intros simp: Let_def)

lemma push_keeps [keeps_intros]: "keeps P (push a0)"
  unfolding push_def by (auto intro!: keeps_intros simp: Let_def)

lemma PushObject_keeps [keeps_intros]: "keeps P (PushObject a0)"
  unfolding PushObject_def by (auto intro!: keeps_intros simp: Let_def)

lemma PushFixnum_keeps [keeps_intros]: "keeps P (PushFixnum a0)"
  unfolding PushFixnum_def by (auto intro!: keeps_intros simp: Let_def)

lemma PushNIL_keeps [keeps_intros]: "keeps P PushNIL"
  unfolding PushNIL_def by (auto intro!: keeps_intros simp: Let_def)

lemma PushT_keeps [keeps_intros]: "keeps P PushT"
  unfolding PushT_def by (auto intro!: keeps_intros simp: Let_def)

lemma PushConstant_keeps [keeps_intros]: "keeps P (PushConstant a0 a1)"
  unfolding PushConstant_def by (auto intro!: keeps_intros simp: Let_def)

lemma PushPredicate_keeps [keeps_intros]: "keeps P (PushPredicate a0)"
  unfolding PushPredicate_def by (auto intro!: keeps_intros simp: Let_def)

lemma PopObject_keeps [keeps_intros]: "keeps P (PopObject a0)"
  unfolding PopObject_def by (auto intro!: keeps_intros simp: Let_def)

lemma MoveObject_keeps [keeps_intros]: "keeps P (MoveObject a0)"
  unfolding MoveObject_def by (auto intro!: keeps_intros simp: Let_def)

lemma set_tos_keeps [keeps_intros]: "keeps P (set_tos a0)"
  unfolding set_tos_def by (auto intro!: keeps_intros simp: Let_def)

lemma SetObject_keeps [keeps_intros]: "keeps P (SetObject a0)"
  unfolding SetObject_def by (auto intro!: keeps_intros simp: Let_def)

lemma SetFixnum_keeps [keeps_intros]: "keeps P (SetFixnum a0)"
  unfolding SetFixnum_def by (auto intro!: keeps_intros simp: Let_def)

lemma SetNIL_keeps [keeps_intros]: "keeps P SetNIL"
  unfolding SetNIL_def by (auto intro!: keeps_intros simp: Let_def)

lemma SetT_keeps [keeps_intros]: "keeps P SetT"
  unfolding SetT_def by (auto intro!: keeps_intros simp: Let_def)

lemma SetPredicate_keeps [keeps_intros]: "keeps P (SetPredicate a0)"
  unfolding SetPredicate_def by (auto intro!: keeps_intros simp: Let_def)

lemma SetConstant_keeps [keeps_intros]: "keeps P (SetConstant a0 a1)"
  unfolding SetConstant_def by (auto intro!: keeps_intros simp: Let_def)

lemma PushContinuation_keeps [keeps_intros]: "keeps P (PushContinuation a0)"
  unfolding PushContinuation_def by (auto intro!: keeps_intros simp: Let_def)

lemma PushControl_keeps [keeps_intros]: "keeps P (PushControl a0)"
  unfolding PushControl_def by (auto intro!: keeps_intros simp: Let_def)

lemma DecacheRegisters_keeps [keeps_intros]: "keeps P DecacheRegisters"
  unfolding DecacheRegisters_def by (auto intro!: keeps_intros simp: Let_def)

lemma EncacheRegisters_keeps [keeps_intros]: "keeps P EncacheRegisters"
  unfolding EncacheRegisters_def by (auto intro!: keeps_intros simp: Let_def)

lemma TakeIllegalOperandTrap_keeps [keeps_intros]: "keeps P (TakeIllegalOperandTrap a0 a1)"
  unfolding TakeIllegalOperandTrap_def by (auto intro!: keeps_intros simp: Let_def)

lemma TakeInstructionExceptionTrap_keeps [keeps_intros]: "keeps P TakeInstructionExceptionTrap"
  unfolding TakeInstructionExceptionTrap_def by (auto intro!: keeps_intros simp: Let_def)

lemma io_handler_keeps [keeps_intros]: "keeps P io_handler"
  unfolding io_handler_def by (auto intro!: keeps_intros simp: Let_def)

lemma SendInterruptToEmulator_keeps [keeps_intros]: "keeps P SendInterruptToEmulator"
  unfolding SendInterruptToEmulator_def by (auto intro!: keeps_intros simp: Let_def)

lemma ProcessSuspend_keeps [keeps_intros]: "keeps P ProcessSuspend"
  unfolding ProcessSuspend_def by (auto intro!: keeps_intros simp: Let_def)

lemma AllowSequenceBreaks_keeps [keeps_intros]: "keeps P AllowSequenceBreaks"
  unfolding AllowSequenceBreaks_def by (auto intro!: keeps_intros simp: Let_def)

lemma Op2SpareExceptions_keeps [keeps_intros]: "keeps P Op2SpareExceptions"
  unfolding Op2SpareExceptions_def by (auto intro!: keeps_intros simp: Let_def)

lemma Op2FixnumExceptions_keeps [keeps_intros]: "keeps P Op2FixnumExceptions"
  unfolding Op2FixnumExceptions_def by (auto intro!: keeps_intros simp: Let_def)

lemma Op2ListExceptions_keeps [keeps_intros]: "keeps P Op2ListExceptions"
  unfolding Op2ListExceptions_def by (auto intro!: keeps_intros simp: Let_def)

lemma Op2ArrayExceptions_keeps [keeps_intros]: "keeps P Op2ArrayExceptions"
  unfolding Op2ArrayExceptions_def by (auto intro!: keeps_intros simp: Let_def)

lemma BinaryTypeFixnumExceptions_keeps [keeps_intros]: "keeps P BinaryTypeFixnumExceptions"
  unfolding BinaryTypeFixnumExceptions_def by (auto intro!: keeps_intros simp: Let_def)

lemma SpSpareExceptions_keeps [keeps_intros]: "keeps P SpSpareExceptions"
  unfolding SpSpareExceptions_def by (auto intro!: keeps_intros simp: Let_def)

lemma SpFixnumExceptions_keeps [keeps_intros]: "keeps P SpFixnumExceptions"
  unfolding SpFixnumExceptions_def by (auto intro!: keeps_intros simp: Let_def)

lemma SpListExceptions_keeps [keeps_intros]: "keeps P SpListExceptions"
  unfolding SpListExceptions_def by (auto intro!: keeps_intros simp: Let_def)

lemma SpArrayExceptions_keeps [keeps_intros]: "keeps P SpArrayExceptions"
  unfolding SpArrayExceptions_def by (auto intro!: keeps_intros simp: Let_def)

lemma ScratchSpareExceptions_keeps [keeps_intros]: "keeps P ScratchSpareExceptions"
  unfolding ScratchSpareExceptions_def by (auto intro!: keeps_intros simp: Let_def)

lemma ScratchListExceptions_keeps [keeps_intros]: "keeps P ScratchListExceptions"
  unfolding ScratchListExceptions_def by (auto intro!: keeps_intros simp: Let_def)

subsection \<open>MemoryCycles\<close>

lemma ReadVirtualMemory_keeps [keeps_intros]: "keeps P (ReadVirtualMemory a0)"
  unfolding ReadVirtualMemory_def by (auto intro!: keeps_intros simp: Let_def)

lemma WriteVirtualMemory_keeps [keeps_intros]: "keeps P (WriteVirtualMemory a0 a1)"
  unfolding WriteVirtualMemory_def by (auto intro!: keeps_intros simp: Let_def)

lemma read_cache_block_keeps [keeps_intros]: "(\<And>x0 x1. keeps P (a1 x0 x1)) \<Longrightarrow> keeps P (read_cache_block a0 a1 a2 a3)"
  by (induction a0 a1 a2 a3 rule: read_cache_block.induct) (auto intro!: keeps_intros simp: Let_def)

lemma ReadVirtualMemoryBlock_keeps [keeps_intros]: "(\<And>x0 x1. keeps P (a1 x0 x1)) \<Longrightarrow> keeps P (ReadVirtualMemoryBlock a0 a1 a2)"
  unfolding ReadVirtualMemoryBlock_def by (auto intro!: keeps_intros simp: Let_def)

lemma write_cache_block_keeps [keeps_intros]: "keeps P (write_cache_block a0 a1)"
  by (induction a0 a1 rule: write_cache_block.induct) (auto intro!: keeps_intros simp: Let_def)

lemma WriteVirtualMemoryBlock_keeps [keeps_intros]: "keeps P (WriteVirtualMemoryBlock a0 a1)"
  unfolding WriteVirtualMemoryBlock_def by (auto intro!: keeps_intros simp: Let_def)

lemma StackCacheScrollUp_keeps [keeps_intros]: "keeps P StackCacheScrollUp"
  unfolding StackCacheScrollUp_def by (auto intro!: keeps_intros simp: Let_def move_registers_def)

lemma StackCacheScrollDown_keeps [keeps_intros]: "keeps P StackCacheScrollDown"
  unfolding StackCacheScrollDown_def by (auto intro!: keeps_intros simp: Let_def move_registers_def)

lemma pointer_and_keeps [keeps_intros]: "keeps P (pointer_and a0 a1)"
  unfolding pointer_and_def by (auto intro!: keeps_intros simp: Let_def)

lemma EphemeralP_keeps [keeps_intros]: "keeps P (EphemeralP a0)"
  unfolding EphemeralP_def by (auto intro!: keeps_intros simp: Let_def)

lemma OldspaceP_keeps [keeps_intros]: "keeps P (OldspaceP a0)"
  unfolding OldspaceP_def by (auto intro!: keeps_intros simp: Let_def)

lemma memory_action_keeps [keeps_intros]: "keeps P (memory_action a0 a1)"
  unfolding memory_action_def by (auto intro!: keeps_intros simp: Let_def)

lemma transport_check_keeps [keeps_intros]: "keeps P (transport_check a0 a1 a2)"
  unfolding transport_check_def by (auto intro!: keeps_intros simp: Let_def)

lemma MemoryReadInternal_keeps [keeps_intros]: "keeps P (MemoryReadInternal a0 a1 a2)"
proof (rule keeps_runI)
  fix s :: machine and y
  assume "MemoryReadInternal a0 a1 a2 s = Some y"
  then show "P s \<longrightarrow> ends_well P y"
  proof (induction rule: MemoryReadInternal.raw_induct [rotated, consumes 1, case_names turn])
    case (turn g a0 a1 a2 s y)
    have rec: "keeps P (g a0 a1 a2)" for a0 a1 a2 using turn(1) by (intro keeps_runI)
    from turn(2) show ?case by (rule keeps_run [rotated]) (auto intro!: keeps_intros rec simp: Let_def)
  qed
qed

lemma StoreContents_keeps [keeps_intros]: "keeps P (StoreContents a0 a1 a2)"
  unfolding StoreContents_def by (auto intro!: keeps_intros simp: Let_def)

lemma store_result_keeps [keeps_intros]: "keeps P (store_result a0 a1)"
  unfolding store_result_def by (auto intro!: keeps_intros simp: Let_def)

lemma read_contents_keeps [keeps_intros]: "keeps P (read_contents a0 a1)"
  unfolding read_contents_def by (auto intro!: keeps_intros simp: Let_def)

lemma CarInternal_keeps [keeps_intros]: "keeps P (CarInternal a0 a1)"
  unfolding CarInternal_def by (auto intro!: keeps_intros simp: Let_def)

lemma CdrInternal_keeps [keeps_intros]: "keeps P (CdrInternal a0 a1)"
  unfolding CdrInternal_def by (auto intro!: keeps_intros simp: Let_def)

lemma CarCdrInternal_keeps [keeps_intros]: "keeps P (CarCdrInternal a0 a1 a2)"
  unfolding CarCdrInternal_def by (auto intro!: keeps_intros simp: Let_def)

subsection \<open>VMCommands\<close>

lemma fetch_all_keeps [keeps_intros]: "keeps P (fetch_all a0 a1 a2)"
  by (induction a0 a1 a2 rule: fetch_all.induct) (auto intro!: keeps_intros simp: Let_def)

lemma store_all_keeps [keeps_intros]: "(\<And>x0 x1. keeps P (a0 x0 x1)) \<Longrightarrow> keeps P (store_all a0 a1 a2)"
  by (induction a0 a1 a2 rule: store_all.induct) (auto intro!: keeps_intros simp: Let_def)

lemma memmove_tags_keeps [keeps_intros]: "keeps P (memmove_tags a0 a1 a2)"
  unfolding memmove_tags_def by (auto intro!: keeps_intros simp: Let_def)

lemma memmove_data_keeps [keeps_intros]: "keeps P (memmove_data a0 a1 a2)"
  unfolding memmove_data_def by (auto intro!: keeps_intros simp: Let_def)

lemma copy_loop_keeps [keeps_intros]: "keeps P (copy_loop a0 a1 a2 a3)"
  by (induction a0 a1 a2 a3 rule: copy_loop.induct) (auto intro!: keeps_intros simp: Let_def)

lemma VirtualMemoryCopy_keeps [keeps_intros]: "keeps P (VirtualMemoryCopy a0 a1 a2 a3)"
  unfolding VirtualMemoryCopy_def by (auto intro!: keeps_intros simp: Let_def)

lemma scan_page_keeps [keeps_intros]: "keeps P (scan_page a0 a1)"
  by (induction a0 a1 rule: scan_page.induct) (auto intro!: keeps_intros simp: Let_def)

lemma scan_loop_keeps [keeps_intros]: "keeps P (scan_loop a0 a1 a2)"
  by (induction a0 a1 a2 rule: scan_loop.induct) (auto intro!: keeps_intros simp: Let_def)

lemma VirtualMemoryScan_keeps [keeps_intros]: "keeps P (VirtualMemoryScan a0 a1)"
  unfolding VirtualMemoryScan_def by (auto intro!: keeps_intros simp: Let_def)

lemma reply_keeps [keeps_intros]: "keeps P (reply a0 a1)"
  unfolding reply_def by (auto intro!: keeps_intros simp: Let_def)

lemma found_address_keeps [keeps_intros]: "keeps P (found_address a0)"
  unfolding found_address_def by (cases a0) (auto intro!: keeps_intros)

lemma vm_lookup_keeps [keeps_intros]: "keeps P vm_lookup"
  unfolding vm_lookup_def by (auto intro!: keeps_intros simp: Let_def)

lemma vm_read_attributes_keeps [keeps_intros]: "keeps P (vm_read_attributes a0)"
  unfolding vm_read_attributes_def by (auto intro!: keeps_intros simp: Let_def)

lemma VMCommand_keeps [keeps_intros]: "keeps P (VMCommand a0)"
  unfolding VMCommand_def by (auto intro!: keeps_intros simp: Let_def)

end

end
