(* ===== verification/InstructionInvariant.thy ===== *)
theory InstructionInvariant
  imports MachineInvariant
begin

text \<open>Every instruction keeps an invariant of pages and instruction cache.\<close>

context machine_invariant begin

subsection \<open>ListInstructions\<close>

lemma above_tos_keeps [keeps_intros]: "keeps P above_tos"
  unfolding above_tos_def by (auto intro!: keeps_intros simp: Let_def)

lemma merge_into_op2_keeps [keeps_intros]: "keeps P (merge_into_op2 a0)"
  unfolding merge_into_op2_def by (auto intro!: keeps_intros simp: Let_def)

lemma DispatchCar_keeps [keeps_intros]: "keeps P (DispatchCar a0)"
  unfolding DispatchCar_def by (auto intro!: keeps_intros simp: Let_def)

lemma DispatchCdr_keeps [keeps_intros]: "keeps P (DispatchCdr a0)"
  unfolding DispatchCdr_def by (auto intro!: keeps_intros simp: Let_def)

lemma DispatchSetToCar_keeps [keeps_intros]: "keeps P (DispatchSetToCar a0)"
  unfolding DispatchSetToCar_def by (auto intro!: keeps_intros simp: Let_def)

lemma DispatchSetToCdr_keeps [keeps_intros]: "keeps P (DispatchSetToCdr a0)"
  unfolding DispatchSetToCdr_def by (auto intro!: keeps_intros simp: Let_def)

lemma DispatchSetToCdrPushCar_keeps [keeps_intros]: "keeps P (DispatchSetToCdrPushCar a0)"
  unfolding DispatchSetToCdrPushCar_def by (auto intro!: keeps_intros simp: Let_def)

lemma DispatchRplaca_keeps [keeps_intros]: "keeps P (DispatchRplaca a0)"
  unfolding DispatchRplaca_def by (auto intro!: keeps_intros simp: Let_def)

lemma DispatchRplacd_keeps [keeps_intros]: "keeps P (DispatchRplacd a0)"
  unfolding DispatchRplacd_def by (auto intro!: keeps_intros simp: Let_def)

lemma set_scratch_keeps [keeps_intros]: "keeps P (set_scratch a0)"
  unfolding set_scratch_def by (auto intro!: keeps_intros simp: Let_def)

lemma rgetf_loop_keeps [keeps_intros]: "keeps P rgetf_loop"
proof (rule keeps_runI)
  fix s :: machine and y
  assume "rgetf_loop s = Some y"
  then show "P s \<longrightarrow> ends_well P y"
  proof (induction rule: rgetf_loop.raw_induct [rotated, consumes 1, case_names turn])
    case (turn g  s y)
    have rec: "keeps P g" using turn(1) by (intro keeps_runI)
    from turn(2) show ?case by (rule keeps_run [rotated]) (auto intro!: keeps_intros rec simp: Let_def)
  qed
qed

lemma DispatchRgetf_keeps [keeps_intros]: "keeps P (DispatchRgetf a0)"
  unfolding DispatchRgetf_def by (auto intro!: keeps_intros simp: Let_def)

lemma member_loop_keeps [keeps_intros]: "keeps P member_loop"
proof (rule keeps_runI)
  fix s :: machine and y
  assume "member_loop s = Some y"
  then show "P s \<longrightarrow> ends_well P y"
  proof (induction rule: member_loop.raw_induct [rotated, consumes 1, case_names turn])
    case (turn g  s y)
    have rec: "keeps P g" using turn(1) by (intro keeps_runI)
    from turn(2) show ?case by (rule keeps_run [rotated]) (auto intro!: keeps_intros rec simp: Let_def)
  qed
qed

lemma DispatchMember_keeps [keeps_intros]: "keeps P (DispatchMember a0)"
  unfolding DispatchMember_def by (auto intro!: keeps_intros simp: Let_def)

lemma assoc_loop_keeps [keeps_intros]: "keeps P assoc_loop"
proof (rule keeps_runI)
  fix s :: machine and y
  assume "assoc_loop s = Some y"
  then show "P s \<longrightarrow> ends_well P y"
  proof (induction rule: assoc_loop.raw_induct [rotated, consumes 1, case_names turn])
    case (turn g  s y)
    have rec: "keeps P g" using turn(1) by (intro keeps_runI)
    from turn(2) show ?case by (rule keeps_run [rotated]) (auto intro!: keeps_intros rec simp: Let_def)
  qed
qed

lemma DispatchAssoc_keeps [keeps_intros]: "keeps P (DispatchAssoc a0)"
  unfolding DispatchAssoc_def by (auto intro!: keeps_intros simp: Let_def)

lemma DispatchList_keeps [keeps_intros]: "keeps P (DispatchList a0 a1)"
  unfolding DispatchList_def by (cases a0) (auto intro!: keeps_intros)

subsection \<open>ArithmeticInstructions\<close>

lemma when_fixnums_keeps [keeps_intros]: "(\<And>x0 x1. keeps P (a0 x0 x1)) \<Longrightarrow> keeps P a1 \<Longrightarrow> keeps P (when_fixnums a0 a1)"
  unfolding when_fixnums_def by (auto intro!: keeps_intros simp: Let_def)

lemma fixnum_op_keeps [keeps_intros]: "(\<And>x0 x1. keeps P (a1 x0 x1)) \<Longrightarrow> keeps P (fixnum_op a0 a1)"
  unfolding fixnum_op_def by (auto intro!: keeps_intros simp: Let_def)

lemma set_tos_data_keeps [keeps_intros]: "keeps P (set_tos_data a0)"
  unfolding set_tos_data_def by (auto intro!: keeps_intros simp: Let_def)

lemma tos_is_operand_keeps [keeps_intros]: "(\<And>x0. keeps P (a0 x0)) \<Longrightarrow> keeps P (tos_is_operand a0)"
  unfolding tos_is_operand_def by (auto intro!: keeps_intros simp: Let_def)

lemma eq_immediate_or_keeps [keeps_intros]: "(\<And>x0. keeps P (a0 x0)) \<Longrightarrow> keeps P a2 \<Longrightarrow> keeps P (eq_immediate_or a0 a1 a2)"
  unfolding eq_immediate_or_def by (auto intro!: keeps_intros simp: Let_def)

lemma DispatchEq_keeps [keeps_intros]: "keeps P (DispatchEq a0)"
  unfolding DispatchEq_def by (auto intro!: keeps_intros simp: Let_def)

lemma DispatchEqNoPop_keeps [keeps_intros]: "keeps P (DispatchEqNoPop a0)"
  unfolding DispatchEqNoPop_def by (auto intro!: keeps_intros simp: Let_def)

lemma DispatchEql_keeps [keeps_intros]: "keeps P (DispatchEql a0)"
  unfolding DispatchEql_def by (auto intro!: keeps_intros simp: Let_def)

lemma DispatchEqlNoPop_keeps [keeps_intros]: "keeps P (DispatchEqlNoPop a0)"
  unfolding DispatchEqlNoPop_def by (auto intro!: keeps_intros simp: Let_def)

lemma DispatchEqualNumber_keeps [keeps_intros]: "keeps P (DispatchEqualNumber a0)"
  unfolding DispatchEqualNumber_def by (auto intro!: keeps_intros simp: Let_def)

lemma DispatchEqualNumberNoPop_keeps [keeps_intros]: "keeps P (DispatchEqualNumberNoPop a0)"
  unfolding DispatchEqualNumberNoPop_def by (auto intro!: keeps_intros simp: Let_def)

lemma DispatchGreaterp_keeps [keeps_intros]: "keeps P (DispatchGreaterp a0)"
  unfolding DispatchGreaterp_def by (auto intro!: keeps_intros simp: Let_def)

lemma DispatchGreaterpNoPop_keeps [keeps_intros]: "keeps P (DispatchGreaterpNoPop a0)"
  unfolding DispatchGreaterpNoPop_def by (auto intro!: keeps_intros simp: Let_def)

lemma DispatchLessp_keeps [keeps_intros]: "keeps P (DispatchLessp a0)"
  unfolding DispatchLessp_def by (auto intro!: keeps_intros simp: Let_def)

lemma DispatchLesspNoPop_keeps [keeps_intros]: "keeps P (DispatchLesspNoPop a0)"
  unfolding DispatchLesspNoPop_def by (auto intro!: keeps_intros simp: Let_def)

lemma DispatchLogtest_keeps [keeps_intros]: "keeps P (DispatchLogtest a0)"
  unfolding DispatchLogtest_def by (auto intro!: keeps_intros simp: Let_def)

lemma DispatchLogtestNoPop_keeps [keeps_intros]: "keeps P (DispatchLogtestNoPop a0)"
  unfolding DispatchLogtestNoPop_def by (auto intro!: keeps_intros simp: Let_def)

lemma unsigned_less_keeps [keeps_intros]: "(\<And>x0. keeps P (a0 x0)) \<Longrightarrow> keeps P (unsigned_less a0 a1)"
  unfolding unsigned_less_def by (auto intro!: keeps_intros simp: Let_def)

lemma DispatchUnsignedLessp_keeps [keeps_intros]: "keeps P (DispatchUnsignedLessp a0)"
  unfolding DispatchUnsignedLessp_def by (auto intro!: keeps_intros simp: Let_def)

lemma DispatchUnsignedLesspNoPop_keeps [keeps_intros]: "keeps P (DispatchUnsignedLesspNoPop a0)"
  unfolding DispatchUnsignedLesspNoPop_def by (auto intro!: keeps_intros simp: Let_def)

lemma DispatchTypeMember_keeps [keeps_intros]: "keeps P DispatchTypeMember"
  unfolding DispatchTypeMember_def by (auto intro!: keeps_intros simp: Let_def)

lemma DispatchTypeMemberNoPop_keeps [keeps_intros]: "keeps P DispatchTypeMemberNoPop"
  unfolding DispatchTypeMemberNoPop_def by (auto intro!: keeps_intros simp: Let_def)

lemma DispatchEndp_keeps [keeps_intros]: "keeps P (DispatchEndp a0)"
  unfolding DispatchEndp_def by (auto intro!: keeps_intros simp: Let_def)

lemma sign_test_keeps [keeps_intros]: "keeps P (sign_test a0 a1)"
  unfolding sign_test_def by (auto intro!: keeps_intros simp: Let_def)

lemma DispatchPlusp_keeps [keeps_intros]: "keeps P (DispatchPlusp a0)"
  unfolding DispatchPlusp_def by (auto intro!: keeps_intros simp: Let_def)

lemma DispatchMinusp_keeps [keeps_intros]: "keeps P (DispatchMinusp a0)"
  unfolding DispatchMinusp_def by (auto intro!: keeps_intros simp: Let_def)

lemma DispatchZerop_keeps [keeps_intros]: "keeps P (DispatchZerop a0)"
  unfolding DispatchZerop_def by (auto intro!: keeps_intros simp: Let_def)

lemma DispatchAdd_keeps [keeps_intros]: "keeps P (DispatchAdd a0)"
  unfolding DispatchAdd_def by (auto intro!: keeps_intros simp: Let_def)

lemma DispatchSub_keeps [keeps_intros]: "keeps P (DispatchSub a0)"
  unfolding DispatchSub_def by (auto intro!: keeps_intros simp: Let_def)

lemma DispatchUnaryMinus_keeps [keeps_intros]: "keeps P (DispatchUnaryMinus a0)"
  unfolding DispatchUnaryMinus_def by (auto intro!: keeps_intros simp: Let_def)

lemma DispatchIncrement_keeps [keeps_intros]: "keeps P (DispatchIncrement a0)"
  unfolding DispatchIncrement_def by (auto intro!: keeps_intros simp: Let_def)

lemma DispatchDecrement_keeps [keeps_intros]: "keeps P (DispatchDecrement a0)"
  unfolding DispatchDecrement_def by (auto intro!: keeps_intros simp: Let_def)

lemma DispatchMultiply_keeps [keeps_intros]: "keeps P (DispatchMultiply a0)"
  unfolding DispatchMultiply_def by (auto intro!: keeps_intros simp: Let_def)

lemma division_keeps [keeps_intros]: "(\<And>x0 x1 x2 x3. keeps P (a1 x0 x1 x2 x3)) \<Longrightarrow> keeps P (division a0 a1)"
  unfolding division_def by (auto intro!: keeps_intros simp: Let_def)

lemma two_values_keeps [keeps_intros]: "keeps P (two_values a0 a1)"
  unfolding two_values_def by (auto intro!: keeps_intros simp: Let_def)

lemma DispatchQuotient_keeps [keeps_intros]: "keeps P (DispatchQuotient a0)"
  unfolding DispatchQuotient_def by (auto intro!: keeps_intros simp: Let_def)

lemma DispatchFloor_keeps [keeps_intros]: "keeps P (DispatchFloor a0)"
  unfolding DispatchFloor_def by (auto intro!: keeps_intros simp: Let_def)

lemma DispatchCeiling_keeps [keeps_intros]: "keeps P (DispatchCeiling a0)"
  unfolding DispatchCeiling_def by (auto intro!: keeps_intros simp: Let_def)

lemma DispatchTruncate_keeps [keeps_intros]: "keeps P (DispatchTruncate a0)"
  unfolding DispatchTruncate_def by (auto intro!: keeps_intros simp: Let_def)

lemma DispatchRound_keeps [keeps_intros]: "keeps P (DispatchRound a0)"
  unfolding DispatchRound_def by (auto intro!: keeps_intros simp: Let_def)

lemma DispatchRationalQuotient_keeps [keeps_intros]: "keeps P (DispatchRationalQuotient a0)"
  unfolding DispatchRationalQuotient_def by (auto intro!: keeps_intros simp: Let_def)

lemma DispatchMax_keeps [keeps_intros]: "keeps P (DispatchMax a0)"
  unfolding DispatchMax_def by (auto intro!: keeps_intros simp: Let_def)

lemma DispatchMin_keeps [keeps_intros]: "keeps P (DispatchMin a0)"
  unfolding DispatchMin_def by (auto intro!: keeps_intros simp: Let_def)

lemma DispatchLogand_keeps [keeps_intros]: "keeps P (DispatchLogand a0)"
  unfolding DispatchLogand_def by (auto intro!: keeps_intros simp: Let_def)

lemma DispatchLogior_keeps [keeps_intros]: "keeps P (DispatchLogior a0)"
  unfolding DispatchLogior_def by (auto intro!: keeps_intros simp: Let_def)

lemma DispatchLogxor_keeps [keeps_intros]: "keeps P (DispatchLogxor a0)"
  unfolding DispatchLogxor_def by (auto intro!: keeps_intros simp: Let_def)

lemma DispatchAsh_keeps [keeps_intros]: "keeps P (DispatchAsh a0)"
  unfolding DispatchAsh_def by (auto intro!: keeps_intros simp: Let_def)

lemma DispatchLsh_keeps [keeps_intros]: "keeps P (DispatchLsh a0)"
  unfolding DispatchLsh_def by (auto intro!: keeps_intros simp: Let_def)

lemma DispatchRot_keeps [keeps_intros]: "keeps P (DispatchRot a0)"
  unfolding DispatchRot_def by (auto intro!: keeps_intros simp: Let_def)

lemma unsigned_step_keeps [keeps_intros]: "keeps P (unsigned_step a0 a1)"
  unfolding unsigned_step_def by (auto intro!: keeps_intros simp: Let_def)

lemma Dispatch32BitPlus_keeps [keeps_intros]: "keeps P (Dispatch32BitPlus a0)"
  unfolding Dispatch32BitPlus_def by (auto intro!: keeps_intros simp: Let_def)

lemma Dispatch32BitDifference_keeps [keeps_intros]: "keeps P (Dispatch32BitDifference a0)"
  unfolding Dispatch32BitDifference_def by (auto intro!: keeps_intros simp: Let_def)

lemma DispatchMultiplyDouble_keeps [keeps_intros]: "keeps P (DispatchMultiplyDouble a0)"
  unfolding DispatchMultiplyDouble_def by (auto intro!: keeps_intros simp: Let_def)

lemma DispatchAddBignumStep_keeps [keeps_intros]: "keeps P (DispatchAddBignumStep a0)"
  unfolding DispatchAddBignumStep_def by (auto intro!: keeps_intros simp: Let_def)

lemma DispatchSubBignumStep_keeps [keeps_intros]: "keeps P (DispatchSubBignumStep a0)"
  unfolding DispatchSubBignumStep_def by (auto intro!: keeps_intros simp: Let_def)

lemma DispatchMultiplyBignumStep_keeps [keeps_intros]: "keeps P (DispatchMultiplyBignumStep a0)"
  unfolding DispatchMultiplyBignumStep_def by (auto intro!: keeps_intros simp: Let_def)

lemma DispatchDivideBignumStep_keeps [keeps_intros]: "keeps P (DispatchDivideBignumStep a0)"
  unfolding DispatchDivideBignumStep_def by (auto intro!: keeps_intros simp: Let_def)

lemma DispatchLshcBignumStep_keeps [keeps_intros]: "keeps P (DispatchLshcBignumStep a0)"
  unfolding DispatchLshcBignumStep_def by (auto intro!: keeps_intros simp: Let_def)

subsection \<open>StackInstructions\<close>

lemma DispatchPush_keeps [keeps_intros]: "keeps P (DispatchPush a0)"
  unfolding DispatchPush_def by (auto intro!: keeps_intros simp: Let_def)

lemma DispatchPop_keeps [keeps_intros]: "keeps P (DispatchPop a0)"
  unfolding DispatchPop_def by (auto intro!: keeps_intros simp: Let_def)

lemma DispatchMovem_keeps [keeps_intros]: "keeps P (DispatchMovem a0)"
  unfolding DispatchMovem_def by (auto intro!: keeps_intros simp: Let_def)

lemma push_nils_keeps [keeps_intros]: "keeps P (push_nils a0)"
  by (induction a0 rule: push_nils.induct) (auto intro!: keeps_intros simp: Let_def)

lemma PushNNilsInternal_keeps [keeps_intros]: "keeps P (PushNNilsInternal a0)"
  unfolding PushNNilsInternal_def by (auto intro!: keeps_intros simp: Let_def)

lemma DispatchPushNNils_keeps [keeps_intros]: "keeps P DispatchPushNNils"
  unfolding DispatchPushNNils_def by (auto intro!: keeps_intros simp: Let_def)

lemma DispatchPushAddress_keeps [keeps_intros]: "keeps P (DispatchPushAddress a0)"
  unfolding DispatchPushAddress_def by (auto intro!: keeps_intros simp: Let_def)

lemma op2_index_keeps [keeps_intros]: "keeps P op2_index"
  unfolding op2_index_def by (auto intro!: keeps_intros simp: Let_def)

lemma DispatchSetSpToAddress_keeps [keeps_intros]: "keeps P (DispatchSetSpToAddress a0)"
  unfolding DispatchSetSpToAddress_def by (auto intro!: keeps_intros simp: Let_def)

lemma DispatchSetSpToAddressSaveTos_keeps [keeps_intros]: "keeps P (DispatchSetSpToAddressSaveTos a0)"
  unfolding DispatchSetSpToAddressSaveTos_def by (auto intro!: keeps_intros simp: Let_def)

lemma DispatchPushAddressSpRelative_keeps [keeps_intros]: "keeps P (DispatchPushAddressSpRelative a0)"
  unfolding DispatchPushAddressSpRelative_def by (auto intro!: keeps_intros simp: Let_def)

lemma copy_up_keeps [keeps_intros]: "keeps P (copy_up a0 a1 a2)"
  by (induction a0 a1 a2 rule: copy_up.induct) (auto intro!: keeps_intros simp: Let_def)

lemma ExecuteStackBltAddress_keeps [keeps_intros]: "keeps P ExecuteStackBltAddress"
  unfolding ExecuteStackBltAddress_def by (auto intro!: keeps_intros simp: Let_def)

lemma DispatchStackBltAddress_keeps [keeps_intros]: "keeps P (DispatchStackBltAddress a0)"
  unfolding DispatchStackBltAddress_def by (auto intro!: keeps_intros simp: Let_def)

lemma DispatchStackBlt_keeps [keeps_intros]: "keeps P (DispatchStackBlt a0)"
  unfolding DispatchStackBlt_def by (auto intro!: keeps_intros simp: Let_def)

lemma DispatchLdb_keeps [keeps_intros]: "keeps P DispatchLdb"
  unfolding DispatchLdb_def by (auto intro!: keeps_intros simp: Let_def)

lemma DispatchCharLdb_keeps [keeps_intros]: "keeps P DispatchCharLdb"
  unfolding DispatchCharLdb_def by (auto intro!: keeps_intros simp: Let_def)

lemma DispatchPLdb_keeps [keeps_intros]: "keeps P DispatchPLdb"
  unfolding DispatchPLdb_def by (auto intro!: keeps_intros simp: Let_def)

lemma DispatchPTagLdb_keeps [keeps_intros]: "keeps P DispatchPTagLdb"
  unfolding DispatchPTagLdb_def by (auto intro!: keeps_intros simp: Let_def)

lemma DispatchDpb_keeps [keeps_intros]: "keeps P DispatchDpb"
  unfolding DispatchDpb_def by (auto intro!: keeps_intros simp: Let_def)

lemma DispatchCharDpb_keeps [keeps_intros]: "keeps P DispatchCharDpb"
  unfolding DispatchCharDpb_def by (auto intro!: keeps_intros simp: Let_def)

lemma memory_deposit_keeps [keeps_intros]: "keeps P (memory_deposit a0)"
  unfolding memory_deposit_def by (auto intro!: keeps_intros simp: Let_def)

lemma DispatchPDpb_keeps [keeps_intros]: "keeps P DispatchPDpb"
  unfolding DispatchPDpb_def by (auto intro!: keeps_intros simp: Let_def)

lemma DispatchPTagDpb_keeps [keeps_intros]: "keeps P DispatchPTagDpb"
  unfolding DispatchPTagDpb_def by (auto intro!: keeps_intros simp: Let_def)

lemma DispatchField_keeps [keeps_intros]: "keeps P (DispatchField a0)"
  unfolding DispatchField_def by (cases a0) (auto intro!: keeps_intros)

subsection \<open>ArrayInstructions\<close>

lemma element_ldb_keeps [keeps_intros]: "keeps P (element_ldb a0 a1 a2)"
  unfolding element_ldb_def by (auto intro!: keeps_intros simp: Let_def)

lemma element_dpb_keeps [keeps_intros]: "keeps P (element_dpb a0 a1 a2 a3)"
  unfolding element_dpb_def by (auto intro!: keeps_intros simp: Let_def)

lemma set_element_result_keeps [keeps_intros]: "keeps P (set_element_result a0 a1 a2 a3)"
  unfolding set_element_result_def by (auto intro!: keeps_intros simp: Let_def)

lemma Aref1Internal_keeps [keeps_intros]: "keeps P (Aref1Internal a0 a1 a2 a3 a4 a5)"
  unfolding Aref1Internal_def by (auto intro!: keeps_intros simp: Let_def)

lemma aset_data_keeps [keeps_intros]: "keeps P (aset_data a0 a1 a2 a3)"
  unfolding aset_data_def by (auto intro!: keeps_intros simp: Let_def)

lemma Aset1Internal_keeps [keeps_intros]: "keeps P (Aset1Internal a0 a1 a2 a3 a4 a5)"
  unfolding Aset1Internal_def by (auto intro!: keeps_intros simp: Let_def)

lemma set_stack_data_keeps [keeps_intros]: "keeps P (set_stack_data a0 a1)"
  unfolding set_stack_data_def by (auto intro!: keeps_intros simp: Let_def)

lemma RecomputeArrayRegister_keeps [keeps_intros]: "keeps P (RecomputeArrayRegister a0 a1)"
  unfolding RecomputeArrayRegister_def by (auto intro!: keeps_intros simp: Let_def)

lemma array_access_keeps [keeps_intros]: "(\<And>x0 x1 x2. keeps P (a1 x0 x1 x2)) \<Longrightarrow> keeps P (array_access a0 a1)"
  unfolding array_access_def by (auto intro!: keeps_intros simp: Let_def)

lemma DispatchAref1_keeps [keeps_intros]: "keeps P (DispatchAref1 a0)"
  unfolding DispatchAref1_def by (auto intro!: keeps_intros simp: Let_def)

lemma DispatchAset1_keeps [keeps_intros]: "keeps P (DispatchAset1 a0)"
  unfolding DispatchAset1_def by (auto intro!: keeps_intros simp: Let_def)

lemma DispatchAloc1_keeps [keeps_intros]: "keeps P (DispatchAloc1 a0)"
  unfolding DispatchAloc1_def by (auto intro!: keeps_intros simp: Let_def)

lemma ExecuteSetup1dArray_keeps [keeps_intros]: "keeps P ExecuteSetup1dArray"
  unfolding ExecuteSetup1dArray_def by (auto intro!: keeps_intros simp: Let_def)

lemma DispatchSetup1dArray_keeps [keeps_intros]: "keeps P (DispatchSetup1dArray a0)"
  unfolding DispatchSetup1dArray_def by (auto intro!: keeps_intros simp: Let_def)

lemma DispatchSetupForce1dArray_keeps [keeps_intros]: "keeps P (DispatchSetupForce1dArray a0)"
  unfolding DispatchSetupForce1dArray_def by (auto intro!: keeps_intros simp: Let_def)

lemma array_register_access_keeps [keeps_intros]:
  assumes "\<And>x0 x1 x2. keeps P (a0 x0 x1 x2)"
  shows "keeps P (array_register_access a0)"
proof (rule keeps_runI)
  fix s :: machine and y
  assume "array_register_access a0 s = Some y"
  from this and assms show "P s \<longrightarrow> ends_well P y"
  proof (induction rule: array_register_access.raw_induct [rotated, consumes 1, case_names turn])
    case (turn g a0 s y)
    have rec: "keeps P (g a0)" using turn(1,3) by (intro keeps_runI) blast
    from turn(2) show ?case by (rule keeps_run [rotated]) (auto intro!: keeps_intros rec turn(3))
  qed
qed

lemma DispatchFastAref1_keeps [keeps_intros]: "keeps P (DispatchFastAref1 a0)"
  unfolding DispatchFastAref1_def by (auto intro!: keeps_intros simp: Let_def)

lemma DispatchFastAset1_keeps [keeps_intros]: "keeps P (DispatchFastAset1 a0)"
  unfolding DispatchFastAset1_def by (auto intro!: keeps_intros simp: Let_def)

lemma leader_access_keeps [keeps_intros]: "(\<And>x0. keeps P (a1 x0)) \<Longrightarrow> keeps P (leader_access a0 a1)"
  unfolding leader_access_def by (auto intro!: keeps_intros simp: Let_def)

lemma DispatchArrayLeader_keeps [keeps_intros]: "keeps P (DispatchArrayLeader a0)"
  unfolding DispatchArrayLeader_def by (auto intro!: keeps_intros simp: Let_def)

lemma DispatchStoreArrayLeader_keeps [keeps_intros]: "keeps P (DispatchStoreArrayLeader a0)"
  unfolding DispatchStoreArrayLeader_def by (auto intro!: keeps_intros simp: Let_def)

lemma DispatchAlocLeader_keeps [keeps_intros]: "keeps P (DispatchAlocLeader a0)"
  unfolding DispatchAlocLeader_def by (auto intro!: keeps_intros simp: Let_def)

lemma DispatchArray_keeps [keeps_intros]: "keeps P (DispatchArray a0 a1)"
  unfolding DispatchArray_def by (cases a0) (auto intro!: keeps_intros)

subsection \<open>BranchInstructions\<close>

lemma TakeBranch_keeps [keeps_intros]: "keeps P (TakeBranch a0)"
  unfolding TakeBranch_def by (auto intro!: keeps_intros simp: Let_def)

lemma DontTakeBranch_keeps [keeps_intros]: "keeps P (DontTakeBranch a0)"
  unfolding DontTakeBranch_def by (auto intro!: keeps_intros simp: Let_def)

lemma DispatchBranchTrue_keeps [keeps_intros]: "keeps P DispatchBranchTrue"
  unfolding DispatchBranchTrue_def by (auto intro!: keeps_intros simp: Let_def)

lemma DispatchBranchTrueElseExtraPop_keeps [keeps_intros]: "keeps P DispatchBranchTrueElseExtraPop"
  unfolding DispatchBranchTrueElseExtraPop_def by (auto intro!: keeps_intros simp: Let_def)

lemma DispatchBranchTrueAndExtraPop_keeps [keeps_intros]: "keeps P DispatchBranchTrueAndExtraPop"
  unfolding DispatchBranchTrueAndExtraPop_def by (auto intro!: keeps_intros simp: Let_def)

lemma DispatchBranchTrueExtraPop_keeps [keeps_intros]: "keeps P DispatchBranchTrueExtraPop"
  unfolding DispatchBranchTrueExtraPop_def by (auto intro!: keeps_intros simp: Let_def)

lemma DispatchBranchTrueNoPop_keeps [keeps_intros]: "keeps P DispatchBranchTrueNoPop"
  unfolding DispatchBranchTrueNoPop_def by (auto intro!: keeps_intros simp: Let_def)

lemma DispatchBranchTrueAndNoPop_keeps [keeps_intros]: "keeps P DispatchBranchTrueAndNoPop"
  unfolding DispatchBranchTrueAndNoPop_def by (auto intro!: keeps_intros simp: Let_def)

lemma DispatchBranchTrueElseNoPop_keeps [keeps_intros]: "keeps P DispatchBranchTrueElseNoPop"
  unfolding DispatchBranchTrueElseNoPop_def by (auto intro!: keeps_intros simp: Let_def)

lemma DispatchBranchTrueAndNoPopElseNoPopExtraPop_keeps [keeps_intros]: "keeps P DispatchBranchTrueAndNoPopElseNoPopExtraPop"
  unfolding DispatchBranchTrueAndNoPopElseNoPopExtraPop_def by (auto intro!: keeps_intros simp: Let_def)

lemma DispatchBranchFalse_keeps [keeps_intros]: "keeps P DispatchBranchFalse"
  unfolding DispatchBranchFalse_def by (auto intro!: keeps_intros simp: Let_def)

lemma DispatchBranchFalseElseExtraPop_keeps [keeps_intros]: "keeps P DispatchBranchFalseElseExtraPop"
  unfolding DispatchBranchFalseElseExtraPop_def by (auto intro!: keeps_intros simp: Let_def)

lemma DispatchBranchFalseAndExtraPop_keeps [keeps_intros]: "keeps P DispatchBranchFalseAndExtraPop"
  unfolding DispatchBranchFalseAndExtraPop_def by (auto intro!: keeps_intros simp: Let_def)

lemma DispatchBranchFalseExtraPop_keeps [keeps_intros]: "keeps P DispatchBranchFalseExtraPop"
  unfolding DispatchBranchFalseExtraPop_def by (auto intro!: keeps_intros simp: Let_def)

lemma DispatchBranchFalseNoPop_keeps [keeps_intros]: "keeps P DispatchBranchFalseNoPop"
  unfolding DispatchBranchFalseNoPop_def by (auto intro!: keeps_intros simp: Let_def)

lemma DispatchBranchFalseAndNoPop_keeps [keeps_intros]: "keeps P DispatchBranchFalseAndNoPop"
  unfolding DispatchBranchFalseAndNoPop_def by (auto intro!: keeps_intros simp: Let_def)

lemma DispatchBranchFalseElseNoPop_keeps [keeps_intros]: "keeps P DispatchBranchFalseElseNoPop"
  unfolding DispatchBranchFalseElseNoPop_def by (auto intro!: keeps_intros simp: Let_def)

lemma DispatchBranchFalseAndNoPopElseNoPopExtraPop_keeps [keeps_intros]: "keeps P DispatchBranchFalseAndNoPopElseNoPopExtraPop"
  unfolding DispatchBranchFalseAndNoPopElseNoPopExtraPop_def by (auto intro!: keeps_intros simp: Let_def)

lemma loop_exception_keeps [keeps_intros]: "keeps P (loop_exception a0)"
  unfolding loop_exception_def by (auto intro!: keeps_intros simp: Let_def)

lemma DispatchLoopDecrementTos_keeps [keeps_intros]: "keeps P DispatchLoopDecrementTos"
  unfolding DispatchLoopDecrementTos_def by (auto intro!: keeps_intros simp: Let_def)

lemma DispatchLoopIncrementTosLessThan_keeps [keeps_intros]: "keeps P DispatchLoopIncrementTosLessThan"
  unfolding DispatchLoopIncrementTosLessThan_def by (auto intro!: keeps_intros simp: Let_def)

lemma ExecuteBranchTaken_keeps [keeps_intros]: "keeps P ExecuteBranchTaken"
  unfolding ExecuteBranchTaken_def by (auto intro!: keeps_intros simp: Let_def)

lemma DispatchBranches_keeps [keeps_intros]: "keeps P (DispatchBranches a0)"
  unfolding DispatchBranches_def by (cases a0) (auto intro!: keeps_intros)

lemma advance_bar_keeps [keeps_intros]: "keeps P (advance_bar a0)"
  unfolding advance_bar_def by (auto intro!: keeps_intros simp: Let_def)

lemma DispatchBlockRead_keeps [keeps_intros]: "keeps P (DispatchBlockRead a0)"
  unfolding DispatchBlockRead_def by (auto intro!: keeps_intros simp: Let_def)

lemma DispatchBlockReadShift_keeps [keeps_intros]: "keeps P (DispatchBlockReadShift a0)"
  unfolding DispatchBlockReadShift_def by (auto intro!: keeps_intros simp: Let_def)

lemma DispatchBlockReadTest_keeps [keeps_intros]: "keeps P (DispatchBlockReadTest a0)"
  unfolding DispatchBlockReadTest_def by (auto intro!: keeps_intros simp: Let_def)

lemma DispatchBlockReadAlu_keeps [keeps_intros]: "keeps P (DispatchBlockReadAlu a0 a1)"
  unfolding DispatchBlockReadAlu_def by (auto intro!: keeps_intros simp: Let_def)

lemma DispatchBlockWrite_keeps [keeps_intros]: "keeps P (DispatchBlockWrite a0 a1)"
  unfolding DispatchBlockWrite_def by (auto intro!: keeps_intros simp: Let_def)

subsection \<open>BindInstructions\<close>

lemma set_control_keeps [keeps_intros]: "keeps P (set_control a0)"
  unfolding set_control_def by (auto intro!: keeps_intros simp: Let_def)

lemma Unbind_keeps [keeps_intros]: "keeps P Unbind"
  unfolding Unbind_def by (auto intro!: keeps_intros simp: Let_def)

lemma binding_room_keeps [keeps_intros]: "keeps P binding_room"
  unfolding binding_room_def by (auto intro!: keeps_intros simp: Let_def)

lemma save_binding_keeps [keeps_intros]: "keeps P (save_binding a0)"
  unfolding save_binding_def by (auto intro!: keeps_intros simp: Let_def)

lemma commit_binding_keeps [keeps_intros]: "keeps P commit_binding"
  unfolding commit_binding_def by (auto intro!: keeps_intros simp: Let_def)

lemma DispatchBindLocativeToValue_keeps [keeps_intros]: "keeps P (DispatchBindLocativeToValue a0)"
  unfolding DispatchBindLocativeToValue_def by (auto intro!: keeps_intros simp: Let_def)

lemma DispatchBindLocative_keeps [keeps_intros]: "keeps P (DispatchBindLocative a0)"
  unfolding DispatchBindLocative_def by (auto intro!: keeps_intros simp: Let_def)

lemma unbind_times_keeps [keeps_intros]: "keeps P (unbind_times a0)"
  by (induction a0 rule: unbind_times.induct) (auto intro!: keeps_intros simp: Let_def)

lemma DispatchUnbindN_keeps [keeps_intros]: "keeps P (DispatchUnbindN a0)"
  unfolding DispatchUnbindN_def by (auto intro!: keeps_intros simp: Let_def)

lemma unbind_down_to_keeps [keeps_intros]:
  assumes "keeps P a0"
  shows "keeps P (unbind_down_to a0)"
proof (rule keeps_runI)
  fix s :: machine and y
  assume "unbind_down_to a0 s = Some y"
  from this and assms show "P s \<longrightarrow> ends_well P y"
  proof (induction rule: unbind_down_to.raw_induct [rotated, consumes 1, case_names turn])
    case (turn g a0 s y)
    have rec: "keeps P (g a0)" using turn(1,3) by (intro keeps_runI) blast
    from turn(2) show ?case by (rule keeps_run [rotated]) (auto intro!: keeps_intros rec turn(3))
  qed
qed

lemma DispatchRestoreBindingStack_keeps [keeps_intros]: "keeps P (DispatchRestoreBindingStack a0)"
  unfolding DispatchRestoreBindingStack_def by (auto intro!: keeps_intros simp: Let_def)

lemma DispatchBind_keeps [keeps_intros]: "keeps P (DispatchBind a0 a1)"
  unfolding DispatchBind_def by (cases a0) (auto intro!: keeps_intros)

lemma catch_slot_keeps [keeps_intros]: "keeps P catch_slot"
  unfolding catch_slot_def by (auto intro!: keeps_intros simp: Let_def)

lemma DispatchCatchOpen_keeps [keeps_intros]: "keeps P DispatchCatchOpen"
  unfolding DispatchCatchOpen_def by (auto intro!: keeps_intros simp: Let_def)

lemma pop_catch_block_keeps [keeps_intros]: "keeps P (pop_catch_block a0 a1)"
  unfolding pop_catch_block_def by (auto intro!: keeps_intros simp: Let_def)

lemma unbind_to_catch_keeps [keeps_intros]: "keeps P (unbind_to_catch a0)"
  unfolding unbind_to_catch_def by (auto intro!: keeps_intros simp: Let_def)

lemma DispatchCatchClose_keeps [keeps_intros]: "keeps P DispatchCatchClose"
  unfolding DispatchCatchClose_def by (auto intro!: keeps_intros simp: Let_def)

lemma ExecuteHandleUnwindProtect_keeps [keeps_intros]: "keeps P ExecuteHandleUnwindProtect"
  unfolding ExecuteHandleUnwindProtect_def by (auto intro!: keeps_intros simp: Let_def)

subsection \<open>InstanceInstructions\<close>

lemma lexical_access_keeps [keeps_intros]: "(\<And>x0. keeps P (a1 x0)) \<Longrightarrow> keeps P (lexical_access a0 a1)"
  unfolding lexical_access_def by (auto intro!: keeps_intros simp: Let_def)

lemma DispatchPushLexicalVar_keeps [keeps_intros]: "keeps P (DispatchPushLexicalVar a0)"
  unfolding DispatchPushLexicalVar_def by (auto intro!: keeps_intros simp: Let_def)

lemma DispatchPopLexicalVar_keeps [keeps_intros]: "keeps P (DispatchPopLexicalVar a0)"
  unfolding DispatchPopLexicalVar_def by (auto intro!: keeps_intros simp: Let_def)

lemma DispatchMovemLexicalVar_keeps [keeps_intros]: "keeps P (DispatchMovemLexicalVar a0)"
  unfolding DispatchMovemLexicalVar_def by (auto intro!: keeps_intros simp: Let_def)

lemma DispatchLexical_keeps [keeps_intros]: "keeps P (DispatchLexical a0 a1)"
  unfolding DispatchLexical_def by (cases a0) (auto intro!: keeps_intros)

lemma LocateInstanceVariableMapped_keeps [keeps_intros]: "keeps P (LocateInstanceVariableMapped a0 a1 a2)"
  unfolding LocateInstanceVariableMapped_def by (auto intro!: keeps_intros simp: Let_def)

lemma LocateArbitraryInstanceVariable_keeps [keeps_intros]: "keeps P (LocateArbitraryInstanceVariable a0 a1)"
  unfolding LocateArbitraryInstanceVariable_def by (auto intro!: keeps_intros simp: Let_def)

lemma mapped_variable_keeps [keeps_intros]: "keeps P mapped_variable"
  unfolding mapped_variable_def by (auto intro!: keeps_intros simp: Let_def)

lemma push_contents_keeps [keeps_intros]: "keeps P (push_contents a0)"
  unfolding push_contents_def by (auto intro!: keeps_intros simp: Let_def)

lemma store_tos_keeps [keeps_intros]: "keeps P (store_tos a0)"
  unfolding store_tos_def by (auto intro!: keeps_intros simp: Let_def)

lemma DispatchPushInstanceVariable_keeps [keeps_intros]: "keeps P DispatchPushInstanceVariable"
  unfolding DispatchPushInstanceVariable_def by (auto intro!: keeps_intros simp: Let_def)

lemma DispatchPopInstanceVariable_keeps [keeps_intros]: "keeps P DispatchPopInstanceVariable"
  unfolding DispatchPopInstanceVariable_def by (auto intro!: keeps_intros simp: Let_def)

lemma DispatchMovemInstanceVariable_keeps [keeps_intros]: "keeps P DispatchMovemInstanceVariable"
  unfolding DispatchMovemInstanceVariable_def by (auto intro!: keeps_intros simp: Let_def)

lemma DispatchPushAddressInstanceVariable_keeps [keeps_intros]: "keeps P DispatchPushAddressInstanceVariable"
  unfolding DispatchPushAddressInstanceVariable_def by (auto intro!: keeps_intros simp: Let_def)

lemma ordered_variable_keeps [keeps_intros]: "(\<And>x0. keeps P (a0 x0)) \<Longrightarrow> keeps P (ordered_variable a0)"
  unfolding ordered_variable_def by (auto intro!: keeps_intros simp: Let_def)

lemma DispatchPushInstanceVariableOrdered_keeps [keeps_intros]: "keeps P DispatchPushInstanceVariableOrdered"
  unfolding DispatchPushInstanceVariableOrdered_def by (auto intro!: keeps_intros simp: Let_def)

lemma DispatchPopInstanceVariableOrdered_keeps [keeps_intros]: "keeps P DispatchPopInstanceVariableOrdered"
  unfolding DispatchPopInstanceVariableOrdered_def by (auto intro!: keeps_intros simp: Let_def)

lemma DispatchMovemInstanceVariableOrdered_keeps [keeps_intros]: "keeps P DispatchMovemInstanceVariableOrdered"
  unfolding DispatchMovemInstanceVariableOrdered_def by (auto intro!: keeps_intros simp: Let_def)

lemma DispatchPushAddressInstanceVariableOrdered_keeps [keeps_intros]: "keeps P DispatchPushAddressInstanceVariableOrdered"
  unfolding DispatchPushAddressInstanceVariableOrdered_def by (auto intro!: keeps_intros simp: Let_def)

lemma DispatchIvar_keeps [keeps_intros]: "keeps P (DispatchIvar a0)"
  unfolding DispatchIvar_def by (cases a0) (auto intro!: keeps_intros)

lemma arbitrary_variable_keeps [keeps_intros]: "keeps P (arbitrary_variable a0)"
  unfolding arbitrary_variable_def by (auto intro!: keeps_intros simp: Let_def)

lemma ExecuteInstanceSet_keeps [keeps_intros]: "keeps P ExecuteInstanceSet"
  unfolding ExecuteInstanceSet_def by (auto intro!: keeps_intros simp: Let_def)

lemma DispatchInstanceRef_keeps [keeps_intros]: "keeps P (DispatchInstanceRef a0)"
  unfolding DispatchInstanceRef_def by (auto intro!: keeps_intros simp: Let_def)

lemma DispatchInstanceSet_keeps [keeps_intros]: "keeps P (DispatchInstanceSet a0)"
  unfolding DispatchInstanceSet_def by (auto intro!: keeps_intros simp: Let_def)

lemma DispatchInstanceLoc_keeps [keeps_intros]: "keeps P (DispatchInstanceLoc a0)"
  unfolding DispatchInstanceLoc_def by (auto intro!: keeps_intros simp: Let_def)

lemma DispatchInstance_keeps [keeps_intros]: "keeps P (DispatchInstance a0 a1)"
  unfolding DispatchInstance_def by (cases a0) (auto intro!: keeps_intros)

subsection \<open>CallInstructions\<close>

lemma push_frame_words_keeps [keeps_intros]: "keeps P push_frame_words"
  unfolding push_frame_words_def by (auto intro!: keeps_intros simp: Let_def)

lemma start_compiled_keeps [keeps_intros]: "keeps P (start_compiled a0)"
  unfolding start_compiled_def by (auto intro!: keeps_intros simp: Let_def)

lemma start_with_extra_keeps [keeps_intros]: "keeps P (start_with_extra a0 a1)"
  unfolding start_with_extra_def by (auto intro!: keeps_intros simp: Let_def)

lemma start_interpreted_keeps [keeps_intros]: "keeps P start_interpreted"
  unfolding start_interpreted_def by (auto intro!: keeps_intros simp: Let_def)

lemma StartCallDispatch_keeps [keeps_intros]: "keeps P StartCallDispatch"
  unfolding StartCallDispatch_def by (auto intro!: keeps_intros simp: Let_def)

lemma DispatchStartCall_keeps [keeps_intros]: "keeps P (DispatchStartCall a0)"
  unfolding DispatchStartCall_def by (auto intro!: keeps_intros simp: Let_def)

lemma DispatchCallCompiledEven_keeps [keeps_intros]: "keeps P DispatchCallCompiledEven"
  unfolding DispatchCallCompiledEven_def by (auto intro!: keeps_intros simp: Let_def)

lemma DispatchCallCompiledOdd_keeps [keeps_intros]: "keeps P DispatchCallCompiledOdd"
  unfolding DispatchCallCompiledOdd_def by (auto intro!: keeps_intros simp: Let_def)

lemma DispatchCallGeneric_keeps [keeps_intros]: "keeps P DispatchCallGeneric"
  unfolding DispatchCallGeneric_def by (auto intro!: keeps_intros simp: Let_def)

lemma DispatchCallIndirect_keeps [keeps_intros]: "keeps P DispatchCallIndirect"
  unfolding DispatchCallIndirect_def by (auto intro!: keeps_intros simp: Let_def)

lemma FinishCallInternal_keeps [keeps_intros]: "keeps P (FinishCallInternal a0 a1)"
  unfolding FinishCallInternal_def by (auto intro!: keeps_intros simp: Let_def)

lemma finish_call_keeps [keeps_intros]: "keeps P (finish_call a0 a1)"
  unfolding finish_call_def by (auto intro!: keeps_intros simp: Let_def)

lemma DispatchFinishCallN_keeps [keeps_intros]: "keeps P DispatchFinishCallN"
  unfolding DispatchFinishCallN_def by (auto intro!: keeps_intros simp: Let_def)

lemma DispatchFinishCallNApply_keeps [keeps_intros]: "keeps P DispatchFinishCallNApply"
  unfolding DispatchFinishCallNApply_def by (auto intro!: keeps_intros simp: Let_def)

lemma DispatchFinishCallTos_keeps [keeps_intros]: "keeps P DispatchFinishCallTos"
  unfolding DispatchFinishCallTos_def by (auto intro!: keeps_intros simp: Let_def)

lemma DispatchFinishCallTosApply_keeps [keeps_intros]: "keeps P DispatchFinishCallTosApply"
  unfolding DispatchFinishCallTosApply_def by (auto intro!: keeps_intros simp: Let_def)

lemma pull_trap_keeps [keeps_intros]: "keeps P (pull_trap a0 a1 a2 a3 a4)"
  unfolding pull_trap_def by (auto intro!: keeps_intros simp: Let_def)

lemma pull_done_keeps [keeps_intros]: "keeps P (pull_done a0 a1 a2 a3 a4)"
  unfolding pull_done_def by (auto intro!: keeps_intros simp: Let_def)

lemma pull_scroll_keeps [keeps_intros]: "keeps P (pull_scroll a0 a1)"
  unfolding pull_scroll_def by (auto intro!: keeps_intros simp: Let_def)

lemma copy_arg_keeps [keeps_intros]: "keeps P (copy_arg a0 a1)"
  unfolding copy_arg_def by (auto intro!: keeps_intros simp: Let_def)

lemma pull_loop_keeps [keeps_intros]: "keeps P (pull_loop a0 a1 a2 a3 a4 a5)"
  by (induction a0 a1 a2 a3 a4 a5 rule: pull_loop.induct) (auto intro!: keeps_intros simp: Let_def)

lemma PullApplyArgsQuickly_keeps [keeps_intros]: "keeps P (PullApplyArgsQuickly a0)"
  unfolding PullApplyArgsQuickly_def by (auto intro!: keeps_intros simp: Let_def)

lemma add_pc_keeps [keeps_intros]: "keeps P (add_pc a0)"
  unfolding add_pc_def by (auto intro!: keeps_intros simp: Let_def)

lemma clear_apply_keeps [keeps_intros]: "keeps P clear_apply"
  unfolding clear_apply_def by (auto intro!: keeps_intros simp: Let_def)

lemma mark_cdr_keeps [keeps_intros]: "keeps P (mark_cdr a0 a1)"
  unfolding mark_cdr_def by (auto intro!: keeps_intros simp: Let_def)

lemma push_rest_keeps [keeps_intros]: "keeps P (push_rest a0)"
  unfolding push_rest_def by (auto intro!: keeps_intros simp: Let_def)

lemma pull_args_keeps [keeps_intros]: "keeps P (pull_args a0)"
  unfolding pull_args_def by (auto intro!: keeps_intros simp: Let_def)

lemma rest_accepted_nil_keeps [keeps_intros]: "keeps P (rest_accepted_nil a0 a1 a2)"
  unfolding rest_accepted_nil_def by (auto intro!: keeps_intros simp: Let_def)

lemma rest_accepted_keeps [keeps_intros]: "keeps P rest_accepted"
proof (rule keeps_runI)
  fix s :: machine and y
  assume "rest_accepted s = Some y"
  then show "P s \<longrightarrow> ends_well P y"
  proof (induction rule: rest_accepted.raw_induct [rotated, consumes 1, case_names turn])
    case (turn g  s y)
    have rec: "keeps P g" using turn(1) by (intro keeps_runI)
    from turn(2) show ?case by (rule keeps_run [rotated]) (auto intro!: keeps_intros rec simp: Let_def)
  qed
qed

lemma DispatchEntryRestAccepted_keeps [keeps_intros]: "keeps P DispatchEntryRestAccepted"
  unfolding DispatchEntryRestAccepted_def by (auto intro!: keeps_intros simp: Let_def)

lemma rest_not_accepted_nil_keeps [keeps_intros]: "keeps P (rest_not_accepted_nil a0 a1 a2)"
  unfolding rest_not_accepted_nil_def by (auto intro!: keeps_intros simp: Let_def)

lemma rest_not_accepted_keeps [keeps_intros]: "keeps P rest_not_accepted"
proof (rule keeps_runI)
  fix s :: machine and y
  assume "rest_not_accepted s = Some y"
  then show "P s \<longrightarrow> ends_well P y"
  proof (induction rule: rest_not_accepted.raw_induct [rotated, consumes 1, case_names turn])
    case (turn g  s y)
    have rec: "keeps P g" using turn(1) by (intro keeps_runI)
    from turn(2) show ?case by (rule keeps_run [rotated]) (auto intro!: keeps_intros rec simp: Let_def)
  qed
qed

lemma DispatchEntryRestNotAccepted_keeps [keeps_intros]: "keeps P DispatchEntryRestNotAccepted"
  unfolding DispatchEntryRestNotAccepted_def by (auto intro!: keeps_intros simp: Let_def)

lemma DispatchLocateLocals_keeps [keeps_intros]: "keeps P DispatchLocateLocals"
  unfolding DispatchLocateLocals_def by (auto intro!: keeps_intros simp: Let_def)

lemma pop_catches_keeps [keeps_intros]: "keeps P pop_catches"
proof (rule keeps_runI)
  fix s :: machine and y
  assume "pop_catches s = Some y"
  then show "P s \<longrightarrow> ends_well P y"
  proof (induction rule: pop_catches.raw_induct [rotated, consumes 1, case_names turn])
    case (turn g  s y)
    have rec: "keeps P g" using turn(1) by (intro keeps_runI)
    from turn(2) show ?case by (rule keeps_run [rotated]) (auto intro!: keeps_intros rec simp: Let_def)
  qed
qed

lemma unbind_all_keeps [keeps_intros]: "keeps P unbind_all"
proof (rule keeps_runI)
  fix s :: machine and y
  assume "unbind_all s = Some y"
  then show "P s \<longrightarrow> ends_well P y"
  proof (induction rule: unbind_all.raw_induct [rotated, consumes 1, case_names turn])
    case (turn g  s y)
    have rec: "keeps P g" using turn(1) by (intro keeps_runI)
    from turn(2) show ?case by (rule keeps_run [rotated]) (auto intro!: keeps_intros rec simp: Let_def)
  qed
qed

lemma leave_trap_keeps [keeps_intros]: "keeps P leave_trap"
  unfolding leave_trap_def by (auto intro!: keeps_intros simp: Let_def)

lemma cleanup_frame_keeps [keeps_intros]: "keeps P cleanup_frame"
  unfolding cleanup_frame_def by (auto intro!: keeps_intros simp: Let_def)

lemma pop_frame_keeps [keeps_intros]: "keeps P (pop_frame a0 a1 a2)"
  unfolding pop_frame_def by (auto intro!: keeps_intros simp: Let_def)

lemma underflow_check_keeps [keeps_intros]: "keeps P underflow_check"
  unfolding underflow_check_def by (auto intro!: keeps_intros simp: Let_def)

lemma return_value_keeps [keeps_intros]: "keeps P (return_value a0)"
  unfolding return_value_def by (auto intro!: keeps_intros simp: Let_def)

lemma return_single_keeps [keeps_intros]: "keeps P return_single"
proof (rule keeps_runI)
  fix s :: machine and y
  assume "return_single s = Some y"
  then show "P s \<longrightarrow> ends_well P y"
  proof (induction rule: return_single.raw_induct [rotated, consumes 1, case_names turn])
    case (turn g  s y)
    have rec: "keeps P g" using turn(1) by (intro keeps_runI)
    from turn(2) show ?case by (rule keeps_run [rotated]) (auto intro!: keeps_intros rec simp: Let_def)
  qed
qed

lemma DispatchReturnSingleTOS_keeps [keeps_intros]: "keeps P DispatchReturnSingleTOS"
  unfolding DispatchReturnSingleTOS_def by (auto intro!: keeps_intros simp: Let_def)

lemma DispatchReturnSingleNIL_keeps [keeps_intros]: "keeps P DispatchReturnSingleNIL"
  unfolding DispatchReturnSingleNIL_def by (auto intro!: keeps_intros simp: Let_def)

lemma DispatchReturnSingleT_keeps [keeps_intros]: "keeps P DispatchReturnSingleT"
  unfolding DispatchReturnSingleT_def by (auto intro!: keeps_intros simp: Let_def)

lemma copy_values_keeps [keeps_intros]: "keeps P (copy_values a0 a1 a2)"
  by (induction a0 a1 a2 rule: copy_values.induct) (auto intro!: keeps_intros simp: Let_def)

lemma return_block_keeps [keeps_intros]: "keeps P (return_block a0 a1 a2)"
  unfolding return_block_def by (auto intro!: keeps_intros simp: Let_def)

lemma return_multiple_keeps [keeps_intros]: "keeps P (return_multiple a0)"
proof (rule keeps_runI)
  fix s :: machine and y
  assume "return_multiple a0 s = Some y"
  then show "P s \<longrightarrow> ends_well P y"
  proof (induction rule: return_multiple.raw_induct [rotated, consumes 1, case_names turn])
    case (turn g a0 s y)
    have rec: "keeps P (g a0)" for a0 using turn(1) by (intro keeps_runI)
    from turn(2) show ?case by (rule keeps_run [rotated]) (auto intro!: keeps_intros rec simp: Let_def)
  qed
qed

lemma DispatchReturnMultiple_keeps [keeps_intros]: "keeps P (DispatchReturnMultiple a0)"
  unfolding DispatchReturnMultiple_def by (auto intro!: keeps_intros simp: Let_def)

lemma DispatchReturnKludge_keeps [keeps_intros]: "keeps P (DispatchReturnKludge a0)"
  unfolding DispatchReturnKludge_def by (auto intro!: keeps_intros simp: Let_def)

lemma DispatchTakeValues_keeps [keeps_intros]: "keeps P DispatchTakeValues"
  unfolding DispatchTakeValues_def by (auto intro!: keeps_intros simp: Let_def)

subsection \<open>RegisterInstructions\<close>

lemma read_microsecond_clock_keeps [keeps_intros]: "keeps P read_microsecond_clock"
  unfolding read_microsecond_clock_def by (auto intro!: keeps_intros simp: Let_def)

lemma push_bar_keeps [keeps_intros]: "keeps P (push_bar a0)"
  unfolding push_bar_def by (auto intro!: keeps_intros simp: Let_def)

lemma read_register_keeps: "read_register r = Some m \<Longrightarrow> keeps P m"
  by (auto simp: read_register_def Let_def split: if_splits intro!: keeps_intros)

lemma DispatchReadInternalRegister_keeps [keeps_intros]: "keeps P DispatchReadInternalRegister"
  unfolding DispatchReadInternalRegister_def by (auto intro!: keeps_intros simp: Let_def dest: read_register_keeps)

lemma from_tos_keeps [keeps_intros]: "(\<And>x s. P s \<Longrightarrow> P (f x s)) \<Longrightarrow> keeps P (from_tos f)"
  unfolding from_tos_def by (auto intro!: keeps_intros)

lemma write_register_keeps: "write_register r = Some m \<Longrightarrow> keeps P m"
  by (auto simp: write_register_def Let_def split: if_splits intro!: keeps_intros)

lemma DispatchWriteInternalRegister_keeps [keeps_intros]: "keeps P DispatchWriteInternalRegister"
  unfolding DispatchWriteInternalRegister_def by (auto intro!: keeps_intros simp: Let_def dest: write_register_keeps)

subsection \<open>SubprimInstructions\<close>

lemma alu_background_keeps [keeps_intros]: "keeps P (alu_background a0 a1)"
  unfolding alu_background_def by (auto intro!: keeps_intros simp: Let_def)

lemma ALUFunctionByte_keeps [keeps_intros]: "keeps P (ALUFunctionByte a0 a1 a2)"
  unfolding ALUFunctionByte_def by (auto intro!: keeps_intros simp: Let_def)

lemma ALUFunctionAdder_keeps [keeps_intros]: "keeps P (ALUFunctionAdder a0 a1 a2)"
  unfolding ALUFunctionAdder_def by (auto intro!: keeps_intros simp: Let_def)

lemma ALUFunctionClass_keeps [keeps_intros]: "keeps P (ALUFunctionClass a0 a1 a2 a3)"
  unfolding ALUFunctionClass_def by (auto intro!: keeps_intros simp: Let_def)

lemma DispatchAlu_keeps [keeps_intros]: "keeps P (DispatchAlu a0)"
  unfolding DispatchAlu_def by (auto intro!: keeps_intros simp: Let_def)

lemma ALUComputeCondition_keeps [keeps_intros]: "keeps P (ALUComputeCondition a0 a1 a2 a3)"
  unfolding ALUComputeCondition_def by (auto intro!: keeps_intros simp: Let_def)

lemma read_coprocessor_keeps: "read_coprocessor r = Some m \<Longrightarrow> keeps P m"
  by (auto simp: read_coprocessor_def Let_def split: if_splits intro!: keeps_intros)

lemma DispatchCoprocessorRead_keeps [keeps_intros]: "keeps P DispatchCoprocessorRead"
  unfolding DispatchCoprocessorRead_def by (auto intro!: keeps_intros simp: Let_def dest: read_coprocessor_keeps)

lemma SendInterruptToLifeSupport_keeps [keeps_intros]: "keeps P SendInterruptToLifeSupport"
  unfolding SendInterruptToLifeSupport_def by (auto intro!: keeps_intros simp: Let_def)

lemma write_coprocessor_keeps: "write_coprocessor r = Some m \<Longrightarrow> keeps P m"
  by (auto simp: write_coprocessor_def Let_def split: if_splits intro!: keeps_intros)

lemma DispatchCoprocessorWrite_keeps [keeps_intros]: "keeps P DispatchCoprocessorWrite"
  unfolding DispatchCoprocessorWrite_def by (auto intro!: keeps_intros simp: Let_def dest: write_coprocessor_keeps)

lemma enter_extra_stack_mode_keeps [keeps_intros]: "keeps P enter_extra_stack_mode"
  unfolding enter_extra_stack_mode_def by (auto intro!: keeps_intros simp: Let_def)

lemma ExecuteAllocateListBlock_keeps [keeps_intros]: "keeps P ExecuteAllocateListBlock"
  unfolding ExecuteAllocateListBlock_def by (auto intro!: keeps_intros simp: Let_def)

lemma ExecuteAllocateStructureBlock_keeps [keeps_intros]: "keeps P ExecuteAllocateStructureBlock"
  unfolding ExecuteAllocateStructureBlock_def by (auto intro!: keeps_intros simp: Let_def)

lemma DispatchAllocateListBlock_keeps [keeps_intros]: "keeps P (DispatchAllocateListBlock a0)"
  unfolding DispatchAllocateListBlock_def by (auto intro!: keeps_intros simp: Let_def)

lemma DispatchAllocateStructureBlock_keeps [keeps_intros]: "keeps P (DispatchAllocateStructureBlock a0)"
  unfolding DispatchAllocateStructureBlock_def by (auto intro!: keeps_intros simp: Let_def)

lemma DispatchPointerPlus_keeps [keeps_intros]: "keeps P (DispatchPointerPlus a0)"
  unfolding DispatchPointerPlus_def by (auto intro!: keeps_intros simp: Let_def)

lemma DispatchPointerDifference_keeps [keeps_intros]: "keeps P (DispatchPointerDifference a0)"
  unfolding DispatchPointerDifference_def by (auto intro!: keeps_intros simp: Let_def)

lemma DispatchPointerIncrement_keeps [keeps_intros]: "keeps P (DispatchPointerIncrement a0)"
  unfolding DispatchPointerIncrement_def by (auto intro!: keeps_intros simp: Let_def)

lemma DispatchTag_keeps [keeps_intros]: "keeps P (DispatchTag a0)"
  unfolding DispatchTag_def by (auto intro!: keeps_intros simp: Let_def)

lemma DispatchSetTag_keeps [keeps_intros]: "keeps P (DispatchSetTag a0)"
  unfolding DispatchSetTag_def by (auto intro!: keeps_intros simp: Let_def)

lemma set_cdr_code_keeps [keeps_intros]: "keeps P (set_cdr_code a0 a1)"
  unfolding set_cdr_code_def by (auto intro!: keeps_intros simp: Let_def)

lemma DispatchSetCdrCode1_keeps [keeps_intros]: "keeps P (DispatchSetCdrCode1 a0)"
  unfolding DispatchSetCdrCode1_def by (auto intro!: keeps_intros simp: Let_def)

lemma DispatchSetCdrCode2_keeps [keeps_intros]: "keeps P (DispatchSetCdrCode2 a0)"
  unfolding DispatchSetCdrCode2_def by (auto intro!: keeps_intros simp: Let_def)

lemma DispatchMergeCdrNoPop_keeps [keeps_intros]: "keeps P (DispatchMergeCdrNoPop a0)"
  unfolding DispatchMergeCdrNoPop_def by (auto intro!: keeps_intros simp: Let_def)

lemma memory_read_keeps [keeps_intros]: "keeps P (memory_read a0)"
  unfolding memory_read_def by (auto intro!: keeps_intros simp: Let_def)

lemma DispatchMemoryRead_keeps [keeps_intros]: "keeps P DispatchMemoryRead"
  unfolding DispatchMemoryRead_def by (auto intro!: keeps_intros simp: Let_def)

lemma DispatchMemoryReadAddress_keeps [keeps_intros]: "keeps P DispatchMemoryReadAddress"
  unfolding DispatchMemoryReadAddress_def by (auto intro!: keeps_intros simp: Let_def)

lemma DispatchStoreConditional_keeps [keeps_intros]: "keeps P (DispatchStoreConditional a0)"
  unfolding DispatchStoreConditional_def by (auto intro!: keeps_intros simp: Let_def)

lemma DispatchMemoryWrite_keeps [keeps_intros]: "keeps P (DispatchMemoryWrite a0)"
  unfolding DispatchMemoryWrite_def by (auto intro!: keeps_intros simp: Let_def)

lemma DispatchPStoreContents_keeps [keeps_intros]: "keeps P (DispatchPStoreContents a0)"
  unfolding DispatchPStoreContents_def by (auto intro!: keeps_intros simp: Let_def)

lemma DispatchJump_keeps [keeps_intros]: "keeps P (DispatchJump a0)"
  unfolding DispatchJump_def by (auto intro!: keeps_intros simp: Let_def)

lemma DispatchPushExternalValueCellPointer_keeps [keeps_intros]: "keeps P DispatchPushExternalValueCellPointer"
  unfolding DispatchPushExternalValueCellPointer_def by (auto intro!: keeps_intros simp: Let_def)

lemma DispatchPushTyped_keeps [keeps_intros]: "keeps P (DispatchPushTyped a0)"
  unfolding DispatchPushTyped_def by (auto intro!: keeps_intros simp: Let_def)

lemma DispatchLogic_keeps [keeps_intros]: "keeps P (DispatchLogic a0 a1)"
  unfolding DispatchLogic_def by (cases a0) (auto intro!: keeps_intros)

lemma DispatchEphemeralp_keeps [keeps_intros]: "keeps P (DispatchEphemeralp a0)"
  unfolding DispatchEphemeralp_def by (auto intro!: keeps_intros simp: Let_def)

end

end
