(* ===== verification/SequencerInvariant.thy ===== *)
theory SequencerInvariant
  imports InstructionInvariant
begin

text \<open>Traps, decoding, the sequencer and startup keep an invariant of pages and instruction cache.\<close>

context machine_invariant begin

subsection \<open>Traps\<close>

lemma FetchTrapVectorEntry_keeps [keeps_intros]: "keeps P (FetchTrapVectorEntry a0)"
proof (rule keeps_runI)
  fix s :: machine and y
  assume "FetchTrapVectorEntry a0 s = Some y"
  then show "P s \<longrightarrow> ends_well P y"
  proof (induction rule: FetchTrapVectorEntry.raw_induct [rotated, consumes 1, case_names turn])
    case (turn g a0 s y)
    have rec: "keeps P (g a0)" for a0 using turn(1) by (intro keeps_runI)
    from turn(2) show ?case by (rule keeps_run [rotated]) (auto intro!: keeps_intros rec simp: Let_def)
  qed
qed

lemma ps_push_keeps [keeps_intros]: "keeps P (ps_push a0)"
  unfolding ps_push_def by (auto intro!: keeps_intros simp: Let_def)

lemma ps_make_room_keeps [keeps_intros]: "keeps P ps_make_room"
  unfolding ps_make_room_def by (auto intro!: keeps_intros simp: Let_def)

lemma enter_handler_keeps [keeps_intros]: "keeps P (enter_handler a0)"
  unfolding enter_handler_def by (auto intro!: keeps_intros simp: Let_def)

lemma push_extra_keeps [keeps_intros]: "keeps P (push_extra a0)"
  unfolding push_extra_def by (cases a0) (auto intro!: keeps_intros)

lemma TakePreTrap_keeps [keeps_intros]: "keeps P (TakePreTrap a0 a1 a2)"
  unfolding TakePreTrap_def by (auto intro!: keeps_intros simp: Let_def)

lemma move_operands_keeps [keeps_intros]: "keeps P (move_operands a0 a1)"
  by (induction a0 a1 rule: move_operands.induct) (auto intro!: keeps_intros simp: Let_def)

lemma TakePostTrap_keeps [keeps_intros]: "keeps P (TakePostTrap a0 a1 a2)"
  unfolding TakePostTrap_def by (auto intro!: keeps_intros simp: Let_def)

lemma push_failed_operand_keeps [keeps_intros]: "keeps P (push_failed_operand a0 a1)"
  unfolding push_failed_operand_def by (auto intro!: keeps_intros simp: Let_def)

lemma arithmetic_vector_keeps [keeps_intros]: "keeps P (arithmetic_vector a0 a1)"
  unfolding arithmetic_vector_def by (auto intro!: keeps_intros simp: Let_def)

lemma TakeInstructionException_keeps [keeps_intros]: "keeps P (TakeInstructionException a0 a1 a2)"
  unfolding TakeInstructionException_def by (auto intro!: keeps_intros simp: Let_def)

subsection \<open>Sequencer\<close>

lemma DispatchPredicate_keeps [keeps_intros]: "keeps P (DispatchPredicate a0 a1)"
  unfolding DispatchPredicate_def by (cases a0) (auto intro!: keeps_intros)

lemma DispatchNumeric_keeps [keeps_intros]: "keeps P (DispatchNumeric a0 a1)"
  unfolding DispatchNumeric_def by (cases a0) (auto intro!: keeps_intros)

lemma DispatchMove_keeps [keeps_intros]: "keeps P (DispatchMove a0 a1)"
  unfolding DispatchMove_def by (cases a0) (auto intro!: keeps_intros)

lemma DispatchCall_keeps [keeps_intros]: "keeps P (DispatchCall a0 a1)"
  unfolding DispatchCall_def by (cases a0) (auto intro!: keeps_intros)

lemma DispatchSubprim_keeps [keeps_intros]: "keeps P (DispatchSubprim a0 a1)"
  unfolding DispatchSubprim_def by (cases a0) (auto intro!: keeps_intros)

lemma DispatchPlain_keeps [keeps_intros]: "keeps P (DispatchPlain a0)"
  unfolding DispatchPlain_def by (cases a0) (auto intro!: keeps_intros)

lemma DispatchWord_keeps [keeps_intros]: "keeps P (DispatchWord a0)"
  unfolding DispatchWord_def by (cases a0) (auto intro!: keeps_intros)

lemma block_case_keeps [keeps_intros]: "keeps P a1 \<Longrightarrow> keeps P (block_case a0 a1)"
  unfolding block_case_def by (auto intro!: keeps_intros simp: Let_def)

lemma ExecuteDispatch_keeps [keeps_intros]: "keeps P (ExecuteDispatch a0)"
  unfolding ExecuteDispatch_def by (cases a0) (auto intro!: keeps_intros)

lemma halt_keeps [keeps_intros]: "keeps P halt"
  unfolding halt_def by (auto intro!: keeps_intros simp: Let_def)

lemma after_trap_keeps [keeps_intros]: "keeps P a0 \<Longrightarrow> keeps P (after_trap a0)"
  unfolding after_trap_def by (auto intro!: keeps_intros simp: Let_def)

lemma at_UnimplementedInstruction_keeps [keeps_intros]: "keeps P at_UnimplementedInstruction"
  unfolding at_UnimplementedInstruction_def by (auto intro!: keeps_intros simp: Let_def)

lemma at_IllegalOperand_keeps [keeps_intros]: "keeps P at_IllegalOperand"
  unfolding at_IllegalOperand_def by (auto intro!: keeps_intros simp: Let_def)

lemma at_InstructionException_keeps [keeps_intros]: "keeps P at_InstructionException"
  unfolding at_InstructionException_def by (auto intro!: keeps_intros simp: Let_def)

lemma at_FollowPCInstructionException_keeps [keeps_intros]: "keeps P at_FollowPCInstructionException"
  unfolding at_FollowPCInstructionException_def by (auto intro!: keeps_intros simp: Let_def)

lemma at_PullApplyArgsTrap_keeps [keeps_intros]: "keeps P (at_PullApplyArgsTrap a0)"
  unfolding at_PullApplyArgsTrap_def by (auto intro!: keeps_intros simp: Let_def)

lemma at_NextInstruction_keeps [keeps_intros]: "keeps P at_NextInstruction"
  unfolding at_NextInstruction_def by (auto intro!: keeps_intros simp: Let_def)

lemma follow1_keeps [keeps_intros]: "keeps P (follow1 a0)"
  by (induction a0 rule: follow1.induct) (auto intro!: keeps_intros simp: Let_def)

lemma follow_keeps [keeps_intros]: "keeps P (follow a0)"
  unfolding follow_def by (auto intro!: keeps_intros simp: Let_def)

lemma count_instruction_keeps [keeps_intros]: "keeps P count_instruction"
  unfolding count_instruction_def by (auto intro!: keeps_intros simp: Let_def)

lemma at_Dispatch_keeps [keeps_intros]: "keeps P at_Dispatch"
  unfolding at_Dispatch_def by (auto intro!: keeps_intros simp: Let_def)

lemma at_InstructionCacheLookup_keeps [keeps_intros]: "keeps P at_InstructionCacheLookup"
  unfolding at_InstructionCacheLookup_def by (auto intro!: keeps_intros simp: Let_def)

lemma trap_with_keeps [keeps_intros]: "keeps P (trap_with a0 a1 a2)"
  unfolding trap_with_def by (auto intro!: keeps_intros simp: Let_def)

lemma unless_bad_spot_keeps [keeps_intros]: "keeps P a0 \<Longrightarrow> keeps P (unless_bad_spot a0)"
  unfolding unless_bad_spot_def by (auto intro!: keeps_intros simp: Let_def)

lemma at_Trap_keeps [keeps_intros]: "keeps P (at_Trap a0)"
  unfolding at_Trap_def by (auto intro!: keeps_intros simp: Let_def)

lemma position_action_keeps [keeps_intros]: "keeps P (position_action a0)"
  unfolding position_action_def by (cases a0) (auto intro!: keeps_intros)

lemma InstructionSequencer_keeps [keeps_intros]: "keeps P InstructionSequencer"
  unfolding InstructionSequencer_def by (auto intro!: keeps_intros simp: Let_def)

subsection \<open>Startup\<close>

lemma quit_handler_keeps [keeps_intros]: "keeps P quit_handler"
  unfolding quit_handler_def by (auto intro!: keeps_intros simp: Let_def)

lemma Runningp_keeps [keeps_intros]: "keeps P Runningp"
  unfolding Runningp_def by (auto intro!: keeps_intros simp: Let_def)

lemma HaltMachine_keeps [keeps_intros]: "keeps P HaltMachine"
  unfolding HaltMachine_def by (auto intro!: keeps_intros simp: Let_def)

lemma ResetMachine_keeps [keeps_intros]: "keeps P ResetMachine"
  unfolding ResetMachine_def by (auto intro!: keeps_intros simp: Let_def)

lemma StartMachine_keeps [keeps_intros]: "keeps P StartMachine"
  unfolding StartMachine_def by (auto intro!: keeps_intros simp: Let_def)

lemma PushOneFakeFrame_keeps [keeps_intros]: "keeps P PushOneFakeFrame"
  unfolding PushOneFakeFrame_def by (auto intro!: keeps_intros simp: Let_def)

lemma PopOneFakeFrame_keeps [keeps_intros]: "keeps P PopOneFakeFrame"
  unfolding PopOneFakeFrame_def by (auto intro!: keeps_intros simp: Let_def)

lemma InitializeIvoryProcessor_keeps [keeps_intros]: "keeps P InitializeIvoryProcessor"
  unfolding InitializeIvoryProcessor_def by (auto intro!: keeps_intros simp: Let_def reset_keeps)

lemma find_boot_function_keeps [keeps_intros]: "keeps P find_boot_function"
  unfolding find_boot_function_def by (auto intro!: keeps_intros simp: Let_def)

lemma start_frames_keeps [keeps_intros]: "keeps P start_frames"
  unfolding start_frames_def by (auto intro!: keeps_intros simp: Let_def)

lemma IvoryProcessorSystemStartup_keeps [keeps_intros]: "keeps P (IvoryProcessorSystemStartup a0)"
  unfolding IvoryProcessorSystemStartup_def by (auto intro!: keeps_intros simp: Let_def)

lemma ReadInternalRegister_keeps [keeps_intros]: "keeps P (ReadInternalRegister a0)"
  unfolding ReadInternalRegister_def by (auto intro!: keeps_intros simp: Let_def)

lemma scroll_down_to_fp_keeps [keeps_intros]: "keeps P scroll_down_to_fp"
proof (rule keeps_runI)
  fix s :: machine and y
  assume "scroll_down_to_fp s = Some y"
  then show "P s \<longrightarrow> ends_well P y"
  proof (induction rule: scroll_down_to_fp.raw_induct [rotated, consumes 1, case_names turn])
    case (turn g  s y)
    have rec: "keeps P g" using turn(1) by (intro keeps_runI)
    from turn(2) show ?case by (rule keeps_run [rotated]) (auto intro!: keeps_intros rec simp: Let_def)
  qed
qed

lemma scroll_up_to_fp_keeps [keeps_intros]: "keeps P scroll_up_to_fp"
proof (rule keeps_runI)
  fix s :: machine and y
  assume "scroll_up_to_fp s = Some y"
  then show "P s \<longrightarrow> ends_well P y"
  proof (induction rule: scroll_up_to_fp.raw_induct [rotated, consumes 1, case_names turn])
    case (turn g  s y)
    have rec: "keeps P g" using turn(1) by (intro keeps_runI)
    from turn(2) show ?case by (rule keeps_run [rotated]) (auto intro!: keeps_intros rec simp: Let_def)
  qed
qed

lemma WriteInternalRegister_keeps [keeps_intros]: "keeps P (WriteInternalRegister a0 a1)"
  unfolding WriteInternalRegister_def by (auto intro!: keeps_intros simp: Let_def)

subsection \<open>Steps\<close>

lemma seq_step_keeps:
  assumes "seq_step (p, s) (q, t)" "q \<noteq> Broken" "P s"
  shows "P t"
  using assms(1)
proof (cases rule: seq_step.cases)
  case (run r)
  then have "r \<noteq> Undef" using assms(2) by auto
  then show ?thesis using keepsD [OF position_action_keeps assms(3) run(3)] by blast
next
  case (io r)
  then show ?thesis using keepsD [OF io_handler_keeps assms(3)] by (auto simp: io_handler_def modify_def)
next
  case (interrupt r)
  then show ?thesis
    using keepsD [OF SendInterruptToEmulator_keeps assms(3)]
    by (auto simp: SendInterruptToEmulator_def modify_def)
qed

lemma steps_keep: "seq_step\<^sup>*\<^sup>* (p, s) (q, t) \<Longrightarrow> q \<noteq> Broken \<Longrightarrow> P s \<Longrightarrow> P t"
proof (induction "(q, t)" arbitrary: q t rule: rtranclp_induct)
  case base
  then show ?case by simp
next
  case (step m)
  obtain q' t' where m: "m = (q', t')" by (cases m)
  have "q' \<noteq> Broken"
  proof
    assume "q' = Broken"
    then have "q = Broken" using step.hyps(2) unfolding m by (auto elim: seq_stepE)
    then show False using step.prems(1) by simp
  qed
  then show ?case using seq_step_keeps step.hyps(2,3) step.prems m by blast
qed

end

end
