(* ===== verification/MainLoop.thy ===== *)
theory MainLoop
  imports Startup
begin

text \<open>
  The part of \<open>main\<close> (\<open>main.c\<close>) that runs the machine: after the world has been loaded it starts the
  processor, and calls \<open>InstructionSequencer\<close> as long as the machine is running and has not halted.
\<close>

text \<open>
  What can be reached from a state of loaded memory, through the steps of the sequencer: from a start that
  succeeds (otherwise \<open>main\<close> gives up), and again from the entry of the sequencer when it has returned
  without \<open>HaltReason_Halted\<close> and the machine is still running.
\<close>

inductive reachable :: "machine \<Rightarrow> position \<times> machine \<Rightarrow> bool" for s0 :: machine where
  start: "IvoryProcessorSystemStartup True s0 = Some (Ret True, s) \<Longrightarrow> Runningp s = Some (Ret True, s)
          \<Longrightarrow> InstructionSequencer s = Some (Ret p, t) \<Longrightarrow> reachable s0 (p, t)"
| step: "reachable s0 c \<Longrightarrow> seq_step c c' \<Longrightarrow> reachable s0 c'"
| again: "reachable s0 (Stopped True, s) \<Longrightarrow> Runningp s = Some (Ret True, s)
          \<Longrightarrow> InstructionSequencer s = Some (Ret p, t) \<Longrightarrow> reachable s0 (p, t)"

end
