(* ===== verification/CacheFacts.thy ===== *)
theory CacheFacts
  imports SequencerInvariant MainLoop PageFacts MemoryFacts
begin

text \<open>
  Two invariants of the whole machine, carried through every step of the sequencer by the locale
  of machine invariants: the attribute table and the mapped pages agree, and the lines of the
  instruction cache are linked the way the lookup by program counter would link them.
\<close>

unbundle bit_operations_syntax

subsection \<open>From the start of the machine on\<close>

context machine_invariant begin

lemma Broken_stuck: "seq_step (Broken, s) (q, t) \<Longrightarrow> q = Broken"
  by (auto elim: seq_stepE)

text \<open>An invariant that the initialization sets up, whatever was there before, holds in all that is reachable.\<close>

lemma started:
  assumes "\<And>u. P (initial_registers u)" "IvoryProcessorSystemStartup True s0 = Some (Ret r, s)"
  shows "P s"
proof -
  let ?rest = "thn (thn PushOneFakeFrame (thn PushOneFakeFrame (thn (EnsureVirtualAddressRange 0xf8000100 0xf00)
      (thn (EnsureVirtualAddressRange 0xf8062000 0x9e000) (ret ())))))
    (bnd find_boot_function (\<lambda>r. case r of None \<Rightarrow> ret False
      | Some q \<Rightarrow> bnd (gets ps_fp) (\<lambda>f. thn (set_stack f (mkobj (0xc0 OR TypeEvenPC) (DATA q))) start_frames)))"
  have k: "keeps P ?rest" by (auto intro!: keeps_intros)
  have "?rest (initial_registers s0) = Some (Ret r, s)"
    using assms(2) by (simp add: IvoryProcessorSystemStartup_def InitializeIvoryProcessor_def thn_def bnd_assoc bnd_basic)
  then show ?thesis using keepsD [OF k assms(1)] by blast
qed

lemma reachable_keep:
  assumes "reachable s0 (q, t)" "q \<noteq> Broken" "\<And>u. P (initial_registers u)"
  shows "P t"
  using assms(1,2)
proof (induction "(q, t)" arbitrary: q t rule: reachable.induct)
  case (start s p t)
  then show ?case using keepsD [OF InstructionSequencer_keeps started [OF assms(3)]] by blast
next
  case (step c q t)
  obtain p s where c: "c = (p, s)" by (cases c)
  have "p \<noteq> Broken" using step.hyps(3) step.prems Broken_stuck unfolding c by blast
  then show ?case using step.hyps(2) [OF c] seq_step_keeps [of p s q t] step.hyps(3) step.prems c by blast
next
  case (again s p t)
  then show ?case using keepsD [OF InstructionSequencer_keeps] by blast
qed

end

subsection \<open>Pages\<close>

lemma pages_agree_cong: "mapped s = mapped t \<Longrightarrow> VMAttributeTable s = VMAttributeTable t
    \<Longrightarrow> pages_agree s = pages_agree t"
  by (simp add: pages_agree_def)

text \<open>Writing an attribute byte that says what the old one said about existence.\<close>

lemma set_attribute_agree:
  assumes "pages_agree s" "VMExists a = VMExists (VMAttributeTable s vpn)"
  shows "pages_agree (s\<lparr>VMAttributeTable := (VMAttributeTable s)(vpn := a)\<rparr>)"
  using assms by (simp add: pages_agree_def)

lemma write_attribute_eval:
  "vpn < 0x80000 \<Longrightarrow> write_attribute vpn a s
     = Some (Ret (), s\<lparr>VMAttributeTable := (VMAttributeTable s)(vpn := a)\<rparr>)"
  by (simp add: write_attribute_def prog_simps fun_upd_def comp_def)

lemma read_attribute_eval:
  "vpn < 0x80000 \<Longrightarrow> read_attribute vpn s = Some (Ret (VMAttributeTable s vpn), s)"
  "\<not> vpn < 0x80000 \<Longrightarrow> read_attribute vpn s = Some (Undef, s)"
  by (simp_all add: read_attribute_def prog_simps)

lemma exists_or: "VMExists (a OR 64)"
proof -
  have "bit ((a OR 64) AND 64 :: u8) 6" by (simp add: bit_simps)
  then show ?thesis unfolding VMExists_def by (metis bit_0_eq bot_apply bot_bool_def)
qed

lemma exists_transport: "VMExists (SetVMTransportFault a) = VMExists a"
  by (simp add: VMExists_def SetVMTransportFault_def bit.conj_disj_distrib2)

lemma exists_or_ucast: "VMExists (ucast (x OR (64 :: u64)))"
  by (simp add: exists_or unsigned_or_eq)

lemma pages_agree_register:
  "pages_agree (AttributesRegister_update f s\<lparr>VMAttributeTable := t\<rparr>) = pages_agree (s\<lparr>VMAttributeTable := t\<rparr>)"
  "pages_agree (AttributesRegister_update f s) = pages_agree s"
  by (simp_all add: pages_agree_def)

lemma vm_write_attributes_agree: "keeps pages_agree (vm_write_attributes command)"
proof (rule keepsI)
  fix s r s'
  assume a: "pages_agree s" "vm_write_attributes command s = Some (r, s')" "r \<noteq> Undef"
  let ?p = "ucast (VMCommandOperand command) :: u64"
  let ?x = "AttributesRegister s OR 64"
  have agree: "pages_agree (s\<lparr>VMAttributeTable := (VMAttributeTable s)(?p := ucast ?x)\<rparr>)"
    if "VMExists (VMAttributeTable s ?p)"
    using set_attribute_agree [OF a(1)] exists_or_ucast that by blast
  show "pages_agree s' \<and> (\<forall>v. r = Longjmp v \<longrightarrow> v \<in> longjmp_values)"
    using a agree
    by (cases "?p < 0x80000"; cases "VMExists (VMAttributeTable s ?p)")
      (auto simp: vm_write_attributes_def read_attribute_eval write_attribute_eval reply_def prog_simps
        pages_agree_register)
qed

lemma enable_loop_agree: "keeps pages_agree (enable_loop vpn n :: unit action)"
proof (induction vpn n rule: enable_loop.induct)
  case (1 vpn)
  then show ?case by (auto intro: keeps_intros)
next
  case (2 vpn n)
  let ?turn = "bnd (read_attribute vpn) (\<lambda>a. run_if (VMExists a \<and> \<not> VMTransportDisable a)
     (write_attribute vpn (SetVMTransportFault a))) :: unit action"
  have "keeps pages_agree ?turn"
    by (rule keepsI, cases "vpn < 0x80000") (auto simp: read_attribute_eval write_attribute_eval
        prog_simps exists_transport set_attribute_agree split: if_splits)
  then have "keeps pages_agree (thn ?turn (enable_loop (vpn + 1) n))"
    using 2 by (intro keeps_thn)
  then show ?case by (simp add: thn_def bnd_assoc)
qed

text \<open>The block read that fills the cache moves only \<open>memory_vma\<close> and, on a fault, \<open>trap_vma\<close>.\<close>

definition same_memory :: "machine \<Rightarrow> machine \<Rightarrow> bool" where
  "same_memory s t \<longleftrightarrow> mapped t = mapped s \<and> VMAttributeTable t = VMAttributeTable s
     \<and> InstructionCache t = InstructionCache s \<and> DataSpace t = DataSpace s \<and> TagSpace t = TagSpace s"

lemma read_block_same: "keeps (same_memory u) (VirtualMemoryReadBlock vma (\<lambda>i obj. ret ()) count)"
proof -
  have "keeps (same_memory u) (read_block_loop (\<lambda>i obj. ret ()) i v n)" for i v n
    by (induction "\<lambda>(i :: nat) (obj :: LispObj). ret () :: unit action" i v n rule: read_block_loop.induct)
      (auto intro!: keeps_intros simp: access_def segv_handler_def TakeMemoryTrap_def
        next_memory_vma_def same_memory_def)
  then show ?thesis
    by (auto intro!: keeps_intros simp: VirtualMemoryReadBlock_def set_memory_vma_def same_memory_def)
qed

text \<open>So a miss either fills the block from the words in memory or leaves the cache alone.\<close>

definition block_words :: "machine \<Rightarrow> u64 \<Rightarrow> LispObj list" where
  "block_words s vma = map (\<lambda>i. space_object s (vma + of_nat i)) [0..<32]"

definition filled :: "machine \<Rightarrow> u64 \<Rightarrow> nat \<Rightarrow> InstructionCacheLine" where
  "filled s vma = close_block (block_line vma) vma
     (decode_block (block_line vma) vma (block_words s vma) (InstructionCache s))"

lemma InstructionCacheMiss_cases:
  assumes "InstructionCacheMiss s = Some (r, s')" "r \<noteq> Undef"
  shows "same_memory s s' \<or> (mapped s' = mapped s \<and> VMAttributeTable s' = VMAttributeTable s
      \<and> InstructionCache s' = filled s (block_start (DATA (ps_pc s))))"
proof -
  let ?vma = "block_start (DATA (ps_pc s))"
  have self: "same_memory s s" by (simp add: same_memory_def)
  note read = keepsD [OF read_block_same self]
  show ?thesis
    using assms
    unfolding InstructionCacheMiss_def thn_def
    by (auto simp: bnd_basic bnd_split_Some gets_def modify_def filled_def block_words_def space_object_def
        same_memory_def dest!: read split: if_splits)
qed

lemma InstructionCacheMiss_raises: "InstructionCacheMiss s = Some (Longjmp v, s') \<Longrightarrow> v \<in> longjmp_values"
proof -
  assume a: "InstructionCacheMiss s = Some (Longjmp v, s')"
  have r: "keeps (\<lambda>_. True) (VirtualMemoryReadBlock vma (\<lambda>i obj. ret ()) count :: unit action)" for vma count
  proof (rule keepsI, intro conjI allI impI)
    fix s :: machine and r t v
    assume "VirtualMemoryReadBlock vma (\<lambda>i obj. ret ()) count s = Some (r, t)" "r = Longjmp v"
    moreover have "same_memory s s" by (simp add: same_memory_def)
    ultimately show "v \<in> longjmp_values" using keeps_raises [OF read_block_same [of s]] by blast
  qed simp
  have "keeps (\<lambda>_. True) InstructionCacheMiss"
    unfolding InstructionCacheMiss_def by (intro keeps_intros r TrueI)
  from keeps_raises [OF this _ a] show ?thesis by simp
qed

lemma InstructionCacheMiss_agree: "keeps pages_agree InstructionCacheMiss"
proof (rule keepsI)
  fix s r s'
  assume a: "pages_agree s" "InstructionCacheMiss s = Some (r, s')" "r \<noteq> Undef"
  then have "pages_agree s' = pages_agree s"
    using InstructionCacheMiss_cases [OF a(2,3)] by (intro pages_agree_cong) (auto simp: same_memory_def)
  then show "pages_agree s' \<and> (\<forall>v. r = Longjmp v \<longrightarrow> v \<in> longjmp_values)"
    using a(1,2) InstructionCacheMiss_raises by blast
qed

interpretation pages: machine_invariant pages_agree
  by unfold_locales
    (auto intro: pages_agree_cong vm_write_attributes_agree enable_loop_agree InstructionCacheMiss_agree
       EnsureVirtualAddressRange_agree DestroyVirtualAddressRange_agree
       simp: VirtualMemoryEnable_def Let_def initial_registers_def pages_agree_def)

subsection \<open>Links between cache lines\<close>

text \<open>The lines of a decoded block, one by one.\<close>

definition decoded_line :: "nat \<Rightarrow> u64 \<Rightarrow> LispObj list \<Rightarrow> (nat \<Rightarrow> InstructionCacheLine) \<Rightarrow> nat
    \<Rightarrow> InstructionCacheLine" where
  "decoded_line e vma ws c i =
     (let k = (i - e) div 2; ls = decode_lines (e + 2 * k) (vma + of_nat k) (ucast (TAG (ws ! k)))
        (DATA (ws ! k)) (c (e + 2 * k), c (e + 2 * k + 1))
      in if even (i - e) then fst ls else snd ls)"

lemma decode_block_nth:
  "decode_block e vma ws c i
     = (if e \<le> i \<and> i < e + 2 * length ws then decoded_line e vma ws c i else c i)"
proof (induction ws arbitrary: e vma c i)
  case Nil
  then show ?case by auto
next
  case (Cons w ws)
  obtain l0 l1 where ls: "decode_lines e vma (ucast (TAG w)) (DATA w) (c e, c (Suc e)) = (l0, l1)"
    by fastforce
  have dl: "decoded_line (e + 2) (vma + 1) ws (c(e := l0, Suc e := l1)) i = decoded_line e vma (w # ws) c i"
    if i: "e + 2 \<le> i"
  proof -
    obtain d where d: "i = e + 2 + d" using i le_Suc_ex by blast
    have "d = 2 * (d div 2) \<or> d = 2 * (d div 2) + 1" by presburger
    then obtain k where "d = 2 * k \<or> d = 2 * k + 1" by blast
    then show ?thesis by (auto simp: d decoded_line_def Let_def algebra_simps)
  qed
  have first: "decoded_line e vma (w # ws) c e = l0" "decoded_line e vma (w # ws) c (Suc e) = l1"
    by (simp_all add: decoded_line_def ls)
  have IH: "decode_block (Suc (Suc e)) v ws f i = (if e + 2 \<le> i \<and> i < e + 2 + 2 * length ws
      then decoded_line (e + 2) v ws f i else f i)" for v f i
    using Cons.IH [of "e + 2"] by simp
  consider "i < e" | "i = e" | "i = Suc e" | "e + 2 \<le> i" by linarith
  then show ?case
  proof cases
    case 4
    then show ?thesis using dl by (auto simp: ls IH)
  qed (auto simp: ls IH first)
qed

text \<open>Closing a block changes links only, and only to the lookup.\<close>

lemma force_lookup_line:
  "force_lookup f j c i = (c i)\<lparr>next_cp := if i = j \<and> f (ucast (DATA (next_pc (c i)))) then LookupCP
     else next_cp (c i)\<rparr>"
  by (auto simp: force_lookup_def)

lemma close_block_fields:
  "line_pc (close_block b vma c i) = line_pc (c i)" "next_pc (close_block b vma c i) = next_pc (c i)"
  "code (close_block b vma c i) = code (c i)"
  by (simp_all add: close_block_def force_lookup_line Let_def)

lemma close_block_link:
  "next_cp (close_block b vma c i) = CacheLine j \<longleftrightarrow> next_cp (c i) = CacheLine j
     \<and> (i = b \<longrightarrow> vma \<le> ucast (DATA (next_pc (c i))))
     \<and> (i \<in> {b + 60, b + 61, b + 62, b + 63} \<longrightarrow> ucast (DATA (next_pc (c i))) < vma + 32)"
  by (auto simp: close_block_def force_lookup_line Let_def not_less not_le)

lemma close_block_outside: "i < b \<or> b + 64 \<le> i \<Longrightarrow> close_block b vma c i = c i"
  by (auto simp: close_block_def force_lookup_line Let_def)

text \<open>What a decoded word leaves in its two lines.\<close>

lemma decode_operand_fields [simp]:
  "line_pc (decode_operand f i l) = line_pc l" "next_pc (decode_operand f i l) = next_pc l"
  "next_cp (decode_operand f i l) = next_cp l"
  by (cases f; simp add: DecodeSPOperandFunction_def DecodeReturnOperandFunction_def
      DecodeEntryOperandFunction_def Let_def)+

lemma decode_packed_fields [simp]:
  "line_pc (decode_packed x i l) = line_pc l" "next_pc (decode_packed x i l) = next_pc l"
  "next_cp (decode_packed x i l) = next_cp l"
  by (simp_all add: decode_packed_def split: prod.split)

lemma packed_fields [simp]:
  "line_pc (packed_even d l) = line_pc l" "next_pc (packed_even d l) = next_pc l"
  "next_cp (packed_even d l) = next_cp l" "line_pc (packed_odd t d l) = line_pc l"
  "next_pc (packed_odd t d l) = next_pc l" "next_cp (packed_odd t d l) = next_cp l"
  by (simp_all add: packed_even_def packed_odd_def Let_def)

lemma illegal_line_fields [simp]:
  "line_pc (illegal_line l) = line_pc l" "code (illegal_line l) = DispatchIllegalInstruction"
  by (simp_all add: illegal_line_def)

lemma set_next_fields [simp]:
  "line_pc (set_next t v p l) = line_pc l" "next_pc (set_next t v p l) = mkobj t (ucast v)"
  "next_cp (set_next t v p l) = p"
  by (simp_all add: set_next_def)

lemma decode_lines_pc:
  "DATA (line_pc (fst (decode_lines e v tag data ls))) = ucast v"
  "DATA (line_pc (snd (decode_lines e v tag data ls))) = ucast v"
  by (simp_all add: decode_lines_def set_line_pc_def Let_def)

lemma decode_lines_even_link:
  assumes "next_cp (fst (decode_lines e v tag data ls)) = CacheLine j"
    and "code (fst (decode_lines e v tag data ls)) \<noteq> DispatchIllegalInstruction"
  obtains "next_pc (fst (decode_lines e v tag data ls)) = mkobj TypeOddPC (ucast v)" "j = e + 1"
  | "next_pc (fst (decode_lines e v tag data ls)) = mkobj TypeEvenPC (ucast (v + 1))" "j = e + 2"
  | "next_pc (fst (decode_lines e v tag data ls)) = mkobj TypeOddPC (ucast (v - 1))" "j = e + 1 - 2"
  using assms by (auto simp: decode_lines_def Let_def split: if_splits)

lemma decode_lines_odd_link:
  assumes "next_cp (snd (decode_lines e v tag data ls)) = CacheLine j"
    and "code (snd (decode_lines e v tag data ls)) \<noteq> DispatchIllegalInstruction"
  obtains "next_pc (snd (decode_lines e v tag data ls)) = mkobj TypeEvenPC (ucast (v + 1))" "j = e + 2"
  | "next_pc (snd (decode_lines e v tag data ls)) = mkobj TypeEvenPC (ucast (v + 2))" "j = e + 4"
  using assms by (auto simp: decode_lines_def Let_def split: if_splits)

text \<open>A link is right when it names the line that the lookup finds for the next program counter.
  The first and the last block of memory are left out: there the program counter wraps around,
  and the test for a pointer out of the block fails.\<close>

definition linked_line :: "(nat \<Rightarrow> InstructionCacheLine) \<Rightarrow> nat \<Rightarrow> bool" where
  "linked_line c i \<longleftrightarrow>
     (code (c i) \<noteq> DispatchIllegalInstruction \<and> 32 \<le> DATA (line_pc (c i))
        \<and> DATA (line_pc (c i)) < 0xffffffe0 \<longrightarrow>
      (\<forall>j. next_cp (c i) = CacheLine j \<longrightarrow> j div 64 = i div 64 \<and> j = lookup_line (next_pc (c i))
         \<and> DATA (line_pc (c j)) = DATA (next_pc (c i))
         \<and> (TAG (next_pc (c i)) = TypeEvenPC \<or> TAG (next_pc (c i)) = TypeOddPC)))"

definition cache_linked :: "machine \<Rightarrow> bool" where
  "cache_linked s \<longleftrightarrow> (\<forall>i<2048. linked_line (InstructionCache s) i)"

text \<open>A block begins at a multiple of 32 words and has 64 lines.\<close>

lemma block_start_unat: "unat (block_start d) = unat d div 32 * 32"
proof -
  have "block_start d = ucast (d AND NOT (mask 5))"
    by (simp add: block_start_def mask_eq_exp_minus_1)
  also have "\<dots> = push_bit 5 (drop_bit 5 (ucast d))"
    by (rule bit_word_eqI) (auto simp: bit_simps not_less dest: bit_imp_le_length)
  finally have eq: "block_start d = push_bit 5 (drop_bit 5 (ucast d))" .
  have less: "unat d < 2 ^ 32" by (rule order_less_le_trans [OF unsigned_less]) simp
  then have d: "unat (ucast d :: u64) = unat d"
    by (simp add: unsigned_ucast_eq take_bit_nat_eq_self_iff)
  have "unat d div 32 * 32 < 2 ^ 64" using less by simp
  then show ?thesis
    unfolding eq by (simp add: push_bit_eq_mult drop_bit_eq_div unat_word_ariths unat_div d)
qed

lemma block_line_unat: "block_line v = 2 * unat v mod 2048"
proof -
  have "push_bit 1 v AND 2047 = take_bit 11 (push_bit 1 v)"
    by (simp add: take_bit_eq_mask mask_eq_exp_minus_1)
  then show ?thesis
    by (simp add: block_line_def take_bit_eq_mod push_bit_eq_mult unat_mod unat_word_ariths
        mod_mod_cancel mult.commute [of 2])
qed

lemma lookup_line_unat: "lookup_line p = 2 * unat (DATA p) mod 2048 + unat (TAG p AND 1)"
proof -
  have "push_bit 1 (DATA p) AND 2047 = take_bit 11 (push_bit 1 (DATA p))"
    by (simp add: take_bit_eq_mask mask_eq_exp_minus_1)
  then show ?thesis
    by (simp add: lookup_line_def take_bit_eq_mod push_bit_eq_mult unat_mod unat_word_ariths
        mod_mod_cancel mult.commute [of 2])
qed

text \<open>A block at \<open>32 * m\<close> that is not the last one.\<close>

definition inner_block :: "u64 \<Rightarrow> bool" where
  "inner_block vma \<longleftrightarrow> unat vma mod 32 = 0 \<and> 32 \<le> unat vma \<and> unat vma < 0xffffffe0"

lemma inner_block_add:
  assumes "inner_block vma" "k \<le> 33"
  shows "unat (vma + of_nat k) = unat vma + k" "unat (ucast (vma + of_nat k) :: u32) = unat vma + k"
    "unat (ucast (ucast (vma + of_nat k) :: u32) :: u64) = unat vma + k"
proof -
  have n: "unat vma + k < 4294967296"
    using assms unfolding inner_block_def by presburger
  show a: "unat (vma + of_nat k) = unat vma + k"
    using assms n by (simp add: unat_word_ariths unat_of_nat)
  show b: "unat (ucast (vma + of_nat k) :: u32) = unat vma + k"
    using n by (simp only: unsigned_ucast_eq a take_bit_nat_eq_self_iff) simp
  show "unat (ucast (ucast (vma + of_nat k) :: u32) :: u64) = unat vma + k"
    using n by (simp only: unsigned_ucast_eq [where w = "ucast (vma + of_nat k) :: u32"] b take_bit_nat_eq_self_iff) simp
qed

lemma block_lookup:
  assumes "inner_block vma" "k < 32"
  shows "lookup_line (mkobj TypeEvenPC (ucast (vma + of_nat k))) = block_line vma + 2 * k"
    "lookup_line (mkobj TypeOddPC (ucast (vma + of_nat k))) = block_line vma + 2 * k + 1"
proof -
  obtain m where m: "unat vma = 32 * m" using assms by (auto simp: inner_block_def)
  have k: "unat (ucast (vma + of_nat k) :: u32) = 32 * m + k"
    using inner_block_add(2) [of vma k] assms m by simp
  have "2 * (32 * m) mod 2048 = 64 * (m mod 32)" using mod_mult_mult1 [of 64 m 32] by simp
  moreover have "64 * (m mod 32) + 2 * k < 2048"
    using mod_less_divisor [of 32 m] assms(2) by linarith
  ultimately have e: "2 * (32 * m + k) mod 2048 = 2 * (32 * m) mod 2048 + 2 * k"
    using mod_add_left_eq [of "2 * (32 * m)" 2048 "2 * k"] by (simp add: algebra_simps)
  show "lookup_line (mkobj TypeEvenPC (ucast (vma + of_nat k))) = block_line vma + 2 * k"
    "lookup_line (mkobj TypeOddPC (ucast (vma + of_nat k))) = block_line vma + 2 * k + 1"
    unfolding lookup_line_unat block_line_unat LispObj.select_convs k m e by simp_all
qed

text \<open>The lines of a block after it has been filled.\<close>

lemma filled_line:
  assumes "i < 64"
  shows "DATA (line_pc (filled s vma (block_line vma + i))) = ucast (vma + of_nat (i div 2))"
    and "next_pc (filled s vma (block_line vma + i))
      = next_pc (decoded_line (block_line vma) vma (block_words s vma) (InstructionCache s) (block_line vma + i))"
    and "code (filled s vma (block_line vma + i))
      = code (decoded_line (block_line vma) vma (block_words s vma) (InstructionCache s) (block_line vma + i))"
    and "next_cp (filled s vma (block_line vma + i)) = CacheLine j \<longleftrightarrow>
      next_cp (decoded_line (block_line vma) vma (block_words s vma) (InstructionCache s) (block_line vma + i))
        = CacheLine j
      \<and> (i = 0 \<longrightarrow> vma \<le> ucast (DATA (next_pc (filled s vma (block_line vma + i)))))
      \<and> (i \<in> {60, 61, 62, 63} \<longrightarrow> ucast (DATA (next_pc (filled s vma (block_line vma + i)))) < vma + 32)"
proof -
  let ?b = "block_line vma" and ?ws = "block_words s vma" and ?c = "InstructionCache s"
  have d: "decode_block ?b vma ?ws ?c (?b + i) = decoded_line ?b vma ?ws ?c (?b + i)"
    using assms by (simp add: decode_block_nth block_words_def)
  have pc: "DATA (line_pc (decoded_line ?b vma ?ws ?c (?b + i))) = ucast (vma + of_nat (i div 2))"
    by (simp add: decoded_line_def decode_lines_pc Let_def)
  show "DATA (line_pc (filled s vma (?b + i))) = ucast (vma + of_nat (i div 2))"
    unfolding filled_def close_block_fields d by (rule pc)
  show "next_pc (filled s vma (?b + i)) = next_pc (decoded_line ?b vma ?ws ?c (?b + i))"
    "code (filled s vma (?b + i)) = code (decoded_line ?b vma ?ws ?c (?b + i))"
    unfolding filled_def close_block_fields d by (rule refl)+
  show "next_cp (filled s vma (?b + i)) = CacheLine j \<longleftrightarrow>
      next_cp (decoded_line ?b vma ?ws ?c (?b + i)) = CacheLine j
      \<and> (i = 0 \<longrightarrow> vma \<le> ucast (DATA (next_pc (filled s vma (?b + i)))))
      \<and> (i \<in> {60, 61, 62, 63} \<longrightarrow> ucast (DATA (next_pc (filled s vma (?b + i)))) < vma + 32)"
    unfolding filled_def close_block_fields close_block_link d by simp
qed

lemma filled_outside:
  "i < block_line vma \<or> block_line vma + 64 \<le> i \<Longrightarrow> filled s vma i = InstructionCache s i"
  by (auto simp: filled_def close_block_outside decode_block_nth block_words_def)

text \<open>A link that survives the closing leads to the word \<open>k\<close> of the same block.\<close>

lemma decoded_link:
  assumes "code (decoded_line e v ws c (e + i)) \<noteq> DispatchIllegalInstruction"
    and "next_cp (decoded_line e v ws c (e + i)) = CacheLine j"
  obtains (here) "even i" "next_pc (decoded_line e v ws c (e + i)) = mkobj TypeOddPC (ucast (v + of_nat (i div 2)))"
      "j = e + i + 1"
  | (next_word) "even i"
      "next_pc (decoded_line e v ws c (e + i)) = mkobj TypeEvenPC (ucast (v + of_nat (i div 2) + 1))" "j = e + i + 2"
  | (previous) "even i"
      "next_pc (decoded_line e v ws c (e + i)) = mkobj TypeOddPC (ucast (v + of_nat (i div 2) - 1))" "j = e + i + 1 - 2"
  | (follow) "odd i"
      "next_pc (decoded_line e v ws c (e + i)) = mkobj TypeEvenPC (ucast (v + of_nat (i div 2) + 1))" "j = e + i + 1"
  | (over) "odd i"
      "next_pc (decoded_line e v ws c (e + i)) = mkobj TypeEvenPC (ucast (v + of_nat (i div 2) + 2))" "j = e + i + 3"
proof (cases "even i")
  case True
  then have i: "2 * (i div 2) = i" by presburger
  have l: "decoded_line e v ws c (e + i) = fst (decode_lines (e + i) (v + of_nat (i div 2))
      (ucast (TAG (ws ! (i div 2)))) (DATA (ws ! (i div 2))) (c (e + i), c (e + i + 1)))"
    using True by (simp add: decoded_line_def Let_def i)
  note link = assms [unfolded l]
  show ?thesis
    by (rule decode_lines_even_link [OF link(2,1)])
      (use True l here next_word previous in \<open>simp_all add: add.assoc\<close>)
next
  case False
  then have i: "Suc (2 * (i div 2)) = i" by presburger
  have l: "decoded_line e v ws c (e + i) = snd (decode_lines (e + 2 * (i div 2)) (v + of_nat (i div 2))
      (ucast (TAG (ws ! (i div 2)))) (DATA (ws ! (i div 2))) (c (e + 2 * (i div 2)), c (e + 2 * (i div 2) + 1)))"
    using False by (simp add: decoded_line_def Let_def)
  have j: "e + 2 * (i div 2) + 2 = e + i + 1" "e + 2 * (i div 2) + 4 = e + i + 3" using i by simp_all
  note link = assms [unfolded l]
  show ?thesis
    by (rule decode_lines_odd_link [OF link(2,1)])
      (use False l j follow over in \<open>simp_all only: simp_thms\<close>)
qed

lemma narrowed_le: "unat (ucast (ucast x :: u32) :: u64) \<le> unat x" for x :: u64
proof -
  have "unat (ucast (ucast x :: u32) :: u64) = take_bit 64 (unat (ucast x :: u32))"
    using unsigned_ucast_eq [of "ucast x :: u32", where 'c = 64 and 'a = nat] by simp
  also have "\<dots> \<le> unat (ucast x :: u32)" by simp
  also have "\<dots> = take_bit 32 (unat x)"
    using unsigned_ucast_eq [of x, where 'c = 32 and 'a = nat] by simp
  also have "\<dots> \<le> unat x" by simp
  finally show ?thesis .
qed

lemma filled_link:
  assumes inner: "inner_block vma" and i: "i < 64"
    and code: "code (filled s vma (block_line vma + i)) \<noteq> DispatchIllegalInstruction"
    and link: "next_cp (filled s vma (block_line vma + i)) = CacheLine j"
  obtains (inside) k t where "k < 32" "next_pc (filled s vma (block_line vma + i)) = mkobj t (ucast (vma + of_nat k))"
    "t = TypeEvenPC \<and> j = block_line vma + 2 * k \<or> t = TypeOddPC \<and> j = block_line vma + 2 * k + 1"
proof -
  define n where "n = next_pc (filled s vma (block_line vma + i))"
  note f = filled_line [OF i, of s vma, folded n_def]
  have within: "k < 32" if "n = mkobj t (ucast (vma + of_nat k))" "60 \<le> i" "k \<le> 33" for k t
  proof -
    have "i \<in> {60, 61, 62, 63}" using i that(2) by auto
    then have "ucast (DATA n) < vma + of_nat 32" using link f(4) by simp
    then show ?thesis
      using inner_block_add(3) [OF inner that(3)] inner_block_add(1) [OF inner, of 32]
      by (simp add: that(1) word_less_nat_alt)
  qed
  have result: thesis if "n = mkobj t (ucast (vma + of_nat k))" "k \<le> 33" "i < 60 \<longrightarrow> k < 32"
    "t = TypeEvenPC \<and> j = block_line vma + 2 * k \<or> t = TypeOddPC \<and> j = block_line vma + 2 * k + 1" for k t
    using within [OF that(1) _ that(2)] that inside [folded n_def] by (cases "60 \<le> i") auto
  have dcode: "code (decoded_line (block_line vma) vma (block_words s vma) (InstructionCache s) (block_line vma + i))
      \<noteq> DispatchIllegalInstruction"
    using code f(3) by simp
  have dlink: "next_cp (decoded_line (block_line vma) vma (block_words s vma) (InstructionCache s) (block_line vma + i))
      = CacheLine j"
    using link f(4) by simp
  show ?thesis
  proof (rule decoded_link [OF dcode dlink, folded f(2)])
    assume "even i" "n = mkobj TypeOddPC (ucast (vma + of_nat (i div 2)))" "j = block_line vma + i + 1"
    with i show thesis by (intro result [of _ "i div 2"]) auto
  next
    assume "even i" "n = mkobj TypeEvenPC (ucast (vma + of_nat (i div 2) + 1))" "j = block_line vma + i + 2"
    with i show thesis by (intro result [of _ "i div 2 + 1"]) (auto simp: algebra_simps)
  next
    assume a: "even i" "n = mkobj TypeOddPC (ucast (vma + of_nat (i div 2) - 1))" "j = block_line vma + i + 1 - 2"
    have "i \<noteq> 0"
    proof
      assume z: "i = 0"
      have u: "unat (vma - 1) = unat vma - 1" using inner by (simp add: inner_block_def unat_sub word_le_nat_alt)
      have "unat vma \<le> unat (ucast (DATA n) :: u64)"
        using iffD1 [OF f(4) link] z by (simp add: word_le_nat_alt)
      also have "\<dots> \<le> unat (vma - 1)"
        using narrowed_le [of "vma - 1"] unfolding a(2) z by simp
      finally show False using u inner by (auto simp: inner_block_def)
    qed
    then obtain m where "i = 2 * Suc m" using a(1) by (metis evenE not0_implies_Suc mult_0_right)
    with a i show thesis by (intro result [of _ m]) (auto simp: algebra_simps)
  next
    assume "odd i" "n = mkobj TypeEvenPC (ucast (vma + of_nat (i div 2) + 1))" "j = block_line vma + i + 1"
    with i show thesis by (intro result [of _ "i div 2 + 1"]) (auto simp: algebra_simps elim!: oddE)
  next
    assume "odd i" "n = mkobj TypeEvenPC (ucast (vma + of_nat (i div 2) + 2))" "j = block_line vma + i + 3"
    with i show thesis by (intro result [of _ "i div 2 + 2"]) (auto simp: algebra_simps elim!: oddE)
  qed
qed

subsection \<open>The links are kept\<close>

lemma inner_blockI:
  assumes "32 \<le> (ucast (block_start d + of_nat k) :: u32)" "(ucast (block_start d + of_nat k) :: u32) < 0xffffffe0" "k < 32"
  shows "inner_block (block_start d)"
proof -
  define n where "n = unat (block_start d)"
  have d: "unat d < 2 ^ 32" by (rule order_less_le_trans [OF unsigned_less]) simp
  have n: "n = unat d div 32 * 32" by (simp add: n_def block_start_unat)
  have "unat d div 32 < 2 ^ 27" using d by (simp add: div_less_iff_less_mult)
  then have m: "n mod 32 = 0" "n + k < 2 ^ 32" using n assms(3) by simp_all
  have "unat (block_start d + of_nat k) = n + k"
    using m(2) assms(3) by (simp add: unat_word_ariths unat_of_nat n_def)
  then have "unat (ucast (block_start d + of_nat k) :: u32) = n + k"
    using m(2) by (simp only: unsigned_ucast_eq take_bit_nat_eq_self_iff) simp
  then have "32 \<le> n + k" "n + k < 0xffffffe0"
    using assms(1,2) by (simp_all add: word_le_nat_alt word_less_nat_alt)
  moreover obtain q where "n = 32 * q" using m(1) by auto
  ultimately show ?thesis
    using m(1) assms(3) unfolding inner_block_def n_def [symmetric] by (cases q) simp_all
qed

lemma linked_other:
  assumes "c' i = c i" "\<And>j. j div 64 = i div 64 \<Longrightarrow> c' j = c j" "linked_line c i"
  shows "linked_line c' i"
  using assms(3) unfolding linked_line_def assms(1) by (metis assms(2))

lemma block_line_mod: "block_line (block_start d) mod 64 = 0"
  by (simp add: block_line_unat block_start_unat mod_mod_cancel)

lemma filled_linked:
  assumes "cache_linked s" "i < 2048"
  shows "linked_line (filled s (block_start d)) i"
proof (cases "i div 64 = block_line (block_start d) div 64")
  let ?b = "block_line (block_start d)" and ?c = "filled s (block_start d)"
  have b64: "?b mod 64 = 0" by (rule block_line_mod)
  case True
  then obtain h where h: "i = ?b + h" "h < 64"
    using b64 by (metis add.commute div_mult_mod_eq mod_less_divisor add.right_neutral zero_less_numeral)
  show ?thesis
    unfolding linked_line_def
  proof (intro impI allI, elim conjE)
    fix j
    assume code: "code (?c i) \<noteq> DispatchIllegalInstruction" and link: "next_cp (?c i) = CacheLine j"
      and lo: "32 \<le> DATA (line_pc (?c i))" and hi: "DATA (line_pc (?c i)) < 0xffffffe0"
    have inner: "inner_block (block_start d)"
      using lo hi filled_line(1) [OF h(2), of s "block_start d"] h(2)
      unfolding h(1) by (intro inner_blockI [of d "h div 2"]) simp_all
    obtain k t where k: "k < 32" "next_pc (?c i) = mkobj t (ucast (block_start d + of_nat k))"
      "t = TypeEvenPC \<and> j = ?b + 2 * k \<or> t = TypeOddPC \<and> j = ?b + 2 * k + 1"
      using filled_link [OF inner h(2), of s j] code link unfolding h(1) by blast
    obtain o' where o': "j = ?b + o'" "o' < 64" "o' div 2 = k" using k(1,3) by auto
    obtain q where "?b = 64 * q" using b64 by auto
    then have "j div 64 = i div 64" using h o'(1,2) by simp
    moreover have "j = lookup_line (next_pc (?c i))"
      using k block_lookup [OF inner k(1)] by auto
    moreover have "DATA (line_pc (?c j)) = DATA (next_pc (?c i))"
      using filled_line(1) [OF o'(2), of s "block_start d"] o' k(2) by simp
    ultimately show "j div 64 = i div 64 \<and> j = lookup_line (next_pc (?c i))
        \<and> DATA (line_pc (?c j)) = DATA (next_pc (?c i))
        \<and> (TAG (next_pc (?c i)) = TypeEvenPC \<or> TAG (next_pc (?c i)) = TypeOddPC)"
      using k(2,3) by auto
  qed
next
  let ?b = "block_line (block_start d)"
  have b64: "?b mod 64 = 0" by (rule block_line_mod)
  case False
  have same: "filled s (block_start d) j = InstructionCache s j" if "j div 64 = i div 64" for j
  proof (rule filled_outside, rule ccontr)
    obtain q where q: "?b = 64 * q" using b64 by auto
    assume "\<not> (j < ?b \<or> ?b + 64 \<le> j)"
    then have "j div 64 = q" unfolding q by (intro div_nat_eqI) simp_all
    then show False using False that q by simp
  qed
  show ?thesis
    by (rule linked_other [of _ _ "InstructionCache s"]) (use same assms in \<open>auto simp: cache_linked_def\<close>)
qed

lemma cache_linked_cong: "InstructionCache s = InstructionCache t \<Longrightarrow> cache_linked s = cache_linked t"
  by (simp add: cache_linked_def)

lemma InstructionCacheMiss_linked: "keeps cache_linked InstructionCacheMiss"
proof (rule keepsI)
  fix s r s'
  assume a: "cache_linked s" "InstructionCacheMiss s = Some (r, s')" "r \<noteq> Undef"
  then have "InstructionCache s' = InstructionCache s
      \<or> InstructionCache s' = filled s (block_start (DATA (ps_pc s)))"
    using InstructionCacheMiss_cases by (auto simp: same_memory_def)
  then show "cache_linked s' \<and> (\<forall>v. r = Longjmp v \<longrightarrow> v \<in> longjmp_values)"
    using a(1) filled_linked [OF a(1)] InstructionCacheMiss_raises [of s _ s'] a(2)
    by (auto simp: cache_linked_def)
qed

text \<open>The page operations do not touch the cache, so a property of the cache alone is an invariant
  of the machine when a miss and the initialization keep it.\<close>

locale cache_invariant =
  fixes P :: "machine \<Rightarrow> bool"
  assumes cache_cong: "InstructionCache s = InstructionCache t \<Longrightarrow> P s = P t"
    and miss_keeps: "keeps P InstructionCacheMiss"
    and initial_keeps: "P s \<Longrightarrow> P (initial_registers s)"
begin

lemma page_updates [simp]:
  "P (DataSpace_update f s) = P s" "P (TagSpace_update g s) = P s" "P (mapped_update h s) = P s"
  "P (VMAttributeTable_update k s) = P s" "P (AttributesRegister_update l s) = P s"
  by (rule cache_cong; simp)+

lemma attribute_keeps [keeps_intros]:
  "keeps P (read_attribute vpn)" "keeps P (write_attribute vpn a)" "keeps P (Created vma)"
  "keeps P (SetCreated vma)" "keeps P (ClearCreated vma)" "keeps P (mmap_pages vma n)"
  "keeps P (munmap_page vma)"
  by (auto intro!: keeps_intros simp: read_attribute_def write_attribute_def Created_def SetCreated_def
      ClearCreated_def mmap_pages_def munmap_page_def Let_def)

lemma create_run_keeps [keeps_intros]: "keeps P (create_run n va pages)"
proof (induction n va pages rule: create_run.induct)
  case (1 n va pages)
  show ?case by (subst create_run.simps) (auto intro!: keeps_intros 1)
qed

lemma skip_run_keeps [keeps_intros]: "keeps P (skip_run aligned va pages)"
proof (induction aligned va pages rule: skip_run.induct)
  case (1 aligned va pages)
  show ?case by (subst skip_run.simps) (intro keeps_intros 1; simp)
qed

lemma ensure_loop_keeps [keeps_intros]: "keeps P (ensure_loop aligned pages va)"
proof (rule keeps_runI)
  fix s :: machine and y
  assume "ensure_loop aligned pages va s = Some y"
  then show "P s \<longrightarrow> ends_well P y"
  proof (induction rule: ensure_loop.raw_induct [rotated, consumes 1, case_names turn])
    case (turn g a0 a1 a2 s y)
    have rec: "keeps P (g a0 a1 a2)" for a0 a1 a2 using turn(1) by (intro keeps_runI)
    from turn(2) show ?case by (rule keeps_run [rotated]) (auto intro!: keeps_intros rec simp: Let_def)
  qed
qed

lemma destroy_loop_keeps [keeps_intros]: "keeps P (destroy_loop n va)"
  by (induction n va rule: destroy_loop.induct) (auto intro!: keeps_intros simp: DestroyVirtualAddress_def)

lemma enable_loop_keeps [keeps_intros]: "keeps P (enable_loop vpn n)"
  by (induction vpn n rule: enable_loop.induct) (auto intro!: keeps_intros)

end

sublocale cache_invariant \<subseteq> machine_invariant P
  by unfold_locales
    (auto intro!: keeps_intros miss_keeps initial_keeps simp: EnsureVirtualAddressRange_def
       DestroyVirtualAddressRange_def vm_write_attributes_def VirtualMemoryEnable_def reply_def Let_def
       dest: cache_cong)

lemma initial_linked: "cache_linked (initial_registers s)"
  by (simp add: cache_linked_def linked_line_def initial_registers_def initial_line_def)

interpretation links: cache_invariant cache_linked
  by unfold_locales (auto intro: InstructionCacheMiss_linked initial_linked dest: cache_linked_cong)

subsection \<open>Lookup\<close>

text \<open>A lookup of the word \<open>0x2000\<close> in the empty cache fills the block.\<close>

lemma read_block_quiet: "range_ok s vma n \<Longrightarrow> read_block_loop (\<lambda>i obj. ret ()) i vma n s
    = Some (Ret (), at_vma (memory_vma s + of_nat n) s)"
proof (induction n arbitrary: i vma s)
  case 0
  then show ?case by (simp add: prog_simps at_vma_def)
next
  case (Suc n)
  have "accessible s vma" "range_ok s (vma + 1) n" using range_ok_Suc [OF Suc.prems] by simp_all
  then show ?case
    using Suc.IH [of "at_vma (memory_vma s + 1) s" "vma + 1" "Suc i"]
    by (simp add: prog_simps next_memory_vma_eval) (simp add: at_vma_def algebra_simps)
qed

lemma InstructionCacheMiss_eval:
  assumes "range_ok s (block_start (DATA (ps_pc s))) 32"
  shows "InstructionCacheMiss s = Some (Ret (), (at_vma (block_start (DATA (ps_pc s)) + 32) s)
     \<lparr>InstructionCache := filled s (block_start (DATA (ps_pc s)))\<rparr>)"
proof -
  let ?v = "block_start (DATA (ps_pc s))"
  have r: "range_ok (at_vma ?v s) ?v 32" using assms by simp
  have "VirtualMemoryReadBlock ?v (\<lambda>i obj. ret ()) 32 s = Some (Ret (), at_vma (?v + 32) s)"
    using read_block_quiet [OF r, of 0]
    by (simp add: VirtualMemoryReadBlock_def prog_simps at_vma_def)
  moreover have "space_object (at_vma (?v + 32) s) = space_object s" by (simp add: fun_eq_iff)
  ultimately show ?thesis
    by (simp add: InstructionCacheMiss_def prog_simps filled_def block_words_def)
      (simp add: at_vma_def)
qed

lemma range_ok_cong: "mapped s = mapped t \<Longrightarrow> range_ok s = range_ok t"
  by (simp add: range_ok_def accessible_def fun_eq_iff)

lemma filled_cong: "DataSpace s = DataSpace t \<Longrightarrow> TagSpace s = TagSpace t \<Longrightarrow>
    InstructionCache s = InstructionCache t \<Longrightarrow> filled s = filled t"
  by (intro ext) (simp add: filled_def block_words_def space_object_def)

definition pc_block :: "machine \<Rightarrow> u64" where
  "pc_block s = block_start (DATA (pc s))"

lemma lookup_miss:
  assumes "TypeEqualP (TAG (pc s)) TypeEvenPC \<or> TypeEqualP (TAG (pc s)) TypeOddPC"
    and "DATA (line_pc (InstructionCache s (lookup_line (pc s)))) \<noteq> DATA (pc s)"
    and "range_ok s (pc_block s) 32"
  shows "\<exists>t. at_InstructionCacheLookup s = Some (Ret AtDispatch, t) \<and> pc t = pc s
    \<and> cp t = CacheLine (lookup_line (pc s)) \<and> mapped t = mapped s
    \<and> VMAttributeTable t = VMAttributeTable s \<and> InstructionCache t = filled s (pc_block s)"
proof -
  let ?s = "s\<lparr>cp := CacheLine (lookup_line (pc s)), ps_sp := sp s, ps_restartsp := restartsp s,
    ps_fp := fp s, ps_lp := lp s, ps_pc := pc s\<rparr>"
  have "range_ok ?s (pc_block s) 32" using assms(3) range_ok_cong [of ?s s] by simp
  moreover have "filled ?s = filled s" by (rule filled_cong) simp_all
  ultimately have miss: "InstructionCacheMiss ?s
      = Some (Ret (), (at_vma (pc_block s + 32) ?s)\<lparr>InstructionCache := filled s (pc_block s)\<rparr>)"
    using InstructionCacheMiss_eval [of ?s] by (simp add: pc_block_def)
  have "\<not> TypeEqualP (TAG (pc s)) TypeNIL"
    using assms(1) by (auto simp: TypeEqualP_iff)
  then show ?thesis
    using assms(1,2) miss
    by (simp add: at_InstructionCacheLookup_def prog_simps current_line_def DecacheRegisters_def
        EncacheRegisters_def at_vma_def)
qed

lemma pc_line:
  "lookup_line p = block_line (block_start (DATA p)) + (2 * (unat (DATA p) mod 32) + unat (TAG p AND 1))"
proof -
  have "2 * unat (DATA p) mod 2048 = 2 * (unat (DATA p) mod 1024)"
    using mod_mult_mult1 [of 2 "unat (DATA p)" 1024] by simp
  moreover have "2 * (unat (DATA p) div 32 * 32) mod 2048 = 64 * (unat (DATA p) div 32 mod 32)"
    using mod_mult_mult1 [of 64 "unat (DATA p) div 32" 32] by simp
  moreover have "unat (DATA p) mod 1024 = 32 * (unat (DATA p) div 32 mod 32) + unat (DATA p) mod 32"
    using mod_mult2_eq [of "unat (DATA p)" 32 32] by simp
  ultimately show ?thesis by (simp add: lookup_line_unat block_line_unat block_start_unat)
qed

lemma filled_pc: "DATA (line_pc (filled s (block_start (DATA p)) (lookup_line p))) = DATA p"
proof -
  let ?h = "2 * (unat (DATA p) mod 32) + unat (TAG p AND 1)"
  have tag: "unat (TAG p AND 1) < 2"
    by (simp add: and_one_eq unat_mod)
  have h: "?h < 64" "?h div 2 = unat (DATA p) mod 32"
    using tag mod_less_divisor [of 32 "unat (DATA p)"] by simp_all
  have less: "unat (DATA p) < 2 ^ 32" by (rule order_less_le_trans [OF unsigned_less]) simp
  have "unat (block_start (DATA p) + of_nat (unat (DATA p) mod 32)) = unat (DATA p)"
    using less by (simp add: unat_word_ariths unat_of_nat block_start_unat)
  also have "\<dots> = unat (ucast (DATA p) :: u64)"
    using less unsigned_ucast_eq [of "DATA p", where 'c = 64 and 'a = nat]
      take_bit_nat_eq_self [of "unat (DATA p)" 64] by simp
  finally have "block_start (DATA p) + of_nat (unat (DATA p) mod 32) = ucast (DATA p)"
    by (simp add: word_unat_eq_iff)
  then have "ucast (block_start (DATA p) + of_nat (unat (DATA p) mod 32)) = DATA p" by simp
  then show ?thesis unfolding pc_line filled_line(1) [OF h(1)] h(2) .
qed

subsection \<open>Properties\<close>

lemma lookup_hit:
  assumes "TypeEqualP (TAG (pc t)) TypeEvenPC \<or> TypeEqualP (TAG (pc t)) TypeOddPC"
    "cp t = CacheLine (lookup_line (pc t))"
    "DATA (line_pc (InstructionCache t (lookup_line (pc t)))) = DATA (pc t)"
  shows "at_InstructionCacheLookup t = Some (Ret AtDispatch, t)"
proof -
  have "t\<lparr>cp := CacheLine (lookup_line (pc t))\<rparr> = t" using assms(2) by (intro machine.equality) simp_all
  moreover have "\<not> TypeEqualP (TAG (pc t)) TypeNIL" using assms(1) by (auto simp: TypeEqualP_iff)
  ultimately show ?thesis
    using assms by (simp add: at_InstructionCacheLookup_def prog_simps current_line_def)
qed

text \<open>What the line of a program counter is after a miss: the word that memory holds there, decoded.\<close>

definition decoded_pc :: "machine \<Rightarrow> InstructionCacheLine" where
  "decoded_pc s = (let p = pc s; w = space_object s (ucast (DATA p)); e = 2 * (unat (DATA p) mod 1024);
       ls = decode_lines e (ucast (DATA p)) (ucast (TAG w)) (DATA w) (InstructionCache s e, InstructionCache s (e + 1))
     in if TypeEqualP (TAG p) TypeOddPC then snd ls else fst ls)"

lemma pc_parity:
  assumes "TypeEqualP (TAG p) TypeEvenPC \<or> TypeEqualP (TAG p) TypeOddPC"
  shows "unat (TAG p AND 1) = (if TypeEqualP (TAG p) TypeOddPC then 1 else 0)"
proof -
  have "\<not> bit (TAG p) 0" if "TypeEqualP (TAG p) TypeEvenPC"
  proof -
    have "\<not> bit ((TAG p XOR 38) AND 63) 0" using that by (simp add: TypeEqualP_def del: bit_0)
    then show ?thesis by (simp add: bit_simps del: bit_0)
  qed
  moreover have "bit (TAG p) 0" if "TypeEqualP (TAG p) TypeOddPC"
  proof -
    have "\<not> bit ((TAG p XOR 39) AND 63) 0" using that by (simp add: TypeEqualP_def del: bit_0)
    then show ?thesis by (simp add: bit_simps del: bit_0)
  qed
  moreover have "TAG p AND 1 = (if bit (TAG p) 0 then 1 else 0)"
    by (simp add: and_one_eq mod_2_eq_odd bit_0)
  ultimately show ?thesis using assms by auto
qed

lemma pc_word: "block_start (DATA p) + of_nat (unat (DATA p) mod 32) = (ucast (DATA p) :: u64)"
proof -
  have less: "unat (DATA p) < 2 ^ 32" by (rule order_less_le_trans [OF unsigned_less]) simp
  have "unat (block_start (DATA p) + of_nat (unat (DATA p) mod 32)) = unat (DATA p)"
    using less by (simp add: unat_word_ariths unat_of_nat block_start_unat)
  also have "\<dots> = unat (ucast (DATA p) :: u64)"
    using less unsigned_ucast_eq [of "DATA p", where 'c = 64 and 'a = nat]
      take_bit_nat_eq_self [of "unat (DATA p)" 64] by simp
  finally show ?thesis by (simp add: word_unat_eq_iff)
qed

text \<open>Closing a block leaves the other fields of a line.\<close>

definition same_but_link :: "InstructionCacheLine \<Rightarrow> InstructionCacheLine \<Rightarrow> bool" where
  "same_but_link l l' \<longleftrightarrow> l' = l\<lparr>next_cp := next_cp l'\<rparr> \<and> (next_cp l' = next_cp l \<or> next_cp l' = LookupCP)"

lemma close_block_same: "same_but_link (c i) (close_block b vma c i)"
  by (simp add: same_but_link_def close_block_def force_lookup_line Let_def)

lemma filled_decoded:
  assumes "TypeEqualP (TAG (pc s)) TypeEvenPC \<or> TypeEqualP (TAG (pc s)) TypeOddPC"
  shows "same_but_link (decoded_pc s) (filled s (pc_block s) (lookup_line (pc s)))"
proof -
  let ?p = "pc s" and ?b = "block_line (pc_block s)" and ?k = "unat (DATA (pc s)) mod 32"
  let ?odd = "unat (TAG ?p AND 1)"
  have odd: "?odd = (if TypeEqualP (TAG ?p) TypeOddPC then 1 else 0)" by (rule pc_parity [OF assms])
  have l: "lookup_line ?p = ?b + (2 * ?k + ?odd)" by (simp add: pc_line pc_block_def)
  have "lookup_line ?p = 2 * (unat (DATA ?p) mod 1024) + ?odd"
    using mod_mult_mult1 [of 2 "unat (DATA ?p)" 1024] by (simp add: lookup_line_unat)
  with l have e: "?b + 2 * ?k = 2 * (unat (DATA ?p) mod 1024)" by simp
  have k: "?k < 32" by simp
  have w: "block_words s (pc_block s) ! ?k = space_object s (ucast (DATA ?p))"
    using k pc_word [of ?p] by (simp add: block_words_def pc_block_def)
  have d: "decoded_line ?b (pc_block s) (block_words s (pc_block s)) (InstructionCache s) (lookup_line ?p) = decoded_pc s"
    unfolding decoded_line_def decoded_pc_def l using e w pc_word [of ?p] odd
    by (auto simp: Let_def pc_block_def)
  have "lookup_line ?p < ?b + 2 * length (block_words s (pc_block s))"
    using k odd unfolding l by (auto simp: block_words_def)
  then have "decode_block ?b (pc_block s) (block_words s (pc_block s)) (InstructionCache s) (lookup_line ?p) = decoded_pc s"
    using d l by (simp add: decode_block_nth)
  then show ?thesis unfolding filled_def using close_block_same by metis
qed

text \<open>Claim C15: a lookup of an even or odd program counter whose block of memory is
  mapped goes on at \<open>Dispatch\<close>, with the program counter as it was and its line as the current one. A line
  that is labelled with the address is used as it is, and nothing else changes; this is the case even for a line
  never filled, which is labelled with the last address, when the program counter has that address.
  Otherwise the current line is afterwards the decoding of the word that memory holds
  at the address, the half that the program counter names, with its link or a lookup in the place of the link; and the
  lines of the other blocks are as they were.\<close>

theorem lookup_finds:
  assumes "TypeEqualP (TAG (pc s)) TypeEvenPC \<or> TypeEqualP (TAG (pc s)) TypeOddPC"
    and "range_ok s (block_start (DATA (pc s))) 32"
  shows "\<exists>t. at_InstructionCacheLookup s = Some (Ret AtDispatch, t) \<and> pc t = pc s
    \<and> cp t = CacheLine (lookup_line (pc s)) \<and> DATA (line_pc (current_line t)) = DATA (pc s)
    \<and> (if DATA (line_pc (InstructionCache s (lookup_line (pc s)))) = DATA (pc s)
       then t = s\<lparr>cp := CacheLine (lookup_line (pc s))\<rparr>
       else same_but_link (decoded_pc s) (current_line t)
         \<and> (\<forall>i. i div 64 \<noteq> lookup_line (pc s) div 64 \<longrightarrow> InstructionCache t i = InstructionCache s i))"
proof (cases "DATA (line_pc (InstructionCache s (lookup_line (pc s)))) = DATA (pc s)")
  case True
  have "\<not> TypeEqualP (TAG (pc s)) TypeNIL" using assms(1) by (auto simp: TypeEqualP_iff)
  then show ?thesis
    using assms(1) True by (simp add: at_InstructionCacheLookup_def prog_simps current_line_def)
next
  case False
  obtain t where t: "at_InstructionCacheLookup s = Some (Ret AtDispatch, t)" "pc t = pc s"
    "cp t = CacheLine (lookup_line (pc s))" "InstructionCache t = filled s (pc_block s)"
    using lookup_miss [OF assms(1) False] assms(2) by (auto simp: pc_block_def)
  have "same_but_link (decoded_pc s) (current_line t)"
    using filled_decoded [OF assms(1)] t(3,4) by (simp add: current_line_def)
  moreover have "filled s (pc_block s) i = InstructionCache s i" if "i div 64 \<noteq> lookup_line (pc s) div 64" for i
  proof (rule filled_outside, rule ccontr)
    let ?b = "block_line (pc_block s)"
    obtain m where m: "?b = 64 * m" using block_line_mod [of "DATA (pc s)"] by (auto simp: pc_block_def)
    have "unat (TAG (pc s) AND 1) < 2" by (simp add: and_one_eq unat_mod)
    then have "lookup_line (pc s) div 64 = m"
      using mod_less_divisor [of 32 "unat (DATA (pc s))"] m
      unfolding pc_line pc_block_def [symmetric] by (intro div_nat_eqI) simp_all
    moreover assume "\<not> (i < ?b \<or> ?b + 64 \<le> i)"
    then have "i div 64 = m" unfolding m by (intro div_nat_eqI) simp_all
    ultimately show False using that by simp
  qed
  ultimately show ?thesis
    using t False filled_pc [of s "pc s"] by (intro exI [of _ t]) (simp add: current_line_def pc_block_def)
qed

definition lookup_sample :: machine where
  "lookup_sample = (with_page 1 blank)\<lparr>pc := mkobj TypeEvenPC 0x2000\<rparr>"

lemma lookup_sample_simps [simp]:
  "pc lookup_sample = mkobj TypeEvenPC 0x2000" "InstructionCache lookup_sample = (\<lambda>_. blank_line)"
  "mapped lookup_sample = mapped (with_page 1 blank)" "block_start 0x2000 = 0x2000"
  "VMAttributeTable lookup_sample = VMAttributeTable (with_page 1 blank)"
  by (simp_all add: lookup_sample_def with_page_def block_start_def)

lemma lookup_sample_range: "range_ok lookup_sample 0x2000 32"
  using with_page_range [of 32 blank] range_ok_cong [of lookup_sample "with_page 1 blank"] by simp

theorem lookup_finds_witness:
  "\<exists>t. at_InstructionCacheLookup lookup_sample = Some (Ret AtDispatch, t) \<and> cp t = CacheLine 0
     \<and> DATA (line_pc (current_line t)) = 0x2000"
  using lookup_finds [of lookup_sample] lookup_sample_range
  by (auto simp: TypeEqualP_def lookup_line_def)

lemma sample_missed: "\<exists>t. seq_step\<^sup>*\<^sup>* (AtLookup, lookup_sample) (AtDispatch, t) \<and> mapped t 1
    \<and> InstructionCache t = filled lookup_sample 0x2000"
proof -
  obtain t where t: "at_InstructionCacheLookup lookup_sample = Some (Ret AtDispatch, t)"
    "mapped t = mapped (with_page 1 blank)" "InstructionCache t = filled lookup_sample 0x2000"
    using lookup_miss [of lookup_sample] lookup_sample_range
    by (auto simp: TypeEqualP_def pc_block_def blank_line_def)
  have "seq_step (AtLookup, lookup_sample) (position_after (Ret AtDispatch), t)"
    by (rule seq_step.run) (simp_all add: position_action_def t(1))
  then show ?thesis using t(2,3) by (intro exI [of _ t]) (simp add: r_into_rtranclp)
qed

text \<open>Claim C16: whatever the sequencer does from a state in which a page is mapped
  exactly when its attribute byte says it exists, this still holds afterwards: through any number
  of instructions, traps, interrupts and virtual memory commands, as long as nothing undefined
  happens.\<close>

theorem pages_agree_always:
  assumes "seq_step\<^sup>*\<^sup>* (p, s) (q, t)" "q \<noteq> Broken" "pages_agree s"
  shows "pages_agree t"
  using assms by (rule pages.steps_keep)

lemma lookup_sample_agrees: "pages_agree lookup_sample"
  by (simp add: pages_agree_def VMExists_def)

theorem pages_agree_always_witness:
  "\<exists>t. seq_step\<^sup>*\<^sup>* (AtLookup, lookup_sample) (AtDispatch, t) \<and> mapped t 1 \<and> pages_agree t"
  using sample_missed pages_agree_always [OF _ _ lookup_sample_agrees] by blast

subsection \<open>A machine that starts\<close>

text \<open>Memory with a page of zeros and a page in which \<open>IvoryProcessorSystemStartup\<close> finds a compiled function that begins there.\<close>

definition boot_sample :: machine where
  "boot_sample = (with_page 0x7c020 (with_page 1 blank))
     \<lparr>TagSpace := (\<lambda>_. 0)(0xf8041002 := ucast TypeCompiledFunction), DataSpace := (\<lambda>_. 0)(0xf8041002 := 0x2000)\<rparr>"

lemma start_areas:
  "EnsureVirtualAddressRange 0xf8000100 0xf00 s = Some (Ret 0xf8002100, ensured 0x7c000 1 s)"
  "EnsureVirtualAddressRange 0xf8062000 0x9e000 s = Some (Ret 0xf8100000, ensured 0x7c031 79 s)"
  using EnsureVirtualAddressRange_eval [of "0xf00" "0xf8000100" s]
    EnsureVirtualAddressRange_eval [of "0x9e000" "0xf8062000" s]
  by (simp_all add: page_count_def page_of_def)

lemma ensured_elsewhere:
  "page_of a < p \<or> p + n \<le> page_of a \<Longrightarrow> space_object (ensured p n s) a = space_object s a"
  "mapped s vpn \<Longrightarrow> mapped (ensured p n s) vpn"
  by (auto simp: ensured_def space_object_def fresh_def)

lemma ensured_machine [simp]:
  "StackCache (ensured p n s) = StackCache s" "StackCacheBase (ensured p n s) = StackCacheBase s"
  "ps_fp (ensured p n s) = ps_fp s" "ps_sp (ensured p n s) = ps_sp s" "ps_pc (ensured p n s) = ps_pc s"
  "control (ensured p n s) = control s" "continuation (ensured p n s) = continuation s"
  "InstructionCache (ensured p n s) = InstructionCache s"
  by (simp_all add: ensured_def)

lemma boot_initialized:
  "\<exists>s. InitializeIvoryProcessor boot_sample = Some (Ret (), s) \<and> ps_fp s = 8 \<and> ps_sp s = 9
     \<and> StackCacheBase s = 0xf8000100 \<and> ReadControlCallerFrameSize (control s) = 2
     \<and> ReadControlCallerFrameSize (ucast (DATA (StackCache s 9))) = 2
     \<and> mapped s 1 \<and> mapped s 0x7c020 \<and> space_object s 0xf8041002 = mkobj TypeCompiledFunction 0x2000
     \<and> space_object s 0x2000 = mkobj 0 0 \<and> InstructionCache s = InstructionCache (initial_registers boot_sample)"
  by (simp add: InitializeIvoryProcessor_def prog_simps PushOneFakeFrame_def start_areas ensured_elsewhere
      initial_registers_def Let_def page_of_def set_stack_def)
    (simp add: boot_sample_def space_object_def ReadControlCallerFrameSize_def WriteControlCallerFrameSize_def WriteControlArgumentSize_def
      WriteControlTrapMode_def ldb_def dpb_control_def dpb_def mask_eq_exp_minus_1 ensured_def fresh_def page_of_def)

lemma boot_started:
  "\<exists>s. IvoryProcessorSystemStartup True boot_sample = Some (Ret True, s) \<and> run_flag s
     \<and> ps_pc s = mkobj (0xc0 OR TypeEvenPC) 0x2000 \<and> mapped s 1 \<and> space_object s 0x2000 = mkobj 0 0
     \<and> InstructionCache s = InstructionCache (initial_registers boot_sample)"
proof -
  obtain s where s: "InitializeIvoryProcessor boot_sample = Some (Ret (), s)" "ps_fp s = 8" "ps_sp s = 9"
     "StackCacheBase s = 0xf8000100" "ReadControlCallerFrameSize (control s) = 2"
     "ReadControlCallerFrameSize (ucast (DATA (StackCache s 9))) = 2"
     "mapped s 1" "mapped s 0x7c020" "space_object s 0xf8041002 = mkobj TypeCompiledFunction 0x2000"
     "space_object s 0x2000 = mkobj 0 0" "InstructionCache s = InstructionCache (initial_registers boot_sample)"
    using boot_initialized by blast
  have r: "ReadVirtualMemory 0xf8041002 s = Some (Ret (mkobj TypeCompiledFunction 0x2000), at_vma 0xf8041002 s)"
    using s(4,8,9) VirtualMemoryRead_eval [of s "0xf8041002"]
    by (simp add: ReadVirtualMemory_def prog_simps in_stack_cache_def stack_cache_index_def accessible_def
        MemoryPageNumber_def)
  let ?t = "at_vma 0xf8041002 s"
  have "StackCache ?t = StackCache s" "ps_fp ?t = 8" "control ?t = control s" "mapped ?t 1" "space_object ?t 0x2000 = mkobj 0 0"
    "InstructionCache ?t = InstructionCache s"
    using s(2,7,10) by (simp_all add: at_vma_def space_object_def)
  then show ?thesis
    using s(1,5,6,11) r
    by (simp add: IvoryProcessorSystemStartup_def prog_simps find_boot_function_def start_frames_def set_stack_def stack_at_def
        ResetMachine_def PopOneFakeFrame_def StartMachine_def Let_def)
      (simp add: space_object_def)
qed

subsection \<open>The links from the start on\<close>

lemma next_lookup:
  assumes "cache_linked s" "cp s = CacheLine i" "i < 2048"
    and "code (current_line s) \<noteq> DispatchIllegalInstruction"
    and "32 \<le> DATA (line_pc (current_line s))" "DATA (line_pc (current_line s)) < 0xffffffe0"
    and "next_cp (current_line s) \<noteq> LookupCP"
  shows "\<exists>t. at_NextInstruction s = Some (Ret AtDispatch, t)
    \<and> at_InstructionCacheLookup t = Some (Ret AtDispatch, t)"
proof -
  obtain j where j: "next_cp (InstructionCache s i) = CacheLine j"
    using assms(2,7) by (cases "next_cp (InstructionCache s i)") (simp_all add: current_line_def)
  let ?t = "s\<lparr>pc := next_pc (current_line s), cp := CacheLine j\<rparr>"
  have linked: "linked_line (InstructionCache s) i" using assms(1,3) by (simp add: cache_linked_def)
  have c: "current_line s = InstructionCache s i" using assms(2) by (simp add: current_line_def)
  have l: "j = lookup_line (next_pc (current_line s))"
    "DATA (line_pc (InstructionCache s j)) = DATA (next_pc (current_line s))"
    "TAG (next_pc (current_line s)) = TypeEvenPC \<or> TAG (next_pc (current_line s)) = TypeOddPC"
    using linked j assms(4-6) unfolding linked_line_def c by blast+
  have "at_InstructionCacheLookup ?t = Some (Ret AtDispatch, ?t)"
    by (rule lookup_hit) (use l in \<open>auto simp: TypeEqualP_def\<close>)
  moreover have "at_NextInstruction s = Some (Ret AtDispatch, ?t)"
    using assms(2) j by (simp add: at_NextInstruction_def prog_simps current_line_def)
  ultimately show ?thesis by blast
qed

text \<open>A word of zeros, the packed instruction \<open>car\<close> twice, as the first of a block.\<close>

lemma zero_line:
  assumes "space_object s 0x2000 = mkobj 0 0"
  shows "code (filled s 0x2000 0) = ListI OpCar ModeFP" "DATA (line_pc (filled s 0x2000 0)) = 0x2000"
    "next_cp (filled s 0x2000 0) = CacheLine 1"
proof -
  have w: "block_words s 0x2000 ! 0 = mkobj 0 0" using assms by (simp add: block_words_def)
  have b: "block_line 0x2000 = 0" by (simp add: block_line_unat)
  have d: "decoded_line 0 0x2000 (block_words s 0x2000) (InstructionCache s) 0
      = packed_even 0 (set_next TypeOddPC 0x2000 (CacheLine 1) (set_line_pc 0x2000 (InstructionCache s 0)))"
    by (simp add: decoded_line_def decode_lines_def w Let_def)
  have c: "code (packed_even 0 l) = ListI OpCar ModeFP" for l
    by (simp add: packed_even_def decode_packed_def PackedInstructionDecoder_def
        PackedInstructionDecoder_0000_def modes4_def nth_append)
  note f = filled_line [of 0 s "0x2000", unfolded b add_0 d]
  show "code (filled s 0x2000 0) = ListI OpCar ModeFP" using f(3) c by simp
  show "DATA (line_pc (filled s 0x2000 0)) = 0x2000" using f(1) by simp
  show "next_cp (filled s 0x2000 0) = CacheLine 1" using f(2,4) by simp
qed

lemma boot_filled:
  "\<exists>t. reachable boot_sample (AtDispatch, t) \<and> cp t = CacheLine 0 \<and> code (InstructionCache t 0) = ListI OpCar ModeFP
     \<and> DATA (line_pc (InstructionCache t 0)) = 0x2000 \<and> next_cp (InstructionCache t 0) = CacheLine 1"
proof -
  obtain s where s: "IvoryProcessorSystemStartup True boot_sample = Some (Ret True, s)" "run_flag s"
     "ps_pc s = mkobj (0xc0 OR TypeEvenPC) 0x2000" "mapped s 1" "space_object s 0x2000 = mkobj 0 0"
     "InstructionCache s = InstructionCache (initial_registers boot_sample)"
    using boot_started by blast
  let ?u = "s\<lparr>sp := ps_sp s, restartsp := ps_sp s, fp := ps_fp s, lp := ps_lp s, pc := ps_pc s, immediate := mkobj TypeFixnum 0\<rparr>"
  have u: "reachable boot_sample (AtLookup, ?u)"
    by (rule reachable.start [OF s(1)]) (simp_all add: Runningp_def InstructionSequencer_def prog_simps s(2))
  have "mapped ?u = mapped (with_page 1 s)" using s(4) by (simp add: fun_eq_iff)
  then have "range_ok ?u 0x2000 32"
    using range_ok_cong [of ?u "with_page 1 s"] with_page_range [of 32 s] by simp
  moreover have p: "pc_block ?u = 0x2000" "lookup_line (pc ?u) = 0"
    by (simp_all add: pc_block_def s(3) block_start_def lookup_line_def)
  ultimately obtain t where t: "at_InstructionCacheLookup ?u = Some (Ret AtDispatch, t)" "cp t = CacheLine 0"
    "InstructionCache t = filled ?u 0x2000"
    using lookup_miss [of ?u] by (auto simp: s(3,6) TypeEqualP_def initial_registers_def initial_line_def)
  have "seq_step (AtLookup, ?u) (position_after (Ret AtDispatch), t)"
    by (rule seq_step.run) (simp_all add: position_action_def t(1))
  with u have "reachable boot_sample (AtDispatch, t)" by (simp add: reachable.step)
  moreover have "space_object ?u 0x2000 = mkobj 0 0" using s(5) by (simp add: space_object_def)
  ultimately show ?thesis using t(2,3) zero_line [of ?u] by (intro exI [of _ t]) simp
qed

text \<open>Claim C14: in everything that is reachable from the start of the machine, the links between the
  lines of the instruction cache are right: a line whose instruction is not illegal is linked only to the line of
  the same block that a lookup of its next program counter would give, and that line is labelled with
  that program counter. The lines of the first and the last block of memory are left out, since there the
  code makes wrong links. The links are right after every fill, of this block and of the others.\<close>

theorem cache_links_always:
  assumes "reachable s0 (q, t)" "q \<noteq> Broken"
  shows "cache_linked t"
  using links.reachable_keep [OF assms] initial_linked by blast

theorem cache_links_always_witness:
  "\<exists>t. reachable boot_sample (AtDispatch, t) \<and> cache_linked t \<and> next_cp (InstructionCache t 0) = CacheLine 1"
  using boot_filled cache_links_always [of boot_sample AtDispatch] by blast

text \<open>Claim C13: in everything that is reachable from the start of the machine, following the link of the current
  line is the same as a lookup: after \<open>NextInstruction\<close> through a link the lookup of the new program counter
  finds the very line that the link gave, and changes nothing. The current line is one of the cache, not
  illegal, and not in the first or the last block of memory.\<close>

theorem next_is_lookup:
  assumes "reachable s0 (q, s)" "q \<noteq> Broken" "cp s = CacheLine i" "i < 2048"
    and "code (current_line s) \<noteq> DispatchIllegalInstruction"
    and "32 \<le> DATA (line_pc (current_line s))" "DATA (line_pc (current_line s)) < 0xffffffe0"
    and "next_cp (current_line s) \<noteq> LookupCP"
  shows "\<exists>t. at_NextInstruction s = Some (Ret AtDispatch, t)
    \<and> at_InstructionCacheLookup t = Some (Ret AtDispatch, t)"
  using links.reachable_keep [OF assms(1,2) initial_linked] assms(3-8) by (rule next_lookup)

theorem next_is_lookup_witness:
  "\<exists>s t. reachable boot_sample (AtDispatch, s) \<and> at_NextInstruction s = Some (Ret AtDispatch, t)
     \<and> at_InstructionCacheLookup t = Some (Ret AtDispatch, t)"
proof -
  obtain s where s: "reachable boot_sample (AtDispatch, s)" "cp s = CacheLine 0" "code (InstructionCache s 0) = ListI OpCar ModeFP"
    "DATA (line_pc (InstructionCache s 0)) = 0x2000" "next_cp (InstructionCache s 0) = CacheLine 1"
    using boot_filled by blast
  have "\<exists>t. at_NextInstruction s = Some (Ret AtDispatch, t) \<and> at_InstructionCacheLookup t = Some (Ret AtDispatch, t)"
    by (rule next_is_lookup [OF s(1) _ s(2)]) (simp_all add: current_line_def s)
  then show ?thesis using s(1) by blast
qed

lemma sample_line:
  "code (filled lookup_sample 0x2000 0) = ListI OpCar ModeFP"
  by (rule zero_line) (simp add: space_object_def lookup_sample_def)

end
