(* ===== verification/StackCacheFacts.thy ===== *)
theory StackCacheFacts
  imports MemoryCycles MemoryFacts
begin

text \<open>
  Memory as the processor sees it: a window of 1024 words of the control stack lives in the stack
  cache, the rest in the data and tag spaces. Reads and writes through the window are those of an object
  store; scrolling the window down keeps what every address below the lost page holds, scrolling it
  up does not.
\<close>

unbundle bit_operations_syntax

subsection \<open>The store of the processor\<close>

definition cache_slot :: "machine \<Rightarrow> u64 \<Rightarrow> int" where
  "cache_slot s vma = uint (stack_cache_index s vma)"

definition processor_object :: "machine \<Rightarrow> u64 \<Rightarrow> LispObj" where
  "processor_object s vma =
     (if in_stack_cache s vma then StackCache s (cache_slot s vma) else space_object s vma)"

lemma cache_slot_slot: "in_stack_cache s vma \<Longrightarrow> slot (cache_slot s vma)"
  by (simp add: in_stack_cache_def cache_slot_def slot_def word_less_def)

lemma cache_slot_eq: "cache_slot s u = cache_slot s v \<longleftrightarrow> u = v"
  by (simp add: cache_slot_def stack_cache_index_def word_uint_eq_iff [symmetric])

lemma in_cache_simps [simp]:
  "in_stack_cache (put_slot i obj s) = in_stack_cache s" "in_stack_cache (at_vma v s) = in_stack_cache s"
  "in_stack_cache (vm_put v obj s) = in_stack_cache s" "cache_slot (put_slot i obj s) = cache_slot s"
  "cache_slot (at_vma v s) = cache_slot s" "cache_slot (vm_put v obj s) = cache_slot s"
  "StackCache (at_vma v s) = StackCache s" "StackCache (vm_put v obj s) = StackCache s"
  "accessible (put_slot i obj s) = accessible s" "space_object (put_slot i obj s) = space_object s"
  "StackCacheBase (at_vma v s) = StackCacheBase s" "StackCacheBase (vm_put v obj s) = StackCacheBase s"
  by (simp_all add: fun_eq_iff in_stack_cache_def stack_cache_index_def cache_slot_def at_vma_def
      vm_put_def accessible_def space_object_def)

definition after_read :: "u64 \<Rightarrow> machine \<Rightarrow> machine" where
  "after_read vma s = (if in_stack_cache s vma then s else at_vma vma s)"

definition after_write :: "u64 \<Rightarrow> LispObj \<Rightarrow> machine \<Rightarrow> machine" where
  "after_write vma obj s = vm_put vma obj (at_vma vma
     (if in_stack_cache s vma then put_slot (cache_slot s vma) obj s else s))"

lemma ReadVirtualMemory_eval [prog_simps]:
  "in_stack_cache s vma \<or> accessible s vma \<Longrightarrow>
     ReadVirtualMemory vma s = Some (Ret (processor_object s vma), after_read vma s)"
  by (auto simp: ReadVirtualMemory_def prog_simps processor_object_def after_read_def cache_slot_def [symmetric]
      cache_slot_slot)

lemma WriteVirtualMemory_eval [prog_simps]:
  "accessible s vma \<Longrightarrow> WriteVirtualMemory vma obj s = Some (Ret (), after_write vma obj s)"
  by (auto simp: WriteVirtualMemory_def prog_simps after_write_def cache_slot_def [symmetric] cache_slot_slot)

text \<open>A write to a page that is not mapped has changed the cache when it faults.\<close>

lemma WriteVirtualMemory_fault:
  assumes "vma < 0x100000000" "\<not> mapped s (MemoryPageNumber vma)"
  shows "WriteVirtualMemory vma obj s = Some (Longjmp PageNotResidentTrapVector,
    (at_vma vma (if in_stack_cache s vma then put_slot (cache_slot s vma) obj s else s))
      \<lparr>trap_vma := (trap_vma s)\<lparr>DATA := ucast vma\<rparr>\<rparr>)"
  using assms access_unmapped [of vma "at_vma vma (if in_stack_cache s vma then put_slot (cache_slot s vma) obj s else s)"]
  by (auto simp: WriteVirtualMemory_def VirtualMemoryWrite_def write_data_def prog_simps
      cache_slot_def [symmetric] cache_slot_slot at_vma_def put_slot_def)

definition mem_there :: "u64 \<Rightarrow> machine \<Rightarrow> u64 \<Rightarrow> bool" where
  "mem_there base s vma \<longleftrightarrow> StackCacheBase s = base \<and> accessible s vma"

definition mem_kept :: "u64 \<Rightarrow> u64 \<Rightarrow> LispObj \<Rightarrow> LispObj" where
  "mem_kept base vma obj = (if vma - base < 1024 then obj else kept_object obj)"

lemma base_simps [simp]:
  "StackCacheBase (after_read v s) = StackCacheBase s" "StackCacheBase (after_write v obj s) = StackCacheBase s"
  "accessible (after_read v s) = accessible s" "accessible (after_write v obj s) = accessible s"
  "in_stack_cache (after_read v s) = in_stack_cache s" "in_stack_cache (after_write v obj s) = in_stack_cache s"
  by (simp_all add: after_read_def after_write_def fun_eq_iff)

lemma object_after_read [simp]: "processor_object (after_read v s) = processor_object s"
  by (simp add: fun_eq_iff processor_object_def after_read_def)

lemma object_after_write: "processor_object (after_write v obj s) u =
    (if u = v then (if in_stack_cache s v then obj else kept_object obj) else processor_object s u)"
  by (auto simp: processor_object_def after_write_def cache_slot_eq)

interpretation mem: object_store ReadVirtualMemory WriteVirtualMemory "mem_there base" processor_object
    "mem_kept base" after_read after_write for base
  by unfold_locales
    (auto simp: prog_simps mem_there_def object_after_write mem_kept_def in_stack_cache_def stack_cache_index_def)

text \<open>The stack cache alone is a store too, at its 1024 slots, and so are the pointers to objects.\<close>

interpretation cache: object_store stack_at set_stack "\<lambda>s i. slot i" StackCache "\<lambda>_ obj. obj" "\<lambda>_ s. s" put_slot
  by unfold_locales (auto simp: prog_simps)

text \<open>Claim C17: what the processor writes to distinct addresses on mapped pages, in
  the window of the stack cache or out of it, it reads back, in any order of addresses and whole
  where the stack cache holds it, with the tag cut to a byte where it does not.\<close>

theorem memory_roundtrip:
  assumes "distinct (map fst kvs)" "\<forall>vma \<in> fst ` set kvs. accessible s vma"
  shows "\<exists>s'. bnd (stores WriteVirtualMemory kvs) (\<lambda>_. loads ReadVirtualMemory (map fst kvs)) s
    = Some (Ret (map (\<lambda>(vma, obj). if in_stack_cache s vma then obj else kept_object obj) kvs), s')"
  using mem.loads_after_stores [OF assms(1), of "StackCacheBase s" s] assms(2)
  by (simp add: mem_there_def mem_kept_def in_stack_cache_def stack_cache_index_def)

theorem memory_roundtrip_witness:
  "\<exists>s'. bnd (stores WriteVirtualMemory [(0x2000, mkobj 8 1), (0x2001, mkobj 0x108 2)])
     (\<lambda>_. loads ReadVirtualMemory [0x2000, 0x2001]) (with_page 1 blank)
   = Some (Ret [mkobj 8 1, mkobj 8 2], s')"
proof -
  have "accessible (with_page 1 blank) 0x2000" "accessible (with_page 1 blank) 0x2001"
    using with_page_range [of 2 blank] by (auto simp: range_ok_def dest: spec [of _ 0] spec [of _ 1])
  then show ?thesis
    using memory_roundtrip [of "[(0x2000, mkobj 8 1), (0x2001, mkobj 0x108 2)]" "with_page 1 blank"]
    by (simp add: in_stack_cache_def stack_cache_index_def kept_object_def)
qed

subsection \<open>Scrolling\<close>

lemma read_block_slots: "range_ok s vma n \<Longrightarrow> i + n \<le> 1024 \<Longrightarrow>
    read_block_loop (\<lambda>i obj. set_stack (int i) obj) i vma n s
      = Some (Ret (), (at_vma (memory_vma s + of_nat n) s)\<lparr>StackCache := \<lambda>j.
          if int i \<le> j \<and> j < int (i + n) then space_object s (vma + of_nat (nat j - i)) else StackCache s j\<rparr>)"
proof (induction n arbitrary: i vma s)
  case 0
  then show ?case by (simp add: prog_simps) (intro machine.equality; auto simp: fun_eq_iff)
next
  case (Suc n)
  let ?s = "at_vma (memory_vma s + 1) (put_slot (int i) (space_object s vma) s)"
  have a: "accessible s vma" "range_ok s (vma + 1) n" using range_ok_Suc [OF Suc.prems(1)] by simp_all
  have sl: "slot (int i)" using Suc.prems(2) by (simp add: slot_def)
  have r: "range_ok ?s (vma + 1) n" using a(2) by (simp add: range_ok_def)
  have m: "memory_vma (put_slot j obj s) = memory_vma s" for j obj by (simp add: put_slot_def)
  have shift: "vma + 1 + of_nat (nat j - Suc i) = vma + of_nat (nat j - i)" if "int (Suc i) \<le> j" for j
  proof -
    have "Suc i \<le> nat j" using that by linarith
    then obtain k where "nat j = Suc i + k" using le_Suc_ex by blast
    then show ?thesis by (simp add: algebra_simps)
  qed
  have sp: "space_object ?s = space_object s" "StackCache ?s = (StackCache s)(int i := space_object s vma)"
    "memory_vma ?s = memory_vma s + 1"
    by (simp_all add: fun_eq_iff)
  show ?case
    using a(1) sl Suc.IH [OF r, of "Suc i", unfolded sp] Suc.prems(2)
    by (simp add: prog_simps m)
      (intro machine.equality; auto simp: fun_eq_iff put_slot_def at_vma_def shift)
qed

definition moved_down :: "machine \<Rightarrow> int \<Rightarrow> LispObj" where
  "moved_down s i = (if 256 \<le> i \<and> i < 1024 then StackCache s (i - 256) else StackCache s i)"

lemma copy_pages_down: "copy_page 1 0 (copy_page 2 1 (copy_page 3 2 (StackCache s))) = moved_down s"
  by (auto simp: fun_eq_iff copy_page_def moved_down_def)

lemma copy_pages_up: "0 \<le> i \<Longrightarrow> i < 1024 \<Longrightarrow>
    copy_page 0 1 (copy_page 1 2 (copy_page 2 3 c)) i = c (768 + i mod 256)"
proof -
  assume i: "0 \<le> i" "i < 1024"
  then consider "i < 256" | "256 \<le> i" "i < 512" | "512 \<le> i" "i < 768" | "768 \<le> i" by linarith
  then show ?thesis
  proof cases
    case 1
    then show ?thesis using i by (simp add: copy_page_def add.commute)
  next
    case 2
    then have "i mod 256 = i - 256" by presburger
    then show ?thesis using 2 by (simp add: copy_page_def)
  next
    case 3
    then have "i mod 256 = i - 512" using i by presburger
    then show ?thesis using 3 by (simp add: copy_page_def)
  next
    case 4
    then have "i mod 256 = i - 768" using i by presburger
    then show ?thesis using 4 by (simp add: copy_page_def)
  qed
qed

lemma StackCacheScrollDown_eval:
  assumes "range_ok s (StackCacheBase s - 256) 256"
  shows "StackCacheScrollDown s = Some (Ret (), (at_vma (StackCacheBase s) (move_registers 256 s))
    \<lparr>StackCache := \<lambda>i. if 0 \<le> i \<and> i < 256 then space_object s (StackCacheBase s - 256 + of_nat (nat i))
       else moved_down s i\<rparr>)"
proof -
  let ?base = "StackCacheBase s - 256"
  let ?s = "at_vma ?base (move_registers 256 (s\<lparr>StackCache := moved_down s\<rparr>))"
  have sp: "space_object ?s = space_object s" "mapped ?s = mapped s"
    "StackCache ?s = moved_down s" "memory_vma ?s = ?base"
    by (simp_all add: fun_eq_iff space_object_def move_registers_def at_vma_def)
  have r: "range_ok ?s ?base 256" using assms sp(2) by (simp add: range_ok_def accessible_def)
  have "VirtualMemoryReadBlock ?base (\<lambda>i obj. set_stack (int i) obj) 256 (move_registers 256 (s\<lparr>StackCache := moved_down s\<rparr>))
      = Some (Ret (), (at_vma (?base + 256) ?s)\<lparr>StackCache := \<lambda>i.
          if 0 \<le> i \<and> i < 256 then space_object s (?base + of_nat (nat i)) else moved_down s i\<rparr>)"
    using read_block_slots [OF r, of 0, unfolded sp diff_zero] by (simp add: VirtualMemoryReadBlock_def prog_simps)
  moreover have "StackCache_update (\<lambda>c. copy_page 1 0 (copy_page 2 1 (copy_page 3 2 c))) s
      = s\<lparr>StackCache := moved_down s\<rparr>"
    by (intro machine.equality) (simp_all add: copy_pages_down)
  moreover have "StackCacheBase (move_registers 256 (s\<lparr>StackCache := moved_down s\<rparr>)) = ?base"
    by (simp add: move_registers_def)
  moreover have "(at_vma (?base + 256) ?s)\<lparr>StackCache := c\<rparr>
      = (at_vma (StackCacheBase s) (move_registers 256 s))\<lparr>StackCache := c\<rparr>" for c
    by (simp add: move_registers_def at_vma_def)
  ultimately show ?thesis
    by (simp only: StackCacheScrollDown_def thn_def bnd_basic)
qed

text \<open>Claim C18: when the page of the control stack below the window is
  mapped, scrolling down returns, moves the window down by 256 words and the three registers with it
  (they point to the same objects), and every address, but those of the page that leaves the window at
  its top, holds for the processor the object it held before.\<close>

theorem StackCacheScrollDown_transparent:
  assumes "range_ok s (StackCacheBase s - 256) 256"
  shows "\<exists>t. StackCacheScrollDown s = Some (Ret (), t) \<and> StackCacheBase t = StackCacheBase s - 256
    \<and> stack_vma t (ps_sp t) = stack_vma s (ps_sp s) \<and> stack_vma t (ps_fp t) = stack_vma s (ps_fp s)
    \<and> stack_vma t (ps_lp t) = stack_vma s (ps_lp s)
    \<and> (\<forall>vma. \<not> (768 \<le> stack_cache_index s vma \<and> in_stack_cache s vma) \<longrightarrow>
         processor_object t vma = processor_object s vma)"
proof -
  let ?t = "(at_vma (StackCacheBase s) (move_registers 256 s))
    \<lparr>StackCache := \<lambda>i. if 0 \<le> i \<and> i < 256 then space_object s (StackCacheBase s - 256 + of_nat (nat i))
       else moved_down s i\<rparr>"
  have base: "StackCacheBase ?t = StackCacheBase s - 256" "space_object ?t = space_object s"
    by (simp_all add: move_registers_def at_vma_def space_object_def fun_eq_iff)
  have "processor_object ?t vma = processor_object s vma"
    if v: "\<not> (768 \<le> stack_cache_index s vma \<and> in_stack_cache s vma)" for vma
  proof -
    define k where "k = vma - StackCacheBase s"
    have i: "stack_cache_index ?t vma = k + 256" "stack_cache_index s vma = k"
      by (simp_all add: stack_cache_index_def base k_def)
    have u: "uint (k + 256) = (uint k + 256) mod 2 ^ 64" by (simp add: uint_word_ariths)
    have lo: "0 \<le> uint k" "uint k < 2 ^ 64" using uint_bounded [of k] by simp_all
    consider "uint k < 768" | "2 ^ 64 - 256 \<le> uint k" | "1024 \<le> uint k" "uint k < 2 ^ 64 - 256"
      using v i by (force simp: in_stack_cache_def word_less_def word_le_def)
    then show ?thesis
    proof cases
      case 1
      then have "uint (k + 256) = uint k + 256" using u lo by simp
      then show ?thesis using 1 lo i
        by (simp add: processor_object_def in_stack_cache_def cache_slot_def word_less_def moved_down_def)
    next
      case 2
      then have k: "uint (k + 256) = uint k + 256 - 2 ^ 64"
        unfolding u using lo minus_mod_self2 [of "uint k + 256" "2 ^ 64"] by simp
      have "StackCacheBase s - 256 + of_nat (nat (uint (k + 256))) = vma"
        by (simp add: k_def)
      then show ?thesis using 2 lo i k
        by (simp add: processor_object_def in_stack_cache_def cache_slot_def word_less_def base)
    next
      case 3
      then have "uint (k + 256) = uint k + 256" using u lo by simp
      then show ?thesis using 3 i
        by (simp add: processor_object_def in_stack_cache_def word_less_def base)
    qed
  qed
  then show ?thesis
    unfolding StackCacheScrollDown_eval [OF assms]
    by (intro exI [of _ ?t]) (simp add: base, simp add: stack_vma_def move_registers_def at_vma_def)
qed

text \<open>The sample with two pages of stack behind the cache.\<close>

definition stack_sample :: machine where
  "stack_sample = (with_page 0x7c000 blank)\<lparr>StackCacheBase := 0xf8000200,
     StackCache := (\<lambda>i. mkobj TypeFixnum (word_of_int i))\<rparr>"

lemma stack_sample_simps [simp]:
  "StackCacheBase stack_sample = 0xf8000200" "mapped stack_sample = (\<lambda>p. p = 0x7c000)"
  "StackCache stack_sample = (\<lambda>i. mkobj TypeFixnum (word_of_int i))"
  "DataSpace stack_sample = (\<lambda>_. 0)" "TagSpace stack_sample = (\<lambda>_. 0)" "ps_sp stack_sample = 16"
  by (auto simp: stack_sample_def with_page_def fun_eq_iff)

lemma stack_sample_range:
  assumes "n \<le> 512"
  shows "range_ok stack_sample 0xf8000100 n" "range_ok stack_sample 0xf8000200 n"
proof -
  have "accessible stack_sample (0xf8000000 + of_nat i)" if "i < 8192" for i
  proof -
    have "unat (0xf8000000 + of_nat i :: u64) = 0xf8000000 + i"
      using that by (simp add: unat_word_ariths unat_of_nat)
    then show ?thesis using that by (simp add: accessible_def word_less_nat_alt page_number_eq page_of_def)
  qed
  then have a: "accessible stack_sample (0xf8000000 + of_nat (256 + i))"
    "accessible stack_sample (0xf8000000 + of_nat (512 + i))" if "i < n" for i
    using that assms by (simp_all del: of_nat_add)
  have u: "unat (0xf8000100 :: u64) = 0xf8000100" "unat (0xf8000200 :: u64) = 0xf8000200" by simp_all
  show "range_ok stack_sample 0xf8000100 n" "range_ok stack_sample 0xf8000200 n"
    using assms a unfolding range_ok_def u by (simp_all add: add.assoc [symmetric])
qed

theorem StackCacheScrollDown_transparent_witness:
  "\<exists>t. StackCacheScrollDown stack_sample = Some (Ret (), t)
     \<and> processor_object t 0xf80002ff = mkobj TypeFixnum 0xff \<and> processor_object t 0xf8000110 = mkobj 0 0"
proof -
  have "range_ok stack_sample (StackCacheBase stack_sample - 256) 256"
    using stack_sample_range(1) [of 256] by simp
  from StackCacheScrollDown_transparent [OF this] obtain t where t: "StackCacheScrollDown stack_sample = Some (Ret (), t)"
    "\<forall>vma. \<not> (768 \<le> stack_cache_index stack_sample vma \<and> in_stack_cache stack_sample vma) \<longrightarrow>
         processor_object t vma = processor_object stack_sample vma" by blast
  have "processor_object stack_sample 0xf80002ff = mkobj TypeFixnum 0xff"
    "processor_object stack_sample 0xf8000110 = mkobj 0 0"
    by (simp_all add: processor_object_def in_stack_cache_def stack_cache_index_def cache_slot_def space_object_def)
  then show ?thesis using t by (simp add: in_stack_cache_def stack_cache_index_def)
qed

text \<open>Claim C19: scrolling up writes the first page of the window to memory and
  moves the window and the registers, but it leaves the whole window filled with copies of its old
  last page: slot \<open>i\<close> holds what slot \<open>768 + i mod 256\<close> held. Only the
  last of the three pages that stay in the window keeps what the processor had there.\<close>

theorem StackCacheScrollUp_collapses:
  assumes "range_ok s (StackCacheBase s) 256"
  shows "\<exists>t. StackCacheScrollUp s = Some (Ret (), t) \<and> StackCacheBase t = StackCacheBase s + 256
    \<and> stack_vma t (ps_sp t) = stack_vma s (ps_sp s) \<and> stack_vma t (ps_fp t) = stack_vma s (ps_fp s)
    \<and> (\<forall>i. slot i \<longrightarrow> StackCache t i = StackCache s (768 + i mod 256))
    \<and> (\<forall>v. space_object t v = (if in_range (StackCacheBase s) 256 v
         then kept_object (StackCache s (int (unat v - unat (StackCacheBase s)))) else space_object s v))"
proof -
  let ?objs = "map (StackCache s) [0..255]"
  let ?u = "put_objects (StackCacheBase s) ?objs (at_vma (StackCacheBase s) s)"
  have put: "StackCache (put_objects v os u) = StackCache u" "StackCacheBase (put_objects v os u) = StackCacheBase u"
    "ps_sp (put_objects v os u) = ps_sp u" "ps_fp (put_objects v os u) = ps_fp u" for v os and u :: machine
    by (induction os arbitrary: v u) (simp_all add: at_vma_def vm_put_def)
  have r: "range_ok s (StackCacheBase s) (length ?objs)" using assms by simp
  let ?t = "move_registers (- 256) (StackCache_update
    (\<lambda>c. copy_page 0 1 (copy_page 1 2 (copy_page 2 3 c))) ?u)"
  have run: "StackCacheScrollUp s = Some (Ret (), ?t)"
    using VirtualMemoryWriteBlock_eval [OF r] by (simp add: StackCacheScrollUp_def prog_simps)
  have nth: "?objs ! k = StackCache s (int k)" if "k < 256" for k using that by simp
  have "space_object ?t v = (if in_range (StackCacheBase s) 256 v
         then kept_object (StackCache s (int (unat v - unat (StackCacheBase s)))) else space_object s v)" for v
  proof -
    have "space_object ?t v = space_object ?u v" by (simp add: space_object_def move_registers_def)
    also have "\<dots> = (if in_range (StackCacheBase s) 256 v
        then kept_object (?objs ! (unat v - unat (StackCacheBase s))) else space_object s v)"
      using space_put_objects [OF range_bound [OF r], of "at_vma (StackCacheBase s) s" v] by simp
    finally have v: "space_object ?t v = \<dots>" .
    have eq: "?objs ! (unat v - unat (StackCacheBase s)) = StackCache s (int (unat v - unat (StackCacheBase s)))"
      if "in_range (StackCacheBase s) 256 v"
      by (rule nth) (use that in \<open>auto simp: in_range_def\<close>)
    show ?thesis
    proof (cases "in_range (StackCacheBase s) 256 v")
      case True
      then show ?thesis unfolding v by (simp only: if_True eq)
    next
      case False
      then show ?thesis unfolding v by (simp only: if_False)
    qed
  qed
  moreover have "slot i \<Longrightarrow> StackCache ?t i = StackCache s (768 + i mod 256)" for i
    using copy_pages_up [of i "StackCache s"] by (simp add: move_registers_def put slot_def at_vma_def)
  ultimately show ?thesis
    using run by (intro exI [of _ ?t]) (simp add: stack_vma_def move_registers_def put at_vma_def)
qed

theorem StackCacheScrollUp_collapses_witness:
  "\<exists>t. StackCacheScrollUp stack_sample = Some (Ret (), t) \<and> StackCache t 3 = mkobj TypeFixnum 771
     \<and> StackCache t 259 = mkobj TypeFixnum 771"
proof -
  have "range_ok stack_sample (StackCacheBase stack_sample) 256"
    using stack_sample_range(2) [of 256] by simp
  from StackCacheScrollUp_collapses [OF this] show ?thesis by (auto simp: slot_def)
qed

end
