(* ===== verification/ForwardFacts.thy ===== *)
theory ForwardFacts
  imports StackCacheFacts
begin

text \<open>
  Memory cycles: a read follows the forwarding pointers of its cycle type to the word where they
  end. It returns when the chain ends, with the object there or the trap its data type calls for,
  and runs forever when the chain does not end.
\<close>

unbundle bit_operations_syntax

subsection \<open>The chain of forwarding pointers\<close>

definition cell_action :: "machine \<Rightarrow> nat \<Rightarrow> u64 \<Rightarrow> u8" where
  "cell_action s c v = MemoryActionTable ! c ! unat (TagType (TAG (processor_object s v)))"

definition cell_address :: "machine \<Rightarrow> u64 \<Rightarrow> u64" where
  "cell_address s v = ucast (DATA (processor_object s v))"

definition transport_fault :: "machine \<Rightarrow> nat \<Rightarrow> u64 \<Rightarrow> bool" where
  "transport_fault s c v \<longleftrightarrow>
     cell_action s c v AND (MemoryActionTransport OR MemoryActionTrap) = MemoryActionTransport
     \<and> OldspaceAddressP s (cell_address s v)"

definition cell_act :: "machine \<Rightarrow> nat \<Rightarrow> u64 \<Rightarrow> u8" where
  "cell_act s c v = cell_action s c v AND NOT MemoryActionTransport"

definition forwards :: "machine \<Rightarrow> nat \<Rightarrow> u64 \<Rightarrow> u64 \<Rightarrow> bool" where
  "forwards s c v w \<longleftrightarrow>
     \<not> transport_fault s c v \<and> cell_act s c v = MemoryActionIndirect \<and> w = cell_address s v"

definition readable_word :: "machine \<Rightarrow> u64 \<Rightarrow> bool" where
  "readable_word s v \<longleftrightarrow> in_stack_cache s v \<or> accessible s v"

text \<open>How a read ends at a word that does not forward it.\<close>

definition read_outcome :: "machine \<Rightarrow> nat \<Rightarrow> u64 \<Rightarrow> (u64 \<times> LispObj) res" where
  "read_outcome s c v = (let obj = processor_object s v in
     if transport_fault s c v then Longjmp TransportTrapVector
     else if cell_act s c v = 0 then Ret (v, obj)
     else if cell_act s c v = MemoryActionTrap then Longjmp ErrorTrapVector
     else if cell_act s c v = MemoryActionTransform
       then Ret (v, obj\<lparr>TAG := MergeCdr (TAG obj) TypeExternalValueCellPointer\<rparr>)
     else if cell_act s c v = MemoryActionMonitor then Longjmp MonitorTrapVector
     else Exit 1)"

subsection \<open>What a read leaves\<close>

text \<open>A read into a variable changes that variable, the address kept for the fault handler and, when
  it traps, the address of the trap.\<close>

fun put_var :: "ptr \<Rightarrow> LispObj \<Rightarrow> machine \<Rightarrow> machine" where
  "put_var (StackSlot i) obj s = put_slot i obj s"
| "put_var Immediate_var obj s = s\<lparr>immediate := obj\<rparr>"
| "put_var Scratch_var obj s = s\<lparr>scratch := obj\<rparr>"
| "put_var Auto obj s = s"

definition variable :: "ptr \<Rightarrow> bool" where
  "variable p \<longleftrightarrow> (\<forall>i. p \<noteq> StackSlot i)"

definition left_by :: "ptr \<Rightarrow> machine \<Rightarrow> machine \<Rightarrow> bool" where
  "left_by p s t \<longleftrightarrow> (\<exists>m d x. t = (put_var p x s)\<lparr>memory_vma := m, trap_vma := d\<rparr>)"

lemma left_by_refl: "variable p \<Longrightarrow> left_by p s s"
proof -
  assume v: "variable p"
  have "s = (put_var p (object_at s p) s)\<lparr>memory_vma := memory_vma s, trap_vma := trap_vma s\<rparr>"
    using v by (cases p) (simp_all add: variable_def)
  then show ?thesis unfolding left_by_def by blast
qed

lemma write_var_eval: "variable p \<Longrightarrow> write_ptr p obj s = Some (Ret (), put_var p obj s)"
  by (cases p) (simp_all add: variable_def prog_simps)

lemma left_by_view:
  assumes "left_by p s t" "variable p"
  shows "processor_object t = processor_object s" "accessible t = accessible s"
    "in_stack_cache t = in_stack_cache s" "OldspaceAddressP t = OldspaceAddressP s"
    "sp t = sp s" "StackCache t = StackCache s" "suspend t = suspend s"
  using assms
  by (cases p; auto simp: left_by_def variable_def fun_eq_iff processor_object_def accessible_def
      in_stack_cache_def stack_cache_index_def cache_slot_def space_object_def OldspaceAddressP_def Let_def)+

lemma left_by_steps:
  assumes "left_by p s t" "variable p"
  shows "left_by p s (put_var p obj (after_read v t))" "left_by p s (put_var p obj t)"
    "left_by p s (t\<lparr>trap_vma := d\<rparr>)"
proof -
  obtain m e x where t: "t = (put_var p x s)\<lparr>memory_vma := m, trap_vma := e\<rparr>"
    using assms(1) by (auto simp: left_by_def)
  have "put_var p obj (after_read v t) = (put_var p obj s)
      \<lparr>memory_vma := if in_stack_cache t v then m else v, trap_vma := e\<rparr>"
    using assms(2) unfolding t by (cases p) (simp_all add: variable_def after_read_def at_vma_def)
  then show "left_by p s (put_var p obj (after_read v t))" unfolding left_by_def by blast
  have "put_var p obj t = (put_var p obj s)\<lparr>memory_vma := m, trap_vma := e\<rparr>"
    using assms(2) unfolding t by (cases p) (simp_all add: variable_def)
  then show "left_by p s (put_var p obj t)" unfolding left_by_def by blast
  have "t\<lparr>trap_vma := d\<rparr> = (put_var p x s)\<lparr>memory_vma := m, trap_vma := d\<rparr>" unfolding t by simp
  then show "left_by p s (t\<lparr>trap_vma := d\<rparr>)" unfolding left_by_def by blast
qed

lemma left_by_trans: "left_by p s t \<Longrightarrow> left_by p t u \<Longrightarrow> variable p \<Longrightarrow> left_by p s u"
proof -
  assume l: "left_by p s t" "left_by p t u" and v: "variable p"
  obtain m d x where t: "t = (put_var p x s)\<lparr>memory_vma := m, trap_vma := d\<rparr>" using l(1) by (auto simp: left_by_def)
  obtain m' d' y where u: "u = (put_var p y t)\<lparr>memory_vma := m', trap_vma := d'\<rparr>" using l(2) by (auto simp: left_by_def)
  have "u = (put_var p y s)\<lparr>memory_vma := m', trap_vma := d'\<rparr>"
    unfolding u t using v by (cases p) (simp_all add: variable_def)
  then show "left_by p s u" unfolding left_by_def by blast
qed

lemma view_cells:
  assumes "left_by p s t" "variable p"
  shows "cell_action t = cell_action s" "cell_address t = cell_address s" "cell_act t = cell_act s"
    "transport_fault t = transport_fault s" "forwards t = forwards s" "readable_word t = readable_word s"
    "read_outcome t = read_outcome s"
proof -
  note v = left_by_view [OF assms]
  show a: "cell_action t = cell_action s" "cell_address t = cell_address s" "readable_word t = readable_word s"
    by (intro ext; simp add: cell_action_def cell_address_def readable_word_def v)+
  show b: "cell_act t = cell_act s" "transport_fault t = transport_fault s"
    by (intro ext; simp add: cell_act_def transport_fault_def v a)+
  show "forwards t = forwards s" "read_outcome t = read_outcome s"
    by (intro ext; simp only: forwards_def read_outcome_def v a b)+
qed

subsection \<open>The read\<close>

lemma memory_action_eval:
  "c < 12 \<Longrightarrow> memory_action c (unat (TagType t)) s = Some (Ret (MemoryActionTable ! c ! unat (TagType t)), s)"
proof -
  assume c: "c < 12"
  have "TagType t = take_bit 6 t"
    by (simp add: TagType_def take_bit_eq_mask mask_eq_exp_minus_1)
  then have "unat (TagType t) < 64" by (simp add: take_bit_eq_mod unat_mod)
  with c show ?thesis by (simp add: memory_action_def prog_simps)
qed

text \<open>One turn of the loop.\<close>

definition fetched :: "ptr \<Rightarrow> u64 \<Rightarrow> machine \<Rightarrow> machine" where
  "fetched p v s = put_var p (processor_object s v) (after_read v s)"

lemma fetched_left: "variable p \<Longrightarrow> left_by p s (fetched p v s)"
  by (simp add: fetched_def left_by_steps left_by_refl)

lemma transport_check_eval:
  assumes "left_by p s t" "variable p"
  shows "transport_check (cell_action s c v) (processor_object s v) v t
    = (if transport_fault s c v then Some (Longjmp TransportTrapVector, t\<lparr>trap_vma := (trap_vma t)\<lparr>DATA := ucast v\<rparr>\<rparr>)
       else Some (Ret (), t))"
  using left_by_view(4) [OF assms]
  by (simp add: transport_check_def transport_fault_def cell_address_def TakeMemoryTrap_def prog_simps)

lemma act_eq: "cell_action s c v AND - 5 = cell_act s c v"
  by (simp add: cell_act_def)

lemma action_eq: "MemoryActionTable ! c ! unat (TagType (TAG (processor_object s v))) = cell_action s c v"
  by (simp add: cell_action_def)

lemma read_forwards:
  assumes "readable_word s v" "variable p" "c < 12" "forwards s c v w"
  shows "MemoryReadInternal p c v s = MemoryReadInternal p c w (fetched p v s)"
  using assms transport_check_eval [OF fetched_left [OF assms(2)] assms(2)]
  by (subst MemoryReadInternal.simps)
    (simp add: readable_word_def forwards_def fetched_def prog_simps write_var_eval memory_action_eval
      act_eq action_eq cell_address_def)

lemma read_ends:
  assumes "readable_word s v" "variable p" "c < 12" "\<nexists>w. forwards s c v w"
  shows "\<exists>t. left_by p s t \<and> MemoryReadInternal p c v s = Some (read_outcome s c v, t)"
proof -
  let ?s = "fetched p v s" and ?obj = "processor_object s v"
  let ?trapped = "?s\<lparr>trap_vma := (trap_vma ?s)\<lparr>DATA := ucast v\<rparr>\<rparr>"
  note left = fetched_left [OF assms(2), of s v]
  have run: "MemoryReadInternal p c v s = Some (read_outcome s c v,
     if transport_fault s c v then ?trapped
     else if cell_act s c v = 0 then ?s
     else if cell_act s c v = MemoryActionTrap \<or> cell_act s c v = MemoryActionMonitor then ?trapped
     else if cell_act s c v = MemoryActionTransform
       then put_var p (?obj\<lparr>TAG := MergeCdr (TAG ?obj) TypeExternalValueCellPointer\<rparr>) ?s
     else ?s)"
    using assms transport_check_eval [OF left assms(2)]
    by (subst MemoryReadInternal.simps)
      (auto simp: readable_word_def forwards_def fetched_def prog_simps write_var_eval memory_action_eval
        act_eq action_eq Let_def read_outcome_def TakeMemoryTrap_def)
  show ?thesis
    unfolding run using left left_by_steps [OF left assms(2)] by auto
qed

lemma read_chain:
  assumes "(forwards s c)\<^sup>*\<^sup>* v u" "\<nexists>w. forwards s c u w" "variable p" "c < 12"
    and "\<And>x. (forwards s c)\<^sup>*\<^sup>* v x \<Longrightarrow> readable_word s x" "left_by p s s1"
  shows "\<exists>t. left_by p s t \<and> MemoryReadInternal p c v s1 = Some (read_outcome s c u, t)"
  using assms(1,5,6)
proof (induction arbitrary: s1 rule: converse_rtranclp_induct)
  case base
  note view = view_cells [OF base(2) assms(3)]
  have "readable_word s1 u" using base(1) view by simp
  then obtain t where "left_by p s1 t" "MemoryReadInternal p c u s1 = Some (read_outcome s c u, t)"
    using read_ends [of s1 u p c] assms(2-4) view by auto
  then show ?case using left_by_trans [OF base(2) _ assms(3)] by blast
next
  case (step v v')
  note view = view_cells [OF step.prems(2) assms(3)]
  have r: "readable_word s1 v" "forwards s1 c v v'" using step.prems(1) step.hyps(1) view by simp_all
  have "left_by p s (fetched p v s1)"
    using step.prems(2) assms(3) unfolding fetched_def by (rule left_by_steps(1))
  then show ?case
    unfolding read_forwards [OF r(1) assms(3,4) r(2)]
    by (intro step.IH step.prems(1) converse_rtranclp_into_rtranclp [where r = "forwards s c", OF step.hyps(1)])
qed

text \<open>A read inside a set of words that all forward into the set never returns.\<close>

lemma read_forever:
  assumes closed: "\<And>v. v \<in> C \<Longrightarrow> readable_word s v \<and> (\<exists>w. forwards s c v w \<and> w \<in> C)"
    and "v \<in> C" "variable p" "c < 12" "left_by p s s1"
  shows "MemoryReadInternal p c v s1 = None"
proof -
  have "MemoryReadInternal p0 c0 v0 s0 = Some y \<Longrightarrow>
      p0 = p \<and> c0 = c \<and> v0 \<in> C \<and> left_by p s s0 \<longrightarrow> False" for p0 c0 v0 s0 y
  proof (induction rule: MemoryReadInternal.raw_induct [rotated, consumes 1, case_names turn])
    case (turn g p0 c0 v0 s0 y)
    show ?case
    proof (intro impI, elim conjE)
      assume a: "p0 = p" "c0 = c" "v0 \<in> C" "left_by p s s0"
      note view = view_cells [OF a(4) assms(3)]
      obtain w where w: "forwards s c v0 w" "w \<in> C" "readable_word s v0" using closed a(3) by blast
      have w0: "forwards s0 c v0 w" "readable_word s0 v0" using w view by simp_all
      have "g p c w (fetched p v0 s0) = Some y"
        using turn(2) w0 transport_check_eval [OF fetched_left [OF assms(3), of s0 v0] assms(3), of c v0] assms(3,4) a(1,2)
        by (simp add: readable_word_def forwards_def fetched_def prog_simps write_var_eval memory_action_eval
            act_eq action_eq cell_address_def)
      moreover have "left_by p s (fetched p v0 s0)"
        using a(4) assms(3) unfolding fetched_def by (rule left_by_steps(1))
      ultimately show False using turn(1) [of p c w "fetched p v0 s0" y] w(2) by simp
    qed
  qed
  from this [of p c v s1] show ?thesis
    using assms(2,5) by (cases "MemoryReadInternal p c v s1") simp_all
qed

text \<open>Claim C20: a read whose chain of forwarding pointers stays on readable words either
  returns, and then ends at the last word of the chain with the outcome of that word: the address
  and the object there (turned into an external value cell pointer where the cycle asks for it), or
  the transport, error or monitor trap its data type calls for; or it runs forever, and then the
  chain has no end. Nothing but the variable read into and the addresses for the fault and trap
  handlers changes.\<close>

theorem MemoryRead_follows:
  assumes "c < 12" "p = Auto \<or> p = Scratch_var \<or> p = Immediate_var"
    and "\<forall>x. (forwards s c)\<^sup>*\<^sup>* v x \<longrightarrow> readable_word s x"
  shows "(\<exists>u t. (forwards s c)\<^sup>*\<^sup>* v u \<and> (\<nexists>w. forwards s c u w) \<and> left_by p s t
      \<and> MemoryReadInternal p c v s = Some (read_outcome s c u, t))
    \<or> (MemoryReadInternal p c v s = None \<and> (\<forall>u. (forwards s c)\<^sup>*\<^sup>* v u \<longrightarrow> (\<exists>w. forwards s c u w)))"
proof -
  have p: "variable p" using assms(2) by (auto simp: variable_def)
  show ?thesis
  proof (cases "\<exists>u. (forwards s c)\<^sup>*\<^sup>* v u \<and> (\<nexists>w. forwards s c u w)")
    case True
    then obtain u where u: "(forwards s c)\<^sup>*\<^sup>* v u" "\<nexists>w. forwards s c u w" by blast
    show ?thesis
      using read_chain [OF u p assms(1) _ left_by_refl [OF p]] assms(3) u by blast
  next
    case False
    have "MemoryReadInternal p c v s = None"
    proof (rule read_forever [where C = "{x. (forwards s c)\<^sup>*\<^sup>* v x}" and s = s])
      show "readable_word s x \<and> (\<exists>w. forwards s c x w \<and> w \<in> {x. (forwards s c)\<^sup>*\<^sup>* v x})"
        if "x \<in> {x. (forwards s c)\<^sup>*\<^sup>* v x}" for x
        using that False assms(3) by (metis mem_Collect_eq rtranclp.rtrancl_into_rtrancl)
    qed (simp_all add: p assms(1) left_by_refl)
    then show ?thesis using False by blast
  qed
qed

text \<open>A sample page whose first word forwards to the second, which holds a fixnum, and whose third
  forwards to itself.\<close>

definition forward_sample :: machine where
  "forward_sample = (with_page 1 blank)
     \<lparr>TagSpace := (\<lambda>_. 0)(0x2000 := 5, 0x2001 := 8, 0x2002 := 5),
      DataSpace := (\<lambda>_. 0)(0x2000 := 0x2001, 0x2001 := 77, 0x2002 := 0x2002),
      EphemeralOldspaceRegister := - 1\<rparr>"

lemma forward_sample_cells:
  "readable_word forward_sample 0x2000" "readable_word forward_sample 0x2001" "readable_word forward_sample 0x2002"
  "forwards forward_sample CycleDataRead 0x2000 = (\<lambda>w. w = 0x2001)"
  "\<nexists>w. forwards forward_sample CycleDataRead 0x2001 w"
  "forwards forward_sample CycleDataRead 0x2002 = (\<lambda>w. w = 0x2002)"
  "read_outcome forward_sample CycleDataRead 0x2001 = Ret (0x2001, mkobj 8 77)"
proof -
  have m: "accessible forward_sample 0x2000" "accessible forward_sample 0x2001" "accessible forward_sample 0x2002"
    by (simp_all add: accessible_def forward_sample_def page_number_eq page_of_def)
  have i: "\<not> in_stack_cache forward_sample 0x2000" "\<not> in_stack_cache forward_sample 0x2001"
    "\<not> in_stack_cache forward_sample 0x2002"
    by (simp_all add: in_stack_cache_def stack_cache_index_def forward_sample_def)
  have o: "processor_object forward_sample 0x2000 = mkobj 5 0x2001" "processor_object forward_sample 0x2001 = mkobj 8 77"
    "processor_object forward_sample 0x2002 = mkobj 5 0x2002"
    using i by (simp_all add: processor_object_def space_object_def forward_sample_def)
  have old: "\<not> OldspaceAddressP forward_sample 0x2001" "\<not> OldspaceAddressP forward_sample 0x2002"
    by (simp_all add: OldspaceAddressP_def forward_sample_def ReadVMAZoneNum_def ReadVMAEphemeralHalf_def
      ReadVMAEphemeralDemilevel_def ldb_def Let_def)
  show "readable_word forward_sample 0x2000" "readable_word forward_sample 0x2001" "readable_word forward_sample 0x2002"
    using m by (simp_all add: readable_word_def)
  note defs = fun_eq_iff forwards_def cell_act_def cell_action_def cell_address_def transport_fault_def
    read_outcome_def MemoryActionTable_def TagType_def o
  show "forwards forward_sample CycleDataRead 0x2000 = (\<lambda>w. w = 0x2001)"
    "\<nexists>w. forwards forward_sample CycleDataRead 0x2001 w"
    "forwards forward_sample CycleDataRead 0x2002 = (\<lambda>w. w = 0x2002)"
    "read_outcome forward_sample CycleDataRead 0x2001 = Ret (0x2001, mkobj 8 77)"
    using old by (simp_all add: defs)
qed

theorem MemoryRead_follows_witness:
  "(\<exists>t. MemoryReadData 0x2000 Scratch_var forward_sample = Some (Ret (0x2001, mkobj 8 77), t))
     \<and> MemoryReadData 0x2002 Auto forward_sample = None"
proof
  let ?f = "forwards forward_sample CycleDataRead"
  have a: "?f\<^sup>*\<^sup>* 0x2000 x \<Longrightarrow> x = 0x2000 \<or> x = 0x2001" for x
    by (induction rule: rtranclp_induct) (use forward_sample_cells in \<open>auto\<close>)
  have b: "?f\<^sup>*\<^sup>* 0x2002 x \<Longrightarrow> x = 0x2002" for x
    by (induction rule: rtranclp_induct) (use forward_sample_cells in \<open>auto\<close>)
  have step: "?f\<^sup>*\<^sup>* 0x2000 0x2001" using forward_sample_cells(4) by (simp add: r_into_rtranclp)
  have "CycleDataRead < (12 :: nat)" "Scratch_var = Auto \<or> Scratch_var = Scratch_var \<or> Scratch_var = Immediate_var"
    "\<forall>x. ?f\<^sup>*\<^sup>* 0x2000 x \<longrightarrow> readable_word forward_sample x"
    using a forward_sample_cells(1,2) by auto
  from MemoryRead_follows [OF this] obtain u t where "?f\<^sup>*\<^sup>* 0x2000 u" "\<nexists>w. ?f u w"
    "MemoryReadData 0x2000 Scratch_var forward_sample = Some (read_outcome forward_sample CycleDataRead u, t)"
    using step forward_sample_cells(5) by blast
  moreover then have "u = 0x2001" using a forward_sample_cells(4) by metis
  ultimately show "\<exists>t. MemoryReadData 0x2000 Scratch_var forward_sample = Some (Ret (0x2001, mkobj 8 77), t)"
    using forward_sample_cells(7) by auto
  have "CycleDataRead < (12 :: nat)" "Auto = Auto \<or> Auto = Scratch_var \<or> Auto = Immediate_var"
    "\<forall>x. ?f\<^sup>*\<^sup>* 0x2002 x \<longrightarrow> readable_word forward_sample x"
    using b forward_sample_cells(3) by auto
  from MemoryRead_follows [OF this] show "MemoryReadData 0x2002 Auto forward_sample = None"
    using b forward_sample_cells(6) by metis
qed

end
