(* ===== verification/ListFacts.thy ===== *)
theory ListFacts
  imports ForwardFacts ListInstructions
begin

text \<open>
  Lists in memory: cells linked by cdr codes and forwarding pointers stand for a sequence of
  objects, and the searches \<open>member\<close> and \<open>assoc\<close> find in it what they should.
\<close>

unbundle bit_operations_syntax

subsection \<open>Car and cdr of a list cell\<close>

definition reads_to :: "machine \<Rightarrow> nat \<Rightarrow> u64 \<Rightarrow> u64 \<Rightarrow> LispObj \<Rightarrow> bool" where
  "reads_to s c v u obj \<longleftrightarrow> (\<forall>x. (forwards s c)\<^sup>*\<^sup>* v x \<longrightarrow> readable_word s x)
     \<and> (\<exists>x. (forwards s c)\<^sup>*\<^sup>* v x \<and> (\<nexists>w. forwards s c x w) \<and> read_outcome s c x = Ret (u, obj))"

definition plain :: "LispObj \<Rightarrow> LispObj" where
  "plain obj = obj\<lparr>TAG := TAG obj AND TagTypeMask\<rparr>"

definition car_is :: "machine \<Rightarrow> LispObj \<Rightarrow> LispObj \<Rightarrow> bool" where
  "car_is s l x \<longleftrightarrow> TagType (TAG l) = TypeList
     \<and> (\<exists>u obj. reads_to s CycleDataRead (ucast (DATA l)) u obj \<and> x = plain obj)"

definition cdr_is :: "machine \<Rightarrow> LispObj \<Rightarrow> LispObj \<Rightarrow> bool" where
  "cdr_is s l d \<longleftrightarrow> TagType (TAG l) = TypeList
     \<and> (\<exists>u obj. reads_to s CycleCdr (ucast (DATA l)) u obj \<and>
          (TagCdr (TAG obj) = CdrNil \<and> d = ObjectNIL
           \<or> TagCdr (TAG obj) = CdrNext \<and> d = mkobj TypeList (ucast (u + 1))
           \<or> TagCdr (TAG obj) = CdrNormal
              \<and> (\<exists>u' obj'. reads_to s CycleDataRead (u + 1) u' obj' \<and> d = plain obj')))"

text \<open>The state while a search goes on: only the scratch variable and the fault addresses differ.\<close>

abbreviation searching :: "machine \<Rightarrow> machine \<Rightarrow> bool" where
  "searching \<equiv> left_by Scratch_var"

definition search_ptr :: "ptr \<Rightarrow> bool" where
  "search_ptr p \<longleftrightarrow> p = Auto \<or> p = Scratch_var"

lemma variables [simp]: "variable Scratch_var" "variable Auto" "search_ptr p \<Longrightarrow> variable p"
  by (auto simp: variable_def search_ptr_def)

lemma searching_trans:
  assumes "searching s t" "left_by p t u" "search_ptr p"
  shows "searching s u"
proof -
  have "searching t u"
  proof (cases "p = Scratch_var")
    case False
    then obtain m d where "u = t\<lparr>memory_vma := m, trap_vma := d\<rparr>"
      using assms(2,3) by (auto simp: left_by_def search_ptr_def)
    then have "u = (put_var Scratch_var (scratch t) t)\<lparr>memory_vma := m, trap_vma := d\<rparr>" by simp
    then show ?thesis unfolding left_by_def by blast
  qed (use assms in simp)
  then show ?thesis using left_by_trans assms(1) by (metis variables(1))
qed

lemma searching_scratch: "searching s t \<Longrightarrow> searching s (t\<lparr>scratch := x\<rparr>)"
  using left_by_steps(2) [of Scratch_var s t x] by simp

lemma reads_eval:
  assumes "reads_to s c v u obj" "searching s s1" "search_ptr p" "c < 12"
  shows "\<exists>t. searching s t \<and> MemoryReadInternal p c v s1 = Some (Ret (u, obj), t)"
proof -
  note view = view_cells [OF assms(2) variables(1)]
  obtain x where "(forwards s1 c)\<^sup>*\<^sup>* v x" "\<nexists>w. forwards s1 c x w" "read_outcome s1 c x = Ret (u, obj)"
    using assms(1) view by (auto simp: reads_to_def)
  then obtain t where "left_by p s1 t" "MemoryReadInternal p c v s1 = Some (Ret (u, obj), t)"
    using read_chain [of s1 c v x p s1] assms(1,3,4) view left_by_refl by (auto simp: reads_to_def)
  then show ?thesis using searching_trans [OF assms(2) _ assms(3)] by blast
qed

lemma store_result_eval: "searching s s1 \<Longrightarrow> search_ptr p \<Longrightarrow>
    \<exists>t. searching s t \<and> store_result p obj s1 = Some (Ret (Some obj), t)"
  using searching_trans [of s s1 p "put_var p obj s1"] left_by_steps(2) [of p s1 s1 obj] left_by_refl [of p s1]
  by (auto simp: store_result_def prog_simps write_var_eval)

lemma read_contents_eval:
  assumes "reads_to s CycleDataRead v u obj" "searching s s1" "search_ptr p"
  shows "\<exists>t. searching s t \<and> read_contents v p s1 = Some (Ret (Some (plain obj)), t)"
proof -
  obtain t where t: "searching s t" "MemoryReadData v p s1 = Some (Ret (u, obj), t)"
    using reads_eval [OF assms] by auto
  obtain t' where "searching s t'" "store_result p (plain obj) t = Some (Ret (Some (plain obj)), t')"
    using store_result_eval [OF t(1) assms(3)] by blast
  then show ?thesis using t(2) by (simp add: read_contents_def prog_simps plain_def)
qed

lemma CarInternal_eval:
  assumes "car_is s l x" "searching s s1" "search_ptr p"
  shows "\<exists>t. searching s t \<and> CarInternal l p s1 = Some (Ret (Some x), t)"
  using assms read_contents_eval [OF _ assms(2,3)] by (auto simp: car_is_def CarInternal_def)

lemma CdrInternal_eval:
  assumes "cdr_is s l d" "searching s s1" "search_ptr p"
  shows "\<exists>t. searching s t \<and> CdrInternal l p s1 = Some (Ret (Some d), t)"
proof -
  obtain u obj where r: "TagType (TAG l) = TypeList" "reads_to s CycleCdr (ucast (DATA l)) u obj"
    and c: "TagCdr (TAG obj) = CdrNil \<and> d = ObjectNIL
           \<or> TagCdr (TAG obj) = CdrNext \<and> d = mkobj TypeList (ucast (u + 1))
           \<or> TagCdr (TAG obj) = CdrNormal
              \<and> (\<exists>u' obj'. reads_to s CycleDataRead (u + 1) u' obj' \<and> d = plain obj')"
    using assms(1) by (auto simp: cdr_is_def)
  obtain t where t: "searching s t" "MemoryReadCdr (ucast (DATA l)) Auto s1 = Some (Ret (u, obj), t)"
    using reads_eval [OF r(2) assms(2), of Auto] by (auto simp: search_ptr_def)
  show ?thesis
    using c r(1) t store_result_eval [OF t(1) assms(3)] read_contents_eval [OF _ t(1) assms(3)]
    by (auto simp: CdrInternal_def prog_simps)
qed

lemma CarCdrInternal_eval:
  assumes "car_is s l x" "cdr_is s l d" "searching s s1"
  shows "\<exists>t. searching s t \<and> CarCdrInternal l Auto Auto s1 = Some (Ret (Some (x, d)), t)"
proof -
  have a: "search_ptr Auto" by (simp add: search_ptr_def)
  obtain t where t: "searching s t" "CarInternal l Auto s1 = Some (Ret (Some x), t)"
    using CarInternal_eval [OF assms(1,3) a] by blast
  obtain t' where "searching s t'" "CdrInternal l Auto t = Some (Ret (Some d), t')"
    using CdrInternal_eval [OF assms(2) t(1) a] by blast
  moreover have "\<not> TypeEqualP (TAG l) TypeLocative"
    using assms(1) by (simp add: car_is_def TypeEqualP_iff TagType_def)
  ultimately show ?thesis using t(2) by (simp add: CarCdrInternal_def prog_simps)
qed

subsection \<open>Lists\<close>

text \<open>The cells of a list with their cars, up to the \<open>NIL\<close> at its end.\<close>

fun list_cells :: "machine \<Rightarrow> LispObj \<Rightarrow> (LispObj \<times> LispObj) list \<Rightarrow> bool" where
  "list_cells s l [] \<longleftrightarrow> TagType (TAG l) = TypeNIL"
| "list_cells s l ((c, x) # cs) \<longleftrightarrow> c = l \<and> TagType (TAG l) = TypeList \<and> car_is s l x
     \<and> (\<exists>d. cdr_is s l d \<and> list_cells s d cs)"

definition found_cell :: "(LispObj \<times> LispObj) option \<Rightarrow> LispObj" where
  "found_cell r = (case r of None \<Rightarrow> ObjectNIL | Some (c, x) \<Rightarrow> cdr_next c)"

lemma tos_searching: "searching s t \<Longrightarrow> slot (sp s) \<Longrightarrow> tos t = Some (Ret (StackCache s (sp s)), t)"
  using left_by_view [of Scratch_var s t] by (simp add: prog_simps)

lemma AllowSequenceBreaks_none: "suspend s = 0 \<Longrightarrow> AllowSequenceBreaks s = Some (Ret (), s)"
  by (simp add: AllowSequenceBreaks_def prog_simps)

lemma set_scratch_eval: "set_scratch x s = Some (Ret (), s\<lparr>scratch := x\<rparr>)"
  by (simp add: set_scratch_def prog_simps)

lemma member_loop_eval:
  assumes "list_cells s l cs" "searching s s1" "scratch s1 = l" "slot (sp s)" "suspend s = 0"
  shows "\<exists>t. searching s t \<and> member_loop s1 = Some (Ret NextInstruction,
    put_slot (sp s) (found_cell (find (\<lambda>(c, x). ObjectEqP x (StackCache s (sp s))) cs)) t)"
  using assms
proof (induction cs arbitrary: l s1)
  case Nil
  then have "sp s1 = sp s" using left_by_view [of Scratch_var s s1] by simp
  then show ?case using Nil by (subst member_loop.simps) (auto simp: prog_simps found_cell_def)
next
  case (Cons cx cs)
  obtain c x where cx: "cx = (c, x)" by (cases cx)
  then obtain d where l: "c = l" "TagType (TAG l) = TypeList" "car_is s l x" "cdr_is s l d" "list_cells s d cs"
    using Cons.prems(1) by auto
  obtain t where t: "searching s t" "CarCdrInternal l Auto Auto s1 = Some (Ret (Some (x, d)), t)"
    using CarCdrInternal_eval [OF l(3,4) Cons.prems(2)] by blast
  note view = left_by_view [OF t(1) variables(1)]
  note tos = tos_searching [OF t(1) Cons.prems(4)]
  show ?case
  proof (cases "ObjectEqP x (StackCache s (sp s))")
    case True
    then show ?thesis using t tos l(1,2) Cons.prems(3,4) view(5)
      by (intro exI [of _ t], subst member_loop.simps) (simp add: prog_simps cx found_cell_def)
  next
    case False
    have "member_loop s1 = member_loop (t\<lparr>scratch := d\<rparr>)"
      using False t(2) tos l(2) Cons.prems(3,5) view(7)
      by (subst member_loop.simps) (simp add: prog_simps set_scratch_eval AllowSequenceBreaks_none)
    then show ?thesis
      using Cons.IH [OF l(5) searching_scratch [OF t(1), of d] _ Cons.prems(4,5)] False by (simp add: cx)
  qed
qed

text \<open>The alist search skips the entries that are \<open>NIL\<close> and compares the cars of the others.\<close>

definition entry_key :: "machine \<Rightarrow> LispObj \<Rightarrow> LispObj \<Rightarrow> bool" where
  "entry_key s x k \<longleftrightarrow> TagType (TAG x) = TypeList \<and> car_is s x k"

definition alist_cells :: "machine \<Rightarrow> LispObj \<Rightarrow> (LispObj \<times> LispObj) list \<Rightarrow> bool" where
  "alist_cells s l cs \<longleftrightarrow> list_cells s l cs
     \<and> (\<forall>(c, x) \<in> set cs. TagType (TAG x) = TypeNIL \<or> (\<exists>k. entry_key s x k))"

definition found_entry :: "(LispObj \<times> LispObj) option \<Rightarrow> LispObj" where
  "found_entry r = (case r of None \<Rightarrow> ObjectNIL | Some (c, x) \<Rightarrow> cdr_next x)"

lemma reads_to_unique: "reads_to s c v u obj \<Longrightarrow> reads_to s c v u' obj' \<Longrightarrow> c < 12 \<Longrightarrow> u' = u \<and> obj' = obj"
  using reads_eval [of s c v u obj s Auto] reads_eval [of s c v u' obj' s Auto] left_by_refl [of Scratch_var s]
  by (auto simp: search_ptr_def)

lemma entry_key_unique: "entry_key s x k \<Longrightarrow> entry_key s x k' \<Longrightarrow> k' = k"
  using reads_to_unique [of s CycleDataRead] by (fastforce simp: entry_key_def car_is_def)

definition entry_matches :: "machine \<Rightarrow> LispObj \<Rightarrow> LispObj \<times> LispObj \<Rightarrow> bool" where
  "entry_matches s a cx \<longleftrightarrow> (\<exists>k. entry_key s (snd cx) k \<and> ObjectEqP k a)"

lemma assoc_loop_eval:
  assumes "alist_cells s l cs" "searching s s1" "scratch s1 = l" "slot (sp s)" "suspend s = 0"
  shows "\<exists>t. searching s t \<and> assoc_loop s1 = Some (Ret NextInstruction,
    put_slot (sp s) (found_entry (find (entry_matches s (StackCache s (sp s))) cs)) t)"
  using assms
proof (induction cs arbitrary: l s1)
  case Nil
  then have "sp s1 = sp s" using left_by_view [of Scratch_var s s1] by simp
  then show ?case using Nil by (subst assoc_loop.simps) (auto simp: prog_simps found_entry_def alist_cells_def)
next
  case (Cons cx cs)
  obtain c x where cx: "cx = (c, x)" by (cases cx)
  then obtain d where l: "TagType (TAG l) = TypeList" "car_is s l x" "cdr_is s l d" "alist_cells s d cs"
    "TagType (TAG x) = TypeNIL \<or> (\<exists>k. entry_key s x k)"
    using Cons.prems(1) by (auto simp: alist_cells_def)
  obtain t where t: "searching s t" "CarCdrInternal l Auto Auto s1 = Some (Ret (Some (x, d)), t)"
    using CarCdrInternal_eval [OF l(2,3) Cons.prems(2)] by blast
  note rest = Cons.IH [OF l(4) searching_scratch _ Cons.prems(4,5), of _ d]
  have susp: "suspend u = 0" if "searching s u" for u
    using left_by_view(7) [OF that variables(1)] Cons.prems(5) by simp
  show ?case
  proof (cases "TagType (TAG x) = TypeNIL")
    case True
    have "assoc_loop s1 = assoc_loop (t\<lparr>scratch := d\<rparr>)"
      using True t(2) l(1) Cons.prems(3) susp [OF t(1)]
      by (subst assoc_loop.simps) (simp add: prog_simps set_scratch_eval AllowSequenceBreaks_none)
    moreover have "\<not> entry_matches s (StackCache s (sp s)) cx"
      using True by (auto simp: entry_matches_def entry_key_def cx)
    ultimately show ?thesis using rest [OF t(1)] by simp
  next
    case False
    then obtain k where k: "entry_key s x k" using l(5) by blast
    then have xl: "TagType (TAG x) = TypeList" "car_is s x k" by (simp_all add: entry_key_def)
    obtain u where u: "searching s u" "CarInternal x Auto t = Some (Ret (Some k), u)"
      using CarInternal_eval [OF xl(2) t(1), of Auto] by (auto simp: search_ptr_def)
    note tos = tos_searching [OF u(1) Cons.prems(4)]
    have match: "entry_matches s (StackCache s (sp s)) cx \<longleftrightarrow> ObjectEqP k (StackCache s (sp s))"
      using k entry_key_unique by (auto simp: entry_matches_def cx)
    show ?thesis
    proof (cases "ObjectEqP k (StackCache s (sp s))")
      case True
      then show ?thesis
        using t(2) u tos l(1) xl(1) Cons.prems(3,4) left_by_view(5) [OF u(1) variables(1)] match
        by (intro exI [of _ u], subst assoc_loop.simps) (simp add: prog_simps cx found_entry_def)
    next
      case no: False
      have "assoc_loop s1 = assoc_loop (u\<lparr>scratch := d\<rparr>)"
        using no t(2) u(2) tos l(1) xl(1) Cons.prems(3) susp [OF u(1)]
        by (subst assoc_loop.simps) (simp add: prog_simps set_scratch_eval AllowSequenceBreaks_none)
      then show ?thesis using rest [OF u(1)] no match by simp
    qed
  qed
qed

subsection \<open>Properties\<close>

text \<open>What a search instruction begins with: its operands, the object looked for not being one of the
  numbers for which \<open>eql\<close> is not \<open>eq\<close>, and no sequence break wanted.\<close>

definition search_starts :: "operand_mode \<Rightarrow> machine \<Rightarrow> LispObj \<Rightarrow> LispObj \<Rightarrow> bool" where
  "search_starts mode s a l \<longleftrightarrow> mode \<in> set source_modes \<and> operands mode s a l \<and> \<not> extended_number a
     \<and> suspend (addressed mode s) = 0"

lemma search_eval:
  assumes "search_starts mode s a l"
    and "\<And>u. addressed mode s = u \<Longrightarrow> \<exists>t. searching u t \<and> loop (u\<lparr>scratch := l\<rparr>) = Some (Ret NextInstruction, put_slot (sp u) (r u) t)"
    and body: "body = bnd tos (\<lambda>a. if extended_number a then jump InstructionException
        else bnd op2_obj (\<lambda>l. thn (set_scratch l) loop))"
  shows "\<exists>t. with_operand source_modes mode body s = Some (Ret NextInstruction, t)
    \<and> sp t = sp (addressed mode s)
    \<and> StackCache t = (StackCache (addressed mode s))(sp t := r (addressed mode s))"
proof -
  let ?u = "addressed mode s"
  obtain t where t: "searching ?u t" "loop (?u\<lparr>scratch := l\<rparr>) = Some (Ret NextInstruction, put_slot (sp ?u) (r ?u) t)"
    using assms(2) [OF refl] by blast
  have "with_operand source_modes mode body s = loop (?u\<lparr>scratch := l\<rparr>)"
    using assms(1) by (simp add: search_starts_def operands_def Let_def body prog_simps set_scratch_eval)
  then show ?thesis
    using t(2) left_by_view(5,6) [OF t(1) variables(1)]
    by (intro exI [of _ "put_slot (sp ?u) (r ?u) t"]) simp
qed

text \<open>Claim C21: on a list of any length, cdr coded and forwarded in any way, \<open>member\<close> returns
  and replaces the top of the stack by the first cell whose car is \<open>eq\<close> to the object, with cdr code
  next, or by \<open>NIL\<close> when there is none; nothing else on the stack changes.\<close>

theorem Member_finds:
  assumes "search_starts mode s a l" "list_cells (addressed mode s) l cs"
  shows "\<exists>t. DispatchMember mode s = Some (Ret NextInstruction, t) \<and> sp t = sp (addressed mode s)
    \<and> StackCache t = (StackCache (addressed mode s))
        (sp t := found_cell (find (\<lambda>(c, x). ObjectEqP x a) cs))"
proof -
  let ?u = "addressed mode s"
  have u: "slot (sp ?u)" "StackCache ?u (sp ?u) = a" "suspend ?u = 0"
    using assms(1) by (simp_all add: search_starts_def operands_def Let_def)
  have "\<exists>t. searching ?u t \<and> member_loop (?u\<lparr>scratch := l\<rparr>) = Some (Ret NextInstruction,
      put_slot (sp ?u) (found_cell (find (\<lambda>(c, x). ObjectEqP x (StackCache ?u (sp ?u))) cs)) t)"
    using assms(2) u(1,3) by (intro member_loop_eval searching_scratch left_by_refl) simp_all
  then show ?thesis unfolding DispatchMember_def
    by (intro search_eval [OF assms(1), where loop = member_loop]) (auto simp: u(2))
qed

text \<open>Claim C22: \<open>assoc\<close> returns in the same way on an association list, gives the first entry whose
  car is \<open>eq\<close> to the object, or \<open>NIL\<close>, and skips the entries that are \<open>NIL\<close>.\<close>

theorem Assoc_finds:
  assumes "search_starts mode s a l" "alist_cells (addressed mode s) l cs"
  shows "\<exists>t. DispatchAssoc mode s = Some (Ret NextInstruction, t) \<and> sp t = sp (addressed mode s)
    \<and> StackCache t = (StackCache (addressed mode s))
        (sp t := found_entry (find (entry_matches (addressed mode s) a) cs))"
proof -
  let ?u = "addressed mode s"
  have u: "slot (sp ?u)" "StackCache ?u (sp ?u) = a" "suspend ?u = 0"
    using assms(1) by (simp_all add: search_starts_def operands_def Let_def)
  have "\<exists>t. searching ?u t \<and> assoc_loop (?u\<lparr>scratch := l\<rparr>) = Some (Ret NextInstruction,
      put_slot (sp ?u) (found_entry (find (entry_matches ?u (StackCache ?u (sp ?u))) cs)) t)"
    using assms(2) u(1,3) by (intro assoc_loop_eval searching_scratch left_by_refl) simp_all
  then show ?thesis unfolding DispatchAssoc_def
    by (intro search_eval [OF assms(1), where loop = assoc_loop]) (auto simp: u(2))
qed

subsection \<open>A sample list\<close>

lemma reads_here:
  "readable_word s v \<Longrightarrow> \<nexists>w. forwards s c v w \<Longrightarrow> read_outcome s c v = Ret (u, obj) \<Longrightarrow> reads_to s c v u obj"
  unfolding reads_to_def by (metis converse_rtranclpE rtranclp.rtrancl_refl)

lemma reads_forward:
  assumes "readable_word s v" "forwards s c v w" "reads_to s c w u obj"
  shows "reads_to s c v u obj"
proof -
  have only: "w' = w" if "forwards s c v w'" for w' using assms(2) that by (simp add: forwards_def)
  have "(forwards s c)\<^sup>*\<^sup>* v x \<longleftrightarrow> x = v \<or> (forwards s c)\<^sup>*\<^sup>* w x" for x
    using only assms(2) by (metis converse_rtranclpE converse_rtranclp_into_rtranclp rtranclp.rtrancl_refl)
  then show ?thesis using assms unfolding reads_to_def by metis
qed

text \<open>At \<open>0x2010\<close> the list of the fixnums 1 and 2, the first element forwarded to \<open>0x2012\<close>; at
  \<open>0x2018\<close> the association list of an empty entry and this list.\<close>

definition list_sample :: "LispObj \<Rightarrow> machine" where
  "list_sample l = with_stack [mkobj TypeFixnum 2, l] ((with_page 1 blank)
     \<lparr>TagSpace := (\<lambda>_. 0)(0x2010 := 5, 0x2011 := 0x48, 0x2012 := 8, 0x2018 := 0x14, 0x2019 := 0x55),
      DataSpace := (\<lambda>_. 0)(0x2010 := 0x2012, 0x2011 := 2, 0x2012 := 1, 0x2019 := 0x2011),
      EphemeralOldspaceRegister := - 1\<rparr>)"

abbreviation "list_state l \<equiv> addressed ModePop (list_sample l)"

lemma list_sample_starts: "search_starts ModePop (list_sample l) (mkobj TypeFixnum 2) l"
  by (simp add: search_starts_def operands_def list_sample_def slot_def extended_number_def TagType_def)

lemma list_sample_cells:
  "readable_word (list_state l) 0x2010" "readable_word (list_state l) 0x2011" "readable_word (list_state l) 0x2012"
  "readable_word (list_state l) 0x2018" "readable_word (list_state l) 0x2019"
  "processor_object (list_state l) 0x2010 = mkobj 5 0x2012" "processor_object (list_state l) 0x2011 = mkobj 0x48 2"
  "processor_object (list_state l) 0x2012 = mkobj 8 1" "processor_object (list_state l) 0x2018 = mkobj 0x14 0"
  "processor_object (list_state l) 0x2019 = mkobj 0x55 0x2011"
  by (simp_all add: readable_word_def accessible_def list_sample_def page_number_eq page_of_def processor_object_def
      in_stack_cache_def stack_cache_index_def space_object_def)

lemma list_sample_reads:
  "reads_to (list_state l) CycleDataRead 0x2010 0x2012 (mkobj 8 1)"
  "reads_to (list_state l) CycleDataRead 0x2011 0x2011 (mkobj 0x48 2)"
  "reads_to (list_state l) CycleDataRead 0x2018 0x2018 (mkobj 0x14 0)"
  "reads_to (list_state l) CycleDataRead 0x2019 0x2019 (mkobj 0x55 0x2011)"
  "reads_to (list_state l) CycleCdr 0x2010 0x2010 (mkobj 5 0x2012)"
  "reads_to (list_state l) CycleCdr 0x2011 0x2011 (mkobj 0x48 2)"
  "reads_to (list_state l) CycleCdr 0x2018 0x2018 (mkobj 0x14 0)"
  "reads_to (list_state l) CycleCdr 0x2019 0x2019 (mkobj 0x55 0x2011)"
proof -
  have old: "\<not> OldspaceAddressP (list_state l) 0x2012" "\<not> OldspaceAddressP (list_state l) 0x2011"
    "\<not> OldspaceAddressP (list_state l) 0"
    by (simp_all add: OldspaceAddressP_def list_sample_def put_slot_def ReadVMAZoneNum_def ReadVMAEphemeralHalf_def
        ReadVMAEphemeralDemilevel_def ldb_def Let_def)
  note defs = forwards_def cell_act_def cell_action_def cell_address_def transport_fault_def
    read_outcome_def MemoryActionTable_def TagType_def list_sample_cells old
  have here: "reads_to (list_state l) CycleDataRead 0x2012 0x2012 (mkobj 8 1)"
    by (rule reads_here) (simp_all add: defs del: addressed.simps)
  show "reads_to (list_state l) CycleDataRead 0x2010 0x2012 (mkobj 8 1)"
    by (rule reads_forward [OF _ _ here]) (simp_all add: defs del: addressed.simps)
  show "reads_to (list_state l) CycleDataRead 0x2011 0x2011 (mkobj 0x48 2)"
    "reads_to (list_state l) CycleDataRead 0x2018 0x2018 (mkobj 0x14 0)"
    "reads_to (list_state l) CycleDataRead 0x2019 0x2019 (mkobj 0x55 0x2011)"
    "reads_to (list_state l) CycleCdr 0x2010 0x2010 (mkobj 5 0x2012)"
    "reads_to (list_state l) CycleCdr 0x2011 0x2011 (mkobj 0x48 2)"
    "reads_to (list_state l) CycleCdr 0x2018 0x2018 (mkobj 0x14 0)"
    "reads_to (list_state l) CycleCdr 0x2019 0x2019 (mkobj 0x55 0x2011)"
    by (rule reads_here; simp add: defs del: addressed.simps)+
qed

lemma list_sample_cars:
  "car_is (list_state l) (mkobj TypeList 0x2010) (mkobj 8 1)" "car_is (list_state l) (mkobj TypeList 0x2011) (mkobj 8 2)"
  "car_is (list_state l) (mkobj TypeList 0x2018) (mkobj 0x14 0)"
  "car_is (list_state l) (mkobj TypeList 0x2019) (mkobj TypeList 0x2011)"
  using list_sample_reads(1-4) [of l]
  by (force simp: car_is_def TagType_def plain_def TagTypeMask_def simp del: addressed.simps)+

lemma list_sample_cdrs:
  "cdr_is (list_state l) (mkobj TypeList 0x2010) (mkobj TypeList 0x2011)"
  "cdr_is (list_state l) (mkobj TypeList 0x2011) ObjectNIL"
  "cdr_is (list_state l) (mkobj TypeList 0x2018) (mkobj TypeList 0x2019)"
  "cdr_is (list_state l) (mkobj TypeList 0x2019) ObjectNIL"
  using list_sample_reads(5-8) [of l]
  by (force simp: cdr_is_def TagType_def TagCdr_def simp del: addressed.simps)+

lemma nil_end: "list_cells s ObjectNIL []"
  by (simp add: ObjectNIL_def TagType_def)

lemma list_cells_Cons:
  "car_is s l x \<Longrightarrow> cdr_is s l d \<Longrightarrow> list_cells s d cs \<Longrightarrow> list_cells s l ((l, x) # cs)"
  by (auto simp: car_is_def)

theorem Member_finds_witness:
  "\<exists>t. DispatchMember ModePop (list_sample (mkobj TypeList 0x2010)) = Some (Ret NextInstruction, t)
     \<and> sp t = 17 \<and> StackCache t 17 = mkobj TypeList 0x2011"
proof -
  let ?l = "mkobj TypeList 0x2010" and ?cs = "[(mkobj TypeList 0x2010, mkobj 8 1), (mkobj TypeList 0x2011, mkobj 8 2)]"
  have "list_cells (list_state ?l) ?l ?cs"
    by (rule list_cells_Cons list_sample_cars list_sample_cdrs nil_end)+
  moreover have "sp (list_state ?l) = 17" by (simp add: list_sample_def)
  ultimately show ?thesis
    using Member_finds [OF list_sample_starts, of ?l ?cs]
    by (auto simp: found_cell_def ObjectEqP_def cdr_next_def simp del: addressed.simps list_cells.simps)
qed

theorem Assoc_finds_witness:
  "\<exists>t. DispatchAssoc ModePop (list_sample (mkobj TypeList 0x2018)) = Some (Ret NextInstruction, t)
     \<and> sp t = 17 \<and> StackCache t 17 = mkobj TypeList 0x2011"
proof -
  let ?l = "mkobj TypeList 0x2018"
  let ?cs = "[(mkobj TypeList 0x2018, mkobj 0x14 0), (mkobj TypeList 0x2019, mkobj TypeList 0x2011)]"
  have cells: "alist_cells (list_state ?l) ?l ?cs"
  proof -
    have "list_cells (list_state ?l) ?l ?cs"
      by (rule list_cells_Cons list_sample_cars list_sample_cdrs nil_end)+
    moreover have "entry_key (list_state ?l) (mkobj TypeList 0x2011) (mkobj 8 2)"
      by (simp add: entry_key_def list_sample_cars TagType_def del: addressed.simps)
    ultimately show ?thesis by (auto simp: alist_cells_def TagType_def simp del: addressed.simps list_cells.simps)
  qed
  have "\<not> entry_matches (list_state ?l) (mkobj TypeFixnum 2) (mkobj TypeList 0x2018, mkobj 0x14 0)"
    by (simp add: entry_matches_def entry_key_def TagType_def)
  moreover have "entry_matches (list_state ?l) (mkobj TypeFixnum 2) (mkobj TypeList 0x2019, mkobj TypeList 0x2011)"
    unfolding entry_matches_def entry_key_def
    by (intro exI [of _ "mkobj 8 2"]) (simp add: list_sample_cars TagType_def ObjectEqP_def del: addressed.simps)
  ultimately have f: "find (entry_matches (list_state ?l) (mkobj TypeFixnum 2)) ?cs
      = Some (mkobj TypeList 0x2019, mkobj TypeList 0x2011)" by simp
  have "sp (list_state ?l) = 17" by (simp add: list_sample_def)
  then show ?thesis
    using Assoc_finds [OF list_sample_starts cells] unfolding f
    by (auto simp: found_entry_def cdr_next_def simp del: addressed.simps)
qed

end
