(* ===== verification/TrapFacts.thy ===== *)
theory TrapFacts
  imports CacheFacts
begin

text \<open>
  Errors. Every fault of the machine leaves an instruction by \<open>longjmp\<close>, and every value that can
  reach the trap entry has a case there. How a trap frame is built, what the trap vector decides, and
  what becomes of a machine without a handler.
\<close>

unbundle bit_operations_syntax

subsection \<open>Where an action can end\<close>

definition ends_in :: "('a \<Rightarrow> bool) \<Rightarrow> ('s, 'a) prog \<Rightarrow> bool" where
  "ends_in Q m \<longleftrightarrow> (\<forall>s x t. m s = Some (Ret x, t) \<longrightarrow> Q x)"

named_theorems ends_intros "rules that bound the value a program returns"

lemma ends_basic [ends_intros]:
  "Q x \<Longrightarrow> ends_in Q (ret x)" "ends_in Q (longjmp v)" "ends_in Q (exit_with n)" "ends_in Q undef"
  by (auto simp: ends_in_def prog_defs)

lemma ends_bnd [ends_intros]: "(\<And>x. ends_in Q (k x)) \<Longrightarrow> ends_in Q (bnd m k)"
  by (auto simp: ends_in_def bnd_split_Some)

lemma ends_thn [ends_intros]: "ends_in Q n \<Longrightarrow> ends_in Q (thn m n)"
  by (simp add: thn_def ends_bnd)

lemma ends_if [ends_intros]:
  "(b \<Longrightarrow> ends_in Q m) \<Longrightarrow> (\<not> b \<Longrightarrow> ends_in Q n) \<Longrightarrow> ends_in Q (if b then m else n)"
  by simp

lemma ends_split [ends_intros]:
  "(\<And>a b. ends_in Q (f a b)) \<Longrightarrow> ends_in Q (case_prod f p)"
  by (cases p) simp

text \<open>Only a \<open>longjmp\<close> leads to the trap entry.\<close>

definition no_trap :: "position \<Rightarrow> bool" where
  "no_trap p \<longleftrightarrow> (\<forall>v. p \<noteq> AtTrap v)"

lemma no_trap_simps [simp]: "no_trap AtDispatch" "no_trap AtLookup" "no_trap (Stopped b)"
  by (simp_all add: no_trap_def)

lemma halt_ends [ends_intros]: "ends_in no_trap halt"
  unfolding halt_def by (intro ends_intros) simp

lemma after_trap_ends [ends_intros]: "ends_in no_trap (after_trap m)"
  unfolding after_trap_def by (intro ends_intros) simp

lemma follow1_ends [ends_intros]: "ends_in no_trap (follow1 l)"
  by (cases l) (auto intro!: ends_intros simp: at_NextInstruction_def at_IllegalOperand_def
      at_InstructionException_def at_UnimplementedInstruction_def at_PullApplyArgsTrap_def
      at_FollowPCInstructionException_def)

lemma follow_ends [ends_intros]: "ends_in no_trap (follow l)"
  unfolding follow_def by (intro ends_intros)

lemma position_action_ends:
  "p \<in> {AtDispatch, AtLookup} \<or> (\<exists>v. p = AtTrap v) \<Longrightarrow> ends_in no_trap (position_action p)"
  by (auto simp: position_action_def at_Dispatch_def at_InstructionCacheLookup_def at_Trap_def
      trap_with_def unless_bad_spot_def intro!: ends_intros)

subsection \<open>Faults\<close>

text \<open>Nothing is asked of the states here, only of the values of the \<open>longjmp\<close>s.\<close>

definition any_state :: "machine \<Rightarrow> bool" where
  "any_state s \<longleftrightarrow> True"

interpretation anything: cache_invariant any_state
proof unfold_locales
  show "keeps any_state InstructionCacheMiss"
    by (rule keepsI) (use InstructionCacheMiss_raises in \<open>auto simp: any_state_def\<close>)
qed (simp_all add: any_state_def)

lemma reached_position:
  assumes "seq_step (p, s) (q, t)" "no_trap p \<or> (\<exists>v \<in> longjmp_values. p = AtTrap v)"
  shows "no_trap q \<or> (\<exists>v \<in> longjmp_values. q = AtTrap v)"
  using assms(1)
proof (cases rule: seq_step.cases)
  case (run r)
  show ?thesis
  proof (cases r)
    case (Ret x)
    have "no_trap x" using position_action_ends [OF run(2)] run(3) Ret unfolding ends_in_def by blast
    then show ?thesis using run(1) Ret by simp
  next
    case (Longjmp v)
    have "v \<in> longjmp_values"
      by (rule keeps_raises [OF anything.position_action_keeps]) (use run(3) Longjmp in \<open>simp_all add: any_state_def\<close>)
    then show ?thesis using run(1) Longjmp by simp
  qed (use run(1) in \<open>simp_all add: no_trap_def\<close>)
qed (use assms(2) in simp_all)

text \<open>Claim C23: whatever the sequencer executes, with signals at any time, the values that
  reach the trap entry by \<open>longjmp\<close> are the nine for which its switch has a case: -1 of the spy, the
  instruction exception, error, reset, transport, the two sequence breaks, monitor and page not
  resident. Every other value would stop the program with the exit code 1.\<close>

theorem traps_have_cases:
  assumes "seq_step\<^sup>*\<^sup>* (AtLookup, s) (AtTrap v, t)"
  shows "v \<in> {- 1, InstructionExceptionVector, ErrorTrapVector, ResetTrapVector, TransportTrapVector,
      LowPrioritySequenceBreakTrapVector, HighPrioritySequenceBreakTrapVector, MonitorTrapVector,
      PageNotResidentTrapVector}"
proof -
  have "seq_step\<^sup>*\<^sup>* (AtLookup, s) (p, t) \<Longrightarrow> no_trap p \<or> (\<exists>v \<in> longjmp_values. p = AtTrap v)" for p t
  proof (induction "(p, t)" arbitrary: p t rule: rtranclp_induct)
    case (step c)
    obtain q u where c: "c = (q, u)" by (cases c)
    show ?case using reached_position [of q u p t] step.hyps(2,3) unfolding c by blast
  qed simp
  from this [OF assms] show ?thesis by (auto simp: no_trap_def longjmp_values_def)
qed

lemma read_block_faults:
  assumes "vma < 0x100000000" "\<not> mapped s (MemoryPageNumber vma)" "0 < n"
  shows "\<exists>t. read_block_loop put i vma n s = Some (Longjmp PageNotResidentTrapVector, t)"
proof -
  obtain m where "n = Suc m" using assms(3) gr0_implies_Suc by blast
  then show ?thesis using access_unmapped [OF assms(1,2)] by (simp add: prog_simps)
qed

lemma lookup_faults: "\<exists>t. seq_step (AtLookup, blank) (AtTrap PageNotResidentTrapVector, t)"
proof -
  have l: "lookup_line (mkobj TypeEvenPC 0) = 0" by (simp add: lookup_line_def)
  have r: "\<exists>t. VirtualMemoryReadBlock 0 (\<lambda>i obj. ret ()) 32 u = Some (Longjmp PageNotResidentTrapVector, t)"
    if "mapped u = (\<lambda>_. False)" for u :: machine
    using read_block_faults [of 0 "at_vma 0 u" 32] that
    by (simp add: VirtualMemoryReadBlock_def prog_simps at_vma_def)
  define u where "u = blank\<lparr>cp := CacheLine 0, ps_sp := 16, ps_restartsp := 16, ps_fp := 8, ps_lp := 12,
     ps_pc := mkobj TypeEvenPC 0\<rparr>"
  have "DecacheRegisters (blank\<lparr>cp := CacheLine 0\<rparr>) = Some (Ret (), u)"
    by (simp add: DecacheRegisters_def prog_simps u_def)
  moreover obtain t where "InstructionCacheMiss u = Some (Longjmp PageNotResidentTrapVector, t)"
    using r [of u] by (auto simp: InstructionCacheMiss_def prog_simps u_def block_start_def)
  moreover have "DATA (line_pc (current_line (blank\<lparr>cp := CacheLine 0\<rparr>))) = - 1"
    by (simp add: current_line_def blank_line_def)
  ultimately have "\<exists>t. at_InstructionCacheLookup blank = Some (Longjmp PageNotResidentTrapVector, t)"
    by (simp add: at_InstructionCacheLookup_def prog_simps TypeEqualP_def l)
  then show ?thesis
    using seq_step.run [of AtLookup blank "Longjmp PageNotResidentTrapVector"]
    by (auto simp: position_action_def)
qed

theorem traps_have_cases_witness:
  "\<exists>t. seq_step\<^sup>*\<^sup>* (AtLookup, blank) (AtTrap 2640, t)
     \<and> (2640 :: int) \<in> {- 1, 2048, 2624, 2625, 2630, 2632, 2633, 2634, 2640}"
proof -
  obtain t where t: "seq_step\<^sup>*\<^sup>* (AtLookup, blank) (AtTrap 2640, t)" using lookup_faults by blast
  from traps_have_cases [OF this] t show ?thesis by blast
qed

end
