(* ===== verification/HandlerFacts.thy ===== *)
theory HandlerFacts
  imports TrapFacts ForwardFacts
begin

text \<open>
  Trap handlers: which entry of the trap vector a trap takes, what happens when there is none, and the
  frame that a trap before the instruction builds for its handler.
\<close>

unbundle bit_operations_syntax

subsection \<open>Words of the trap vector\<close>

text \<open>The word at \<open>a\<close>, outside the stack cache, is read without a fault as \<open>entry\<close>.\<close>

definition vector_word :: "machine \<Rightarrow> u64 \<Rightarrow> LispObj \<Rightarrow> bool" where
  "vector_word s a entry \<longleftrightarrow> \<not> in_stack_cache s a \<and> accessible s a
     \<and> (\<nexists>w. forwards s CycleDataRead a w) \<and> read_outcome s CycleDataRead a = Ret (a, entry)"

text \<open>States that agree on all that a read outside the stack cache depends on.\<close>

definition same_space :: "machine \<Rightarrow> machine \<Rightarrow> bool" where
  "same_space s t \<longleftrightarrow> DataSpace t = DataSpace s \<and> TagSpace t = TagSpace s \<and> mapped t = mapped s
     \<and> StackCacheBase t = StackCacheBase s
     \<and> EphemeralOldspaceRegister t = EphemeralOldspaceRegister s
     \<and> ZoneOldspaceRegister t = ZoneOldspaceRegister s"

lemma same_space_refl [simp]: "same_space s s"
  by (simp add: same_space_def)

lemma vector_word_same:
  assumes "same_space s t" "vector_word s a entry"
  shows "vector_word t a entry"
proof -
  have i: "in_stack_cache t a = in_stack_cache s a" "accessible t a = accessible s a"
    and o: "OldspaceAddressP t = OldspaceAddressP s"
    using assms(1) by (simp_all add: fun_eq_iff same_space_def in_stack_cache_def stack_cache_index_def
        accessible_def OldspaceAddressP_def Let_def)
  have p: "processor_object t a = processor_object s a"
    using assms i(1) by (simp add: vector_word_def processor_object_def space_object_def same_space_def)
  have c: "cell_action t CycleDataRead a = cell_action s CycleDataRead a" "cell_address t a = cell_address s a"
    by (simp_all add: cell_action_def cell_address_def p)
  have f: "cell_act t CycleDataRead a = cell_act s CycleDataRead a"
    "transport_fault t CycleDataRead a = transport_fault s CycleDataRead a"
    by (simp_all add: cell_act_def transport_fault_def c o)
  show ?thesis using assms(2) unfolding vector_word_def forwards_def read_outcome_def Let_def i c f p .
qed

lemma vector_read_eval:
  assumes "vector_word s a entry"
  shows "\<exists>t. left_by Auto s t \<and> MemoryReadData a Auto s = Some (Ret (a, entry), t)"
  using read_ends [of s a Auto CycleDataRead] assms
  by (auto simp: vector_word_def readable_word_def variable_def)

subsection \<open>Fetching the entry\<close>

definition pc_type :: "LispObj \<Rightarrow> bool" where
  "pc_type obj \<longleftrightarrow> TypeEqualP (TAG obj) TypeOddPC \<or> TypeEqualP (TAG obj) TypeEvenPC"

text \<open>In trap mode 3 every trap goes to the entry of the FEP mode.\<close>

definition vector_address :: "u32 \<Rightarrow> u64 \<Rightarrow> u64" where
  "vector_address mode index =
     TrapVectorBase + (if mode < 3 then index else word_of_int FepModeTrapVector)"

definition with_mode :: "u32 \<Rightarrow> machine \<Rightarrow> machine" where
  "with_mode mode s = s\<lparr>control := WriteControlTrapMode (control s) mode\<rparr>"

text \<open>What the fetch leaves besides the control register: the addresses for the fault handler.\<close>

abbreviation fetching :: "machine \<Rightarrow> machine \<Rightarrow> bool" where
  "fetching s t \<equiv> \<exists>m d. t = s\<lparr>memory_vma := m, trap_vma := d\<rparr>"

lemma mode_le: "ReadControlTrapMode c \<le> 3"
proof -
  have "ReadControlTrapMode c < 2 ^ 2" unfolding ReadControlTrapMode_def by (rule ldb_bound) simp
  then show ?thesis by (simp add: word_less_nat_alt word_le_nat_alt)
qed

lemma mode_and_3: "ReadControlTrapMode c AND 3 = ReadControlTrapMode c"
proof -
  have "ReadControlTrapMode c AND mask 2 = ReadControlTrapMode c"
    by (rule bit_word_eqI) (auto simp: ReadControlTrapMode_def bit_ldb bit_simps)
  then show ?thesis by (simp add: mask_eq_exp_minus_1)
qed

lemma set_mode_eval: "set_control (\<lambda>c. WriteControlTrapMode c m) s = Some (Ret (), with_mode m s)"
  by (simp add: set_control_def prog_simps with_mode_def comp_def)

lemma left_by_Auto: "left_by Auto s t \<longleftrightarrow> fetching s t"
  by (simp add: left_by_def)

text \<open>One turn, from the trap mode \<open>m\<close>.\<close>

lemma fetch_turn:
  assumes "ReadControlTrapMode (control s) = m" "vector_word s (vector_address m index) entry"
  shows "\<exists>t. fetching s t \<and> FetchTrapVectorEntry index s =
    (if pc_type entry then Some (Ret (Some entry), with_mode m t)
     else if m = 3 then Some (Ret None, with_mode 3 t)
     else bnd (FetchTrapVectorEntry index) (\<lambda>r. case r of None \<Rightarrow> ret None
       | Some e \<Rightarrow> bnd (set_control (\<lambda>c. WriteControlTrapMode c m)) (\<lambda>_. ret (Some e))) (with_mode 3 t))"
proof -
  have v: "vector_word (with_mode 3 s) (vector_address m index) entry"
    by (rule vector_word_same [OF _ assms(2)]) (simp add: same_space_def with_mode_def)
  obtain u where u: "fetching (with_mode 3 s) u"
    and r: "MemoryReadData (vector_address m index) Auto (with_mode 3 s) = Some (Ret (vector_address m index, entry), u)"
    using vector_read_eval [OF v] unfolding left_by_Auto by blast
  obtain x d where x: "u = (with_mode 3 s)\<lparr>memory_vma := x, trap_vma := d\<rparr>" using u by blast
  let ?t = "s\<lparr>memory_vma := x, trap_vma := d\<rparr>"
  have ut: "u = with_mode 3 ?t" by (simp add: x with_mode_def)
  have twice: "with_mode m (with_mode 3 ?t) = with_mode m ?t"
    by (simp add: with_mode_def cr_TrapMode.put_put)
  show ?thesis
    using r unfolding vector_address_def
    by (intro exI [of _ ?t], subst FetchTrapVectorEntry.simps)
      (auto simp: prog_simps assms(1) set_mode_eval ut twice pc_type_def)
qed

definition chosen_handler :: "LispObj \<Rightarrow> LispObj \<Rightarrow> LispObj option" where
  "chosen_handler entry fep_entry =
     (if pc_type entry then Some entry else if pc_type fep_entry then Some fep_entry else None)"

lemma FetchTrapVectorEntry_eval:
  assumes "vector_word s (vector_address (ReadControlTrapMode (control s)) index) entry"
    and "vector_word s (vector_address 3 index) fep_entry"
  shows "\<exists>m d. FetchTrapVectorEntry index s =
    (let result = chosen_handler entry fep_entry;
         mode = (if result = None then 3 else ReadControlTrapMode (control s)) in
     Some (Ret result, s\<lparr>memory_vma := m, trap_vma := d,
       control := WriteControlTrapMode (control s) mode\<rparr>))"
proof -
  let ?m = "ReadControlTrapMode (control s)"
  obtain t where t: "fetching s t" and run: "FetchTrapVectorEntry index s =
    (if pc_type entry then Some (Ret (Some entry), with_mode ?m t)
     else if ?m = 3 then Some (Ret None, with_mode 3 t)
     else bnd (FetchTrapVectorEntry index) (\<lambda>r. case r of None \<Rightarrow> ret None
       | Some e \<Rightarrow> bnd (set_control (\<lambda>c. WriteControlTrapMode c ?m)) (\<lambda>_. ret (Some e))) (with_mode 3 t))"
    using fetch_turn [OF refl assms(1)] by blast
  obtain x d where x: "t = s\<lparr>memory_vma := x, trap_vma := d\<rparr>" using t by blast
  have mode: "with_mode k t = s\<lparr>memory_vma := x, trap_vma := d, control := WriteControlTrapMode (control s) k\<rparr>" for k
    by (simp add: x with_mode_def)
  show ?thesis
  proof (cases "pc_type entry \<or> ?m = 3")
    case True
    then have "pc_type fep_entry = pc_type entry" if "?m = 3"
    proof -
      have "fep_entry = entry" using assms that by (simp add: vector_word_def vector_address_def)
      then show ?thesis by simp
    qed
    then show ?thesis using True run mode by (intro exI [of _ x] exI [of _ d]) (auto simp: Let_def chosen_handler_def)
  next
    case False
    let ?s = "with_mode 3 t"
    have m3: "ReadControlTrapMode (control ?s) = 3"
      using cr_TrapMode.get_put [of "control t" 3] by (simp add: with_mode_def mask_eq_exp_minus_1)
    have "vector_word ?s (vector_address 3 index) fep_entry"
      by (rule vector_word_same [OF _ assms(2)]) (simp add: same_space_def mode)
    from fetch_turn [OF m3 this] obtain u where u: "fetching ?s u" and turn: "FetchTrapVectorEntry index ?s =
        (if pc_type fep_entry then Some (Ret (Some fep_entry), with_mode 3 u)
         else if (3 :: u32) = 3 then Some (Ret None, with_mode 3 u)
         else bnd (FetchTrapVectorEntry index) (\<lambda>r. case r of None \<Rightarrow> ret None
           | Some e \<Rightarrow> bnd (set_control (\<lambda>c. WriteControlTrapMode c 3)) (\<lambda>_. ret (Some e))) (with_mode 3 u))"
      by blast
    have rec: "FetchTrapVectorEntry index ?s =
        Some (Ret (if pc_type fep_entry then Some fep_entry else None), with_mode 3 u)"
      unfolding turn by simp
    obtain y e where y: "u = ?s\<lparr>memory_vma := y, trap_vma := e\<rparr>" using u by blast
    have "with_mode k (with_mode 3 u) = s\<lparr>memory_vma := y, trap_vma := e, control := WriteControlTrapMode (control s) k\<rparr>"
      and "with_mode 3 u = s\<lparr>memory_vma := y, trap_vma := e, control := WriteControlTrapMode (control s) 3\<rparr>" for k
      by (simp_all add: y mode) (simp_all add: with_mode_def cr_TrapMode.put_put)
    then show ?thesis
      using False run rec by (intro exI [of _ y] exI [of _ e]) (simp add: prog_simps set_mode_eval Let_def chosen_handler_def)
  qed
qed

text \<open>Claim C24: the handler of a trap is the entry of its own vector when that is a program
  counter, and the entry of the FEP mode otherwise or when the trap mode is 3 already. Whenever a
  handler is found the trap mode is what it was; when there is none, the result says so and the trap mode
  is left at 3. Nothing but the control register and the addresses for the fault handler changes.\<close>

theorem FetchTrapVectorEntry_chooses:
  assumes "vector_word s (vector_address (ReadControlTrapMode (control s)) index) entry"
    and "vector_word s (vector_address 3 index) fep_entry"
  shows "\<exists>m d. FetchTrapVectorEntry index s =
    (let result = chosen_handler entry fep_entry;
         mode = (if result = None then 3 else ReadControlTrapMode (control s)) in
     Some (Ret result, s\<lparr>memory_vma := m, trap_vma := d,
       control := WriteControlTrapMode (control s) mode\<rparr>))"
  using assms by (rule FetchTrapVectorEntry_eval)

text \<open>A sample with a page for the trap vector: the entry of the trap for a page that is not there has
  the given tag, the entry of the FEP mode is a program counter.\<close>

definition handler_sample :: "u32 \<Rightarrow> machine" where
  "handler_sample t = (with_page 0x7c020 blank)
     \<lparr>TagSpace := (\<lambda>_. 0)(0xf8040a50 := ucast t, 0xf8040a47 := 38),
      DataSpace := (\<lambda>_. 0)(0xf8040a50 := 0x1000, 0xf8040a47 := 0x2000),
      EphemeralOldspaceRegister := - 1\<rparr>"

lemma handler_sample_word:
  assumes "a = 0xf8040a50 \<and> obj = mkobj (t AND 255) 0x1000 \<or> a = 0xf8040a47 \<and> obj = mkobj 38 0x2000"
    and "MemoryActionTable ! 0 ! unat (TagType (TAG obj)) = 0 \<or> MemoryActionTable ! 0 ! unat (TagType (TAG obj)) = 4"
  shows "vector_word (handler_sample t) a obj"
proof -
  let ?s = "handler_sample t"
  have m: "accessible ?s a" "\<not> in_stack_cache ?s a"
    using assms(1) by (auto simp: accessible_def handler_sample_def page_number_eq page_of_def
        in_stack_cache_def stack_cache_index_def)
  have "ucast (ucast t :: u8) = t AND mask 8"
    by (rule bit_word_eqI) (auto simp: bit_simps)
  then have tag: "ucast (ucast t :: u8) = t AND 255" by (simp add: mask_eq_exp_minus_1)
  have o: "processor_object ?s a = obj"
    using m(2) assms(1) by (auto simp: processor_object_def space_object_def handler_sample_def tag)
  have "mask 64 AND (1 :: u64) = 1" by (simp add: mask_eq_exp_minus_1)
  then have "\<not> OldspaceAddressP ?s (ucast (DATA obj))"
    using assms(1) by (auto simp: OldspaceAddressP_def handler_sample_def ReadVMAZoneNum_def
        ReadVMAEphemeralHalf_def ReadVMAEphemeralDemilevel_def ldb_def Let_def)
  then show ?thesis
    using m assms(2) by (auto simp: vector_word_def forwards_def cell_act_def cell_action_def
        transport_fault_def cell_address_def read_outcome_def o Let_def)
qed

lemma handler_sample_words:
  "vector_word (handler_sample 102) (vector_address 0 2640) (mkobj 102 0x1000)"
  "vector_word (handler_sample 8) (vector_address 0 2640) (mkobj 8 0x1000)"
  "vector_word (handler_sample t) (vector_address 3 2640) (mkobj 38 0x2000)"
  using handler_sample_word [of "0xf8040a50" "mkobj 102 0x1000" 102]
    handler_sample_word [of "0xf8040a50" "mkobj 8 0x1000" 8]
    handler_sample_word [of "0xf8040a47" "mkobj 38 0x2000" t]
  by (simp_all add: vector_address_def MemoryActionTable_def TagType_def)

lemma handler_sample_mode: "control (handler_sample t) = 0" "ReadControlTrapMode 0 = 0"
  by (simp_all add: handler_sample_def ReadControlTrapMode_def ldb_def)

theorem FetchTrapVectorEntry_chooses_witness:
  "(\<exists>t. FetchTrapVectorEntry 2640 (handler_sample 102) = Some (Ret (Some (mkobj 102 0x1000)), t))
   \<and> (\<exists>t. FetchTrapVectorEntry 2640 (handler_sample 8) = Some (Ret (Some (mkobj 38 0x2000)), t))"
proof -
  have p: "chosen_handler (mkobj 102 0x1000) e = Some (mkobj 102 0x1000)"
    "chosen_handler (mkobj 8 0x1000) (mkobj 38 0x2000) = Some (mkobj 38 0x2000)" for e
    by (simp_all add: chosen_handler_def pc_type_def TypeEqualP_def)
  show ?thesis
    using FetchTrapVectorEntry_chooses [of "handler_sample 102" 2640 "mkobj 102 0x1000" "mkobj 38 0x2000"]
      FetchTrapVectorEntry_chooses [of "handler_sample 8" 2640 "mkobj 8 0x1000" "mkobj 38 0x2000"]
      handler_sample_words
    by (auto simp: handler_sample_mode p Let_def)
qed

end
