(* ===== verification/FrameFacts.thy ===== *)
theory FrameFacts
  imports HandlerFacts
begin

text \<open>
  Frames: the control register that a trap frame starts with, the words that a trap before an
  instruction leaves on the stack for its handler, and what the handler finds.
\<close>

unbundle bit_operations_syntax

subsection \<open>Fields of control words\<close>

lemma ldb_or: "ldb ss pp (x OR y) = ldb ss pp x OR ldb ss pp y"
  by (rule bit_word_eqI) (auto simp: bit_ldb bit_simps)

text \<open>A field is cleared by a mask that covers it, and kept by one that does not touch it.\<close>

lemma ldb_cleared: "ldb ss pp m = mask ss \<Longrightarrow> ldb ss pp (x AND NOT m) = 0"
proof (rule bit_word_eqI)
  fix i assume m: "ldb ss pp m = mask ss" and "i < LENGTH(32)"
  then have "i < ss \<Longrightarrow> bit m (pp + i)" by (metis bit_ldb bit_mask_iff possible_bit_word)
  then show "bit (ldb ss pp (x AND NOT m)) i = bit (0 :: u32) i" by (auto simp: bit_ldb bit_simps)
qed

lemma ldb_kept: "ldb ss pp m = 0 \<Longrightarrow> ldb ss pp (x AND NOT m) = ldb ss pp x" for x :: "'a::len word"
proof (rule bit_word_eqI)
  fix i assume m: "ldb ss pp m = 0" and i: "i < LENGTH(32)"
  have "\<not> bit (ldb ss pp m) i" by (simp add: m)
  then have "i < ss \<Longrightarrow> \<not> bit m (pp + i)" using i by (simp add: bit_ldb)
  then show "bit (ldb ss pp (x AND NOT m)) i = bit (ldb ss pp x) i"
    using i by (auto simp: bit_ldb bit_simps dest: bit_imp_le_length)
qed

lemma small_bit:
  assumes "0 \<le> z" "z < 2 ^ k" "bit (word_of_int z :: 'a::len word) i"
  shows "i < k"
proof -
  have "(word_of_int z :: 'a word) = take_bit k (word_of_int z)"
    using assms(1,2) by (simp add: take_bit_of_int take_bit_int_eq_self)
  then show ?thesis using assms(3) by (metis bit_take_bit_iff)
qed

text \<open>A number that fits is read back from the field it is put in, and from no other.\<close>

lemma ldb_number:
  assumes "0 \<le> z" "z < 2 ^ ss" "ss \<le> 32" "pp + ss \<le> 64"
  shows "ldb ss pp (push_bit pp (word_of_int z :: u64)) = word_of_int z"
proof (rule bit_word_eqI)
  fix i assume "i < LENGTH(32)"
  then show "bit (ldb ss pp (push_bit pp (word_of_int z :: u64))) i = bit (word_of_int z :: u32) i"
    using small_bit [of z ss i, where 'a = 32] assms
    by (auto simp: bit_ldb bit_simps)
qed

lemma ldb_number_other:
  assumes "0 \<le> z" "z < 2 ^ k" "qq + k \<le> pp \<or> pp + ss \<le> qq"
  shows "ldb ss pp (push_bit qq (word_of_int z :: u64)) = 0"
proof (rule bit_word_eqI)
  fix i
  show "bit (ldb ss pp (push_bit qq (word_of_int z :: u64))) i = bit (0 :: u32) i"
    using small_bit [of z k "pp + i - qq", where 'a = 64] assms by (auto simp: bit_ldb bit_simps)
qed

text \<open>The control register of a trap frame.\<close>

definition frame_control :: "int \<Rightarrow> int \<Rightarrow> u64 \<Rightarrow> bool" where
  "frame_control args caller c' \<longleftrightarrow>
     ReadControlArgumentSize c' = word_of_int args \<and> ReadControlCallerFrameSize c' = word_of_int caller
     \<and> ReadControlValueDisposition c' = ValueDispositionEffect \<and> ReadControlApply c' = 0
     \<and> ReadControlExtraArgument c' = 0 \<and> ReadControlCallStarted c' = 0 \<and> ReadControlCleanupBits c' = 0
     \<and> ReadControlInstructionTrace c' = 0 \<and> ReadControlCallTrace c' = 0 \<and> ReadControlTracePending c' = 0"

lemma trap_control_fields:
  assumes "0 \<le> nlp - nfp" "nlp - nfp < 256" "0 \<le> nfp - oldfp" "nfp - oldfp < 256"
  shows "frame_control (nlp - nfp) (nfp - oldfp) (trap_control c nfp nlp oldfp)
    \<and> ReadControlTrapMode (trap_control c nfp nlp oldfp) = ReadControlTrapMode c"
proof -
  define x where "x = nlp - nfp"
  define y where "y = nfp - oldfp"
  have x: "0 \<le> x" "x < 2 ^ 8" and y: "0 \<le> y" "y < 2 ^ 8" using assms by (simp_all add: x_def y_def)
  define m where "m = (0x3F4FFFFF :: u64)"
  have m: "ldb 8 0 m = mask 8" "ldb 8 9 m = mask 8" "ldb 2 18 m = mask 2" "ldb 1 17 m = mask 1"
    "ldb 1 8 m = mask 1" "ldb 1 22 m = mask 1" "ldb 3 24 m = mask 3" "ldb 1 29 m = mask 1"
    "ldb 1 28 m = mask 1" "ldb 1 27 m = mask 1" "ldb 2 30 m = 0"
    by (simp_all add: m_def ldb_def mask_eq_exp_minus_1)
  have t: "trap_control c nfp nlp oldfp = ((c AND NOT m) OR push_bit 0 (word_of_int x)) OR push_bit 9 (word_of_int y)"
    by (simp add: trap_control_def x_def y_def m_def or.assoc)
  note numbers = ldb_number [OF x] ldb_number [OF y] ldb_number_other [OF x] ldb_number_other [OF y]
  show ?thesis
    unfolding x_def [symmetric] y_def [symmetric] frame_control_def control_defs t ldb_or
    by (simp only: ldb_cleared m ldb_kept) (simp add: numbers del: push_bit_0_id)
qed

subsection \<open>Pushing on the saved stack pointer\<close>

definition laid :: "int \<Rightarrow> LispObj list \<Rightarrow> (int \<Rightarrow> LispObj) \<Rightarrow> int \<Rightarrow> LispObj" where
  "laid i objs c = (\<lambda>j. if i \<le> j \<and> j < i + int (length objs) then objs ! nat (j - i) else c j)"

lemma laid_Nil [simp]: "laid i [] c = c"
  by (auto simp: laid_def fun_eq_iff)

lemma laid_snoc: "laid i (objs @ [obj]) c = (laid i objs c)(i + int (length objs) := obj)"
  by (auto simp: laid_def fun_eq_iff nth_append)

text \<open>The state with objects pushed.\<close>

definition ps_pushed :: "LispObj list \<Rightarrow> machine \<Rightarrow> machine" where
  "ps_pushed objs s = s\<lparr>StackCache := laid (ps_sp s + 1) objs (StackCache s),
     ps_sp := ps_sp s + int (length objs)\<rparr>"

lemma ps_pushed_Nil: "ps_pushed [] s = s"
  by (simp add: ps_pushed_def)

lemma ps_push_eval:
  assumes "slot (ps_sp s + int (length objs) + 1)"
  shows "ps_push obj (ps_pushed objs s) = Some (Ret (), ps_pushed (objs @ [obj]) s)"
  using assms
  by (simp add: ps_push_def prog_simps ps_pushed_def put_slot_def laid_snoc algebra_simps)

definition extra_words :: "LispObj option \<Rightarrow> LispObj list" where
  "extra_words e = (case e of None \<Rightarrow> [] | Some obj \<Rightarrow> [masked obj])"

lemma push_extra_eval:
  assumes "slot (ps_sp s + int (length objs) + 1)"
  shows "push_extra e (ps_pushed objs s) = Some (Ret (), ps_pushed (objs @ extra_words e) s)"
  using ps_push_eval [OF assms] by (cases e) (simp_all add: push_extra_def extra_words_def prog_simps)

lemma extra_words_length: "length (extra_words e) \<le> 1"
  by (simp add: extra_words_def split: option.split)

subsection \<open>The frame of a trap before the instruction\<close>

definition pre_trap_words :: "u64 \<Rightarrow> machine \<Rightarrow> LispObj option \<Rightarrow> LispObj option \<Rightarrow> LispObj list" where
  "pre_trap_words index s e1 e2 = [continuation_word s, control_word s, mkobj TypeFixnum (ucast index),
     masked (ps_pc s)] @ extra_words e1 @ extra_words e2"

lemma pre_trap_words_length: "length (pre_trap_words index s e1 e2) \<le> 6"
  using extra_words_length [of e1] extra_words_length [of e2] by (simp add: pre_trap_words_def)

definition pre_trap_state :: "u64 \<Rightarrow> machine \<Rightarrow> LispObj option \<Rightarrow> LispObj option \<Rightarrow> machine" where
  "pre_trap_state index s e1 e2 = (ps_pushed (pre_trap_words index s e1 e2) (s\<lparr>ps_sp := ps_restartsp s\<rparr>))
     \<lparr>ps_fp := ps_restartsp s + 1,
      ps_lp := ps_restartsp s + int (length (pre_trap_words index s e1 e2)) + 1,
      control := trap_control (control s) (ps_restartsp s + 1)
        (ps_restartsp s + int (length (pre_trap_words index s e1 e2)) + 1) (ps_fp s),
      continuation := ps_pc s\<rparr>"

lemma TakePreTrap_builds:
  assumes "- 1 \<le> ps_restartsp s" "ps_restartsp s + 8 \<le> StackCacheLimit s" "StackCacheLimit s \<le> 1024"
  shows "TakePreTrap index e1 e2 s = enter_handler index (pre_trap_state index s e1 e2)"
proof -
  let ?s = "s\<lparr>ps_sp := ps_restartsp s\<rparr>"
  have sl: "slot (ps_sp ?s + int n + 1)" if "n \<le> 5" for n using assms that by (simp add: slot_def)
  have same: "continuation_word (ps_pushed objs ?s) = continuation_word s"
    "control_word (ps_pushed objs ?s) = control_word s" "ps_pc (ps_pushed objs ?s) = ps_pc s" for objs
    by (simp_all add: ps_pushed_def continuation_word_def control_word_def)
  note push = ps_push_eval [of ?s, OF sl] push_extra_eval [of ?s, OF sl]
  have room: "ps_make_room ?s = Some (Ret (), ps_pushed [] ?s)"
    using assms(2) by (simp add: ps_make_room_def prog_simps ps_pushed_Nil)
  show ?thesis
    using push(1) [of "[]"] push(1) [of "[continuation_word s]"] push(1) [of "[continuation_word s, control_word s]"]
      push(1) [of "[continuation_word s, control_word s, mkobj TypeFixnum (ucast index)]"]
      push(2) [of "[continuation_word s, control_word s, mkobj TypeFixnum (ucast index), masked (ps_pc s)]" e1]
      push(2) [of "[continuation_word s, control_word s, mkobj TypeFixnum (ucast index), masked (ps_pc s)] @ extra_words e1" e2]
      extra_words_length [of e1]
    by (simp add: TakePreTrap_def prog_simps room same pre_trap_state_def pre_trap_words_def)
      (simp add: ps_pushed_def algebra_simps)
qed

text \<open>A handler runs in the trap mode of its entry's cdr code, when that is higher.\<close>

definition handler_mode :: "u32 \<Rightarrow> LispObj \<Rightarrow> u32" where
  "handler_mode mode entry = (if mode < TagCdr (TAG entry) then TagCdr (TAG entry) AND 3 else mode)"

lemma pre_trap_space: "same_space s (pre_trap_state index s e1 e2)"
  by (simp add: same_space_def pre_trap_state_def ps_pushed_def)

lemma pre_trap_control:
  assumes "0 \<le> ps_restartsp s + 1 - ps_fp s" "ps_restartsp s + 1 - ps_fp s < 256"
  shows "frame_control (int (length (pre_trap_words index s e1 e2))) (ps_restartsp s + 1 - ps_fp s)
      (control (pre_trap_state index s e1 e2))"
    and "ReadControlTrapMode (control (pre_trap_state index s e1 e2)) = ReadControlTrapMode (control s)"
  using trap_control_fields [of "ps_restartsp s + int (length (pre_trap_words index s e1 e2)) + 1"
      "ps_restartsp s + 1" "ps_fp s" "control s"] pre_trap_words_length [of index s e1 e2] assms
  by (simp_all add: pre_trap_state_def)

lemma frame_control_mode: "frame_control n k (WriteControlTrapMode c m) = frame_control n k c"
  by (simp add: frame_control_def control_defs ldb_dpb_control_other)

lemma enter_handler_eval:
  assumes "vector_word s (vector_address (ReadControlTrapMode (control s)) index) entry"
    and "vector_word s (vector_address 3 index) fep_entry"
  shows "\<exists>m d c. enter_handler index s = Some (Ret (chosen_handler entry fep_entry \<noteq> None),
      s\<lparr>memory_vma := m, trap_vma := d, control := c,
        ps_pc := (case chosen_handler entry fep_entry of None \<Rightarrow> ps_pc s | Some h \<Rightarrow> h)\<rparr>)
    \<and> (\<forall>n k. frame_control n k c = frame_control n k (control s))
    \<and> (case chosen_handler entry fep_entry of None \<Rightarrow> ReadControlTrapMode c = 3
       | Some h \<Rightarrow> ReadControlTrapMode c = handler_mode (ReadControlTrapMode (control s)) h)"
proof -
  let ?mode = "ReadControlTrapMode (control s)" and ?h = "chosen_handler entry fep_entry"
  obtain m d where f: "FetchTrapVectorEntry index s = Some (Ret ?h, s\<lparr>memory_vma := m, trap_vma := d,
      control := WriteControlTrapMode (control s) (if ?h = None then 3 else ?mode)\<rparr>)"
    using FetchTrapVectorEntry_eval [OF assms] by (auto simp: Let_def)
  have w: "ReadControlTrapMode (WriteControlTrapMode c k) = k AND 3" for c k
    using cr_TrapMode.get_put [of c k] by (simp add: mask_eq_exp_minus_1)
  show ?thesis
  proof (cases ?h)
    case None
    then show ?thesis
      by (intro exI [of _ m] exI [of _ d] exI [of _ "WriteControlTrapMode (control s) 3"])
        (simp add: enter_handler_def f prog_simps frame_control_mode w)
  next
    case (Some h)
    let ?c = "WriteControlTrapMode (control s) ?mode"
    let ?c' = "if ?mode < TagCdr (TAG h) then WriteControlTrapMode ?c (TagCdr (TAG h)) else ?c"
    show ?thesis using Some
      by (intro exI [of _ m] exI [of _ d] exI [of _ ?c'])
        (simp add: enter_handler_def f prog_simps frame_control_mode w set_control_def mode_and_3
          handler_mode_def comp_def)
  qed
qed

lemma TakePreTrap_eval:
  assumes "- 1 \<le> ps_restartsp s" "ps_restartsp s + 8 \<le> StackCacheLimit s" "StackCacheLimit s \<le> 1024"
    and "0 \<le> ps_restartsp s + 1 - ps_fp s" "ps_restartsp s + 1 - ps_fp s < 256"
    and "vector_word s (vector_address (ReadControlTrapMode (control s)) index) entry"
    and "vector_word s (vector_address 3 index) fep_entry"
  shows "\<exists>t. let words = pre_trap_words index s e1 e2; handler = chosen_handler entry fep_entry in
    TakePreTrap index e1 e2 s = Some (Ret (handler \<noteq> None), t)
    \<and> StackCache t = laid (ps_restartsp s + 1) words (StackCache s)
    \<and> ps_fp t = ps_restartsp s + 1 \<and> ps_sp t = ps_restartsp s + int (length words) \<and> ps_lp t = ps_sp t + 1
    \<and> continuation t = ps_pc s
    \<and> frame_control (int (length words)) (ps_restartsp s + 1 - ps_fp s) (control t)
    \<and> (case handler of None \<Rightarrow> ReadControlTrapMode (control t) = 3
       | Some h \<Rightarrow> ps_pc t = h
           \<and> ReadControlTrapMode (control t) = handler_mode (ReadControlTrapMode (control s)) h)"
proof -
  let ?u = "pre_trap_state index s e1 e2" and ?h = "chosen_handler entry fep_entry"
  have "vector_word ?u (vector_address (ReadControlTrapMode (control ?u)) index) entry"
    "vector_word ?u (vector_address 3 index) fep_entry"
    using vector_word_same [OF pre_trap_space] assms(6,7) pre_trap_control(2) [OF assms(4,5)] by simp_all
  from enter_handler_eval [OF this] obtain m d c where e: "enter_handler index ?u = Some (Ret (?h \<noteq> None),
      ?u\<lparr>memory_vma := m, trap_vma := d, control := c, ps_pc := (case ?h of None \<Rightarrow> ps_pc ?u | Some h \<Rightarrow> h)\<rparr>)"
    and c: "\<forall>n k. frame_control n k c = frame_control n k (control ?u)"
      "case ?h of None \<Rightarrow> ReadControlTrapMode c = 3
       | Some h \<Rightarrow> ReadControlTrapMode c = handler_mode (ReadControlTrapMode (control ?u)) h"
    by blast
  let ?t = "?u\<lparr>memory_vma := m, trap_vma := d, control := c, ps_pc := (case ?h of None \<Rightarrow> ps_pc ?u | Some h \<Rightarrow> h)\<rparr>"
  have f: "frame_control (int (length (pre_trap_words index s e1 e2))) (ps_restartsp s + 1 - ps_fp s) c"
    using c(1) pre_trap_control(1) [OF assms(4,5)] by blast
  have "TakePreTrap index e1 e2 s = Some (Ret (?h \<noteq> None), ?t)"
    unfolding TakePreTrap_builds [OF assms(1-3)] by (rule e)
  moreover have "StackCache ?t = laid (ps_restartsp s + 1) (pre_trap_words index s e1 e2) (StackCache s)"
    "ps_fp ?t = ps_restartsp s + 1" "continuation ?t = ps_pc s" "control ?t = c"
    "ps_sp ?t = ps_restartsp s + int (length (pre_trap_words index s e1 e2))" "ps_lp ?t = ps_sp ?t + 1"
    "\<And>h. ?h = Some h \<Longrightarrow> ps_pc ?t = h"
    by (simp_all add: pre_trap_state_def ps_pushed_def)
  ultimately show ?thesis
    using c(2) f unfolding Let_def pre_trap_control(2) [OF assms(4,5)]
    by (intro exI [of _ ?t]) (simp split: option.splits)
qed

text \<open>Claim C25: a trap before an instruction takes the machine back to the state before it
  (the stack pointer is the one the instruction started with), pushes the frame of the handler (the
  continuation and control register with cdr code 3, the vector, the program counter of the
  instruction, and the extra arguments) and makes it current: the frame is called for effect, its size and
  that of the frame below are in the control register, the flags of calls, cleanups and tracing are clear, and
  it will return to the instruction. It then enters the handler that the trap vector chooses, in the trap
  mode of its entry, or reports that there is none.\<close>

theorem TakePreTrap_enters:
  assumes "- 1 \<le> ps_restartsp s" "ps_restartsp s + 8 \<le> StackCacheLimit s" "StackCacheLimit s \<le> 1024"
    and "0 \<le> ps_restartsp s + 1 - ps_fp s" "ps_restartsp s + 1 - ps_fp s < 256"
    and "vector_word s (vector_address (ReadControlTrapMode (control s)) index) entry"
    and "vector_word s (vector_address 3 index) fep_entry"
  shows "\<exists>t. let words = pre_trap_words index s e1 e2; handler = chosen_handler entry fep_entry in
    TakePreTrap index e1 e2 s = Some (Ret (handler \<noteq> None), t)
    \<and> StackCache t = laid (ps_restartsp s + 1) words (StackCache s)
    \<and> ps_fp t = ps_restartsp s + 1 \<and> ps_sp t = ps_restartsp s + int (length words) \<and> ps_lp t = ps_sp t + 1
    \<and> continuation t = ps_pc s
    \<and> frame_control (int (length words)) (ps_restartsp s + 1 - ps_fp s) (control t)
    \<and> (case handler of None \<Rightarrow> ReadControlTrapMode (control t) = 3
       | Some h \<Rightarrow> ps_pc t = h
           \<and> ReadControlTrapMode (control t) = handler_mode (ReadControlTrapMode (control s)) h)"
  using assms by (rule TakePreTrap_eval)

theorem TakePreTrap_enters_witness:
  "\<exists>t. TakePreTrap 2640 (Some (mkobj TypeLocative 0x5000)) None (handler_sample 102) = Some (Ret True, t)
     \<and> ps_pc t = mkobj 102 0x1000 \<and> StackCache t 21 = mkobj TypeLocative 0x5000
     \<and> ReadControlTrapMode (control t) = 1"
proof -
  have s: "ps_restartsp (handler_sample 102) = 16" "ps_fp (handler_sample 102) = 8"
    "StackCacheLimit (handler_sample 102) = 896"
    by (simp_all add: handler_sample_def with_page_def)
  have p: "chosen_handler (mkobj 102 0x1000) (mkobj 38 0x2000) = Some (mkobj 102 0x1000)"
    "handler_mode 0 (mkobj 102 0x1000) = 1"
    by (simp_all add: chosen_handler_def pc_type_def TypeEqualP_def handler_mode_def TagCdr_def)
  show ?thesis
    using TakePreTrap_enters [of "handler_sample 102" 2640 "mkobj 102 0x1000" "mkobj 38 0x2000"
        "Some (mkobj TypeLocative 0x5000)" None] handler_sample_words
    by (auto simp: handler_sample_mode s p Let_def laid_def pre_trap_words_def extra_words_def masked_def
        TagTypeMask_def)
qed

end
