(* ===== verification/DecodeFacts.thy ===== *)
theory DecodeFacts
  imports CacheFacts ArithmeticFacts
begin

text \<open>
  The decoder is well typed: whatever word is decoded, no table is indexed out of its range, and
  every line of the instruction cache holds a code that the sequencer knows with an operand in the range
  of that code's way to address it.
\<close>

unbundle bit_operations_syntax

subsection \<open>Types of cache lines\<close>

fun mode_range :: "operand_mode \<Rightarrow> int \<times> int" where
  "mode_range ModeFP = (0, 255)"
| "mode_range ModeLP = (0, 255)"
| "mode_range ModeSP = (- 254, 0)"
| "mode_range ModePop = (0, 0)"
| "mode_range ModeImmediate = (- 128, 255)"

text \<open>The range of the operand of a code; \<open>None\<close> when it is not used or may be any word.\<close>

fun operand_range :: "dispatch \<Rightarrow> (int \<times> int) option" where
  "operand_range (ListI i m) = Some (mode_range m)"
| "operand_range (LogicI i m) = Some (mode_range m)"
| "operand_range (PredicateI i m) = Some (mode_range m)"
| "operand_range (NumericI i m) = Some (mode_range m)"
| "operand_range (MoveI i m) = Some (mode_range m)"
| "operand_range (ArrayI i m) = Some (mode_range m)"
| "operand_range (CallI i m) = Some (mode_range m)"
| "operand_range (BindI i m) = Some (mode_range m)"
| "operand_range (LexicalI i m) = Some (mode_range m)"
| "operand_range (InstanceI i m) = Some (mode_range m)"
| "operand_range (SubprimI i m) = Some (mode_range m)"
| "operand_range (BlockWriteI n m) = Some (mode_range m)"
| "operand_range (BlockReadAluI n m) = Some (mode_range m)"
| "operand_range (BlockReadI n) = Some (0, 1023)"
| "operand_range (BlockReadShiftI n) = Some (0, 1023)"
| "operand_range (BlockReadTestI n) = Some (0, 1023)"
| "operand_range (BranchI i) = Some (- 512, 511)"
| "operand_range (FieldI i) = Some (0, 1023)"
| "operand_range (PlainI i) =
     (if i \<in> {OpReturnSingleNIL, OpReturnSingleT, OpReturnSingleTOS} then None
      else if i \<in> {OpEntryRestAccepted, OpEntryRestNotAccepted} then Some (0, 65535)
      else Some (0, 4095))"
| "operand_range (IvarI i) = Some (0, 255)"
| "operand_range (WordI i) = None"
| "operand_range DispatchInstructionCacheLookup = None"
| "operand_range DispatchIllegalInstruction = None"

text \<open>Block instructions name one of four address registers, typed pushes a data type; the code of a
  lookup belongs to no line.\<close>

fun known_code :: "dispatch \<Rightarrow> bool" where
  "known_code (BlockWriteI n m) \<longleftrightarrow> n < 4"
| "known_code (BlockReadAluI n m) \<longleftrightarrow> n < 4"
| "known_code (BlockReadI n) \<longleftrightarrow> n < 4"
| "known_code (BlockReadShiftI n) \<longleftrightarrow> n < 4"
| "known_code (BlockReadTestI n) \<longleftrightarrow> n < 4"
| "known_code (WordI (PushTyped t)) \<longleftrightarrow> t < 64"
| "known_code DispatchInstructionCacheLookup \<longleftrightarrow> False"
| "known_code d \<longleftrightarrow> True"

definition in_range :: "(int \<times> int) option \<Rightarrow> int \<Rightarrow> bool" where
  "in_range r i \<longleftrightarrow> (case r of None \<Rightarrow> True | Some (lo, hi) \<Rightarrow> lo \<le> i \<and> i \<le> hi)"

definition typed_line :: "InstructionCacheLine \<Rightarrow> bool" where
  "typed_line l \<longleftrightarrow> known_code (code l) \<and> in_range (operand_range (code l)) (sint (operand l))"

subsection \<open>The tables\<close>

fun decoder_range :: "decoder \<Rightarrow> (int \<times> int) option" where
  "decoder_range DecodeNone = Some (0, 0)"
| "decoder_range Decode8BitUnsigned = Some (0, 255)"
| "decoder_range Decode8BitSigned = Some (- 128, 127)"
| "decoder_range Decode10BitUnsigned = Some (0, 1023)"
| "decoder_range Decode12BitUnsigned = Some (0, 4095)"
| "decoder_range DecodeFP = Some (0, 255)"
| "decoder_range DecodeLP = Some (0, 255)"
| "decoder_range DecodeSP = Some (- 254, 0)"
| "decoder_range DecodeBranch = Some (- 512, 511)"
| "decoder_range DecodeReturn = None"
| "decoder_range DecodeEntry = Some (0, 65535)"

definition within :: "(int \<times> int) option \<Rightarrow> (int \<times> int) option \<Rightarrow> bool" where
  "within r r' \<longleftrightarrow> (case r' of None \<Rightarrow> True | Some (lo', hi') \<Rightarrow>
     (case r of None \<Rightarrow> False | Some (lo, hi) \<Rightarrow> lo' \<le> lo \<and> hi \<le> hi'))"

lemma in_range_within: "within r r' \<Longrightarrow> in_range r i \<Longrightarrow> in_range r' i"
  by (auto simp: within_def in_range_def split: option.splits prod.splits)

definition typed_entry :: "dispatch \<times> decoder \<Rightarrow> bool" where
  "typed_entry df \<longleftrightarrow> known_code (fst df) \<and> within (decoder_range (snd df)) (operand_range (fst df))"

definition typed_zero :: "dispatch \<Rightarrow> bool" where
  "typed_zero d \<longleftrightarrow> known_code d \<and> in_range (operand_range d) 0"

lemmas table_checks = same4_def modes4_def typed_entry_def within_def typed_zero_def in_range_def

lemma typed_0000: "list_all typed_entry PackedInstructionDecoder_0000 \<and> length PackedInstructionDecoder_0000 = 128"
  by (simp add: PackedInstructionDecoder_0000_def table_checks)

lemma typed_0200: "list_all typed_entry PackedInstructionDecoder_0200 \<and> length PackedInstructionDecoder_0200 = 128"
  by (simp add: PackedInstructionDecoder_0200_def table_checks)

lemma typed_0400: "list_all typed_entry PackedInstructionDecoder_0400 \<and> length PackedInstructionDecoder_0400 = 128"
  by (simp add: PackedInstructionDecoder_0400_def table_checks)

lemma typed_0600: "list_all typed_entry PackedInstructionDecoder_0600 \<and> length PackedInstructionDecoder_0600 = 128"
  by (simp add: PackedInstructionDecoder_0600_def table_checks)

lemma typed_1000: "list_all typed_entry PackedInstructionDecoder_1000 \<and> length PackedInstructionDecoder_1000 = 128"
  by (simp add: PackedInstructionDecoder_1000_def table_checks)

lemma typed_1200: "list_all typed_entry PackedInstructionDecoder_1200 \<and> length PackedInstructionDecoder_1200 = 128"
  by (simp add: PackedInstructionDecoder_1200_def table_checks)

lemma typed_1400: "list_all typed_entry PackedInstructionDecoder_1400 \<and> length PackedInstructionDecoder_1400 = 128"
  by (simp add: PackedInstructionDecoder_1400_def table_checks)

lemma typed_1600: "list_all typed_entry PackedInstructionDecoder_1600 \<and> length PackedInstructionDecoder_1600 = 128"
  by (simp add: PackedInstructionDecoder_1600_def table_checks)

lemma typed_packed: "list_all typed_entry PackedInstructionDecoder" "length PackedInstructionDecoder = 1024"
  using typed_0000 typed_0200 typed_0400 typed_0600 typed_1000 typed_1200 typed_1400 typed_1600
  by (simp_all add: PackedInstructionDecoder_def)

lemma typed_pop: "list_all typed_zero PopInstructionDecoder" "length PopInstructionDecoder = 256"
  by (simp_all add: PopInstructionDecoder_def PopInstructionDecoder_000_def PopInstructionDecoder_200_def table_checks)

lemma typed_word: "list_all known_code WordInstructionDecoder" "length WordInstructionDecoder = 64"
  "list_all (\<lambda>d. operand_range d = None) WordInstructionDecoder"
  by (simp_all add: WordInstructionDecoder_def)

lemma packed_entry: "i < 1024 \<Longrightarrow> typed_entry (PackedInstructionDecoder ! i)"
  using typed_packed by (simp add: list_all_length)

lemma pop_entry: "i < 256 \<Longrightarrow> typed_zero (PopInstructionDecoder ! i)"
  using typed_pop by (simp add: list_all_length)

lemma word_entry:
  "i < 64 \<Longrightarrow> known_code (WordInstructionDecoder ! i) \<and> operand_range (WordInstructionDecoder ! i) = None"
  using typed_word by (simp add: list_all_length)

subsection \<open>Operands\<close>

lemma sint_uint32: "uint x < 2147483648 \<Longrightarrow> sint (x :: u32) = uint x"
proof -
  assume "uint x < 2147483648"
  moreover have "- 2147483648 \<le> uint x" using uint_ge_0 [of x] by linarith
  ultimately show ?thesis using signed_take_bit_int_eq_self [of 31 "uint x"] by (simp add: sint_uint)
qed

lemma take_bit_less: "n < 32 \<Longrightarrow> take_bit n x < (2 :: u32) ^ n"
proof -
  assume "n < 32"
  then show ?thesis unfolding take_bit_eq_mask by (intro and_mask_less_size) (simp add: word_size)
qed

lemma field_range: "0 \<le> sint (take_bit n x :: u32) \<and> sint (take_bit n x :: u32) < 2 ^ n" if "n < 32"
proof -
  have u: "uint (take_bit n x) < 2 ^ n" by (simp add: unsigned_take_bit_eq)
  have "(2 :: int) ^ n \<le> 2 ^ 31" using that by (intro power_increasing) simp_all
  then have "sint (take_bit n x) = uint (take_bit n x)" using u by (intro sint_uint32) simp
  then show ?thesis using u by simp
qed

lemma mask_field: "x AND 0xFF = take_bit 8 x" "x AND 0x3FF = take_bit 10 x" "x AND 0xFFF = take_bit 12 x" for x :: u32
  by (simp_all add: take_bit_eq_mask mask_eq_exp_minus_1)

lemma div_between: "0 < m \<Longrightarrow> a * m \<le> y \<Longrightarrow> y < b * m \<Longrightarrow> a \<le> y div m \<and> y div m < b" for a b m y :: int
proof -
  assume m: "0 < m" and y: "a * m \<le> y" "y < b * m"
  have "a * m div m \<le> y div m" using m y(1) by (intro zdiv_mono1) simp_all
  moreover have "\<not> b \<le> y div m"
  proof
    assume "b \<le> y div m"
    then have "b * m \<le> y div m * m" using m by simp
    also have "\<dots> \<le> y" using m by (simp add: div_times_less_eq_dividend minus_mod_eq_div_mult [symmetric])
    finally show False using y(2) by simp
  qed
  ultimately show ?thesis using m by simp
qed

lemma sign_extended: "- (2 ^ (n - 1)) \<le> sint (signed_drop_bit (32 - n) (push_bit (32 - n) x) :: u32)
    \<and> sint (signed_drop_bit (32 - n) (push_bit (32 - n) x) :: u32) < 2 ^ (n - 1)" if "0 < n" "n < 32"
proof -
  have "sint (signed_drop_bit (32 - n) (push_bit (32 - n) x) :: u32) = drop_bit (32 - n) (sint (push_bit (32 - n) x))"
    by (simp add: sint_signed_drop_bit_eq)
  moreover have "drop_bit (32 - n) (sint y) = sint y div 2 ^ (32 - n)" for y :: u32 by (simp add: drop_bit_eq_div)
  moreover have "- (2 ^ (n - 1)) \<le> sint y div 2 ^ (32 - n) \<and> sint y div 2 ^ (32 - n) < 2 ^ (n - 1)" for y :: u32
  proof -
    have e: "(2 :: int) ^ (n - 1) * 2 ^ (32 - n) = 2147483648"
      using that by (simp flip: power_add)
    have y: "- 2147483648 \<le> sint y" "sint y < 2147483648" using sint_ge [of y] sint_lt [of y] by simp_all
    then have "- (2 ^ (n - 1)) * 2 ^ (32 - n) \<le> sint y" "sint y < 2 ^ (n - 1) * 2 ^ (32 - n)"
      using e by simp_all
    then show ?thesis by (intro div_between) simp_all
  qed
  ultimately show ?thesis by metis
qed

lemma small_operand: "n < 32 \<Longrightarrow> in_range (Some (0, 2 ^ n - 1)) (sint (take_bit n x :: u32))"
  using field_range [of n x] by (simp add: in_range_def)

lemma sp_operand:
  assumes "take_bit 8 i \<noteq> (0 :: u32)"
  shows "- 254 \<le> sint (take_bit 8 i - 255) \<and> sint (take_bit 8 i - 255) \<le> 0"
proof -
  have r: "0 \<le> sint (take_bit 8 i)" "sint (take_bit 8 i) < 256" using field_range [of 8 i] by simp_all
  moreover have "sint (take_bit 8 i) \<noteq> 0" using assms signed_eq_0_iff by blast
  moreover have "sint (take_bit 8 i - 255) = sint (take_bit 8 i) - 255"
    using r unfolding sint_sub by (subst wrap32) simp_all
  ultimately show ?thesis by linarith
qed

lemma entry_operand: "in_range (Some (0, 65535)) (sint (dpb (ldb 8 18 (i :: u32)) 8 8 (i AND 0xFF)))"
proof -
  have "dpb (ldb 8 18 i) 8 8 (i AND 0xFF) = take_bit 16 (dpb (ldb 8 18 i) 8 8 (i AND 0xFF))"
    by (rule bit_word_eqI) (auto simp: bit_dpb mask_field bit_simps)
  then show ?thesis using small_operand [of 16 "dpb (ldb 8 18 i) 8 8 (i AND 0xFF)"] by simp
qed

lemma index_bounds: "unat (ldb 8 10 (i :: u32)) < 256" "unat (TagType t) < 64"
  "instr < 2 ^ 18 \<Longrightarrow> unat (drop_bit 8 (instr :: u32)) < 1024"
proof -
  have "ldb 8 10 i < 2 ^ 8" by (rule ldb_bound) simp
  then show "unat (ldb 8 10 i) < 256" by (simp add: word_less_nat_alt)
  have "TagType t = take_bit 6 t" by (simp add: TagType_def take_bit_eq_mask mask_eq_exp_minus_1)
  then show "unat (TagType t) < 64" by (simp add: take_bit_eq_mod unat_mod)
  show "unat (drop_bit 8 instr) < 1024" if "instr < 2 ^ 18"
  proof -
    have "unat instr < 1024 * 256" using that by (simp add: word_less_nat_alt)
    then have "drop_bit 8 (unat instr) < 1024" by (simp add: drop_bit_eq_div less_mult_imp_div_less)
    moreover have "take_bit 32 (unat instr) = unat instr" by (rule take_bit_nat_eq_self) (use \<open>unat instr < 1024 * 256\<close> in simp)
    ultimately show ?thesis using unsigned_drop_bit_eq [of 8 instr, where 'a = nat] by simp
  qed
qed

text \<open>Decoding an operand leaves a line whose code is that of the entry, or a typed code with the
  operand 0.\<close>

lemma decode_operand_typed:
  assumes "typed_entry (code l, f)"
  shows "typed_line (decode_operand f i l)"
proof -
  have k: "known_code (code l)" "within (decoder_range f) (operand_range (code l))"
    using assms by (simp_all add: typed_entry_def)
  have r: "typed_line (l\<lparr>operand := x\<rparr>)" if "in_range (decoder_range f) (sint x)" for x
    using in_range_within [OF k(2) that] k(1) by (simp add: typed_line_def)
  have z: "typed_line (l\<lparr>code := d, operand := 0\<rparr>)" if "typed_zero d" for d
    using that by (simp add: typed_line_def typed_zero_def)
  show ?thesis
  proof (cases f)
    case DecodeSP
    then show ?thesis
      using r [of "take_bit 8 i - 255"] sp_operand [of i] z pop_entry [OF index_bounds(1)]
      by (auto simp: DecodeSPOperandFunction_def Let_def mask_field in_range_def)
  next
    case DecodeReturn
    have "typed_zero (ReturnInstructionDecoder ! n)" if "n < 3" for n
      using that by (auto simp: ReturnInstructionDecoder_def table_checks less_Suc_eq numeral_eq_Suc)
    moreover have "typed_line l" using r [of "operand l"] DecodeReturn by (simp add: in_range_def)
    ultimately show ?thesis using z DecodeReturn by (auto simp: DecodeReturnOperandFunction_def)
  next
    case DecodeEntry
    then show ?thesis using r entry_operand by (simp add: DecodeEntryOperandFunction_def)
  next
    case Decode8BitSigned
    then show ?thesis using r [of "SignExtend8 i"] sign_extended [of 8 i] by (simp add: SignExtend8_def in_range_def)
  next
    case DecodeBranch
    then show ?thesis using r [of "SignExtend10 i"] sign_extended [of 10 i] by (simp add: SignExtend10_def in_range_def)
  next
    case DecodeNone
    then show ?thesis using r [of 0] by (simp add: in_range_def)
  qed (use r [of "take_bit 8 i"] r [of "take_bit 10 i"] r [of "take_bit 12 i"] small_operand [of 8 i]
      small_operand [of 10 i] small_operand [of 12 i] in \<open>simp_all add: mask_field\<close>)
qed

lemma decode_packed_typed: "instr < 2 ^ 18 \<Longrightarrow> typed_line (decode_packed instr i l)"
  using packed_entry [OF index_bounds(3), of instr]
  by (cases "PackedInstructionDecoder ! unat (drop_bit 8 instr)")
    (simp add: decode_packed_def decode_operand_typed)

lemma packed_bounds: "data AND 0x3FFFF < (2 :: u32) ^ 18"
  "push_bit 14 (ucast (tag AND 0xF :: u8)) OR ldb 14 18 (data :: u32) < (2 :: u32) ^ 18"
proof -
  have "data AND 0x3FFFF = take_bit 18 data" by (simp add: take_bit_eq_mask mask_eq_exp_minus_1)
  then show "data AND 0x3FFFF < 2 ^ 18" using take_bit_less [of 18 data] by simp
  have m: "(0xF :: u8) = mask 4" by (simp add: mask_eq_exp_minus_1)
  have "push_bit 14 (ucast (tag AND 0xF)) OR ldb 14 18 data
      = take_bit 18 (push_bit 14 (ucast (tag AND 0xF)) OR ldb 14 18 data :: u32)"
    unfolding m by (rule bit_word_eqI) (auto simp: bit_simps bit_ldb)
  then show "push_bit 14 (ucast (tag AND 0xF)) OR ldb 14 18 data < (2 :: u32) ^ 18"
    using take_bit_less [of 18 "push_bit 14 (ucast (tag AND 0xF)) OR ldb 14 18 data"] by simp
qed

lemma illegal_typed: "typed_line (illegal_line l)"
  by (simp add: illegal_line_def typed_line_def in_range_def)

lemma decode_lines_typed: "typed_line (fst (decode_lines e vma tag data ls))" "typed_line (snd (decode_lines e vma tag data ls))"
  using word_entry [OF index_bounds(2)]
  by (auto simp: decode_lines_def Let_def illegal_typed packed_even_def packed_odd_def
      intro!: decode_packed_typed packed_bounds) (auto simp: typed_line_def in_range_def)

lemma decode_block_typed: "typed_line (c j) \<Longrightarrow> typed_line (decode_block e vma ws c j)"
proof (induction e vma ws c rule: decode_block.induct)
  case (2 e vma w ws c)
  obtain x y where xy: "decode_lines e vma (ucast (TAG w)) (DATA w) (c e, c (e + 1)) = (x, y)" by fastforce
  then have "typed_line x" "typed_line y"
    using decode_lines_typed [of e vma "ucast (TAG w)" "DATA w" "(c e, c (e + 1))"] by simp_all
  then have "typed_line ((c(e := x, e + 1 := y)) j)" using 2(2) by simp
  then have "typed_line (decode_block (e + 2) (vma + 1) ws (c(e := x, e + 1 := y)) j)"
    by (rule 2(1) [OF xy [symmetric] refl])
  then show ?case unfolding decode_block.simps xy by simp
qed simp

lemma force_lookup_typed: "typed_line (force_lookup f i c j) = typed_line (c j)"
  by (simp add: force_lookup_def typed_line_def)

lemma filled_typed: "typed_line (InstructionCache s j) \<Longrightarrow> typed_line (filled s vma j)"
  by (simp add: filled_def close_block_def Let_def force_lookup_typed decode_block_typed)

subsection \<open>Every line of the cache\<close>

definition cache_typed :: "machine \<Rightarrow> bool" where
  "cache_typed s \<longleftrightarrow> (\<forall>i<2048. typed_line (InstructionCache s i))"

lemma InstructionCacheMiss_typed: "keeps cache_typed InstructionCacheMiss"
proof (rule keepsI)
  fix s r s'
  assume a: "cache_typed s" "InstructionCacheMiss s = Some (r, s')" "r \<noteq> Undef"
  have "cache_typed s'"
    using InstructionCacheMiss_cases [OF a(2,3)] a(1) filled_typed
    by (auto simp: cache_typed_def same_memory_def)
  then show "cache_typed s' \<and> (\<forall>v. r = Longjmp v \<longrightarrow> v \<in> longjmp_values)"
    using a(2) InstructionCacheMiss_raises by blast
qed

interpretation types: cache_invariant cache_typed
proof unfold_locales
  show "cache_typed (initial_registers s)" if "cache_typed s" for s
    using that by (auto simp: cache_typed_def initial_registers_def initial_line_def typed_line_def)
qed (auto intro: InstructionCacheMiss_typed simp: cache_typed_def)

text \<open>Claim C26: every line of the instruction cache is well typed through every run of the
  sequencer, whatever words of memory are decoded: its code is one that a line can have, with
  at most register 3 and data type 63, and its operand lies in the range of the code's
  operand mode: at most 255 above the frame or the local pointer, at most 254 below the stack pointer, a
  10-bit offset for a branch, 8 to 16 bits for the others. In particular the indexes into the three decoder
  tables are never out of range.\<close>

theorem lines_always_typed:
  assumes "\<forall>i<2048. typed_line (InstructionCache s i)"
    and "seq_step\<^sup>*\<^sup>* (p, s) (q, t)" "q \<noteq> Broken"
  shows "(\<forall>i<2048. typed_line (InstructionCache t i))
    \<and> (\<forall>instr i. unat (drop_bit 8 (instr AND 0x3FFFF :: u32)) < length PackedInstructionDecoder
         \<and> unat (ldb 8 10 (i :: u32)) < length PopInstructionDecoder)
    \<and> (\<forall>tag. unat (TagType tag) < length WordInstructionDecoder)"
proof (intro conjI allI)
  show "\<And>i. i < 2048 \<longrightarrow> typed_line (InstructionCache t i)"
    using types.steps_keep [OF assms(2,3)] assms(1) by (simp add: cache_typed_def)
  show "unat (drop_bit 8 (instr AND 0x3FFFF :: u32)) < length PackedInstructionDecoder" for instr
    unfolding typed_packed(2) by (rule index_bounds(3) [OF packed_bounds(1)])
  show "unat (ldb 8 10 (i :: u32)) < length PopInstructionDecoder" for i
    unfolding typed_pop(2) by (rule index_bounds(1))
  show "unat (TagType tag) < length WordInstructionDecoder" for tag
    unfolding typed_word(2) by (rule index_bounds(2))
qed

theorem lines_always_typed_witness:
  "\<exists>t. seq_step\<^sup>*\<^sup>* (AtLookup, lookup_sample) (AtDispatch, t) \<and> code (InstructionCache t 0) = ListI OpCar ModeFP
     \<and> typed_line (InstructionCache t 0)"
proof -
  obtain t where t: "seq_step\<^sup>*\<^sup>* (AtLookup, lookup_sample) (AtDispatch, t)"
    "InstructionCache t = filled lookup_sample 0x2000" using sample_missed by blast
  have s: "\<forall>i<2048. typed_line (InstructionCache lookup_sample i)"
    by (simp add: typed_line_def blank_line_def in_range_def)
  have "code (InstructionCache t 0) = ListI OpCar ModeFP"
    unfolding t(2) by (rule sample_line(1))
  then show ?thesis using lines_always_typed [OF s t(1)] t(1) by auto
qed

end
