(* ===== verification/StepFacts.thy ===== *)
theory StepFacts
  imports FrameFacts
begin

text \<open>
  Steps of the sequencer that take a trap: from the trap entry to the first instruction of the
  handler, with the registers that \<open>setjmp\<close> finds; a signal that asks for a sequence break, and
  a fault for which there is no handler.
\<close>

unbundle bit_operations_syntax

subsection \<open>From the trap entry to the handler\<close>

text \<open>The sequencer's registers saved in \<open>processor\<close>.\<close>

definition saved :: "machine \<Rightarrow> machine" where
  "saved s = s\<lparr>ps_sp := sp s, ps_restartsp := restartsp s, ps_fp := fp s, ps_lp := lp s, ps_pc := pc s\<rparr>"

lemma DecacheRegisters_eval [prog_simps]: "DecacheRegisters s = Some (Ret (), saved s)"
  by (simp add: DecacheRegisters_def prog_simps saved_def)

lemma saved_simps [simp]:
  "ps_sp (saved s) = sp s" "ps_restartsp (saved s) = restartsp s" "ps_fp (saved s) = fp s"
  "ps_lp (saved s) = lp s" "ps_pc (saved s) = pc s" "control (saved s) = control s"
  "StackCacheLimit (saved s) = StackCacheLimit s" "trap_vma (saved s) = trap_vma s"
  "trap_microstate (saved s) = trap_microstate s" "StackCache (saved s) = StackCache s"
  "suspend (saved s) = suspend s" "same_space s (saved s)"
  by (simp_all add: saved_def same_space_def)

text \<open>Room on the stack for a trap frame above the saved stack pointer.\<close>

definition frame_room :: "machine \<Rightarrow> bool" where
  "frame_room s \<longleftrightarrow> - 1 \<le> restartsp s \<and> restartsp s + 8 \<le> StackCacheLimit s \<and> StackCacheLimit s \<le> 1024
     \<and> 0 \<le> restartsp s + 1 - fp s \<and> restartsp s + 1 - fp s < 256"

text \<open>The handler the trap vector gives: of the trap itself, or of the FEP mode.\<close>

definition handler_is :: "machine \<Rightarrow> u64 \<Rightarrow> LispObj option \<Rightarrow> bool" where
  "handler_is s index h \<longleftrightarrow> (\<exists>entry fep_entry. h = chosen_handler entry fep_entry
     \<and> vector_word s (vector_address (ReadControlTrapMode (control s)) index) entry
     \<and> vector_word s (vector_address 3 index) fep_entry)"

text \<open>The machine inside a handler: at its entry, in a frame whose words are as given.\<close>

definition in_handler :: "machine \<Rightarrow> LispObj list \<Rightarrow> LispObj \<Rightarrow> machine \<Rightarrow> bool" where
  "in_handler s words h t \<longleftrightarrow> pc t = h \<and> fp t = restartsp s + 1 \<and> sp t = restartsp s + int (length words)
     \<and> lp t = sp t + 1 \<and> StackCache t = laid (restartsp s + 1) words (StackCache s)
     \<and> continuation t = pc s \<and> frame_control (int (length words)) (restartsp s + 1 - fp s) (control t)
     \<and> ReadControlTrapMode (control t) = handler_mode (ReadControlTrapMode (control s)) h"

lemma trap_with_eval:
  assumes "frame_room s" "handler_is s (word_of_int vector) h"
  shows "\<exists>t. trap_with vector e1 e2 (saved s) = Some (Ret (if h = None then Stopped False else AtLookup), t)
    \<and> (case h of None \<Rightarrow> running t = False
       | Some p \<Rightarrow> in_handler s (pre_trap_words (word_of_int vector) (saved s) (e1 (saved s)) (e2 (saved s))) p t)"
proof -
  let ?w = "pre_trap_words (word_of_int vector) (saved s) (e1 (saved s)) (e2 (saved s))"
  obtain entry fep where h: "h = chosen_handler entry fep"
    "vector_word (saved s) (vector_address (ReadControlTrapMode (control s)) (word_of_int vector)) entry"
    "vector_word (saved s) (vector_address 3 (word_of_int vector)) fep"
    using assms(2) vector_word_same [of s "saved s"] by (auto simp: handler_is_def)
  obtain t where t: "TakePreTrap (word_of_int vector) (e1 (saved s)) (e2 (saved s)) (saved s) = Some (Ret (h \<noteq> None), t)"
    "StackCache t = laid (restartsp s + 1) ?w (StackCache s)" "ps_fp t = restartsp s + 1"
    "ps_sp t = restartsp s + int (length ?w)" "ps_lp t = ps_sp t + 1" "continuation t = pc s"
    "frame_control (int (length ?w)) (restartsp s + 1 - fp s) (control t)"
    "case h of None \<Rightarrow> ReadControlTrapMode (control t) = 3
       | Some p \<Rightarrow> ps_pc t = p \<and> ReadControlTrapMode (control t) = handler_mode (ReadControlTrapMode (control s)) p"
    using TakePreTrap_eval [of "saved s" "word_of_int vector" entry fep "e1 (saved s)" "e2 (saved s)",
        unfolded Let_def saved_simps] assms(1) h
    unfolding frame_room_def by blast
  have run: "trap_with vector e1 e2 (saved s) = after_trap (TakePreTrap (word_of_int vector) (e1 (saved s)) (e2 (saved s))) (saved s)"
    by (simp add: trap_with_def prog_simps)
  have last: "after_trap (TakePreTrap (word_of_int vector) (e1 (saved s)) (e2 (saved s))) (saved s)
      = (if h \<noteq> None then thn EncacheRegisters (ret AtLookup) else halt) t"
    unfolding after_trap_def
      bnd_Some(1) [where m = "TakePreTrap (word_of_int vector) (e1 (saved s)) (e2 (saved s))" and s = "saved s", OF t(1)]
    by simp
  show ?thesis
  proof (cases h)
    case None
    then show ?thesis unfolding run last by (simp add: halt_def prog_simps)
  next
    case (Some p)
    then show ?thesis unfolding run last using t
      by (simp add: EncacheRegisters_def prog_simps in_handler_def)
  qed
qed

lemma seq_run:
  "p \<in> {AtDispatch, AtLookup} \<or> (\<exists>v. p = AtTrap v) \<Longrightarrow> position_action p s = Some (r, t) \<Longrightarrow>
     q = position_after r \<Longrightarrow> seq_step (p, s) (q, t)"
  using seq_step.run by blast

subsection \<open>Sequence breaks\<close>

lemma suspended_dispatch:
  assumes "suspend s = SuspendHighPriority"
  shows "at_Dispatch s = Some (Longjmp HighPrioritySequenceBreakTrapVector, s\<lparr>restartsp := sp s, suspend := 0\<rparr>)"
  using assms by (simp add: at_Dispatch_def AllowSequenceBreaks_def ProcessSuspend_def prog_simps)

text \<open>Claim C27: a device that interrupts the emulator before it executes an instruction gets
  its sequence break at once: the next step leaves the instruction undone, and the one after it enters
  the handler of the high priority sequence break (or stops the machine, with \<open>running\<close> cleared, when the trap
  vector has none). The request is then gone, the stack below the frame is untouched, and the
  frame holds the program counter of the instruction that was not executed.\<close>

theorem interrupt_taken:
  assumes "frame_room (s\<lparr>restartsp := sp s\<rparr>)"
    and "handler_is s (word_of_int HighPrioritySequenceBreakTrapVector) h"
  shows "\<exists>t. seq_step (AtDispatch, s) (AtDispatch, s\<lparr>suspend := SuspendHighPriority\<rparr>)
    \<and> seq_step (AtDispatch, s\<lparr>suspend := SuspendHighPriority\<rparr>)
        (AtTrap HighPrioritySequenceBreakTrapVector, s\<lparr>restartsp := sp s, suspend := 0\<rparr>)
    \<and> seq_step (AtTrap HighPrioritySequenceBreakTrapVector, s\<lparr>restartsp := sp s, suspend := 0\<rparr>)
        (if h = None then Stopped False else AtLookup, t)
    \<and> (case h of None \<Rightarrow> running t = False
       | Some p \<Rightarrow> in_handler (s\<lparr>restartsp := sp s\<rparr>)
           [continuation_word s, control_word s, mkobj TypeFixnum (word_of_int HighPrioritySequenceBreakTrapVector),
            masked (pc s)] p t)"
proof -
  let ?u = "s\<lparr>restartsp := sp s, suspend := 0\<rparr>"
  have i: "seq_step (AtDispatch, s) (AtDispatch, s\<lparr>suspend := SuspendHighPriority\<rparr>)"
    by (rule seq_step.interrupt [where r = "Ret ()"]) (simp add: SendInterruptToEmulator_def prog_simps)
  have b: "seq_step (AtDispatch, s\<lparr>suspend := SuspendHighPriority\<rparr>) (AtTrap HighPrioritySequenceBreakTrapVector, ?u)"
    by (rule seq_run [where r = "Longjmp HighPrioritySequenceBreakTrapVector"])
      (simp_all add: position_action_def suspended_dispatch)
  have r: "frame_room ?u" using assms(1) by (simp add: frame_room_def)
  have hu: "handler_is ?u (word_of_int HighPrioritySequenceBreakTrapVector) h"
    using assms(2) vector_word_same [of s ?u] by (auto simp: handler_is_def same_space_def)
  have w: "pre_trap_words (word_of_int HighPrioritySequenceBreakTrapVector) (saved ?u) None None =
      [continuation_word s, control_word s, mkobj TypeFixnum (word_of_int HighPrioritySequenceBreakTrapVector), masked (pc s)]"
    by (simp add: pre_trap_words_def extra_words_def continuation_word_def control_word_def saved_def)
  have a: "position_action (AtTrap HighPrioritySequenceBreakTrapVector) ?u
      = trap_with HighPrioritySequenceBreakTrapVector (\<lambda>s. None) (\<lambda>s. None) (saved ?u)"
    by (simp add: position_action_def at_Trap_def prog_simps)
  obtain t where t: "position_action (AtTrap HighPrioritySequenceBreakTrapVector) ?u
        = Some (Ret (if h = None then Stopped False else AtLookup), t)"
      "case h of None \<Rightarrow> running t = False
       | Some p \<Rightarrow> in_handler ?u [continuation_word s, control_word s,
           mkobj TypeFixnum (word_of_int HighPrioritySequenceBreakTrapVector), masked (pc s)] p t"
    using trap_with_eval [OF r hu, of "\<lambda>s. None" "\<lambda>s. None"] unfolding a w by blast
  have "in_handler ?u ws p t = in_handler (s\<lparr>restartsp := sp s\<rparr>) ws p t" for ws p
    by (simp add: in_handler_def)
  then show ?thesis
    using i b seq_run [OF _ t(1) refl] t(2) by (intro exI [of _ t]) (auto split: option.splits)
qed

lemma sample_room: "frame_room (handler_sample t)" "frame_room (handler_sample t\<lparr>restartsp := sp (handler_sample t)\<rparr>)"
  by (simp_all add: frame_room_def handler_sample_def with_page_def)

text \<open>The sample in trap mode 3, where the entry of the FEP mode is taken.\<close>

definition fep_sample :: machine where
  "fep_sample = handler_sample 8\<lparr>control := 0xc0000000\<rparr>"

lemma fep_sample_handler: "handler_is fep_sample index (Some (mkobj 38 0x2000))"
proof -
  have "ReadControlTrapMode (control fep_sample) = 3"
    by (simp add: fep_sample_def ReadControlTrapMode_def ldb_def mask_eq_exp_minus_1)
  moreover have "vector_word fep_sample (vector_address 3 index) (mkobj 38 0x2000)"
    by (rule vector_word_same [of "handler_sample 8"])
      (use handler_sample_words(3) in \<open>simp_all add: same_space_def fep_sample_def vector_address_def\<close>)
  moreover have "Some (mkobj 38 0x2000) = chosen_handler (mkobj 38 0x2000) (mkobj 38 0x2000)"
    by (simp add: chosen_handler_def pc_type_def TypeEqualP_def)
  ultimately show ?thesis unfolding handler_is_def by metis
qed

theorem interrupt_taken_witness:
  "\<exists>t. seq_step\<^sup>*\<^sup>* (AtDispatch, fep_sample) (AtLookup, t) \<and> pc t = mkobj 38 0x2000 \<and> fp t = 17
     \<and> StackCache t 20 = mkobj TypeEvenPC 0"
proof -
  have s: "frame_room (fep_sample\<lparr>restartsp := sp fep_sample\<rparr>)" "sp fep_sample = 16" "pc fep_sample = mkobj TypeEvenPC 0"
    by (simp_all add: frame_room_def fep_sample_def handler_sample_def with_page_def)
  obtain t where "seq_step (AtDispatch, fep_sample) (AtDispatch, fep_sample\<lparr>suspend := 3\<rparr>)"
    "seq_step (AtDispatch, fep_sample\<lparr>suspend := 3\<rparr>) (AtTrap 2633, fep_sample\<lparr>restartsp := sp fep_sample, suspend := 0\<rparr>)"
    "seq_step (AtTrap 2633, fep_sample\<lparr>restartsp := sp fep_sample, suspend := 0\<rparr>) (AtLookup, t)"
    and h: "in_handler (fep_sample\<lparr>restartsp := sp fep_sample\<rparr>) [continuation_word fep_sample, control_word fep_sample,
        mkobj TypeFixnum 2633, masked (pc fep_sample)] (mkobj 38 0x2000) t"
    using interrupt_taken [OF s(1) fep_sample_handler] by auto
  then have "seq_step\<^sup>*\<^sup>* (AtDispatch, fep_sample) (AtLookup, t)"
    by (meson rtranclp.rtrancl_into_rtrancl rtranclp.rtrancl_refl)
  then show ?thesis
    using h s(2,3) by (auto simp: in_handler_def laid_def masked_def TagTypeMask_def)
qed

subsection \<open>Faults\<close>

definition fault_words :: "int \<Rightarrow> machine \<Rightarrow> LispObj list" where
  "fault_words v s = [continuation_word s, control_word s, mkobj TypeFixnum (ucast (word_of_int v :: u64)), masked (pc s)]
     @ (if v = ErrorTrapVector then [masked (trap_microstate s)] else []) @ [masked (trap_vma s)]"

text \<open>Claim C28: a memory fault, monitor, transport or error trap goes to its handler with
  the address of the fault (and the microstate, for an error) as its arguments, in a frame that
  returns to the instruction that failed, given room for the frame and readable trap vector entries; the machine stops, with
  \<open>running\<close> cleared, when these have no handler. But when the fault was on one of the 256 words around the trap
  vector's entries for errors and resets, the machine stops whatever the vector and the stack are like, in particular
  when the page of the vector is not there, so a broken trap vector never makes it trap for ever.\<close>

theorem fault_taken:
  assumes "v \<in> {MonitorTrapVector, TransportTrapVector, PageNotResidentTrapVector, ErrorTrapVector}"
    and "\<not> bad_spot s \<Longrightarrow> frame_room s" "\<not> bad_spot s \<Longrightarrow> handler_is s (word_of_int v) h"
  shows "\<exists>t. seq_step (AtTrap v, s) (if bad_spot s \<or> h = None then Stopped False else AtLookup, t)
    \<and> (if bad_spot s then t = (saved s)\<lparr>running := False\<rparr>
       else if h = None then running t = False else in_handler s (fault_words v s) (the h) t)"
proof -
  have bad: "bad_spot (saved s) = bad_spot s" by (simp add: bad_spot_def)
  define e1 where "e1 = (\<lambda>s :: machine. if v = ErrorTrapVector then Some (trap_microstate s) else Some (trap_vma s))"
  define e2 where "e2 = (\<lambda>s :: machine. if v = ErrorTrapVector then Some (trap_vma s) else None)"
  have a: "position_action (AtTrap v) s
      = (if bad_spot s then halt (saved s) else trap_with v e1 e2 (saved s))"
    using assms(1) by (auto simp: position_action_def at_Trap_def prog_simps unless_bad_spot_def bad e1_def e2_def)
  have w: "pre_trap_words (word_of_int v) (saved s) (e1 (saved s)) (e2 (saved s)) = fault_words v s"
    by (simp add: pre_trap_words_def extra_words_def fault_words_def e1_def e2_def saved_def
        continuation_word_def control_word_def)
  show ?thesis
  proof (cases "bad_spot s")
    case True
    then have "position_action (AtTrap v) s = Some (Ret (Stopped False), saved s\<lparr>running := False\<rparr>)"
      unfolding a by (simp add: halt_def prog_simps)
    then show ?thesis
      using True seq_run [of "AtTrap v" s "Ret (Stopped False)"] by (intro exI [of _ "saved s\<lparr>running := False\<rparr>"]) simp
  next
    case False
    obtain t where t: "position_action (AtTrap v) s = Some (Ret (if h = None then Stopped False else AtLookup), t)"
      "case h of None \<Rightarrow> running t = False | Some p \<Rightarrow> in_handler s (fault_words v s) p t"
      using trap_with_eval [OF assms(2,3) [OF False], of e1 e2] False unfolding a w by auto
    then show ?thesis
      using False seq_run [OF _ t(1) refl] by (intro exI [of _ t]) (auto split: option.splits)
  qed
qed

text \<open>A fault with the page of the handlers there, and one on the trap vector itself, with no page mapped at all.\<close>

theorem fault_taken_witness:
  "(\<exists>t. seq_step (AtTrap PageNotResidentTrapVector, handler_sample 102) (AtLookup, t) \<and> pc t = mkobj 102 0x1000
     \<and> StackCache t 21 = mkobj TypeLocative 0)
   \<and> (\<exists>t. seq_step (AtTrap PageNotResidentTrapVector, blank\<lparr>running := True, trap_vma := mkobj TypeLocative 0xf8040a50\<rparr>)
         (Stopped False, t) \<and> running t = False \<and> (\<nexists>vpn. mapped t vpn))"
proof
  let ?s = "handler_sample 102"
  have h: "handler_is ?s (word_of_int PageNotResidentTrapVector) (Some (mkobj 102 0x1000))"
    unfolding handler_is_def
    by (rule exI [of _ "mkobj 102 0x1000"], rule exI [of _ "mkobj 38 0x2000"])
      (use handler_sample_words(1) handler_sample_words(3) [of 102] in
        \<open>simp add: handler_sample_mode chosen_handler_def pc_type_def TypeEqualP_def\<close>)
  have s: "\<not> bad_spot ?s" "restartsp ?s = 16" "trap_vma ?s = mkobj TypeLocative 0"
    by (simp_all add: bad_spot_def handler_sample_def with_page_def blank_def)
  obtain t where "seq_step (AtTrap PageNotResidentTrapVector, ?s) (AtLookup, t)"
    "in_handler ?s (fault_words PageNotResidentTrapVector ?s) (mkobj 102 0x1000) t"
    using fault_taken [OF _ sample_room(1) h] s(1) by auto
  then show "\<exists>t. seq_step (AtTrap PageNotResidentTrapVector, ?s) (AtLookup, t) \<and> pc t = mkobj 102 0x1000
     \<and> StackCache t 21 = mkobj TypeLocative 0"
    using s(2,3) by (intro exI [of _ t]) (simp add: in_handler_def laid_def fault_words_def masked_def TagTypeMask_def)
next
  let ?s = "blank\<lparr>running := True, trap_vma := mkobj TypeLocative 0xf8040a50\<rparr>"
  have b: "bad_spot ?s" by (simp add: bad_spot_def)
  show "\<exists>t. seq_step (AtTrap PageNotResidentTrapVector, ?s) (Stopped False, t) \<and> running t = False \<and> (\<nexists>vpn. mapped t vpn)"
    using fault_taken [of PageNotResidentTrapVector ?s None] b by (auto simp: saved_def)
qed

end
