(* ===== verification/CallFacts.thy ===== *)
theory CallFacts
  imports FrameFacts
begin

text \<open>
  Calling and returning: a call builds a frame from which a return gives the caller its registers
  back, whatever the called function does above the two words at the bottom of the frame.
\<close>

unbundle bit_operations_syntax

subsection \<open>The control register of a call\<close>

lemma disposition_bits: "scast (push_bit 10 (i AND 0x300 :: u32)) = (push_bit 18 (word_of_int (uint (ldb 2 8 i))) :: u64)"
proof (rule bit_word_eqI)
  fix n assume n: "n < LENGTH(64)"
  have m: "bit (0x300 :: u32) k \<longleftrightarrow> k = 8 \<or> k = 9" for k
  proof -
    have e: "(0x300 :: u32) = push_bit 8 (mask 2)" by (simp add: mask_eq_exp_minus_1)
    show ?thesis unfolding e by (auto simp: bit_simps)
  qed
  have l: "bit (word_of_int (uint (ldb 2 8 i)) :: u64) k \<longleftrightarrow> k < 2 \<and> bit i (8 + k)" for k
  proof -
    have "(word_of_int (uint (ldb 2 8 i)) :: u64) = ucast (ldb 2 8 i)" by (rule ucast_eq [symmetric])
    then show ?thesis unfolding bit_unsigned_iff bit_ldb possible_bit_word
      by (auto simp: bit_unsigned_iff bit_ldb)
  qed
  have p: "bit (push_bit 10 (i AND 0x300)) k \<longleftrightarrow> (k = 18 \<or> k = 19) \<and> bit i (k - 10)" for k
  proof -
    have "bit (push_bit 10 (i AND 0x300)) k \<longleftrightarrow> 10 \<le> k \<and> k < 32 \<and> bit i (k - 10) \<and> (k - 10 = 8 \<or> k - 10 = 9)"
      unfolding bit_push_bit_iff bit_and_iff m by (auto simp: possible_bit_word)
    then show ?thesis by auto
  qed
  have s: "bit (scast x :: u64) n = bit x (if n < 31 then n else 31)" for x :: u32
    using n by (simp add: bit_simps min_def)
  have r: "bit (push_bit 18 (word_of_int (uint (ldb 2 8 i))) :: u64) n \<longleftrightarrow> (n = 18 \<or> n = 19) \<and> bit i (n - 10)"
  proof -
    have "bit (push_bit 18 (word_of_int (uint (ldb 2 8 i))) :: u64) n \<longleftrightarrow> 18 \<le> n \<and> n - 18 < 2 \<and> bit i (8 + (n - 18))"
      using n unfolding bit_push_bit_iff l by (auto simp: possible_bit_word)
    moreover have "18 \<le> n \<and> n - 18 < 2 \<longleftrightarrow> n = 18 \<or> n = 19" by auto
    ultimately show ?thesis by auto
  qed
  show "bit (scast (push_bit 10 (i AND 0x300 :: u32)) :: u64) n = bit (push_bit 18 (word_of_int (uint (ldb 2 8 i))) :: u64) n"
    unfolding s p r by auto
qed

lemma finish_control_fields:
  fixes nlp nfp cfp :: int and c :: u64 and i :: u32
  assumes "0 \<le> nlp - nfp" "nlp - nfp < 256" "0 \<le> nfp - cfp" "nfp - cfp < 256"
  defines "c' \<equiv> finish_call_control False c nfp nlp cfp i"
  shows "ReadControlArgumentSize c' = word_of_int (nlp - nfp)" "ReadControlCallerFrameSize c' = word_of_int (nfp - cfp)"
    "ReadControlValueDisposition c' = ldb 2 8 i" "ReadControlCleanupBits c' = 0" "ReadControlApply c' = 0"
    "ReadControlExtraArgument c' = 0" "ReadControlCallStarted c' = 0" "ReadControlTrapMode c' = ReadControlTrapMode c"
proof -
  define x where "x = nlp - nfp"
  define y where "y = nfp - cfp"
  define z where "z = uint (ldb 2 8 i)"
  define m where "m = (0x74FFFFF :: u64)"
  have x: "0 \<le> x" "x < 2 ^ 8" and y: "0 \<le> y" "y < 2 ^ 8" using assms by (simp_all add: x_def y_def)
  have "ldb 2 8 i < 2 ^ 2" by (rule ldb_bound) simp
  then have z: "0 \<le> z" "z < 2 ^ 2" by (simp_all add: z_def word_less_def)
  have m: "ldb 8 0 m = mask 8" "ldb 8 9 m = mask 8" "ldb 2 18 m = mask 2" "ldb 1 17 m = mask 1"
    "ldb 1 8 m = mask 1" "ldb 1 22 m = mask 1" "ldb 3 24 m = mask 3" "ldb 2 30 m = 0"
    by (simp_all add: m_def ldb_def mask_eq_exp_minus_1)
  have c: "c' = (((c AND NOT m) OR push_bit 0 (word_of_int x)) OR push_bit 18 (word_of_int z)) OR push_bit 9 (word_of_int y)"
    unfolding c'_def finish_call_control_def disposition_bits z_def by (simp add: x_def y_def m_def or.assoc)
  note numbers = ldb_number [OF x] ldb_number [OF y] ldb_number [OF z] ldb_number_other [OF x]
    ldb_number_other [OF y] ldb_number_other [OF z]
  have zi: "word_of_int z = ldb 2 8 i" by (simp add: z_def)
  show "ReadControlArgumentSize c' = word_of_int (nlp - nfp)" "ReadControlCallerFrameSize c' = word_of_int (nfp - cfp)"
    "ReadControlValueDisposition c' = ldb 2 8 i" "ReadControlCleanupBits c' = 0" "ReadControlApply c' = 0"
    "ReadControlExtraArgument c' = 0" "ReadControlCallStarted c' = 0" "ReadControlTrapMode c' = ReadControlTrapMode c"
    unfolding x_def [symmetric] y_def [symmetric] control_defs c ldb_or zi [symmetric]
    by (simp_all only: ldb_cleared m ldb_kept) (simp_all add: numbers del: push_bit_0_id)
qed

subsection \<open>The states of a call\<close>

text \<open>After the start of a call \<open>n\<close> arguments have been pushed, by whatever instructions.\<close>

definition arguments_pushed :: "nat \<Rightarrow> machine \<Rightarrow> machine \<Rightarrow> bool" where
  "arguments_pushed n s u \<longleftrightarrow> sp u = sp s + int n \<and> fp u = fp s \<and> control u = control s
     \<and> continuation u = continuation s \<and> StackCacheLimit u = StackCacheLimit s
     \<and> (\<forall>i \<le> sp s. StackCache u i = StackCache s i)"

text \<open>The called function has run and kept its frame: the two words at its bottom, the control register
  and the continuation.\<close>

definition frame_kept :: "machine \<Rightarrow> machine \<Rightarrow> bool" where
  "frame_kept s u \<longleftrightarrow> fp u = fp s \<and> control u = control s \<and> continuation u = continuation s
     \<and> StackCache u (fp s) = StackCache s (fp s) \<and> StackCache u (fp s + 1) = StackCache s (fp s + 1)"

definition saved_continuation :: "machine \<Rightarrow> LispObj" where
  "saved_continuation s = mkobj (tag_of_int (TAG (continuation s) OR 192)) (DATA (continuation s))"

definition saved_control :: "machine \<Rightarrow> LispObj" where
  "saved_control s = mkobj (tag_of_int (TypeFixnum OR 192)) (ucast (control s))"

definition call_started :: "LispObj \<Rightarrow> machine \<Rightarrow> machine" where
  "call_started entry s = (put_slot (sp s + 2) (saved_control s) (put_slot (sp s + 1) (saved_continuation s) s))
     \<lparr>sp := sp s + 2, control := (control s OR ControlCallStarted) AND NOT ControlExtraArgument,
      continuation := entry\<rparr>"

lemma ucast_ucast_data [simp]: "ucast (ucast (x :: u32) :: u64) = x"
  by (rule bit_word_eqI) (auto simp: bit_simps)

lemma start_compiled_eval:
  assumes "slot (sp s + 1)" "slot (sp s + 2)"
  shows "start_compiled entry s = Some (Ret NextInstruction, call_started entry s)"
  using assms
  by (simp add: start_compiled_def push_frame_words_def PushContinuation_def PushControl_def prog_simps
      set_control_def call_started_def saved_continuation_def saved_control_def put_slot_def add.assoc)

lemma extra_argument_cleared: "ReadControlExtraArgument (c AND NOT ControlExtraArgument) = 0"
  unfolding ReadControlExtraArgument_def by (rule ldb_cleared) (simp add: ldb_def mask_eq_exp_minus_1)

text \<open>Entering the frame of \<open>n\<close> arguments that starts behind \<open>sp\<close> of the caller.\<close>

definition call_entered :: "nat \<Rightarrow> machine \<Rightarrow> machine" where
  "call_entered n s = s\<lparr>op2 := StackSlot (sp s + 1), fp := sp s - int n - 1, lp := sp s + 1, pc := continuation s,
     continuation := next_pc (current_line s),
     control := finish_call_control False (control s) (sp s - int n - 1) (sp s + 1) (fp s) (cp_operand s)\<rparr>"

lemma current_line_simps [simp]:
  "current_line (s\<lparr>op2 := p\<rparr>) = current_line s" "current_line (s\<lparr>control := c\<rparr>) = current_line s"
  "current_line (s\<lparr>sp := i\<rparr>) = current_line s" "current_line (s\<lparr>restartsp := i\<rparr>) = current_line s"
  by (cases "cp s"; simp add: current_line_def)+

lemma finish_call_eval:
  assumes "ReadControlExtraArgument (control s) = 0" "uint (ldb 8 0 (cp_operand s)) = int n + 1"
    and "sp s - int n - 1 \<le> StackCacheLimit s"
  shows "DispatchFinishCallN s = Some (Ret InstructionCacheLookup, call_entered n s)"
  using assms
  by (simp add: DispatchFinishCallN_def finish_call_def FinishCallInternal_def prog_simps set_op2_def
      call_entered_def algebra_simps)

subsection \<open>Returning\<close>

text \<open>What a return of the value \<open>v\<close> to a caller who wants it in the way \<open>disp\<close> leaves: the objects pushed
  for it, and the registers of the caller.\<close>

definition returned_values :: "u32 \<Rightarrow> LispObj \<Rightarrow> LispObj list" where
  "returned_values disp v = (if disp = ValueDispositionValue then [cdr_next v]
     else if disp = ValueDispositionMultiple then [cdr_next v, mkobj TypeFixnum 1] else [])"

definition back_in_caller :: "u32 \<Rightarrow> LispObj \<Rightarrow> machine \<Rightarrow> machine \<Rightarrow> bool" where
  "back_in_caller disp v u t \<longleftrightarrow> pc t = continuation u \<and> continuation t = StackCache u (fp u)
     \<and> control t = ucast (DATA (StackCache u (fp u + 1)))
     \<and> fp t = fp u - uint (ReadControlCallerFrameSize (control u))
     \<and> lp t = fp t + uint (ReadControlArgumentSize (control t))
     \<and> sp t = fp u - 1 + int (length (returned_values disp v))
     \<and> (\<forall>i < fp u. StackCache t i = StackCache u i)
     \<and> (\<forall>k < length (returned_values disp v). StackCache t (fp u + int k) = returned_values disp v ! k)"

lemma return_value_eval:
  assumes "slot (sp s + 1)" "slot (sp s + 2)"
  shows "\<exists>t. return_value disp s = Some (Ret (), t) \<and> t = s\<lparr>StackCache := StackCache t, sp := sp t\<rparr>
    \<and> sp t = sp s + int (length (returned_values disp (scratch s)))
    \<and> (\<forall>i \<le> sp s. StackCache t i = StackCache s i)
    \<and> (\<forall>k < length (returned_values disp (scratch s)). StackCache t (sp s + 1 + int k) = returned_values disp (scratch s) ! k)"
  using assms
  by (auto simp: return_value_def returned_values_def prog_simps put_slot_def add.assoc less_Suc_eq numeral_2_eq_2)

lemma return_single_eval:
  assumes "slot (fp u)" "slot (fp u + 1)" "ReadControlCleanupBits (control u) = 0"
    and "ReadControlValueDisposition (control u) = disp" "disp \<noteq> ValueDispositionReturn"
    and "0 \<le> fp u - uint (ReadControlCallerFrameSize (control u))"
  shows "\<exists>t. return_single u = Some (Ret InstructionCacheLookup, t) \<and> back_in_caller disp (scratch u) u t"
proof -
  let ?saved = "ucast (DATA (StackCache u (fp u + 1))) :: u64"
  let ?size = "uint (ReadControlCallerFrameSize (control u))"
  define s where "s = u\<lparr>pc := continuation u, continuation := StackCache u (fp u), sp := fp u - 1,
     fp := fp u - ?size, lp := fp u - ?size + uint (ReadControlArgumentSize ?saved), control := ?saved\<rparr>"
  have c: "cleanup_frame u = Some (Ret None, u)" using assms(3) by (simp add: cleanup_frame_def prog_simps)
  have p: "pop_frame (disp \<noteq> ValueDispositionReturn) ?size ?saved u = Some (Ret (), s)"
    using assms(1,5) by (simp add: pop_frame_def prog_simps s_def)
  have "sp s + 1 = fp u" "sp s + 2 = fp u + 1" by (simp_all add: s_def)
  then have sl: "slot (sp s + 1)" "slot (sp s + 2)" using assms(1,2) by metis+
  obtain t where t: "return_value disp s = Some (Ret (), t)" "t = s\<lparr>StackCache := StackCache t, sp := sp t\<rparr>"
    "sp t = sp s + int (length (returned_values disp (scratch s)))" "\<forall>i \<le> sp s. StackCache t i = StackCache s i"
    "\<forall>k < length (returned_values disp (scratch s)). StackCache t (sp s + 1 + int k) = returned_values disp (scratch s) ! k"
    using return_value_eval [OF sl, of disp] by blast
  have f: "fp t = fp u - ?size" "pc t = continuation u" "continuation t = StackCache u (fp u)" "control t = ?saved"
    "lp t = fp t + uint (ReadControlArgumentSize (control t))"
    by (subst t(2), simp add: s_def)+
  have "underflow_check t = Some (Ret (), t)" using f(1) assms(6) by (simp add: underflow_check_def prog_simps)
  then have "return_single u = Some (Ret InstructionCacheLookup, t)"
    using assms(2,4,5) c p t(1)
    by (subst return_single.simps) (simp add: prog_simps Let_def)
  moreover have "back_in_caller disp (scratch u) u t"
    unfolding back_in_caller_def using f t(3-5) by (simp add: s_def)
  ultimately show ?thesis by blast
qed

subsection \<open>The round trip\<close>

text \<open>The state \<open>t\<close> after a return in the state \<open>u\<close>, with the value on top of its stack, to the caller that
  was in the state \<open>s\<close> before the call and goes on at \<open>next\<close>.\<close>

definition returned :: "machine \<Rightarrow> u32 \<Rightarrow> LispObj \<Rightarrow> machine \<Rightarrow> machine \<Rightarrow> bool" where
  "returned s disp next_p u t \<longleftrightarrow> (let vs = returned_values disp (StackCache u (sp u)) in
     pc t = next_p \<and> fp t = fp s \<and> lp t = fp s + uint (ReadControlArgumentSize (control s))
     \<and> sp t = sp s + int (length vs) \<and> control t = take_bit 32 (control s) \<and> continuation t = saved_continuation s
     \<and> (\<forall>k < length vs. StackCache t (sp s + 1 + int k) = vs ! k)
     \<and> (\<forall>i \<le> sp s. StackCache t i = StackCache u i))"

text \<open>Claim C29: a call of a compiled function and a return from it are inverse to each other. With
  room on the stack, the call instruction goes on to push arguments; after \<open>n\<close> of them, finishing
  the call enters the function at its entry, in a frame whose control register has \<open>n + 2\<close> as
  the size of its arguments and no cleanup to do. However long the function runs, if it keeps its frame, the return
  goes to the instruction after the call, with the caller's frame and stack pointers
  as before the call, except that the value has been pushed (with cdr code 0), alone or with the
  count 1, where the caller asked for it; all below is untouched. The control register comes back in its low
  32 bits, which is all the stack holds, the continuation with cdr code 3, and the local pointer is computed from the frame
  pointer and the argument size in that control register. The value disposition that returns once more from the
  caller is left out.\<close>

theorem call_returns:
  assumes "- 1 \<le> sp s" "sp s + 2 < StackCacheSlots" "sp s + 1 \<le> StackCacheLimit s" "n + 2 < 256"
    and "0 \<le> fp s" "fp s \<le> sp s + 1" "sp s + 1 - fp s < 256" "disp \<noteq> ValueDispositionReturn"
  shows "\<exists>s1. DispatchCallCompiledEven s = Some (Ret NextInstruction, s1) \<and>
    (\<forall>u1. arguments_pushed n s1 u1 \<and> uint (ldb 8 0 (cp_operand u1)) = int n + 1 \<and> ldb 2 8 (cp_operand u1) = disp \<longrightarrow>
     (\<exists>s2. DispatchFinishCallN u1 = Some (Ret InstructionCacheLookup, s2)
       \<and> pc s2 = mkobj TypeEvenPC (cp_operand s) \<and> fp s2 = sp s + 1 \<and> lp s2 = sp u1 + 1
       \<and> ReadControlArgumentSize (control s2) = of_nat (n + 2) \<and> ReadControlCleanupBits (control s2) = 0 \<and>
      (\<forall>u2. frame_kept s2 u2 \<and> slot (sp u2) \<longrightarrow>
       (\<exists>t. DispatchReturnSingleTOS u2 = Some (Ret InstructionCacheLookup, t)
         \<and> returned s disp (next_pc (current_line u1)) u2 t))))"
proof -
  let ?s1 = "call_started (mkobj TypeEvenPC (cp_operand s)) s"
  have sl: "slot (sp s + 1)" "slot (sp s + 2)" using assms(1,2) by (simp_all add: slot_def)
  have r1: "DispatchCallCompiledEven s = Some (Ret NextInstruction, ?s1)"
    using start_compiled_eval [OF sl] by (simp add: DispatchCallCompiledEven_def prog_simps)
  show ?thesis
  proof (rule exI [of _ ?s1], intro conjI r1 allI impI, elim conjE)
    fix u1
    assume a: "arguments_pushed n ?s1 u1" "uint (ldb 8 0 (cp_operand u1)) = int n + 1" "ldb 2 8 (cp_operand u1) = disp"
    let ?s2 = "call_entered n u1" and ?words = "StackCache u1"
    have u1: "sp u1 = sp s + 2 + int n" "fp u1 = fp s" "continuation u1 = mkobj TypeEvenPC (cp_operand s)"
      "StackCacheLimit u1 = StackCacheLimit s" "ReadControlExtraArgument (control u1) = 0"
      using a(1) extra_argument_cleared [of "control s OR ControlCallStarted"]
    by (simp_all add: arguments_pushed_def call_started_def)
    have w: "?words (sp s + 1) = saved_continuation s" "?words (sp s + 2) = saved_control s"
      using a(1) by (simp_all add: arguments_pushed_def call_started_def)
    have r2: "DispatchFinishCallN u1 = Some (Ret InstructionCacheLookup, ?s2)"
      using finish_call_eval [OF u1(5) a(2)] u1 assms(3) by simp
    have s2: "fp ?s2 = sp s + 1" "lp ?s2 = sp u1 + 1" "pc ?s2 = mkobj TypeEvenPC (cp_operand s)"
      "continuation ?s2 = next_pc (current_line u1)" "StackCache ?s2 = StackCache u1"
      by (simp_all add: call_entered_def u1)
    note fields = finish_control_fields [of "sp u1 + 1" "sp s + 1" "fp s" "control u1" "cp_operand u1"]
    have c: "control ?s2 = finish_call_control False (control u1) (sp s + 1) (sp u1 + 1) (fp s) (cp_operand u1)"
    proof -
      have "sp u1 - int n - 1 = sp s + 1" using u1(1) by simp
      then show ?thesis unfolding call_entered_def u1(2) by (simp only:) simp
    qed
    have f: "ReadControlArgumentSize (control ?s2) = of_nat (n + 2)"
      "ReadControlCallerFrameSize (control ?s2) = word_of_int (sp s + 1 - fp s)"
      "ReadControlValueDisposition (control ?s2) = disp" "ReadControlCleanupBits (control ?s2) = 0"
      using fields assms(4,6,7) u1(1) a(3) unfolding c by simp_all
    show "\<exists>s2. DispatchFinishCallN u1 = Some (Ret InstructionCacheLookup, s2)
       \<and> pc s2 = mkobj TypeEvenPC (cp_operand s) \<and> fp s2 = sp s + 1 \<and> lp s2 = sp u1 + 1
       \<and> ReadControlArgumentSize (control s2) = of_nat (n + 2) \<and> ReadControlCleanupBits (control s2) = 0 \<and>
      (\<forall>u2. frame_kept s2 u2 \<and> slot (sp u2) \<longrightarrow>
       (\<exists>t. DispatchReturnSingleTOS u2 = Some (Ret InstructionCacheLookup, t)
         \<and> returned s disp (next_pc (current_line u1)) u2 t))"
    proof (rule exI [of _ ?s2], intro conjI r2 s2(1,2,3) f(1,4) allI impI, elim conjE)
      fix u2
      assume k: "frame_kept ?s2 u2" "slot (sp u2)"
      let ?u = "u2\<lparr>scratch := StackCache u2 (sp u2)\<rparr>" and ?v = "StackCache u2 (sp u2)"
      have u2: "fp u2 = sp s + 1" "control u2 = control ?s2" "continuation u2 = next_pc (current_line u1)"
        "StackCache u2 (sp s + 1) = saved_continuation s" "StackCache u2 (sp s + 2) = saved_control s"
        using k(1) w by (simp_all add: frame_kept_def s2 add.assoc)
      have size: "uint (word_of_int (sp s + 1 - fp s) :: u32) = sp s + 1 - fp s"
        using assms(6,7) unfolding uint_word_of_int by simp
      have "\<exists>t. return_single ?u = Some (Ret InstructionCacheLookup, t) \<and> back_in_caller disp ?v ?u t"
        using return_single_eval [of ?u disp] sl f size assms(5,8) u2(1,2) by (simp add: add.assoc)
      then obtain t where t: "return_single ?u = Some (Ret InstructionCacheLookup, t)" "back_in_caller disp ?v ?u t"
        by blast
      have "ucast (DATA (saved_control s)) = take_bit 32 (control s)"
        unfolding saved_control_def by (rule bit_word_eqI) (auto simp: bit_simps)
      moreover have "ReadControlArgumentSize (take_bit 32 (control s)) = ReadControlArgumentSize (control s)"
        unfolding ReadControlArgumentSize_def by (rule bit_word_eqI) (auto simp: bit_ldb bit_simps)
      moreover have "DispatchReturnSingleTOS u2 = Some (Ret InstructionCacheLookup, t)"
        using k(2) t(1) by (simp add: DispatchReturnSingleTOS_def prog_simps set_scratch_def)
      ultimately show "\<exists>t. DispatchReturnSingleTOS u2 = Some (Ret InstructionCacheLookup, t)
         \<and> returned s disp (next_pc (current_line u1)) u2 t"
        using t(2) u2 f(2) size unfolding back_in_caller_def returned_def Let_def
        by (intro exI [of _ t]) (simp add: add.assoc)
    qed
  qed
qed

theorem call_returns_witness:
  "\<exists>s1 s2 t. DispatchCallCompiledEven blank = Some (Ret NextInstruction, s1)
     \<and> DispatchFinishCallN (s1\<lparr>InstructionCache := (\<lambda>_. blank_line\<lparr>operand := 0x101\<rparr>)\<rparr>) = Some (Ret InstructionCacheLookup, s2)
     \<and> DispatchReturnSingleTOS ((put_slot 19 (mkobj TypeFixnum 42) s2)\<lparr>sp := 19\<rparr>) = Some (Ret InstructionCacheLookup, t)
     \<and> sp t = 17 \<and> StackCache t 17 = mkobj TypeFixnum 42 \<and> fp t = 8"
proof -
  obtain s1 where r1: "DispatchCallCompiledEven blank = Some (Ret NextInstruction, s1)" and
    fin: "\<And>u1. arguments_pushed 0 s1 u1 \<and> uint (ldb 8 0 (cp_operand u1)) = int 0 + 1 \<and> ldb 2 8 (cp_operand u1) = ValueDispositionValue \<longrightarrow>
     (\<exists>s2. DispatchFinishCallN u1 = Some (Ret InstructionCacheLookup, s2)
       \<and> pc s2 = mkobj TypeEvenPC (cp_operand blank) \<and> fp s2 = sp blank + 1 \<and> lp s2 = sp u1 + 1
       \<and> ReadControlArgumentSize (control s2) = of_nat (0 + 2) \<and> ReadControlCleanupBits (control s2) = 0 \<and>
      (\<forall>u2. frame_kept s2 u2 \<and> slot (sp u2) \<longrightarrow>
       (\<exists>t. DispatchReturnSingleTOS u2 = Some (Ret InstructionCacheLookup, t)
         \<and> returned blank ValueDispositionValue (next_pc (current_line u1)) u2 t)))"
    using call_returns [of blank 0 ValueDispositionValue] by auto
  let ?u1 = "s1\<lparr>InstructionCache := (\<lambda>_. blank_line\<lparr>operand := 0x101\<rparr>)\<rparr>"
  have "cp s1 = CacheLine 0"
    using r1 start_compiled_eval [of blank "mkobj TypeEvenPC (cp_operand blank)"]
    by (auto simp: DispatchCallCompiledEven_def prog_simps call_started_def slot_def)
  then have "cp_operand ?u1 = 0x101" by (simp add: cp_operand_def current_line_def)
  then have "arguments_pushed 0 s1 ?u1 \<and> uint (ldb 8 0 (cp_operand ?u1)) = int 0 + 1 \<and> ldb 2 8 (cp_operand ?u1) = ValueDispositionValue"
    by (simp add: arguments_pushed_def ldb_def mask_eq_exp_minus_1)
  then obtain s2 where r2: "DispatchFinishCallN ?u1 = Some (Ret InstructionCacheLookup, s2)" "fp s2 = 17" and
    ret: "\<And>u2. frame_kept s2 u2 \<and> slot (sp u2) \<longrightarrow> (\<exists>t. DispatchReturnSingleTOS u2 = Some (Ret InstructionCacheLookup, t)
         \<and> returned blank ValueDispositionValue (next_pc (current_line ?u1)) u2 t)"
    using fin [of ?u1] by auto
  let ?u2 = "(put_slot 19 (mkobj TypeFixnum 42) s2)\<lparr>sp := 19\<rparr>"
  have "frame_kept s2 ?u2 \<and> slot (sp ?u2)" by (simp add: frame_kept_def r2(2) slot_def)
  then obtain t where "DispatchReturnSingleTOS ?u2 = Some (Ret InstructionCacheLookup, t)"
    "returned blank ValueDispositionValue (next_pc (current_line ?u1)) ?u2 t" using ret by blast
  then show ?thesis using r1 r2(1)
    by (intro exI [of _ s1] exI [of _ s2] exI [of _ t])
      (simp add: returned_def Let_def returned_values_def cdr_next_def)
qed

end
