(* ===== verification/BindFacts.thy ===== *)
theory BindFacts
  imports ForwardFacts ArithmeticFacts BindInstructions
begin

text \<open>
  Special bindings: binding a location to a value and undoing the binding gives back the location's
  value, the binding stack and the bit of the control register that says whether the frame has bindings.
\<close>

unbundle bit_operations_syntax

subsection \<open>What memory cycles depend on\<close>

text \<open>An object that a cycle reads as it is: neither forwarded, nor trapped, nor to be transported.\<close>

definition passes :: "nat \<Rightarrow> machine \<Rightarrow> LispObj \<Rightarrow> bool" where
  "passes c s obj \<longleftrightarrow> (let action = MemoryActionTable ! c ! unat (TagType (TAG obj)) in
     action AND NOT MemoryActionTransport = 0
     \<and> \<not> (action AND (MemoryActionTransport OR MemoryActionTrap) = MemoryActionTransport
          \<and> OldspaceAddressP s (ucast (DATA obj))))"

lemma passes_read:
  assumes "processor_object s v = obj" "passes c s obj" "accessible s v" "variable p" "c < 12"
  shows "\<exists>t. left_by p s t \<and> MemoryReadInternal p c v s = Some (Ret (v, obj), t)"
proof -
  have a: "cell_act s c v = 0" "\<not> transport_fault s c v"
    using assms(1,2) by (auto simp: passes_def cell_act_def cell_action_def cell_address_def transport_fault_def Let_def)
  then have "\<nexists>w. forwards s c v w" "read_outcome s c v = Ret (v, obj)"
    using assms(1) by (simp_all add: forwards_def read_outcome_def Let_def)
  then show ?thesis using read_ends [of s v p c] assms(3-5) by (simp add: readable_word_def)
qed

text \<open>The registers of the binding stack and the operands are the same in two states, and so is the form of memory.\<close>

definition same_binding :: "machine \<Rightarrow> machine \<Rightarrow> bool" where
  "same_binding s t \<longleftrightarrow> accessible t = accessible s \<and> in_stack_cache t = in_stack_cache s
     \<and> OldspaceAddressP t = OldspaceAddressP s \<and> control t = control s
     \<and> BindingStackPointer t = BindingStackPointer s \<and> BindingStackLimit t = BindingStackLimit s
     \<and> DeepBoundP t = DeepBoundP s \<and> PreemptRegister t = PreemptRegister s \<and> sp t = sp s \<and> op2 t = op2 s
     \<and> immediate t = immediate s"

lemma same_binding_trans: "same_binding s t \<Longrightarrow> same_binding t u \<Longrightarrow> same_binding s u"
  by (simp add: same_binding_def)

lemma left_by_same:
  assumes "left_by p s t" "p = Auto \<or> p = Scratch_var"
  shows "same_binding s t" "processor_object t = processor_object s" "StackCache t = StackCache s"
proof -
  have v: "variable p" using assms(2) by (auto simp: variable_def)
  show "processor_object t = processor_object s" "StackCache t = StackCache s"
    using left_by_view [OF assms(1) v] by simp_all
  obtain m d x where "t = (put_var p x s)\<lparr>memory_vma := m, trap_vma := d\<rparr>" using assms(1) by (auto simp: left_by_def)
  then show "same_binding s t"
    using assms(2) left_by_view [OF assms(1) v] by (auto simp: same_binding_def)
qed

lemma after_write_same:
  "\<not> in_stack_cache s v \<Longrightarrow> same_binding s (after_write v obj s)"
  "\<not> in_stack_cache s v \<Longrightarrow> StackCache (after_write v obj s) = StackCache s"
  "\<not> in_stack_cache s v \<Longrightarrow> processor_object (after_write v obj s) = (processor_object s)(v := kept_object obj)"
  apply (auto simp: same_binding_def after_write_def vm_put_def at_vma_def fun_eq_iff accessible_def in_stack_cache_def
      stack_cache_index_def OldspaceAddressP_def Let_def) [2]
  by (simp add: fun_eq_iff object_after_write)

lemma passes_same: "same_binding s t \<Longrightarrow> passes c t = passes c s"
  by (auto simp: fun_eq_iff passes_def same_binding_def)

lemma passes_type: "TagType (TAG x) = TagType (TAG y) \<Longrightarrow> DATA x = DATA y \<Longrightarrow> passes c s x = passes c s y"
  by (simp add: passes_def)

lemma byte_tag: "TagType (ucast (ucast t :: u8)) = TagType t" "ldb 1 6 (ucast (ucast t :: u8) :: u32) = ldb 1 6 t"
proof -
  have m: "(63 :: u32) = mask 6" by (simp add: mask_eq_exp_minus_1)
  show "TagType (ucast (ucast t :: u8)) = TagType t"
    unfolding TagType_def m by (rule bit_word_eqI) (auto simp: bit_simps)
  show "ldb 1 6 (ucast (ucast t :: u8) :: u32) = ldb 1 6 t"
    by (rule bit_word_eqI) (auto simp: bit_ldb bit_simps)
qed

lemma kept_object_fields: "TagType (TAG (kept_object obj)) = TagType (TAG obj)" "DATA (kept_object obj) = DATA obj"
  "ldb 1 6 (TAG (kept_object obj)) = ldb 1 6 (TAG obj)"
  using byte_tag [of "TAG obj"] by (simp_all add: kept_object_def)

lemma MergeCdr_fields: "TagType (MergeCdr c t) = TagType t" "ucast (ucast (MergeCdr c t) :: u8) = MergeCdr c t"
proof -
  have m: "(192 :: u32) = push_bit 6 (mask 2)" "(63 :: u32) = mask 6" by (simp_all add: mask_eq_exp_minus_1)
  show "TagType (MergeCdr c t) = TagType t"
    unfolding TagType_def MergeCdr_def m by (rule bit_word_eqI) (auto simp: bit_simps)
  show "ucast (ucast (MergeCdr c t) :: u8) = MergeCdr c t"
    unfolding MergeCdr_def m by (rule bit_word_eqI) (auto simp: bit_simps)
qed

text \<open>A store keeps the cdr code of the location.\<close>

definition stored_over :: "LispObj \<Rightarrow> LispObj \<Rightarrow> LispObj" where
  "stored_over old obj = mkobj (MergeCdr (TAG old) (TAG obj)) (DATA obj)"

lemma stored_over_fields: "TagType (TAG (stored_over old obj)) = TagType (TAG obj)" "DATA (stored_over old obj) = DATA obj"
  "kept_object (stored_over old obj) = stored_over old obj"
  by (simp_all add: stored_over_def kept_object_def MergeCdr_fields)

lemma tag_byte: "(t :: u32) < 256 \<Longrightarrow> t = take_bit 8 t"
proof -
  assume "t < 256"
  then have "unat t < 2 ^ 8" by (simp add: word_less_nat_alt)
  then show "t = take_bit 8 t" by (simp add: word_unat_eq_iff unsigned_take_bit_eq take_bit_nat_eq_self)
qed

lemma MergeCdr_back: "t < 256 \<Longrightarrow> MergeCdr (MergeCdr t u) t = t"
proof -
  assume "t < 256"
  note t = tag_byte [OF this]
  have m: "(192 :: u32) = push_bit 6 (mask 2)" "(63 :: u32) = mask 6" by (simp_all add: mask_eq_exp_minus_1)
  have "MergeCdr (MergeCdr t u) t = take_bit 8 t"
    unfolding MergeCdr_def m by (rule bit_word_eqI) (auto simp: bit_simps)
  then show ?thesis using t by simp
qed

lemma StoreContents_eval:
  assumes "passes c s (processor_object s v)" "accessible s v" "\<not> in_stack_cache s v" "c < 12"
  shows "\<exists>t. StoreContents v obj c s = Some (Ret (), t) \<and> same_binding s t \<and> StackCache t = StackCache s
    \<and> processor_object t = (processor_object s)(v := stored_over (processor_object s v) obj)"
proof -
  obtain u where u: "left_by Auto s u" "MemoryReadInternal Auto c v s = Some (Ret (v, processor_object s v), u)"
    using passes_read [OF refl assms(1,2), of Auto] assms(4) by (auto simp: variable_def)
  note same = left_by_same [OF u(1)]
  let ?new = "stored_over (processor_object s v) obj"
  have n: "\<not> in_stack_cache u v" "accessible u v" using same(1) assms(2,3) by (simp_all add: same_binding_def)
  have "StoreContents v obj c s = Some (Ret (), after_write v ?new u)"
    using u(2) WriteVirtualMemory_eval [OF n(2)] by (simp add: StoreContents_def prog_simps stored_over_def)
  then show ?thesis
    using after_write_same [OF n(1), of ?new] same same_binding_trans stored_over_fields(3)
    by (intro exI [of _ "after_write v ?new u"]) auto
qed

subsection \<open>Binding and unbinding\<close>

text \<open>A location that can be bound to \<open>b\<close> through the locative \<open>loc\<close> with the next two words of the binding
  stack: the three words are distinct, on mapped pages outside the control stack; the location's
  value, \<open>b\<close> and the locative pass the cycles for binding.\<close>

definition bindable :: "machine \<Rightarrow> LispObj \<Rightarrow> LispObj \<Rightarrow> bool" where
  "bindable s loc b \<longleftrightarrow> (let vma = ucast (DATA loc); bsp = BindingStackPointer s; old = processor_object s vma in
     TypeEqualP (TAG loc) TypeLocative \<and> ldb 1 6 (TAG loc) = 0 \<and> TAG loc < 256 \<and> TAG old < 256
     \<and> bsp < BindingStackLimit s \<and> DeepBoundP s = 0
     \<and> (\<forall>a \<in> {vma, bsp + 1, bsp + 2}. accessible s a \<and> \<not> in_stack_cache s a)
     \<and> vma \<noteq> bsp + 1 \<and> vma \<noteq> bsp + 2
     \<and> passes CycleBindRead s loc \<and> passes CycleBindRead s old \<and> passes CycleBindWrite s old \<and> passes CycleBindWrite s b)"

definition saved_locative :: "machine \<Rightarrow> LispObj \<Rightarrow> LispObj" where
  "saved_locative s loc = loc\<lparr>TAG := TAG loc OR push_bit 6 (ReadControlCleanupBindings (control s))\<rparr>"

lemma saved_locative_fields: "TagType (TAG (saved_locative s loc)) = TagType (TAG loc)" "DATA (saved_locative s loc) = DATA loc"
  "ldb 1 6 (TAG loc) = 0 \<Longrightarrow> ldb 1 6 (TAG (saved_locative s loc)) = ReadControlCleanupBindings (control s)"
proof -
  have m: "(63 :: u32) = mask 6" by (simp add: mask_eq_exp_minus_1)
  show "TagType (TAG (saved_locative s loc)) = TagType (TAG loc)"
    unfolding TagType_def saved_locative_def m by (simp, rule bit_word_eqI) (auto simp: bit_simps)
  show "ldb 1 6 (TAG (saved_locative s loc)) = ReadControlCleanupBindings (control s)" if "ldb 1 6 (TAG loc) = 0"
  proof -
    have "ldb 1 6 (TAG (saved_locative s loc)) = ldb 1 6 (TAG loc) OR ldb 1 6 (push_bit 6 (ReadControlCleanupBindings (control s)))"
      unfolding saved_locative_def by (rule bit_word_eqI) (auto simp: bit_ldb bit_simps)
    moreover have "ldb 1 6 (push_bit 6 (ReadControlCleanupBindings (control s))) = ReadControlCleanupBindings (control s)"
      unfolding ReadControlCleanupBindings_def by (rule bit_word_eqI) (auto simp: bit_ldb bit_simps)
    ultimately show ?thesis unfolding that by simp
  qed
qed (simp add: saved_locative_def)

lemma byte_kept: "TAG obj < 256 \<Longrightarrow> kept_object obj = obj"
proof -
  assume "TAG obj < 256"
  note t = tag_byte [OF this]
  have "(ucast (ucast (TAG obj) :: u8) :: u32) = take_bit 8 (TAG obj)"
    by (rule bit_word_eqI) (auto simp: bit_simps)
  then show "kept_object obj = obj" using t by (simp add: kept_object_def)
qed

lemma saved_tag: "TAG loc < 256 \<Longrightarrow> kept_object (saved_locative s loc) = saved_locative s loc"
proof -
  assume "TAG loc < 256"
  note t = tag_byte [OF this]
  have "ucast (ucast (TAG loc OR push_bit 6 (ReadControlCleanupBindings c)) :: u8) = TAG loc OR push_bit 6 (ReadControlCleanupBindings c)" for c
    unfolding ReadControlCleanupBindings_def
    by (subst (1 2) t, rule bit_word_eqI) (auto simp: bit_ldb bit_simps)
  then show ?thesis by (simp add: kept_object_def saved_locative_def)
qed

lemma addressed_same: "processor_object (addressed m s) = processor_object s" "accessible (addressed m s) = accessible s"
  "in_stack_cache (addressed m s) = in_stack_cache s" "OldspaceAddressP (addressed m s) = OldspaceAddressP s"
  "control (addressed m s) = control s" "BindingStackPointer (addressed m s) = BindingStackPointer s"
  "BindingStackLimit (addressed m s) = BindingStackLimit s" "DeepBoundP (addressed m s) = DeepBoundP s"
  "PreemptRegister (addressed m s) = PreemptRegister s" "op2 (addressed m s) \<noteq> Scratch_var"
  by (cases m; auto simp: fun_eq_iff processor_object_def accessible_def in_stack_cache_def stack_cache_index_def
      cache_slot_def space_object_def OldspaceAddressP_def Let_def)+

lemma binding_registers:
  "processor_object (BindingStackPointer_update f s) = processor_object s"
  "processor_object (control_update g s) = processor_object s"
  "processor_object (PreemptRegister_update h s) = processor_object s"
  "accessible (BindingStackPointer_update f s) = accessible s" "accessible (control_update g s) = accessible s"
  "in_stack_cache (BindingStackPointer_update f s) = in_stack_cache s" "in_stack_cache (control_update g s) = in_stack_cache s"
  "OldspaceAddressP (BindingStackPointer_update f s) = OldspaceAddressP s" "OldspaceAddressP (control_update g s) = OldspaceAddressP s"
  by (auto simp: fun_eq_iff processor_object_def accessible_def in_stack_cache_def stack_cache_index_def
      cache_slot_def space_object_def OldspaceAddressP_def Let_def)

lemma save_binding_eval:
  fixes s :: machine
  defines "b \<equiv> BindingStackPointer s"
  assumes "passes CycleBindRead s (processor_object s (ucast (DATA loc)))" "TAG loc < 256"
    "TAG (processor_object s (ucast (DATA loc))) < 256"
    "\<forall>a \<in> {ucast (DATA loc), b + 1, b + 2}. accessible s a \<and> \<not> in_stack_cache s a"
  shows "\<exists>t. save_binding loc s = Some (Ret (), t) \<and> same_binding s t \<and> StackCache t = StackCache s
    \<and> processor_object t = (processor_object s)(b + 1 := saved_locative s loc,
         b + 2 := processor_object s (ucast (DATA loc)))"
proof -
  let ?v = "ucast (DATA loc) :: u64"
  obtain u where u: "left_by Scratch_var s u"
    "MemoryReadInternal Scratch_var CycleBindRead ?v s = Some (Ret (?v, processor_object s ?v), u)"
    using passes_read [OF refl assms(2), of Scratch_var] assms(5) by (auto simp: variable_def)
  note same = left_by_same [OF u(1)]
  have su: "same_binding s u" using same(1) by simp
  then have au: "accessible u (b + 1)" "\<not> in_stack_cache u (b + 1)" using assms(5) by (simp_all add: same_binding_def)
  let ?w = "after_write (b + 1) (saved_locative s loc) u"
  note w = after_write_same [OF au(2), of "saved_locative s loc"]
  have sw: "same_binding s ?w" using same_binding_trans [OF su w(1)] .
  then have aw: "accessible ?w (b + 2)" "\<not> in_stack_cache ?w (b + 2)" using assms(5) by (simp_all add: same_binding_def)
  let ?t = "after_write (b + 2) (processor_object s ?v) ?w"
  note t = after_write_same [OF aw(2), of "processor_object s ?v"]
  have c: "control u = control s" "BindingStackPointer u = b" using su by (simp_all add: same_binding_def b_def)
  have "save_binding loc s = Some (Ret (), ?t)"
    using u(2) WriteVirtualMemory_eval [OF au(1)] WriteVirtualMemory_eval [OF aw(1)]
    by (simp add: save_binding_def prog_simps c saved_locative_def)
  moreover have "kept_object (processor_object s ?v) = processor_object s ?v"
    using assms(4) byte_kept by blast
  ultimately show ?thesis
    using same_binding_trans [OF sw t(1)] t w same saved_tag [OF assms(3)] by (intro exI [of _ ?t]) auto
qed

lemma cleanup_bit:
  "ReadControlCleanupBindings (WriteControlCleanupBindings c (ldb 1 6 x)) = ldb 1 6 x"
  by (simp add: cr_CleanupBindings.get_put) (rule bit_word_eqI, auto simp: bit_ldb bit_simps)

lemma Unbind_eval:
  fixes s :: machine
  defines "b \<equiv> BindingStackPointer s"
  defines "loc \<equiv> processor_object s (b - 1)" and "old \<equiv> processor_object s b"
  defines "v \<equiv> (ucast (DATA loc) :: u64)"
  assumes "ReadControlCleanupBindings (control s) \<noteq> 0"
    "\<forall>a \<in> {b, b - 1, v}. accessible s a \<and> \<not> in_stack_cache s a"
    "passes CycleBindRead s old" "passes CycleBindRead s loc" "passes CycleBindWrite s (processor_object s v)"
  shows "\<exists>t. Unbind s = Some (Ret True, t) \<and> BindingStackPointer t = b - 2
    \<and> ReadControlCleanupBindings (control t) = ldb 1 6 (TAG loc)
    \<and> processor_object t = (processor_object s)(v := stored_over (processor_object s v) old)"
proof -
  obtain u where u: "left_by Auto s u" "MemoryReadInternal Auto CycleBindRead b s = Some (Ret (b, old), u)"
    using passes_read [OF _ assms(7), of b Auto] assms(6) by (auto simp: variable_def old_def)
  note su = left_by_same [OF u(1)]
  have pu: "processor_object u = processor_object s" using su(2) by simp
  have "processor_object u (b - 1) = loc" "passes CycleBindRead u loc" "accessible u (b - 1)"
    using pu su(1) passes_same [OF su(1)] assms(6,8) by (simp_all add: loc_def same_binding_def)
  then obtain w where w: "left_by Auto u w" "MemoryReadInternal Auto CycleBindRead (b - 1) u = Some (Ret (b - 1, loc), w)"
    using passes_read [of u "b - 1" loc CycleBindRead Auto] by (auto simp: variable_def)
  note sw = left_by_same [OF w(1)]
  have s': "same_binding s w" using same_binding_trans su(1) sw(1) by simp
  have p': "processor_object w = processor_object s" using su(2) sw(2) by simp
  have "passes CycleBindWrite w (processor_object w v)" "accessible w v" "\<not> in_stack_cache w v"
    using assms(6,9) s' passes_same [OF s'] by (simp_all add: p' same_binding_def)
  then obtain t where t: "StoreContents v old CycleBindWrite w = Some (Ret (), t)" "same_binding w t"
    "processor_object t = (processor_object w)(v := stored_over (processor_object w v) old)"
    using StoreContents_eval [of CycleBindWrite w v old] by auto
  let ?p = "\<lambda>p :: u64. if ldb 1 1 p \<noteq> 0 then p OR 1 else p"
  let ?t = "t\<lparr>BindingStackPointer := b - 2, control := WriteControlCleanupBindings (control t) (ldb 1 6 (TAG loc)),
      PreemptRegister := ?p (PreemptRegister t)\<rparr>"
  have "Unbind s = Some (Ret True, ?t)"
    using u(2) w(2) t(1) assms(5)
    by (simp add: Unbind_def prog_simps b_def [symmetric] v_def [symmetric] set_control_def)
  moreover have "processor_object ?t = processor_object t"
    by (simp add: binding_registers)
  ultimately show ?thesis using t(3) p' by (intro exI [of _ ?t]) (simp add: cleanup_bit [simplified])
qed

text \<open>The binding itself.\<close>

definition bind_value :: "LispObj \<Rightarrow> LispObj \<Rightarrow> exec" where
  "bind_value loc b = thn (save_binding loc)
     (thn (StoreContents (ucast (DATA loc)) b CycleBindWrite) (and_next commit_binding))"

lemma stored_back:
  "TAG old < 256 \<Longrightarrow> stored_over (stored_over old b) old = old"
  by (simp add: stored_over_def MergeCdr_back)

lemma bind_value_eval:
  fixes s :: machine and loc :: LispObj
  defines "v \<equiv> (ucast (DATA loc) :: u64)" and "p \<equiv> BindingStackPointer s"
  defines "old \<equiv> processor_object s v"
  assumes "bindable s loc b"
  shows "\<exists>u. bind_value loc b s = Some (Ret NextInstruction, u)
    \<and> accessible u = accessible s \<and> in_stack_cache u = in_stack_cache s
    \<and> (\<forall>c. passes c u = passes c s) \<and> BindingStackPointer u = p + 2 \<and> ReadControlCleanupBindings (control u) = 1
    \<and> processor_object u = (processor_object s)(p + 1 := saved_locative s loc, p + 2 := old, v := stored_over old b)"
proof -
  have a: "\<forall>a \<in> {v, p + 1, p + 2}. accessible s a \<and> \<not> in_stack_cache s a" "v \<noteq> p + 1" "v \<noteq> p + 2"
    "TAG loc < 256" "TAG old < 256" "passes CycleBindRead s old" "passes CycleBindWrite s old"
    using assms(4) by (auto simp: bindable_def Let_def v_def p_def old_def)
  obtain t where t: "save_binding loc s = Some (Ret (), t)" "same_binding s t"
    "processor_object t = (processor_object s)(p + 1 := saved_locative s loc, p + 2 := old)"
    using save_binding_eval [of s loc] a by (auto simp: v_def p_def old_def)
  have o: "processor_object t v = old" using t(3) a(2,3) by (simp add: old_def)
  have "passes CycleBindWrite t (processor_object t v)" "accessible t v" "\<not> in_stack_cache t v"
    using a(1,7) o passes_same [OF t(2)] t(2) by (simp_all add: same_binding_def)
  then obtain w where w: "StoreContents v b CycleBindWrite t = Some (Ret (), w)" "same_binding t w"
    "processor_object w = (processor_object t)(v := stored_over old b)"
    using StoreContents_eval [of CycleBindWrite t v b] o by auto
  have sw: "same_binding s w" using same_binding_trans [OF t(2) w(2)] .
  let ?u = "w\<lparr>control := WriteControlCleanupBindings (control w) 1, BindingStackPointer := p + 2\<rparr>"
  have "bind_value loc b s = Some (Ret NextInstruction, ?u)"
    using t(1) w(1) sw
    by (simp add: bind_value_def commit_binding_def set_control_def prog_simps v_def [symmetric] same_binding_def p_def)
  moreover have "processor_object ?u = processor_object w" "accessible ?u = accessible w"
    "in_stack_cache ?u = in_stack_cache w" "OldspaceAddressP ?u = OldspaceAddressP w"
    by (simp_all add: binding_registers)
  moreover have "passes c ?u = passes c s" for c
    using passes_same [OF sw] calculation(5) by (auto simp: fun_eq_iff passes_def)
  ultimately show ?thesis using sw t(3) w(3)
    by (intro exI [of _ ?u]) (simp add: same_binding_def cr_CleanupBindings.get_put mask_eq_exp_minus_1)
qed

lemma bind_unbind_eval:
  fixes s :: machine and loc :: LispObj
  defines "v \<equiv> (ucast (DATA loc) :: u64)" and "p \<equiv> BindingStackPointer s"
  assumes "bindable s loc b"
  shows "\<exists>u t. bind_value loc b s = Some (Ret NextInstruction, u)
    \<and> processor_object u v = stored_over (processor_object s v) b
    \<and> BindingStackPointer u = p + 2 \<and> ReadControlCleanupBindings (control u) = 1
    \<and> Unbind u = Some (Ret True, t)
    \<and> BindingStackPointer t = p \<and> ReadControlCleanupBindings (control t) = ReadControlCleanupBindings (control s)
    \<and> (\<forall>a. a \<noteq> p + 1 \<and> a \<noteq> p + 2 \<longrightarrow> processor_object t a = processor_object s a)"
proof -
  let ?old = "processor_object s v"
  have a: "\<forall>a \<in> {v, p + 1, p + 2}. accessible s a \<and> \<not> in_stack_cache s a" "v \<noteq> p + 1" "v \<noteq> p + 2"
    "TAG ?old < 256" "ldb 1 6 (TAG loc) = 0" "passes CycleBindRead s loc" "passes CycleBindRead s ?old"
    "passes CycleBindWrite s b"
    using assms(3) by (auto simp: bindable_def Let_def v_def p_def)
  obtain u where u: "bind_value loc b s = Some (Ret NextInstruction, u)"
    "accessible u = accessible s" "in_stack_cache u = in_stack_cache s" "\<forall>c. passes c u = passes c s"
    "BindingStackPointer u = p + 2" "ReadControlCleanupBindings (control u) = 1"
    "processor_object u = (processor_object s)(p + 1 := saved_locative s loc, p + 2 := ?old, v := stored_over ?old b)"
    using bind_value_eval [OF assms(3)] by (auto simp: v_def p_def)
  have n: "p + 2 - 1 = p + 1" "p + 1 \<noteq> p + 2" by simp_all
  have o: "processor_object u (p + 2) = ?old" "processor_object u (p + 1) = saved_locative s loc"
    "processor_object u v = stored_over ?old b"
    using a(2,3) n(2) by (auto simp: u(7))
  have l: "ucast (DATA (saved_locative s loc)) = v" by (simp add: saved_locative_fields v_def)
  have "passes CycleBindRead s (saved_locative s loc)" "passes CycleBindWrite s (stored_over ?old b)"
    using a(6,8) passes_type [OF saved_locative_fields(1,2)] passes_type [OF stored_over_fields(1,2)] by simp_all
  then obtain t where t: "Unbind u = Some (Ret True, t)" "BindingStackPointer t = p"
    "ReadControlCleanupBindings (control t) = ldb 1 6 (TAG (saved_locative s loc))"
    "processor_object t = (processor_object u)(v := stored_over (stored_over ?old b) ?old)"
    using Unbind_eval [of u] a(1,7) u(2-6) by (auto simp: n o l)
  show ?thesis
    using u t(1,2) o(3) t(3,4) a(4,5) saved_locative_fields(3) [OF a(5), of s] stored_back [OF a(4), of b]
    by (intro exI [of _ u] exI [of _ t]) auto
qed

text \<open>The instruction finds its operands, takes the locative off the stack and binds.\<close>

abbreviation popped :: "machine \<Rightarrow> machine" where "popped s \<equiv> s\<lparr>sp := sp s - 1\<rparr>"

lemma popped_same: "processor_object (popped s) = processor_object s" "accessible (popped s) = accessible s"
  "in_stack_cache (popped s) = in_stack_cache s" "OldspaceAddressP (popped s) = OldspaceAddressP s"
  by (auto simp: fun_eq_iff processor_object_def accessible_def in_stack_cache_def stack_cache_index_def
      cache_slot_def space_object_def OldspaceAddressP_def Let_def)

lemma bindable_addressed: "bindable (popped (addressed mode s)) loc b = bindable s loc b"
  by (simp add: bindable_def Let_def popped_same addressed_same passes_def)

lemma DispatchBindLocativeToValue_eval:
  assumes "operands mode s loc b" "bindable s loc b"
  shows "DispatchBindLocativeToValue mode s = bind_value loc b (popped (addressed mode s))"
proof -
  let ?s = "popped (addressed mode s)"
  note op = operandsD [OF assms(1)]
  note b = assms(2) [folded bindable_addressed [of mode s], unfolded bindable_def Let_def]
  obtain t where t: "save_binding loc ?s = Some (Ret (), t)" "same_binding ?s t" "StackCache t = StackCache ?s"
    using save_binding_eval [of ?s loc] b by blast
  have o: "readable (op2 t)" "object_at t (op2 t) = b"
    using t(2,3) op(3,4) addressed_same(10) [of mode s] by (cases mode; auto simp: same_binding_def)+
  have f: "\<not> (BindingStackLimit ?s \<le> BindingStackPointer ?s \<or> DeepBoundP ?s \<noteq> 0)" "TypeEqualP (TAG loc) TypeLocative"
    using b by auto
  show ?thesis
    using op(1,2) t(1) o f
    by (simp add: DispatchBindLocativeToValue_def bind_value_def binding_room_def prog_simps with_operand_eval [OF in_all_modes])
qed

text \<open>Claim C30: binding a location through a locative stores the value over the location, with the
  location's cdr code kept, and pushes two words on the binding stack; undoing the binding gives
  back the binding stack pointer, the control bit that says whether the frame has bindings, and all of memory except
  those two words.\<close>

theorem bind_unbind:
  fixes s :: machine and loc :: LispObj
  defines "v \<equiv> (ucast (DATA loc) :: u64)" and "p \<equiv> BindingStackPointer s"
  assumes "operands mode s loc b" "bindable s loc b"
  shows "\<exists>u t. DispatchBindLocativeToValue mode s = Some (Ret NextInstruction, u)
    \<and> processor_object u v = stored_over (processor_object s v) b
    \<and> BindingStackPointer u = p + 2 \<and> ReadControlCleanupBindings (control u) = 1
    \<and> Unbind u = Some (Ret True, t)
    \<and> BindingStackPointer t = p \<and> ReadControlCleanupBindings (control t) = ReadControlCleanupBindings (control s)
    \<and> (\<forall>a. a \<noteq> p + 1 \<and> a \<noteq> p + 2 \<longrightarrow> processor_object t a = processor_object s a)"
  using bind_unbind_eval [of "popped (addressed mode s)" loc b] assms(4)
  by (simp add: DispatchBindLocativeToValue_eval [OF assms(3,4)] bindable_addressed popped_same addressed_same v_def p_def)

text \<open>A fixnum bound at address 0x1000, the binding stack at 0x1100.\<close>

definition binding_sample :: machine where
  "binding_sample = with_stack [mkobj TypeLocative 0x1000, mkobj TypeFixnum 7]
     (with_page 0 (blank\<lparr>BindingStackPointer := 0x1100, BindingStackLimit := 0x1200,
        EphemeralOldspaceRegister := - 1, ZoneOldspaceRegister := 0, TagSpace := (\<lambda>_. ucast TypeFixnum)\<rparr>))"

lemma sample_objects:
  "operands ModePop binding_sample (mkobj TypeLocative 0x1000) (mkobj TypeFixnum 7)"
  "BindingStackPointer binding_sample = 0x1100" "control binding_sample = 0"
  "\<not> in_stack_cache binding_sample 0x1000" "\<not> in_stack_cache binding_sample 0x1101" "\<not> in_stack_cache binding_sample 0x1102"
  "processor_object binding_sample 0x1000 = mkobj TypeFixnum 0"
  by (simp_all add: operands_def binding_sample_def slot_def Let_def in_stack_cache_def stack_cache_index_def
      processor_object_def cache_slot_def space_object_def blank_def with_page_def put_slot_def)

lemma sample_bindable: "bindable binding_sample (mkobj TypeLocative 0x1000) (mkobj TypeFixnum 7)"
proof -
  have a: "accessible binding_sample 0x1000" "accessible binding_sample 0x1101" "accessible binding_sample 0x1102"
    by (simp_all add: accessible_def binding_sample_def with_page_def blank_def MemoryPageNumber_def put_slot_def)
  have b: "BindingStackLimit binding_sample = 0x1200" "DeepBoundP binding_sample = 0"
    "EphemeralOldspaceRegister binding_sample = - 1"
    by (simp_all add: binding_sample_def with_page_def blank_def put_slot_def)
  have o: "\<not> OldspaceAddressP binding_sample 0x1000"
    by (simp add: OldspaceAddressP_def b Let_def ReadVMAZoneNum_def ReadVMAEphemeralHalf_def ReadVMAEphemeralDemilevel_def ldb_def)
  have p: "passes CycleBindRead binding_sample (mkobj TypeLocative 0x1000)"
    "passes CycleBindRead binding_sample (mkobj TypeFixnum 0)" "passes CycleBindWrite binding_sample (mkobj TypeFixnum 0)"
    "passes CycleBindWrite binding_sample (mkobj TypeFixnum 7)"
    using o by (simp_all add: passes_def Let_def TagType_def MemoryActionTable_def)
  show ?thesis using a b p sample_objects
    by (simp add: bindable_def Let_def TypeEqualP_def ldb_def)
qed

theorem bind_unbind_witness:
  "\<exists>u t. DispatchBindLocativeToValue ModePop binding_sample = Some (Ret NextInstruction, u)
     \<and> processor_object u 0x1000 = mkobj TypeFixnum 7 \<and> BindingStackPointer u = 0x1102
     \<and> Unbind u = Some (Ret True, t)
     \<and> BindingStackPointer t = 0x1100 \<and> processor_object t 0x1000 = mkobj TypeFixnum 0"
  using bind_unbind [OF sample_objects(1) sample_bindable]
  by (auto simp: sample_objects stored_over_def MergeCdr_def)

end
