(* ===== verification/EmbQueue.thy ===== *)
theory EmbQueue
  imports VLM_Prelude
begin

text \<open>
  The ring buffers of the communication area (\<open>life-support/queues.c\<close>): host and guest talk
  through single-producer, single-consumer queues whose header holds a put and a take index.
  An \<open>EmbQueue\<close> is modelled with its element array as a list of elements: words for the word
  queues, bytes for the byte queues, blocks of \<open>element_size\<close> bytes for the general ones (the
  three put and the three take functions differ in the type of the element only). The state
  also has the mask of pending guest signals and the number of interrupts sent to the emulator,
  the two effects of \<open>EmbSendSignal\<close> (\<open>life-support/signals.c\<close>; its mutex calls are not
  modelled, they are taken to succeed). The other side of the queue does not run during a call:
  waiting for it to make room is the value \<open>None\<close>, the call does not return.
\<close>

subsection \<open>State\<close>

record 'a EmbQueue =
  element_size :: int
  queue_size :: int
  put_index :: int
  take_index :: int
  signal :: int
  element_array :: "'a list"

record 'a comm =
  queue :: "'a EmbQueue"
  host_to_guest_signals :: u32
  emulator_interrupts :: nat

type_synonym ('a, 'b) qprog = "('a comm, 'b) prog"

definition NSignals :: int where
  "NSignals = 32"

definition EmbSendSignal :: "int \<Rightarrow> ('a, unit) qprog" where
  "EmbSendSignal sig = run_if (-1 < sig \<and> sig < NSignals)
     (modify (\<lambda>s. s\<lparr>host_to_guest_signals := host_to_guest_signals s OR push_bit (nat sig) 1,
                     emulator_interrupts := Suc (emulator_interrupts s)\<rparr>))"

text \<open>
  \<open>CreateQueue\<close> without the allocator: the queue it leaves in the block it is given, whose
  element space holds arbitrary old contents.
\<close>

definition CreateQueue :: "int \<Rightarrow> int \<Rightarrow> 'a list \<Rightarrow> 'a EmbQueue" where
  "CreateQueue nElements elementSize contents =
     \<lparr>element_size = elementSize, queue_size = nElements, put_index = 0, take_index = 0,
      signal = -1, element_array = take (nat nElements) contents\<rparr>"

subsection \<open>Space and contents\<close>

definition EmbQueueSpace :: "'a EmbQueue \<Rightarrow> int" where
  "EmbQueueSpace qp = (let put = put_index qp; tk = take_index qp in
     if tk > put then tk - put - 1 else tk - put - 1 + queue_size qp)"

definition EmbQueueFilled :: "'a EmbQueue \<Rightarrow> int" where
  "EmbQueueFilled qp = (let put = put_index qp; tk = take_index qp in
     if put \<ge> tk then put - tk else put - tk + queue_size qp)"

subsection \<open>Single elements\<close>

text \<open>The body the three put functions share.\<close>

definition put_element :: "'a \<Rightarrow> ('a, unit) qprog" where
  "put_element ep =
     bnd (gets queue) (\<lambda>qp. let original_put = put_index qp; put = put_index qp in
     thn (defined (0 \<le> put \<and> put < int (length (element_array qp))))
    (thn (modify (\<lambda>s. s\<lparr>queue := (queue s)
            \<lparr>element_array := (element_array (queue s))[nat put := ep]\<rparr>\<rparr>))
    (let put = put + 1; put = (if put \<ge> queue_size qp then 0 else put) in
     if put = take_index qp then (\<lambda>_. None)
     else thn (modify (\<lambda>s. s\<lparr>queue := (queue s)\<lparr>put_index := put\<rparr>\<rparr>))
              (run_if (original_put = take_index qp) (EmbSendSignal (signal qp))))))"

definition EmbQueuePut :: "u8 list \<Rightarrow> (u8 list, unit) qprog" where
  "EmbQueuePut ep = put_element ep"

definition EmbQueuePutWord :: "u32 \<Rightarrow> (u32, unit) qprog" where
  "EmbQueuePutWord elt = put_element elt"

definition EmbQueuePutByte :: "u8 \<Rightarrow> (u8, unit) qprog" where
  "EmbQueuePutByte elt = put_element elt"

text \<open>The body the three take functions share: \<open>None\<close> for an empty queue.\<close>

definition take_element :: "('a, 'a option) qprog" where
  "take_element =
     bnd (gets queue) (\<lambda>qp. let put = put_index qp; tk = take_index qp in
     if put = tk then ret None
     else thn (defined (0 \<le> tk \<and> tk < int (length (element_array qp))))
         (let elt = element_array qp ! nat tk; tk = tk + 1;
              tk = (if tk \<ge> queue_size qp then 0 else tk) in
          thn (modify (\<lambda>s. s\<lparr>queue := (queue s)\<lparr>take_index := tk\<rparr>\<rparr>)) (ret (Some elt))))"

text \<open>
  \<open>EmbQueueTake\<close> returns FALSE (here \<open>None\<close>) on an empty queue and TRUE with the element
  otherwise; the word and byte versions return \<open>(FALSE) = 0\<close> on an empty queue.
\<close>

definition EmbQueueTake :: "(u8 list, u8 list option) qprog" where
  "EmbQueueTake = take_element"

definition EmbQueueTakeWord :: "(u32, u32) qprog" where
  "EmbQueueTakeWord = bnd take_element (\<lambda>r. ret (case r of None \<Rightarrow> 0 | Some elt \<Rightarrow> elt))"

definition EmbQueueTakeByte :: "(u8, u8) qprog" where
  "EmbQueueTakeByte = bnd take_element (\<lambda>r. ret (case r of None \<Rightarrow> 0 | Some elt \<Rightarrow> elt))"

subsection \<open>Several elements at a time\<close>

definition blit :: "nat \<Rightarrow> 'a list \<Rightarrow> 'a list \<Rightarrow> 'a list" where
  "blit at xs arr = take at arr @ xs @ drop (at + length xs) arr"

text \<open>
  One round of the \<open>while (length > 0)\<close> loop of \<open>EmbQueuePutBytes\<close>: the number of elements
  that fit in the contiguous free space at the put index, as the code computes it.
\<close>

definition put_count :: "'a EmbQueue \<Rightarrow> int \<Rightarrow> int \<Rightarrow> int" where
  "put_count qp put len =
     (let tk = take_index qp;
          count = (if tk > put then tk - put - 1
                   else if tk = 0 then queue_size qp - put - 1
                   else queue_size qp - put)
      in if count > len then len else count)"

definition take_count :: "'a EmbQueue \<Rightarrow> int \<Rightarrow> int \<Rightarrow> int" where
  "take_count qp tk len =
     (let put = put_index qp; count = (if put \<ge> tk then put - tk else queue_size qp - tk)
      in if count > len then len else count)"

definition wrap_index :: "'a EmbQueue \<Rightarrow> int \<Rightarrow> int" where
  "wrap_index qp i = (if i = queue_size qp then 0 else i)"

definition put_round :: "int \<Rightarrow> 'a list \<Rightarrow> ('a, int \<times> int) qprog" where
  "put_round put buffer =
     bnd (gets queue) (\<lambda>qp. let count = put_count qp put (int (length buffer)) in
     thn (defined (0 \<le> put \<and> 0 \<le> count \<and> put + count \<le> int (length (element_array qp))))
    (thn (modify (\<lambda>s. s\<lparr>queue := (queue s)\<lparr>element_array :=
            blit (nat put) (take (nat count) buffer) (element_array (queue s)),
            put_index := wrap_index (queue s) (put + count)\<rparr>\<rparr>))
         (ret (wrap_index qp (put + count), count))))"

partial_function (option) put_loop :: "int \<Rightarrow> 'a list \<Rightarrow> int \<Rightarrow> ('a, int) qprog" where
  "put_loop put buffer actual s =
     (if int (length buffer) \<le> 0 then ret actual s
      else bnd (put_round put buffer) (\<lambda>r s. put_loop (fst r) (drop (nat (snd r)) buffer)
             (actual + snd r) s) s)"

definition put_elements :: "'a list \<Rightarrow> ('a, int) qprog" where
  "put_elements buffer = bnd (gets queue) (\<lambda>qp. let original_put = put_index qp in
     bnd (put_loop original_put buffer 0) (\<lambda>actual_length.
     bnd (gets queue) (\<lambda>qp.
     thn (run_if (original_put = take_index qp) (EmbSendSignal (signal qp)))
         (ret actual_length))))"

definition EmbQueuePutBytes :: "u8 list \<Rightarrow> (u8, int) qprog" where
  "EmbQueuePutBytes buffer = put_elements buffer"

definition EmbQueuePutWords :: "u32 list \<Rightarrow> (u32, int) qprog" where
  "EmbQueuePutWords buffer = put_elements buffer"

text \<open>The take loop returns the buffer it filled together with the length it counted.\<close>

definition take_round :: "int \<Rightarrow> int \<Rightarrow> ('a, int \<times> 'a list) qprog" where
  "take_round tk len =
     bnd (gets queue) (\<lambda>qp. let count = take_count qp tk len in
     thn (defined (0 \<le> tk \<and> 0 \<le> count \<and> tk + count \<le> int (length (element_array qp))))
    (thn (modify (\<lambda>s. s\<lparr>queue := (queue s)\<lparr>take_index := wrap_index qp (tk + count)\<rparr>\<rparr>))
         (ret (wrap_index qp (tk + count),
               take (nat count) (drop (nat tk) (element_array qp))))))"

partial_function (option) take_loop ::
    "int \<Rightarrow> int \<Rightarrow> 'a list \<Rightarrow> int \<Rightarrow> ('a, 'a list \<times> int) qprog" where
  "take_loop tk len buffer actual s =
     (if len \<le> 0 then ret (buffer, actual) s
      else bnd (take_round tk len) (\<lambda>r s. take_loop (fst r) (len - int (length (snd r)))
             (buffer @ snd r) (actual + int (length (snd r))) s) s)"

definition take_elements :: "int \<Rightarrow> ('a, 'a list \<times> int) qprog" where
  "take_elements len = bnd (gets queue) (\<lambda>qp. take_loop (take_index qp) len [] 0)"

definition EmbQueueTakeBytes :: "int \<Rightarrow> (u8, u8 list \<times> int) qprog" where
  "EmbQueueTakeBytes len = take_elements len"

definition EmbQueueTakeWords :: "int \<Rightarrow> (u32, u32 list \<times> int) qprog" where
  "EmbQueueTakeWords len = take_elements len"

subsection \<open>Reset\<close>

text \<open>
  \<open>guest_owned\<close> is the comparison of the queue's address with the end of the host buffer;
  removing the signal handler happens outside the queue.
\<close>

definition ResetIncomingQueue :: "bool \<Rightarrow> 'a EmbQueue \<Rightarrow> 'a EmbQueue" where
  "ResetIncomingQueue guest_owned q =
     (let q = q\<lparr>put_index := 0, take_index := 0\<rparr> in
      if guest_owned then q\<lparr>signal := -1\<rparr> else q)"

definition ResetOutgoingQueue :: "'a EmbQueue \<Rightarrow> 'a EmbQueue" where
  "ResetOutgoingQueue q = q\<lparr>put_index := 0, take_index := 0, signal := -1\<rparr>"


subsection \<open>The abstract queue\<close>

text \<open>
  A well-formed queue has its two indices inside the element array. Its contents are read off
  the array rotated to the take index: the first \<open>EmbQueueFilled\<close> elements.
\<close>

definition queue_ok :: "'a EmbQueue \<Rightarrow> bool" where
  "queue_ok q \<longleftrightarrow> 0 \<le> put_index q \<and> put_index q < queue_size q \<and> 0 \<le> take_index q
     \<and> take_index q < queue_size q \<and> int (length (element_array q)) = queue_size q"

definition queue_list :: "'a EmbQueue \<Rightarrow> 'a list" where
  "queue_list q = take (nat (EmbQueueFilled q)) (rotate (nat (take_index q)) (element_array q))"

definition queue_capacity :: "'a EmbQueue \<Rightarrow> nat" where
  "queue_capacity q = nat (queue_size q - 1)"

lemma mod_wrap: "a < 2 * n \<Longrightarrow> a mod n = (if a < n then a else a - n)" for a n :: nat
  by (simp add: le_mod_geq)

lemma index_old:
  fixes t f i n l :: nat
  assumes "p = (if t + f < n then t + f else t + f - n)"
    and "j = (if t + i < n then t + i else t + i - n)"
    and "t < n" "f + l < n" "p + l \<le> n" "i < f"
  shows "\<not> (p \<le> j \<and> j < p + l)"
  using assms by (cases "t + f < n"; cases "t + i < n"; simp; arith)

lemma index_new:
  fixes t f i n l :: nat
  assumes "p = (if t + f < n then t + f else t + f - n)"
    and "j = (if t + i < n then t + i else t + i - n)"
    and "t < n" "f + l < n" "p + l \<le> n" "f \<le> i" "i < f + l"
  shows "j = p + (i - f)"
  using assms by (cases "t + f < n"; cases "t + i < n"; simp; arith)

lemma filled_bounds: "queue_ok q \<Longrightarrow> 0 \<le> EmbQueueFilled q \<and> EmbQueueFilled q < queue_size q"
  by (auto simp: queue_ok_def EmbQueueFilled_def Let_def)

lemma filled_mod:
  "queue_ok q \<Longrightarrow> nat (put_index q)
     = (nat (take_index q) + nat (EmbQueueFilled q)) mod length (element_array q)"
proof -
  assume ok: "queue_ok q"
  let ?n = "length (element_array q)"
  show ?thesis
  proof (cases "take_index q \<le> put_index q")
    case True
    with ok show ?thesis by (auto simp: queue_ok_def EmbQueueFilled_def Let_def)
  next
    case False
    with ok have "nat (take_index q) + nat (EmbQueueFilled q) = nat (put_index q) + ?n"
      by (auto simp: queue_ok_def EmbQueueFilled_def Let_def)
    with ok show ?thesis by (auto simp: queue_ok_def)
  qed
qed

lemma take_nat_less: "queue_ok q \<Longrightarrow> nat (take_index q) < length (element_array q)"
  by (auto simp: queue_ok_def)

lemma put_nat_less: "queue_ok q \<Longrightarrow> nat (put_index q) < length (element_array q)"
  by (auto simp: queue_ok_def)

lemma length_queue_list: "queue_ok q \<Longrightarrow> length (queue_list q) = nat (EmbQueueFilled q)"
  using filled_bounds [of q] by (auto simp: queue_list_def queue_ok_def)

lemma length_queue_list_capacity: "queue_ok q \<Longrightarrow> length (queue_list q) \<le> queue_capacity q"
  using filled_bounds [of q] by (auto simp: length_queue_list queue_capacity_def)

lemma EmbQueueSpace_capacity:
  "queue_ok q \<Longrightarrow> EmbQueueSpace q = int (queue_capacity q) - int (length (queue_list q))"
  by (auto simp: length_queue_list queue_capacity_def queue_ok_def EmbQueueFilled_def
      EmbQueueSpace_def Let_def)

lemma nth_queue_list:
  "queue_ok q \<Longrightarrow> i < nat (EmbQueueFilled q) \<Longrightarrow>
     queue_list q ! i = element_array q ! ((nat (take_index q) + i) mod length (element_array q))"
  using filled_bounds [of q] by (auto simp: queue_list_def queue_ok_def nth_rotate)

text \<open>Adding a contiguous block of elements at the put index, as a round of the put loop does.\<close>

definition put_block :: "'a list \<Rightarrow> 'a EmbQueue \<Rightarrow> 'a EmbQueue" where
  "put_block xs q = q\<lparr>element_array := blit (nat (put_index q)) xs (element_array q),
     put_index := wrap_index q (put_index q + int (length xs))\<rparr>"

lemma length_blit: "at + length xs \<le> length arr \<Longrightarrow> length (blit at xs arr) = length arr"
  by (simp add: blit_def)

lemma nth_blit:
  "at + length xs \<le> length arr \<Longrightarrow> i < length arr \<Longrightarrow>
     blit at xs arr ! i = (if at \<le> i \<and> i < at + length xs then xs ! (i - at) else arr ! i)"
  by (auto simp: blit_def nth_append min_def)

lemma put_block_filled:
  assumes "queue_ok q" and "put_index q + int (length xs) \<le> queue_size q"
    and "int (length xs) \<le> EmbQueueSpace q"
  shows "queue_ok (put_block xs q)"
    and "EmbQueueFilled (put_block xs q) = EmbQueueFilled q + int (length xs)"
  using assms by (auto simp: queue_ok_def put_block_def wrap_index_def length_blit
      EmbQueueFilled_def EmbQueueSpace_def Let_def nat_le_iff split: if_splits)

lemma queue_list_put_block:
  assumes ok: "queue_ok q" and fit: "put_index q + int (length xs) \<le> queue_size q"
    and room: "int (length xs) \<le> EmbQueueSpace q"
  shows "queue_list (put_block xs q) = queue_list q @ xs"
proof (rule nth_equalityI)
  let ?q = "put_block xs q" and ?n = "length (element_array q)"
  let ?f = "nat (EmbQueueFilled q)" and ?t = "nat (take_index q)" and ?p = "nat (put_index q)"
  note ok' = put_block_filled(1) [OF ok fit room]
  note f' = put_block_filled(2) [OF ok fit room]
  have fb: "0 \<le> EmbQueueFilled q" and fn: "?f + length xs < ?n"
    using filled_bounds [OF ok] filled_bounds [OF ok'] f' ok
    by (auto simp: queue_ok_def put_block_def)
  have len: "length (element_array ?q) = ?n" "take_index ?q = take_index q"
    using ok fit by (auto simp: put_block_def queue_ok_def length_blit nat_le_iff)
  show "length (queue_list ?q) = length (queue_list q @ xs)"
    using fb by (simp add: length_queue_list ok ok' f' nat_add_distrib)
  fix i assume "i < length (queue_list ?q)"
  then have i: "i < ?f + length xs"
    using fb by (simp add: length_queue_list ok' f' nat_add_distrib)
  have pt: "?p = (?t + ?f) mod ?n" and tn: "?t < ?n" and pn: "?p + length xs \<le> ?n"
    using filled_mod [OF ok] ok fit by (auto simp: queue_ok_def)
  define j where "j = (?t + i) mod ?n"
  have jw: "j = (if ?t + i < ?n then ?t + i else ?t + i - ?n)"
    using tn i fn unfolding j_def by (intro mod_wrap) linarith
  have pw: "?p = (if ?t + ?f < ?n then ?t + ?f else ?t + ?f - ?n)"
    using tn fn unfolding pt by (intro mod_wrap) linarith
  have jn: "j < ?n" using tn unfolding j_def by (intro mod_less_divisor) linarith
  have lhs: "queue_list ?q ! i = blit ?p xs (element_array q) ! j"
    using nth_queue_list [OF ok', of i] i fb
    by (simp add: f' nat_add_distrib len j_def) (simp add: put_block_def)
  show "queue_list ?q ! i = (queue_list q @ xs) ! i"
  proof (cases "i < ?f")
    case True
    have "\<not> (?p \<le> j \<and> j < ?p + length xs)"
      by (rule index_old [OF pw jw tn fn pn True])
    then have "queue_list ?q ! i = element_array q ! j"
      using lhs pn jn by (auto simp: nth_blit)
    with True show ?thesis
      by (simp add: nth_append length_queue_list ok nth_queue_list j_def)
  next
    case False
    then have "j = ?p + (i - ?f)"
      using index_new [OF pw jw tn fn pn _ i] by simp
    with False i show ?thesis
      using lhs pn jn by (auto simp: nth_blit nth_append length_queue_list ok)
  qed
qed

text \<open>Dropping a contiguous block at the take index, as a round of the take loop does.\<close>

definition drop_block :: "nat \<Rightarrow> 'a EmbQueue \<Rightarrow> 'a EmbQueue" where
  "drop_block k q = q\<lparr>take_index := wrap_index q (take_index q + int k)\<rparr>"

lemma drop_block_filled:
  assumes "queue_ok q" and "take_index q + int k \<le> queue_size q"
    and "int k \<le> EmbQueueFilled q"
  shows "queue_ok (drop_block k q)"
    and "EmbQueueFilled (drop_block k q) = EmbQueueFilled q - int k"
  using assms by (auto simp: queue_ok_def drop_block_def wrap_index_def
      EmbQueueFilled_def Let_def split: if_splits)

lemma queue_list_drop_block:
  assumes ok: "queue_ok q" and fit: "take_index q + int k \<le> queue_size q"
    and room: "int k \<le> EmbQueueFilled q"
  shows "queue_list (drop_block k q) = drop k (queue_list q)"
    and "take k (drop (nat (take_index q)) (element_array q)) = take k (queue_list q)"
proof -
  let ?n = "length (element_array q)" and ?t = "nat (take_index q)"
  note ok' = drop_block_filled(1) [OF ok fit room]
  have t': "nat (take_index (drop_block k q)) = (?t + k) mod ?n"
  proof (cases "take_index q + int k = queue_size q")
    case True
    with ok have "?t + k = ?n" by (auto simp: queue_ok_def)
    with True show ?thesis by (simp add: drop_block_def wrap_index_def)
  next
    case False
    with ok fit show ?thesis by (auto simp: drop_block_def wrap_index_def queue_ok_def)
  qed
  have "rotate (?t + k) (element_array q) = rotate k (rotate ?t (element_array q))"
    by (simp add: rotate_rotate add.commute)
  moreover have kn: "k < ?n"
    using filled_bounds [OF ok] room ok by (auto simp: queue_ok_def)
  ultimately have rot: "rotate ((?t + k) mod ?n) (element_array q)
      = drop k (rotate ?t (element_array q)) @ take k (rotate ?t (element_array q))"
    by (simp add: rotate_conv_mod [symmetric] rotate_drop_take)
  have "nat (EmbQueueFilled (drop_block k q)) \<le> length (drop k (rotate ?t (element_array q)))"
    using filled_bounds [OF ok] room ok drop_block_filled(2) [OF ok fit room]
    by (auto simp: queue_ok_def)
  then show "queue_list (drop_block k q) = drop k (queue_list q)"
    using rot t' drop_block_filled(2) [OF ok fit room] room
    by (simp add: queue_list_def drop_take nat_diff_distrib) (simp add: drop_block_def rot)
  have "rotate ?t (element_array q) = drop ?t (element_array q) @ take ?t (element_array q)"
    using take_nat_less [OF ok] by (simp add: rotate_drop_take)
  moreover have "k \<le> nat (EmbQueueFilled q)" and "k \<le> length (drop ?t (element_array q))"
    using ok fit room by (auto simp: queue_ok_def)
  ultimately show "take k (drop ?t (element_array q)) = take k (queue_list q)"
    by (simp add: queue_list_def min_absorb1)
qed


subsection \<open>Single operations against the abstract queue\<close>

lemma put_element_room:
  assumes ok: "queue_ok (queue s)" and room: "length (queue_list (queue s)) < queue_capacity (queue s)"
  shows "\<exists>s'. put_element x s = Some (Ret (), s') \<and> queue s' = put_block [x] (queue s)"
proof -
  let ?q = "queue s"
  have sp: "EmbQueueSpace ?q > 0"
    using room EmbQueueSpace_capacity [OF ok] by simp
  have nxt: "(if queue_size ?q \<le> put_index ?q + 1 then 0 else put_index ?q + 1)
      = wrap_index ?q (put_index ?q + 1)"
    using ok by (auto simp: queue_ok_def wrap_index_def)
  have "wrap_index ?q (put_index ?q + 1) \<noteq> take_index ?q"
    using ok sp by (auto simp: queue_ok_def wrap_index_def EmbQueueSpace_def Let_def split: if_splits)
  moreover have "blit (nat (put_index ?q)) [x] (element_array ?q)
      = (element_array ?q)[nat (put_index ?q) := x]"
    using put_nat_less [OF ok] by (simp add: blit_def upd_conv_take_nth_drop)
  ultimately show ?thesis
    using ok nxt
    by (auto simp: put_element_def prog_simps put_block_def queue_ok_def Let_def
        EmbSendSignal_def)
qed

text \<open>The signals that a put raises: the queue's own, if it has one and the queue was empty.\<close>

definition signalled :: "'a EmbQueue \<Rightarrow> u32 \<Rightarrow> u32" where
  "signalled q pending = (if queue_list q = [] \<and> - 1 < signal q \<and> signal q < 32
     then pending OR push_bit (nat (signal q)) 1 else pending)"

definition interrupts_after :: "'a EmbQueue \<Rightarrow> nat \<Rightarrow> nat" where
  "interrupts_after q n = (if queue_list q = [] \<and> - 1 < signal q \<and> signal q < 32 then Suc n else n)"

lemma put_element_full:
  assumes ok: "queue_ok (queue s)" and "length (queue_list (queue s)) = queue_capacity (queue s)"
  shows "put_element x s = None"
proof -
  let ?q = "queue s"
  have "EmbQueueSpace ?q = 0"
    using assms EmbQueueSpace_capacity [OF ok] by simp
  then have "(if queue_size ?q \<le> put_index ?q + 1 then 0 else put_index ?q + 1) = take_index ?q"
    using ok by (auto simp: queue_ok_def EmbQueueSpace_def Let_def split: if_splits)
  then show ?thesis
    using ok by (auto simp: put_element_def prog_simps queue_ok_def Let_def bnd_def prog_defs)
qed

lemma queue_list_Nil: "queue_ok q \<Longrightarrow> queue_list q = [] \<longleftrightarrow> put_index q = take_index q"
proof -
  assume ok: "queue_ok q"
  have "queue_list q = [] \<longleftrightarrow> EmbQueueFilled q = 0"
    using length_queue_list [OF ok] filled_bounds [OF ok] by (cases "queue_list q") auto
  with ok show ?thesis by (auto simp: queue_ok_def EmbQueueFilled_def Let_def)
qed

lemma take_element_empty:
  "queue_ok (queue s) \<Longrightarrow> queue_list (queue s) = [] \<Longrightarrow> take_element s = Some (Ret None, s)"
  by (simp add: queue_list_Nil take_element_def prog_simps)

lemma take_element_Cons:
  assumes ok: "queue_ok (queue s)" and xs: "queue_list (queue s) = x # xs"
  shows "take_element s = Some (Ret (Some x), s\<lparr>queue := drop_block 1 (queue s)\<rparr>)"
proof -
  let ?q = "queue s"
  have f: "1 \<le> EmbQueueFilled ?q"
    using length_queue_list [OF ok] xs by simp
  then have nth: "element_array ?q ! nat (take_index ?q) = x"
    using nth_queue_list [OF ok, of 0] xs take_nat_less [OF ok] by simp
  have "put_index ?q \<noteq> take_index ?q"
    using queue_list_Nil [OF ok] xs by simp
  moreover have "(if queue_size ?q \<le> take_index ?q + 1 then 0 else take_index ?q + 1)
      = wrap_index ?q (take_index ?q + 1)"
    using ok by (auto simp: queue_ok_def wrap_index_def)
  ultimately show ?thesis
    using ok nth by (auto simp: take_element_def prog_simps drop_block_def queue_ok_def Let_def)
qed

text \<open>
  The interface of a bounded first-in, first-out channel: \<open>enq\<close> returns when there is room and
  does not return otherwise, \<open>deq\<close> always returns. \<open>content\<close> is what the channel holds.
\<close>

locale bounded_fifo =
  fixes invar :: "'q \<Rightarrow> bool"
    and content :: "'q \<Rightarrow> 'a list"
    and capacity :: "'q \<Rightarrow> nat"
    and enq :: "'a \<Rightarrow> 'q \<Rightarrow> 'q option"
    and deq :: "'q \<Rightarrow> 'a option \<times> 'q"
  assumes enq_room: "invar q \<Longrightarrow> length (content q) < capacity q \<Longrightarrow>
      \<exists>q'. enq x q = Some q' \<and> invar q' \<and> content q' = content q @ [x] \<and> capacity q' = capacity q"
    and enq_full: "invar q \<Longrightarrow> length (content q) = capacity q \<Longrightarrow> enq x q = None"
    and content_le: "invar q \<Longrightarrow> length (content q) \<le> capacity q"
    and deq_empty: "invar q \<Longrightarrow> content q = [] \<Longrightarrow> deq q = (None, q)"
    and deq_Cons: "invar q \<Longrightarrow> content q = x # xs \<Longrightarrow>
      \<exists>q'. deq q = (Some x, q') \<and> invar q' \<and> content q' = xs \<and> capacity q' = capacity q"
begin

text \<open>A schedule of the two sides: \<open>Some x\<close> puts \<open>x\<close>, \<open>None\<close> takes.\<close>

fun run :: "'a option list \<Rightarrow> 'q \<Rightarrow> ('a list \<times> 'q) option" where
  "run [] q = Some ([], q)"
| "run (Some x # es) q = (case enq x q of None \<Rightarrow> None | Some q' \<Rightarrow> run es q')"
| "run (None # es) q = (case deq q of (r, q') \<Rightarrow>
     (case run es q' of None \<Rightarrow> None
      | Some (out, q'') \<Rightarrow> Some ((case r of None \<Rightarrow> out | Some x \<Rightarrow> x # out), q'')))"

lemma enq_Some:
  "invar q \<Longrightarrow> enq x q = Some q' \<Longrightarrow>
     invar q' \<and> content q' = content q @ [x] \<and> capacity q' = capacity q"
  using enq_room [of q x] enq_full [of q x] content_le [of q]
  by (cases "length (content q) < capacity q") auto

lemma run_fifo:
  "invar q \<Longrightarrow> run es q = Some (out, q') \<Longrightarrow>
     invar q' \<and> out @ content q' = content q @ List.map_filter id es"
proof (induction es arbitrary: q out)
  case Nil
  then show ?case by (simp add: List.map_filter_def)
next
  case (Cons e es)
  show ?case
  proof (cases e)
    case (Some x)
    with Cons.prems obtain q1 where q1: "enq x q = Some q1" "run es q1 = Some (out, q')"
      by (auto split: option.splits)
    with Cons.IH [of q1 out] enq_Some [OF Cons.prems(1) q1(1)] Some show ?thesis
      by (simp add: List.map_filter_def)
  next
    case None
    with Cons.prems obtain r q1 out1 where d: "deq q = (r, q1)" "run es q1 = Some (out1, q')"
      "out = (case r of None \<Rightarrow> out1 | Some x \<Rightarrow> x # out1)"
      by (auto split: option.splits prod.splits)
    show ?thesis
    proof (cases "content q")
      case Nil
      with d None Cons.IH [of q1 out1] Cons.prems(1) deq_empty [of q] show ?thesis
        by (simp add: List.map_filter_def)
    next
      case (Cons x xs)
      with d None Cons.IH [of q1 out1] Cons.prems(1) deq_Cons [of q x xs] show ?thesis
        by (auto simp: List.map_filter_def)
    qed
  qed
qed

end

text \<open>The queue put and take as channel operations on the communication state.\<close>

definition put_step :: "'a \<Rightarrow> 'a comm \<Rightarrow> 'a comm option" where
  "put_step x s = map_option snd (put_element x s)"

definition take_step :: "'a comm \<Rightarrow> 'a option \<times> 'a comm" where
  "take_step s = (case take_element s of Some (Ret r, s') \<Rightarrow> (r, s') | _ \<Rightarrow> (None, s))"

lemma put_step_room:
  assumes "queue_ok (queue s)" and "length (queue_list (queue s)) < queue_capacity (queue s)"
  shows "\<exists>s'. put_step x s = Some s' \<and> queue_ok (queue s')
    \<and> queue_list (queue s') = queue_list (queue s) @ [x]
    \<and> queue_capacity (queue s') = queue_capacity (queue s)"
proof -
  have fit: "put_index (queue s) + int (length [x]) \<le> queue_size (queue s)"
    and room: "int (length [x]) \<le> EmbQueueSpace (queue s)"
    using assms EmbQueueSpace_capacity [OF assms(1)] by (auto simp: queue_ok_def)
  show ?thesis
    using put_element_room [OF assms, of x] put_block_filled(1) [OF assms(1) fit room]
      queue_list_put_block [OF assms(1) fit room]
    by (auto simp: put_step_def) (simp add: put_block_def queue_capacity_def)
qed

lemma take_step_Cons:
  assumes "queue_ok (queue s)" and "queue_list (queue s) = x # xs"
  shows "\<exists>s'. take_step s = (Some x, s') \<and> queue_ok (queue s')
    \<and> queue_list (queue s') = xs \<and> queue_capacity (queue s') = queue_capacity (queue s)"
proof -
  have fit: "take_index (queue s) + int 1 \<le> queue_size (queue s)"
    and room: "int 1 \<le> EmbQueueFilled (queue s)"
    using assms length_queue_list [OF assms(1)] by (auto simp: queue_ok_def)
  show ?thesis
    using take_element_Cons [OF assms] drop_block_filled(1) [OF assms(1) fit room]
      queue_list_drop_block(1) [OF assms(1) fit room] assms(2)
    by (auto simp: take_step_def) (simp add: drop_block_def queue_capacity_def)
qed

interpretation comm_queue: bounded_fifo "\<lambda>s. queue_ok (queue s)" "\<lambda>s. queue_list (queue s)"
    "\<lambda>s. queue_capacity (queue s)" put_step take_step
  by unfold_locales
    (simp_all add: put_step_room take_step_Cons length_queue_list_capacity,
     simp_all add: put_step_def put_element_full take_step_def take_element_empty)


subsection \<open>Transfers of several elements\<close>

lemma put_count_bounds:
  assumes ok: "queue_ok q" and pos: "0 < len" and room: "len \<le> EmbQueueSpace q"
  shows "0 < put_count q (put_index q) len"
    and "put_index q + put_count q (put_index q) len \<le> queue_size q"
    and "put_count q (put_index q) len \<le> len"
  using assms by (auto simp: put_count_def queue_ok_def EmbQueueSpace_def Let_def split: if_splits)

text \<open>When the loop goes on for longer than there is room, some round finds no room at all.\<close>

lemma put_count_space:
  assumes ok: "queue_ok q" and pos: "0 < len"
  shows "put_count q (put_index q) len \<le> EmbQueueSpace q"
    and "put_index q + put_count q (put_index q) len \<le> queue_size q"
    and "0 \<le> put_count q (put_index q) len"
  using assms by (auto simp: put_count_def queue_ok_def EmbQueueSpace_def Let_def split: if_splits)

lemma put_round_eval:
  assumes ok: "queue_ok (queue s)" and pos: "0 < int (length xs)"
    and c: "c = put_count (queue s) (put_index (queue s)) (int (length xs))"
    and b: "b = take (nat c) xs"
  shows "put_round (put_index (queue s)) xs s
    = Some (Ret (put_index (put_block b (queue s)), int (length b)),
        s\<lparr>queue := put_block b (queue s)\<rparr>)"
    and "queue_ok (put_block b (queue s))"
    and "queue_list (put_block b (queue s)) = queue_list (queue s) @ b"
    and "queue_capacity (put_block b (queue s)) = queue_capacity (queue s)"
    and "int (length b) = c"
proof -
  let ?q = "queue s"
  note sp = put_count_space [OF ok pos, folded c]
  have "c \<le> int (length xs)"
    by (simp add: c put_count_def Let_def)
  then show lb: "int (length b) = c" using sp by (simp add: b)
  have fit: "put_index ?q + int (length b) \<le> queue_size ?q"
    and room: "int (length b) \<le> EmbQueueSpace ?q"
    using sp lb by auto
  show "queue_ok (put_block b ?q)" by (rule put_block_filled(1) [OF ok fit room])
  show "queue_list (put_block b ?q) = queue_list ?q @ b"
    by (rule queue_list_put_block [OF ok fit room])
  show "queue_capacity (put_block b ?q) = queue_capacity ?q"
    by (simp add: put_block_def queue_capacity_def)
  show "put_round (put_index ?q) xs s = Some (Ret (put_index (put_block b ?q), int (length b)),
      s\<lparr>queue := put_block b ?q\<rparr>)"
    using ok sp lb
    by (auto simp: put_round_def prog_simps put_block_def queue_ok_def Let_def b c [symmetric])
qed

lemma put_loop_room:
  assumes "queue_ok (queue s)" and "int (length xs) \<le> EmbQueueSpace (queue s)"
  shows "\<exists>s'. put_loop (put_index (queue s)) xs n s = Some (Ret (n + int (length xs)), s')
    \<and> queue_ok (queue s') \<and> queue_list (queue s') = queue_list (queue s) @ xs
    \<and> queue_capacity (queue s') = queue_capacity (queue s)"
  using assms
proof (induction xs arbitrary: s n rule: length_induct)
  case (1 xs)
  let ?q = "queue s"
  show ?case
  proof (cases "xs = []")
    case True
    with "1.prems" show ?thesis by (subst put_loop.simps) (simp add: prog_simps)
  next
    case False
    then have pos: "0 < int (length xs)" by simp
    define b where "b = take (nat (put_count ?q (put_index ?q) (int (length xs)))) xs"
    note c = put_count_bounds [OF "1.prems"(1) pos "1.prems"(2)]
    note rd = put_round_eval [OF "1.prems"(1) pos refl b_def]
    let ?r = "drop (length b) xs" and ?s = "s\<lparr>queue := put_block b ?q\<rparr>"
    have nb: "0 < length b" "length b \<le> length xs" "b @ ?r = xs"
      using c rd(5) by (auto simp: b_def)
    then have lr: "length ?r < length xs" unfolding length_drop by linarith
    have "int (length ?r) \<le> EmbQueueSpace (queue ?s)"
      using nb EmbQueueSpace_capacity [OF rd(2)] EmbQueueSpace_capacity [OF "1.prems"(1)]
        "1.prems"(2) rd(3,4) by simp
    then obtain s' where s': "put_loop (put_index (queue ?s)) ?r (n + int (length b)) ?s
        = Some (Ret (n + int (length b) + int (length ?r)), s')" "queue_ok (queue s')"
      "queue_list (queue s') = queue_list (queue ?s) @ ?r"
      "queue_capacity (queue s') = queue_capacity (queue ?s)"
      using "1.IH" [rule_format, OF lr, of ?s "n + int (length b)"] rd(2) by auto
    have "put_loop (put_index ?q) xs n s
        = put_loop (put_index (queue ?s)) ?r (n + int (length b)) ?s"
      using False by (subst put_loop.simps) (simp add: prog_simps rd(1))
    with s' rd nb show ?thesis by (intro exI [of _ s']) (auto simp: of_nat_diff)
  qed
qed

lemma put_loop_returns:
  assumes run: "put_loop put xs n s = Some r"
    and "queue_ok (queue s)" and "put = put_index (queue s)"
  shows "int (length xs) \<le> EmbQueueSpace (queue s)"
proof -
  have "queue_ok (queue s) \<longrightarrow> put = put_index (queue s)
      \<longrightarrow> int (length xs) \<le> EmbQueueSpace (queue s)"
  proof (rule put_loop.raw_induct [where P = "\<lambda>put xs n s r. queue_ok (queue s)
      \<longrightarrow> put = put_index (queue s) \<longrightarrow> int (length xs) \<le> EmbQueueSpace (queue s)", OF _ run],
      intro impI)
    fix f :: "int \<Rightarrow> 'a list \<Rightarrow> int \<Rightarrow> ('a, int) qprog"
      and put and xs :: "'a list" and n and s :: "'a comm" and r
    assume IH: "\<And>put xs n s r. f put xs n s = Some r \<Longrightarrow> queue_ok (queue s)
        \<longrightarrow> put = put_index (queue s) \<longrightarrow> int (length xs) \<le> EmbQueueSpace (queue s)"
      and eq: "(if int (length xs) \<le> 0 then ret n s
        else bnd (put_round put xs) (\<lambda>r s. f (fst r) (drop (nat (snd r)) xs) (n + snd r) s) s)
          = Some r"
      and ok: "queue_ok (queue s)" and put: "put = put_index (queue s)"
    show "int (length xs) \<le> EmbQueueSpace (queue s)"
    proof (cases "int (length xs) \<le> 0")
      case True
      with EmbQueueSpace_capacity [OF ok] length_queue_list_capacity [OF ok] show ?thesis
        by simp
    next
      case False
      then have pos: "0 < int (length xs)" by simp
      define b where "b = take (nat (put_count (queue s) (put_index (queue s)) (int (length xs)))) xs"
      note rd = put_round_eval [OF ok pos refl b_def]
      from eq False put have "f (put_index (put_block b (queue s))) (drop (length b) xs)
          (n + int (length b)) (s\<lparr>queue := put_block b (queue s)\<rparr>) = Some r"
        by (simp add: prog_simps rd(1))
      from IH [OF this] rd(2) have "int (length (drop (length b) xs))
          \<le> EmbQueueSpace (put_block b (queue s))" by simp
      moreover have "length b \<le> length xs" by (simp add: b_def)
      ultimately show ?thesis
        using EmbQueueSpace_capacity [OF rd(2)] EmbQueueSpace_capacity [OF ok] rd(3,4)
        by (simp add: of_nat_diff)
    qed
  qed
  with assms show ?thesis by blast
qed

lemma take_round_eval:
  assumes ok: "queue_ok (queue s)" and pos: "0 < len"
    and c: "c = min len (int (length (queue_list (queue s))))"
    and k: "int k = take_count (queue s) (take_index (queue s)) len"
    and b: "b = take k (queue_list (queue s))"
  shows "take_round (take_index (queue s)) len s
    = Some (Ret (take_index (drop_block k (queue s)), b), s\<lparr>queue := drop_block k (queue s)\<rparr>)"
    and "queue_ok (drop_block k (queue s))"
    and "queue_list (drop_block k (queue s)) = drop k (queue_list (queue s))"
    and "length b = k" and "int k \<le> len"
    and "queue_list (queue s) \<noteq> [] \<Longrightarrow> 0 < k"
proof -
  let ?q = "queue s"
  have fit: "take_index ?q + int k \<le> queue_size ?q" and room: "int k \<le> EmbQueueFilled ?q"
    and kl: "int k \<le> len"
    using ok by (auto simp: k take_count_def queue_ok_def EmbQueueFilled_def Let_def)
  show "queue_ok (drop_block k ?q)" by (rule drop_block_filled(1) [OF ok fit room])
  show "queue_list (drop_block k ?q) = drop k (queue_list ?q)"
    by (rule queue_list_drop_block(1) [OF ok fit room])
  show "int k \<le> len" by (rule kl)
  show lb: "length b = k"
    using room length_queue_list [OF ok] by (simp add: b nat_le_iff le_nat_iff)
  show "0 < k" if "queue_list ?q \<noteq> []"
  proof -
    have "put_index ?q \<noteq> take_index ?q" using that queue_list_Nil [OF ok] by simp
    with pos ok have "0 < int k" by (auto simp: k take_count_def queue_ok_def Let_def)
    then show ?thesis by simp
  qed
  have "b = take k (drop (nat (take_index ?q)) (element_array ?q))"
    by (simp add: b queue_list_drop_block(2) [OF ok fit room])
  then show "take_round (take_index ?q) len s
      = Some (Ret (take_index (drop_block k ?q), b), s\<lparr>queue := drop_block k ?q\<rparr>)"
    using ok fit by (auto simp: take_round_def prog_simps drop_block_def queue_ok_def Let_def k [symmetric])
qed

lemma take_count_nonneg: "queue_ok q \<Longrightarrow> 0 < len \<Longrightarrow> 0 \<le> take_count q (take_index q) len"
  by (auto simp: take_count_def queue_ok_def Let_def)

lemma take_loop_available:
  assumes "queue_ok (queue s)" and "len \<le> length (queue_list (queue s))"
  shows "\<exists>s'. take_loop (take_index (queue s)) (int len) buf n s
      = Some (Ret (buf @ take len (queue_list (queue s)), n + int len), s')
    \<and> queue_ok (queue s') \<and> queue_list (queue s') = drop len (queue_list (queue s))"
  using assms
proof (induction len arbitrary: s buf n rule: less_induct)
  case (less len)
  let ?q = "queue s" and ?l = "queue_list (queue s)"
  show ?case
  proof (cases "len = 0")
    case True
    with less.prems show ?thesis by (subst take_loop.simps) (simp add: prog_simps)
  next
    case False
    then have pos: "0 < int len" by simp
    define k where "k = nat (take_count ?q (take_index ?q) (int len))"
    have k: "int k = take_count ?q (take_index ?q) (int len)"
      using take_count_nonneg [OF less.prems(1) pos] by (simp add: k_def)
    note rd = take_round_eval [OF less.prems(1) pos refl k refl]
    have "0 < k" using rd(6) False less.prems(2) by fastforce
    then have lt: "len - k < len" and kl: "k \<le> len" using rd(5) False by auto
    let ?s = "s\<lparr>queue := drop_block k ?q\<rparr>"
    have "queue_ok (queue ?s)" and "len - k \<le> length (queue_list (queue ?s))"
      using rd(2,3) less.prems(2) by auto
    then obtain s' where s': "take_loop (take_index (queue ?s)) (int (len - k)) (buf @ take k ?l)
        (n + int k) ?s = Some (Ret (buf @ take k ?l @ take (len - k) (drop k ?l),
          n + int k + int (len - k)), s')"
      "queue_ok (queue s')" "queue_list (queue s') = drop (len - k) (drop k ?l)"
      using less.IH [OF lt, of ?s "buf @ take k ?l" "n + int k"] rd(3) by auto
    have "take_loop (take_index ?q) (int len) buf n s = take_loop (take_index (queue ?s))
        (int (len - k)) (buf @ take k ?l) (n + int k) ?s"
      using False kl rd(4) by (subst take_loop.simps) (simp add: prog_simps rd(1) of_nat_diff)
    moreover have "take k ?l @ take (len - k) (drop k ?l) = take len ?l"
      using kl by (metis le_add_diff_inverse take_add)
    ultimately show ?thesis
      using s' kl by (intro exI [of _ s']) (simp add: of_nat_diff)
  qed
qed

lemma take_loop_returns:
  assumes run: "take_loop tk len buf n s = Some r"
    and "queue_ok (queue s)" and "tk = take_index (queue s)"
  shows "len \<le> int (length (queue_list (queue s)))"
proof -
  have "queue_ok (queue s) \<longrightarrow> tk = take_index (queue s)
      \<longrightarrow> len \<le> int (length (queue_list (queue s)))"
  proof (rule take_loop.raw_induct [where P = "\<lambda>tk len buf n s r. queue_ok (queue s)
      \<longrightarrow> tk = take_index (queue s) \<longrightarrow> len \<le> int (length (queue_list (queue s)))", OF _ run],
      intro impI)
    fix f :: "int \<Rightarrow> int \<Rightarrow> 'a list \<Rightarrow> int \<Rightarrow> ('a, 'a list \<times> int) qprog"
      and tk len and buf :: "'a list" and n and s :: "'a comm" and r
    assume IH: "\<And>tk len buf n s r. f tk len buf n s = Some r \<Longrightarrow> queue_ok (queue s)
        \<longrightarrow> tk = take_index (queue s) \<longrightarrow> len \<le> int (length (queue_list (queue s)))"
      and eq: "(if len \<le> 0 then ret (buf, n) s
        else bnd (take_round tk len) (\<lambda>r s. f (fst r) (len - int (length (snd r)))
             (buf @ snd r) (n + int (length (snd r))) s) s) = Some r"
      and ok: "queue_ok (queue s)" and tk: "tk = take_index (queue s)"
    show "len \<le> int (length (queue_list (queue s)))"
    proof (cases "len \<le> 0")
      case False
      then have pos: "0 < len" by simp
      define k where "k = nat (take_count (queue s) (take_index (queue s)) len)"
      have k: "int k = take_count (queue s) (take_index (queue s)) len"
        using take_count_nonneg [OF ok pos] by (simp add: k_def)
      note rd = take_round_eval [OF ok pos refl k refl]
      from eq False tk have "f (take_index (drop_block k (queue s))) (len - int k)
          (buf @ take k (queue_list (queue s))) (n + int k) (s\<lparr>queue := drop_block k (queue s)\<rparr>)
            = Some r"
        using rd(4) by (simp add: prog_simps rd(1))
      from IH [OF this] rd(2,3) have "len - int k \<le> int (length (drop k (queue_list (queue s))))"
        by simp
      moreover have "k \<le> length (queue_list (queue s))"
        using rd(4) by simp
      ultimately show ?thesis by (simp add: of_nat_diff)
    qed simp
  qed
  with assms show ?thesis by blast
qed


lemma put_elements_room:
  assumes ok: "queue_ok (queue s)" and room: "int (length xs) \<le> EmbQueueSpace (queue s)"
  shows "\<exists>s'. put_elements xs s = Some (Ret (int (length xs)), s') \<and> queue_ok (queue s')
    \<and> queue_list (queue s') = queue_list (queue s) @ xs"
proof -
  obtain s' where s': "put_loop (put_index (queue s)) xs 0 s = Some (Ret (0 + int (length xs)), s')"
    "queue_ok (queue s')" "queue_list (queue s') = queue_list (queue s) @ xs"
    using put_loop_room [OF ok room, of 0] by blast
  let ?t = "if put_index (queue s) = take_index (queue s') \<and> -1 < signal (queue s')
      \<and> signal (queue s') < NSignals then s'\<lparr>host_to_guest_signals := host_to_guest_signals s'
        OR push_bit (nat (signal (queue s'))) 1,
        emulator_interrupts := Suc (emulator_interrupts s')\<rparr> else s'"
  have "put_elements xs s = Some (Ret (int (length xs)), ?t)"
    using s'(1) by (simp add: put_elements_def prog_simps EmbSendSignal_def Let_def)
  with s'(2,3) show ?thesis by (intro exI [of _ ?t]) simp
qed

lemma put_elements_stuck:
  assumes ok: "queue_ok (queue s)" and room: "EmbQueueSpace (queue s) < int (length xs)"
  shows "put_elements xs s = None"
proof -
  have "put_loop (put_index (queue s)) xs 0 s = None"
    using put_loop_returns [OF _ ok refl, of xs 0] room
    by (cases "put_loop (put_index (queue s)) xs 0 s") auto
  then show ?thesis by (simp add: put_elements_def prog_simps Let_def)
qed

lemma take_elements_available:
  assumes "queue_ok (queue s)" and "len \<le> length (queue_list (queue s))"
  shows "\<exists>s'. take_elements (int len) s = Some (Ret (take len (queue_list (queue s)), int len), s')
    \<and> queue_ok (queue s') \<and> queue_list (queue s') = drop len (queue_list (queue s))"
  using take_loop_available [OF assms, of "[]" 0] by (simp add: take_elements_def prog_simps)

lemma take_elements_stuck:
  assumes "queue_ok (queue s)" and "int (length (queue_list (queue s))) < len"
  shows "take_elements len s = None"
  using take_loop_returns [OF _ assms(1) refl, of len "[]" 0] assms(2)
  by (cases "take_loop (take_index (queue s)) len [] 0 s")
    (auto simp: take_elements_def prog_simps)

subsection \<open>Properties\<close>

definition sample_comm :: "u32 comm" where
  "sample_comm = \<lparr>queue = CreateQueue 4 4 [9, 9, 9, 9, 9], host_to_guest_signals = 0,
     emulator_interrupts = 0\<rparr>"

lemma sample_comm_ok: "queue_ok (queue sample_comm)" "queue_list (queue sample_comm) = []"
    "EmbQueueSpace (queue sample_comm) = 3"
  by (simp_all add: sample_comm_def CreateQueue_def queue_ok_def queue_list_def
      EmbQueueFilled_def EmbQueueSpace_def)

text \<open>
  Claim C4: the queue is first-in, first-out. Over any schedule of puts and takes that returns,
  from any well-formed queue, the elements taken followed by the elements left in the queue are
  the elements the queue held followed by the elements put, in order; none is lost, duplicated
  or reordered, and the queue stays well formed.
\<close>

theorem queue_run_fifo:
  assumes "queue_ok (queue s)" and "comm_queue.run es s = Some (out, s')"
  shows "queue_ok (queue s')
    \<and> out @ queue_list (queue s') = queue_list (queue s) @ List.map_filter id es"
  by (rule comm_queue.run_fifo [OF assms])

theorem queue_run_fifo_witness:
  "\<exists>out s'. comm_queue.run [Some 7, Some 8, None, Some 5, None] sample_comm = Some (out, s')
     \<and> out @ queue_list (queue s') = [7, 8, 5] \<and> out = [7, 8]"
proof -
  define s' where "s' = sample_comm\<lparr>queue := \<lparr>element_size = 4, queue_size = 4, put_index = 3,
    take_index = 2, signal = -1, element_array = [7, 8, 5, 9]\<rparr>\<rparr>"
  have run: "comm_queue.run [Some 7, Some 8, None, Some 5, None] sample_comm = Some ([7, 8], s')"
    by (simp add: comm_queue.run.simps put_step_def take_step_def put_element_def take_element_def
        prog_simps sample_comm_def s'_def CreateQueue_def EmbSendSignal_def Let_def)
  from queue_run_fifo [OF sample_comm_ok(1) run] run sample_comm_ok(2) show ?thesis
    by (auto simp: List.map_filter_def)
qed

lemma put_element_signals:
  assumes ok: "queue_ok (queue s)" and room: "length (queue_list (queue s)) < queue_capacity (queue s)"
    and run: "put_element x s = Some (Ret (), s')"
  shows "host_to_guest_signals s' = signalled (queue s) (host_to_guest_signals s)"
    "emulator_interrupts s' = interrupts_after (queue s) (emulator_interrupts s)"
proof -
  let ?q = "queue s"
  have "EmbQueueSpace ?q > 0" using room EmbQueueSpace_capacity [OF ok] by simp
  then have "(if queue_size ?q \<le> put_index ?q + 1 then 0 else put_index ?q + 1) \<noteq> take_index ?q"
    using ok by (auto simp: queue_ok_def EmbQueueSpace_def Let_def split: if_splits)
  then show "host_to_guest_signals s' = signalled ?q (host_to_guest_signals s)"
    "emulator_interrupts s' = interrupts_after ?q (emulator_interrupts s)"
    using ok run queue_list_Nil [OF ok]
    by (auto simp: put_element_def prog_simps queue_ok_def Let_def EmbSendSignal_def NSignals_def signalled_def
        interrupts_after_def split: if_splits)
qed

text \<open>
  Claim C5: a put returns exactly when the queue is not full. With room it appends the word,
  and keeps the queue well formed; it raises the queue's signal and interrupts the emulator, once, when the queue
  was empty and has a signal, and otherwise leaves both alone. On a full queue it waits for the taker and, with no taker
  running, does not return.
\<close>

theorem EmbQueuePutWord_returns:
  assumes "queue_ok (queue s)"
  shows "if EmbQueueSpace (queue s) = 0 then EmbQueuePutWord x s = None
    else \<exists>s'. EmbQueuePutWord x s = Some (Ret (), s') \<and> queue_ok (queue s')
      \<and> queue_list (queue s') = queue_list (queue s) @ [x]
      \<and> host_to_guest_signals s' = signalled (queue s) (host_to_guest_signals s)
      \<and> emulator_interrupts s' = interrupts_after (queue s) (emulator_interrupts s)"
proof (cases "EmbQueueSpace (queue s) = 0")
  case True
  with EmbQueueSpace_capacity [OF assms] put_element_full [OF assms] show ?thesis
    by (simp add: EmbQueuePutWord_def)
next
  case False
  with EmbQueueSpace_capacity [OF assms] length_queue_list_capacity [OF assms]
  have room: "length (queue_list (queue s)) < queue_capacity (queue s)" by simp
  obtain s' where s': "put_element x s = Some (Ret (), s')" using put_element_room [OF assms room, of x] by blast
  from put_element_signals [OF assms room s'] put_step_room [OF assms room, of x] s' False show ?thesis
    by (auto simp: EmbQueuePutWord_def put_step_def)
qed

theorem EmbQueuePutWord_returns_witness:
  "\<exists>s'. EmbQueuePutWord 7 (sample_comm\<lparr>queue := (queue sample_comm)\<lparr>signal := 3\<rparr>\<rparr>) = Some (Ret (), s')
     \<and> queue_list (queue s') = [7] \<and> host_to_guest_signals s' = 8 \<and> emulator_interrupts s' = 1"
proof -
  let ?s = "sample_comm\<lparr>queue := (queue sample_comm)\<lparr>signal := 3\<rparr>\<rparr>"
  have "queue_ok (queue ?s)" "queue_list (queue ?s) = []" "EmbQueueSpace (queue ?s) = 3"
    "signal (queue ?s) = 3" "host_to_guest_signals ?s = 0" "emulator_interrupts ?s = 0"
    by (simp_all add: sample_comm_def CreateQueue_def queue_ok_def queue_list_def EmbQueueFilled_def EmbQueueSpace_def)
  then show ?thesis
    using EmbQueuePutWord_returns [of ?s 7] by (auto simp: signalled_def interrupts_after_def)
qed

text \<open>
  Claim C6: \<open>EmbQueuePutWords\<close> transfers the whole buffer or does not return. If the queue
  has space for the buffer it appends all of it and returns its length; if not, the loop goes
  round without progress once the queue is full.
\<close>

theorem EmbQueuePutWords_all_or_never:
  assumes "queue_ok (queue s)"
  shows "if int (length buffer) \<le> EmbQueueSpace (queue s)
    then \<exists>s'. EmbQueuePutWords buffer s = Some (Ret (int (length buffer)), s')
      \<and> queue_ok (queue s') \<and> queue_list (queue s') = queue_list (queue s) @ buffer
    else EmbQueuePutWords buffer s = None"
  using put_elements_room [OF assms, of buffer] put_elements_stuck [OF assms, of buffer]
  by (auto simp: EmbQueuePutWords_def)

theorem EmbQueuePutWords_all_or_never_witness:
  "EmbQueuePutWords [1, 2, 3, 4] sample_comm = None"
  using EmbQueuePutWords_all_or_never [OF sample_comm_ok(1), of "[1, 2, 3, 4]"] sample_comm_ok
  by simp

text \<open>
  Claim C7: taking as many words as were put into an empty queue gives the same words back and
  leaves the queue empty, wherever the indices stand and however the block wraps around.
\<close>

theorem EmbQueueWords_roundtrip:
  assumes "queue_ok (queue s)" and "queue_list (queue s) = []"
    and "int (length buffer) \<le> EmbQueueSpace (queue s)"
  shows "\<exists>s' s''. EmbQueuePutWords buffer s = Some (Ret (int (length buffer)), s')
    \<and> EmbQueueTakeWords (int (length buffer)) s' = Some (Ret (buffer, int (length buffer)), s'')
    \<and> queue_list (queue s'') = []"
proof -
  obtain s' where s': "put_elements buffer s = Some (Ret (int (length buffer)), s')"
    "queue_ok (queue s')" "queue_list (queue s') = buffer"
    using put_elements_room [OF assms(1,3)] assms(2) by auto
  with take_elements_available [OF s'(2), of "length buffer"] show ?thesis
    by (auto simp: EmbQueuePutWords_def EmbQueueTakeWords_def)
qed

theorem EmbQueueWords_roundtrip_witness:
  "\<exists>s' s''. EmbQueuePutWords [1, 2, 3] sample_comm = Some (Ret 3, s')
    \<and> EmbQueueTakeWords 3 s' = Some (Ret ([1, 2, 3], 3), s'') \<and> queue_list (queue s'') = []"
  using EmbQueueWords_roundtrip [OF sample_comm_ok(1,2), of "[1, 2, 3]"] sample_comm_ok(3) by simp

end
