(* ===== verification/LifeSupport.thy ===== *)
theory LifeSupport
  imports EmbQueue
begin

text \<open>
  Life support: the state the device side shares with the guest, allocation, the signals between the
  two (\<open>life-support/signals.c\<close>, part of \<open>initialization.c\<close> and \<open>queues.c\<close>), and the loop that the
  device drivers have in common.

  The communication area is an array of 32-bit words that the C code views through structures. Here each kind
  of structure has its own map from \<open>EmbPtr\<close>, its word offset in the area, to a record; an
  \<open>EmbWord\<close> is an integer. Structures in \<open>malloc\<close> memory are in maps from 64-bit addresses. The threads of
  life support are not interleaved: a call runs alone, and calls of the thread library succeed.
\<close>

unbundle bit_operations_syntax

subsection \<open>Structures of the area\<close>

text \<open>A pointer of the host: into the area (\<open>HostPointer(p)\<close>), into \<open>malloc\<close> memory, or \<open>NULL\<close>.\<close>

datatype PtrV = NULL | HostPointer int | Heap u64

abbreviation NullEmbPtr :: int where "NullEmbPtr \<equiv> - 1"

text \<open>The functions that are installed as signal handlers.\<close>

datatype ProcPtrV = NullProc | NullSignalHandler | ExecuteGuestCommandsProc | DiskLifeProc | ConsoleOutputProc
  | ConsoleInputProc | SendMBINBuffersProc | OtherProc nat

record SignalHandler =
  handlerThreadSetup :: bool
  handler_signal :: u32
  handlerFunction :: ProcPtrV
  handlerArgument :: PtrV

text \<open>The three words that all channels begin with.\<close>

record EmbChannel =
  channel_type :: int
  channel_unit :: int
  next_channel :: int

record EmbDiskChannel =
  number_of_pages :: int
  command_queue :: int
  status_queue :: int
  read_only :: bool
  hostState0 :: u32
  hostState1 :: u32

record DiskChannelState =
  command_queue_ptr :: int
  status_queue_ptr :: int
  error_pending :: bool
  fd :: int

record EmbAddressPair =
  address :: int
  n_words :: int

record EmbDiskQueueElement =
  disk_cmd :: int
  page :: int
  page_count :: int
  n_addresses :: int
  disk_status :: int
  error_code :: int
  addresses :: "nat \<Rightarrow> EmbAddressPair"

text \<open>A request to attach a disk, with what its filename leads to in Lisp memory: the tag of the
  filename's word, the header object of the string and the bytes behind the header.\<close>

record AttachDiskChannelRequest =
  attach_channel :: int
  filename_tag :: u32
  filename_header_tag :: u32
  filename_header_data :: u32
  filename_bytes :: "u8 list"
  ifNotFoundAction :: int
  minimumLength :: int
  attach_result :: int

record GrowDiskPartitionRequest =
  grow_channel :: int
  newLength :: int
  grow_result :: int

record EmbMessageChannel =
  subtype :: int
  guestToHostQueue :: int
  guestToHostReturnQueue :: int
  guestToHostImpulse :: int
  hostToGuestQueue :: int
  hostToGuestSupplyQueue :: int
  hostToGuestImpulse :: int
  subtypeData0 :: u32
  subtypeData1 :: u32

text \<open>\<open>EmbCommandChannel\<close> and \<open>EmbMBINChannel\<close>: the header and the queues; a command channel has the
  first two queues only.\<close>

record EmbMessageSubtypeData =
  nextActiveChannel :: "int option"
  messageChannel :: int
  sub_guestToHostQueue :: int
  sub_guestToHostReturnQueue :: int
  sub_hostToGuestQueue :: int
  sub_hostToGuestSupplyQueue :: int

record EmbCommandBuffer =
  command_opcode :: int
  resultCode :: int
  mbinChannel :: int

text \<open>What a turn of a loop over \<open>poll\<close> finds on the X connection: nothing within the second, that it can be
  read or written (then with what the call returns and the \<open>errno\<close> after it), or one of the three
  conditions \<open>POLLNVAL\<close>, \<open>POLLHUP\<close> and \<open>POLLERR\<close>.\<close>

datatype poll_result = PollTimeout | PollReady int int | PollInvalid | PollHungUp | PollError

text \<open>The pieces of data of which the reply to a connection request consists, and what the X library knows
  of a display: the number of pixmap formats, for each screen the number of visuals of each of its
  depths, and the bytes of each piece.\<close>

datatype x_item = ItemPrefix | ItemHeader | ItemVendor | ItemPixmapFormat nat | ItemRoot nat
  | ItemRootDepth nat nat | ItemRootDepthVisual nat nat nat

record XDisplay =
  nformats :: nat
  screens :: "nat list list"
  item_bytes :: "x_item \<Rightarrow> u8 list"

datatype OpeningState = OpeningStateNone | OpeningStatePrefix | OpeningStateHeader | OpeningStateVendor
  | OpeningStatePixmapFormat | OpeningStateRoot | OpeningStateRootDepth | OpeningStateRootDepthVisual

record EmbConsoleChannel =
  outputRequestQ :: int
  outputReplyQ :: int
  inputRequestQ :: int
  inputReplyQ :: int
  display :: "XDisplay option"
  console_fd :: int
  openingState :: OpeningState
  nextPixmapFormat :: nat
  nextRoot :: nat
  nextRootDepth :: nat
  nextRootDepthVisual :: nat
  rlDisplay :: bool
  rlGC :: bool
  runLights :: "int list"
  lastRunLights :: int

text \<open>A console command, with the words of the different forms of its data.\<close>

record EmbConsoleBuffer =
  console_opcode :: int
  console_result :: int
  data_address :: int
  data_offset :: int
  data_nBytes :: int
  availableP :: bool
  lastRequestNumber :: int
  wait_timeout :: int
  data_runLights :: "int list"

record EmbNetChannel =
  guestToHostQ :: int
  guestToHostReturnQ :: int
  hostToGuestSupplyQ :: int
  hostToGuestQ :: int

record EmbColdLoadChannel =
  keyboard_input_queue :: int
  display_output_queue :: int
  progress_string_length :: int
  is_selected :: bool
  command_history_top :: int
  command_history_wrapped :: bool

subsection \<open>The state\<close>

text \<open>
  First the slots of \<open>EmbCommArea\<close> (\<open>signals_to_guest\<close> is \<open>host_to_guest_signals\<close>), the number of
  interrupts sent to the emulator, and the variables of \<open>initialization.c\<close>; then the structures of the
  area, and the bytes of the emulator's data space, in which it lies; then host memory and the operating
  system: the addresses that the following calls of \<open>malloc\<close> return (0 for \<open>NULL\<close>), the contents and
  positions of open files, the descriptors that the following calls of \<open>open\<close> give, and the errors with
  which the following system calls on files end (0 for success; success when the list is used up); and the X
  server: an error, or the file descriptor, request number and description of the display that
  \<open>XOpenDisplay\<close> gives, what the following polls of the connection find, the bytes that were written to it
  and the bytes still to be read.
\<close>

record life =
  guest_to_host_signals :: u32
  live_guest_to_host_signals :: u32
  signals_to_guest :: u32
  live_host_to_guest_signals :: u32
  reawaken :: u32
  useSignalLocks :: bool
  signalHandler :: "nat \<Rightarrow> SignalHandler"
  interrupts :: nat
  channel_table :: int
  consoleChannel :: int
  command_channel :: int
  clock_signal :: int
  clock_interval :: int
  clockTime :: int
  pollTime :: int
  pollClockTime :: int
  reset_request :: int
  resetRequestCount :: int
  restart_applications :: int
  spy_status :: int
  fep_status :: int
  guestStatus :: int
  inhibitDisk :: bool
  host_buffer_start :: int
  host_buffer_size :: int
  EmbCommAreaAllocPtr :: int
  EmbCommAreaAllocSize :: int
  queues :: "int \<Rightarrow> u32 EmbQueue"
  channels :: "int \<Rightarrow> EmbChannel"
  disk_channels :: "int \<Rightarrow> EmbDiskChannel"
  disk_commands :: "int \<Rightarrow> EmbDiskQueueElement"
  message_channels :: "int \<Rightarrow> EmbMessageChannel"
  command_buffers :: "int \<Rightarrow> EmbCommandBuffer"
  console_channels :: "int \<Rightarrow> EmbConsoleChannel"
  console_buffers :: "int \<Rightarrow> EmbConsoleBuffer"
  net_channels :: "int \<Rightarrow> EmbNetChannel"
  cold_load_channels :: "int \<Rightarrow> EmbColdLoadChannel"
  attach_requests :: "int \<Rightarrow> AttachDiskChannelRequest"
  grow_requests :: "int \<Rightarrow> GrowDiskPartitionRequest"
  data_bytes :: "int \<Rightarrow> u8"
  mallocs :: "u64 list"
  disk_states :: "u64 \<Rightarrow> DiskChannelState"
  subtypes :: "u64 \<Rightarrow> EmbMessageSubtypeData"
  activeMBINChannel :: u64
  files :: "int \<Rightarrow> u8 list"
  file_offsets :: "int \<Rightarrow> nat"
  opened_fds :: "int list"
  os_errors :: "int list"
  x_server :: "int + int \<times> int \<times> XDisplay"
  poll_results :: "poll_result list"
  x_written :: "u8 list"
  x_unread :: "u8 list"

type_synonym 'a life_action = "(life, 'a) prog"

text \<open>The byte of the data space at which a structure of the area begins.\<close>

definition HostAddress :: "int \<Rightarrow> int" where
  "HostAddress p = 4 * (0xFFFE0080 + p)"

definition MapVirtualAddressData :: "int \<Rightarrow> int" where
  "MapVirtualAddressData vma = 4 * (vma mod 2 ^ 32)"

subsection \<open>Allocation\<close>

text \<open>\<open>vpunt\<close> prints a message and then loops: the \<open>exit\<close> behind its \<open>while (1)\<close> is never reached.\<close>

definition vpunt :: "'a life_action" where
  "vpunt = (\<lambda>_. None)"

text \<open>The code adds an \<open>EmbWord\<close> for an odd number of words, and compares as unsigned.\<close>

definition EmbCommAreaAlloc :: "nat \<Rightarrow> int life_action" where
  "EmbCommAreaAlloc nBytes =
     (let nWords = int ((nBytes + 3) div 4); nWords = (if odd nWords then nWords + 1 else nWords) in
      bnd (gets (\<lambda>s. (EmbCommAreaAllocPtr s, EmbCommAreaAllocSize s))) (\<lambda>(p, size).
        if nWords > size \<or> nBytes = 0 then vpunt
        else thn (modify (\<lambda>s. s\<lparr>EmbCommAreaAllocSize := size - nWords, EmbCommAreaAllocPtr := p + nWords\<rparr>))
                 (ret p)))"

text \<open>An \<open>EmbQueue\<close> is six words. The area is filled with zeros before anything is allocated, and
  nothing in it is freed, so the elements of a new queue are zeros.\<close>

definition CreateQueueInArea :: "int \<Rightarrow> int \<Rightarrow> int life_action" where
  "CreateQueueInArea nElements elementSize =
     bnd (EmbCommAreaAlloc (24 + nat (nElements * elementSize))) (\<lambda>cp.
       thn (modify (\<lambda>s. s\<lparr>queues := (queues s)(cp := CreateQueue nElements elementSize
              (replicate (nat nElements) 0))\<rparr>))
           (ret cp))"

definition malloc :: "u64 life_action" where
  "malloc = bnd (gets mallocs) (\<lambda>l. case l of [] \<Rightarrow> ret 0
     | p # ps \<Rightarrow> thn (modify (mallocs_update (\<lambda>_. ps))) (ret p))"

subsection \<open>Queues of the area\<close>

definition get_queue :: "int \<Rightarrow> life \<Rightarrow> u32 comm" where
  "get_queue p s = \<lparr>queue = queues s p, host_to_guest_signals = signals_to_guest s,
     emulator_interrupts = interrupts s\<rparr>"

definition put_queue :: "int \<Rightarrow> u32 comm \<Rightarrow> life \<Rightarrow> life" where
  "put_queue p c s = s\<lparr>queues := (queues s)(p := queue c), signals_to_guest := host_to_guest_signals c,
     interrupts := emulator_interrupts c\<rparr>"

definition at_queue :: "int \<Rightarrow> (u32 comm, 'a) prog \<Rightarrow> 'a life_action" where
  "at_queue p = on_part (get_queue p) (put_queue p)"

definition set_queue :: "int \<Rightarrow> (u32 EmbQueue \<Rightarrow> u32 EmbQueue) \<Rightarrow> unit life_action" where
  "set_queue p f = modify (\<lambda>s. s\<lparr>queues := (queues s)(p := f (queues s p))\<rparr>)"

definition set_queue_signal :: "int \<Rightarrow> int \<Rightarrow> unit life_action" where
  "set_queue_signal p sig = set_queue p (signal_update (\<lambda>_. sig))"

subsection \<open>Signals\<close>

text \<open>The bit of a signal, \<open>1 << signal\<close>; the shift of a 1 into the sign bit is taken as the compilers do it.\<close>

definition signal_mask :: "nat \<Rightarrow> u32" where
  "signal_mask i = push_bit i 1"

definition InitializeSignalHandlers :: "unit life_action" where
  "InitializeSignalHandlers = modify (\<lambda>s. s\<lparr>guest_to_host_signals := 0, live_guest_to_host_signals := 0,
     signals_to_guest := 0, live_host_to_guest_signals := 0, reawaken := 0, useSignalLocks := False,
     signalHandler := (\<lambda>i. if i < 32 then \<lparr>handlerThreadSetup = False, handler_signal = 0,
        handlerFunction = NullProc, handlerArgument = NULL\<rparr> else signalHandler s i)\<rparr>)"

text \<open>The loop of \<open>InstallSignalHandler\<close>, with the number of signals left to try.\<close>

definition set_handler :: "nat \<Rightarrow> ProcPtrV \<Rightarrow> PtrV \<Rightarrow> unit life_action" where
  "set_handler i f arg = modify (\<lambda>s. s\<lparr>
     live_guest_to_host_signals := live_guest_to_host_signals s OR signal_mask i,
     signalHandler := (signalHandler s)(i := \<lparr>handlerThreadSetup = True, handler_signal = signal_mask i,
       handlerFunction = f, handlerArgument = arg\<rparr>)\<rparr>)"

fun install_loop :: "nat \<Rightarrow> nat \<Rightarrow> ProcPtrV \<Rightarrow> PtrV \<Rightarrow> int life_action" where
  "install_loop 0 i f arg = vpunt"
| "install_loop (Suc n) i f arg = bnd (gets live_guest_to_host_signals) (\<lambda>live.
     if live AND signal_mask i = 0 then thn (set_handler i f arg) (ret (int i))
     else install_loop n (Suc i) f arg)"

definition InstallSignalHandler :: "ProcPtrV \<Rightarrow> PtrV \<Rightarrow> int life_action" where
  "InstallSignalHandler f arg = install_loop 32 0 f arg"

text \<open>The code shifts before its range check, which C leaves undefined for the signal -1, but does not use that mask.\<close>

definition RemoveSignalHandler :: "int \<Rightarrow> unit life_action" where
  "RemoveSignalHandler sig = (if sig < 0 \<or> 32 \<le> sig then ret ()
     else let i = nat sig; mask = signal_mask i in
      modify (\<lambda>s. s\<lparr>live_guest_to_host_signals := live_guest_to_host_signals s AND NOT mask,
        reawaken := reawaken s AND NOT mask,
        guest_to_host_signals := guest_to_host_signals s OR mask,
        signalHandler := (if handlerThreadSetup (signalHandler s i)
          then (signalHandler s)(i := (signalHandler s i)\<lparr>handlerFunction := NullSignalHandler,
                 handlerArgument := NULL\<rparr>)
          else signalHandler s)\<rparr>))"

definition SignalLater :: "int \<Rightarrow> unit life_action" where
  "SignalLater sig = thn (defined (0 \<le> sig \<and> sig < 32))
     (modify (\<lambda>s. s\<lparr>reawaken := reawaken s OR signal_mask (nat sig)\<rparr>))"

definition TerminateSignalHandlers :: "unit life_action" where
  "TerminateSignalHandlers = modify (\<lambda>s. s\<lparr>signalHandler := (\<lambda>i.
     if i < 32 then (signalHandler s i)\<lparr>handlerThreadSetup := False\<rparr> else signalHandler s i)\<rparr>)"

text \<open>\<open>EmbSendSignal\<close> on this state.\<close>

definition LifeSendSignal :: "int \<Rightarrow> unit life_action" where
  "LifeSendSignal sig = at_queue 0 (EmbSendSignal sig)"

text \<open>\<open>WaitForLifeSupport\<close>, given the control register of the processor: with signals pending outside
  FEP mode it interrupts the emulator, otherwise it waits for at most five seconds and changes nothing.\<close>

definition WaitForLifeSupport :: "u64 \<Rightarrow> unit life_action" where
  "WaitForLifeSupport c = bnd (gets signals_to_guest) (\<lambda>pending.
     run_if (pending \<noteq> 0 \<and> drop_bit 30 c AND 3 \<noteq> 3) (modify (interrupts_update Suc)))"

text \<open>One turn of the loop of \<open>SignalHandlerTopLevel\<close> for handler \<open>i\<close>; \<open>call\<close> runs a handler function.
  \<open>False\<close> when the signal is not there and the thread waits.\<close>

definition handler_turn :: "(ProcPtrV \<Rightarrow> PtrV \<Rightarrow> unit life_action) \<Rightarrow> nat \<Rightarrow> bool life_action" where
  "handler_turn call i = bnd (gets (\<lambda>s. (guest_to_host_signals s, signalHandler s i))) (\<lambda>(pending, h).
     if pending AND handler_signal h \<noteq> 0 then
       thn (modify (\<lambda>s. s\<lparr>guest_to_host_signals := guest_to_host_signals s AND NOT (handler_signal h)\<rparr>))
      (thn (call (handlerFunction h) (handlerArgument h)) (ret True))
     else ret False)"

subsection \<open>Resetting queues\<close>

text \<open>A structure of the area that the guest made lies behind the buffers of the host.\<close>

definition allocated_by_guest :: "int \<Rightarrow> life \<Rightarrow> bool" where
  "allocated_by_guest p s \<longleftrightarrow> p > host_buffer_start s + host_buffer_size s"

definition ResetIncoming :: "int \<Rightarrow> unit life_action" where
  "ResetIncoming p = bnd (gets (\<lambda>s. (allocated_by_guest p s, signal (queues s p)))) (\<lambda>(guest, sig).
     thn (run_if guest (RemoveSignalHandler sig)) (set_queue p (ResetIncomingQueue guest)))"

definition ResetOutgoing :: "int \<Rightarrow> unit life_action" where
  "ResetOutgoing p = set_queue p ResetOutgoingQueue"

subsection \<open>The loop of a driver\<close>

text \<open>
  \<open>DiskLife\<close>, \<open>ConsoleDriver\<close> and \<open>ExecuteGuestCommands\<close> have the same loop: while there are requests,
  ask to be called again later when the driver is held up or the reply queue is full, and otherwise take a
  request, execute it unless it is 0, and put it into the reply queue.
\<close>

partial_function (option) driver_loop ::
  "(life \<Rightarrow> bool) \<Rightarrow> int \<Rightarrow> int \<Rightarrow> (int \<Rightarrow> unit life_action) \<Rightarrow> unit life_action" where
  "driver_loop held request reply execute s =
     bnd (gets (\<lambda>s. EmbQueueFilled (queues s request))) (\<lambda>filled.
       if filled = 0 then ret ()
       else bnd (gets (\<lambda>s. (held s \<or> EmbQueueSpace (queues s reply) = 0, signal (queues s request)))) (\<lambda>(later, sig).
         if later then SignalLater sig
         else bnd (at_queue request EmbQueueTakeWord) (\<lambda>p.
           if p = 0 then driver_loop held request reply execute
           else bnd (execute (sint p)) (\<lambda>_. bnd (at_queue reply (EmbQueuePutWord p)) (\<lambda>_.
             driver_loop held request reply execute))))) s"

end
