(* ===== verification/MessageChannels.thy ===== *)
theory MessageChannels
  imports LifeSupport
begin

text \<open>
  Message channels (\<open>life-support/message_channels.c\<close>): the command channel, the list of active channels
  that the polling thread walks, and the commands by which the guest makes a channel active. Every
  channel holds the address of its subtype data, in two words.
\<close>

unbundle bit_operations_syntax

abbreviation "EmbMessageChannelType \<equiv> 8 :: int"
abbreviation "EmbMessageChannelCommandSubtype \<equiv> 2 :: int"
abbreviation "EmbMessageChannelMBINSubtype \<equiv> 3 :: int"
abbreviation "EmbCommandBufferStartMBIN \<equiv> 1 :: int"
abbreviation "ESUCCESS \<equiv> 0 :: int"
abbreviation "ENOMEM \<equiv> 12 :: int"
abbreviation "EINVAL \<equiv> 22 :: int"

subsection \<open>Subtype data\<close>

definition SetSubtypeData :: "u64 \<Rightarrow> EmbMessageChannel \<Rightarrow> EmbMessageChannel" where
  "SetSubtypeData p mc = mc\<lparr>subtypeData0 := ucast (drop_bit 32 p), subtypeData1 := ucast p\<rparr>"

definition SubtypeData :: "EmbMessageChannel \<Rightarrow> u64" where
  "SubtypeData mc = push_bit 32 (ucast (subtypeData0 mc)) OR ucast (subtypeData1 mc)"

definition update_message_channel :: "int \<Rightarrow> (EmbMessageChannel \<Rightarrow> EmbMessageChannel) \<Rightarrow> unit life_action" where
  "update_message_channel p f = modify (\<lambda>s. s\<lparr>message_channels := (message_channels s)(p := f (message_channels s p))\<rparr>)"

definition update_subtype :: "u64 \<Rightarrow> (EmbMessageSubtypeData \<Rightarrow> EmbMessageSubtypeData) \<Rightarrow> unit life_action" where
  "update_subtype a f = thn (defined (a \<noteq> 0))
     (modify (\<lambda>s. s\<lparr>subtypes := (subtypes s)(a := f (subtypes s a))\<rparr>))"

definition subtype_of :: "int \<Rightarrow> u64 life_action" where
  "subtype_of p = gets (\<lambda>s. SubtypeData (message_channels s p))"

definition next_active :: "u64 \<Rightarrow> int option life_action" where
  "next_active a = thn (defined (a \<noteq> 0)) (gets (\<lambda>s. nextActiveChannel (subtypes s a)))"

subsection \<open>The command channel\<close>

abbreviation "CommandQueueSize \<equiv> 5 :: int"

definition InitializeMessageChannels :: "unit life_action" where
  "InitializeMessageChannels = bnd (EmbCommAreaAlloc 48) (\<lambda>cp.
     thn (modify (\<lambda>s. s\<lparr>command_channel := cp,
            channels := (channels s)(cp := \<lparr>channel_type = EmbMessageChannelType, channel_unit = 0,
              next_channel = channel_table s\<rparr>),
            channel_table := cp\<rparr>))
    (thn (update_message_channel cp (\<lambda>mc. mc\<lparr>subtype := EmbMessageChannelCommandSubtype,
            hostToGuestQueue := NullEmbPtr, hostToGuestSupplyQueue := NullEmbPtr\<rparr>))
    (bnd malloc (\<lambda>cc. if cc = 0 then vpunt else
       thn (update_message_channel cp (SetSubtypeData cc))
      (thn (update_subtype cc (\<lambda>d. d\<lparr>nextActiveChannel := None, messageChannel := cp\<rparr>))
      (bnd (CreateQueueInArea CommandQueueSize 4) (\<lambda>q.
       thn (update_message_channel cp (guestToHostQueue_update (\<lambda>_. q)))
      (thn (update_subtype cc (sub_guestToHostQueue_update (\<lambda>_. q)))
      (bnd (InstallSignalHandler ExecuteGuestCommandsProc (Heap cc)) (\<lambda>sig.
       thn (set_queue_signal q sig)
      (bnd (CreateQueueInArea CommandQueueSize 4) (\<lambda>r.
       thn (update_message_channel cp (guestToHostReturnQueue_update (\<lambda>_. r)))
           (update_subtype cc (sub_guestToHostReturnQueue_update (\<lambda>_. r)))))))))))))))"

subsection \<open>The list of active channels\<close>

text \<open>The body of the loop of \<open>PollMessageChannels\<close>, and the loop from a channel on.\<close>

definition poll_channel :: "int \<Rightarrow> unit life_action" where
  "poll_channel p = bnd (gets (\<lambda>s. let mc = message_channels s p in
       (guestToHostImpulse mc, signal (queues s (guestToHostQueue mc))))) (\<lambda>(impulse, sig).
     run_if (impulse \<noteq> 0 \<and> sig \<noteq> - 1) (thn (defined (0 \<le> sig \<and> sig < 32))
       (modify (\<lambda>s. s\<lparr>guest_to_host_signals := guest_to_host_signals s OR signal_mask (nat sig)\<rparr>))))"

partial_function (option) poll_from :: "int option \<Rightarrow> unit life_action" where
  "poll_from c s = (case c of None \<Rightarrow> ret ()
     | Some p \<Rightarrow> bnd (subtype_of p) (\<lambda>a. bnd (poll_channel p) (\<lambda>_.
         bnd (next_active a) poll_from))) s"

definition PollMessageChannels :: "unit life_action" where
  "PollMessageChannels = bnd (gets command_channel) (\<lambda>c.
     if c = NullEmbPtr then ret () else poll_from (Some c))"

partial_function (option) thread_from :: "int \<Rightarrow> int option \<Rightarrow> unit life_action" where
  "thread_from ch c s = (case c of None \<Rightarrow> ret ()
     | Some p \<Rightarrow> bnd (subtype_of p) (\<lambda>a. bnd (next_active a) (\<lambda>n.
         if n = None then update_subtype a (nextActiveChannel_update (\<lambda>_. Some ch))
         else thread_from ch n))) s"

definition ThreadActiveMessageChannel :: "int \<Rightarrow> unit life_action" where
  "ThreadActiveMessageChannel ch = bnd (subtype_of ch) (\<lambda>a.
     thn (update_subtype a (nextActiveChannel_update (\<lambda>_. None)))
         (bnd (gets command_channel) (\<lambda>c. thread_from ch (Some c))))"

partial_function (option) unthread_from :: "int \<Rightarrow> int option \<Rightarrow> unit life_action" where
  "unthread_from ch c s = (case c of None \<Rightarrow> ret ()
     | Some p \<Rightarrow> bnd (subtype_of p) (\<lambda>a. bnd (next_active a) (\<lambda>n.
         if n = Some ch then
           bnd (subtype_of ch) (\<lambda>b. bnd (next_active b) (\<lambda>m.
             bnd (update_subtype a (nextActiveChannel_update (\<lambda>_. m))) (\<lambda>_.
               update_subtype b (nextActiveChannel_update (\<lambda>_. None)))))
         else unthread_from ch n))) s"

definition UnthreadMessageChannel :: "int \<Rightarrow> unit life_action" where
  "UnthreadMessageChannel ch = bnd (gets command_channel) (\<lambda>c. unthread_from ch (Some c))"

subsection \<open>Commands of the guest\<close>

definition set_result_code :: "int \<Rightarrow> int \<Rightarrow> unit life_action" where
  "set_result_code p code = modify (\<lambda>s. s\<lparr>command_buffers :=
     (command_buffers s)(p := (command_buffers s p)\<lparr>resultCode := code\<rparr>)\<rparr>)"

definition start_mbin :: "int \<Rightarrow> unit life_action" where
  "start_mbin p = bnd (gets (\<lambda>s. mbinChannel (command_buffers s p))) (\<lambda>mbin.
     bnd malloc (\<lambda>a. if a = 0 then set_result_code p ENOMEM else
       bnd (gets (\<lambda>s. message_channels s mbin)) (\<lambda>mc.
       thn (update_subtype a (\<lambda>d. d\<lparr>messageChannel := mbin,
              sub_guestToHostQueue := guestToHostQueue mc,
              sub_guestToHostReturnQueue := guestToHostReturnQueue mc,
              sub_hostToGuestQueue := hostToGuestQueue mc,
              sub_hostToGuestSupplyQueue := hostToGuestSupplyQueue mc\<rparr>))
      (thn (update_message_channel mbin (SetSubtypeData a))
      (thn (ThreadActiveMessageChannel mbin)
      (thn (modify (activeMBINChannel_update (\<lambda>_. a)))
      (bnd (InstallSignalHandler SendMBINBuffersProc (Heap a)) (\<lambda>sig.
       thn (set_queue_signal (guestToHostQueue mc) sig) (set_result_code p ESUCCESS)))))))))"

definition execute_guest_command :: "int \<Rightarrow> unit life_action" where
  "execute_guest_command p = bnd (gets (\<lambda>s. command_opcode (command_buffers s p))) (\<lambda>opcode.
     if opcode = EmbCommandBufferStartMBIN then start_mbin p else set_result_code p EINVAL)"

definition ExecuteGuestCommands :: "u64 \<Rightarrow> unit life_action" where
  "ExecuteGuestCommands cc = bnd (gets (\<lambda>s. subtypes s cc)) (\<lambda>d.
     driver_loop (\<lambda>_. False) (sub_guestToHostQueue d) (sub_guestToHostReturnQueue d) execute_guest_command)"

subsection \<open>Reset\<close>

definition ResetMessageChannel :: "int \<Rightarrow> unit life_action" where
  "ResetMessageChannel p = bnd (gets (\<lambda>s. allocated_by_guest p s)) (\<lambda>allocatedByVLM.
     thn (update_message_channel p (\<lambda>mc. mc\<lparr>guestToHostImpulse := 0, hostToGuestImpulse := 0\<rparr>))
    (bnd (subtype_of p) (\<lambda>a.
     thn (update_subtype a (nextActiveChannel_update (\<lambda>_. None)))
    (bnd (gets (\<lambda>s. message_channels s p)) (\<lambda>mc.
     thn (run_if (subtype mc = EmbMessageChannelCommandSubtype \<or> subtype mc = EmbMessageChannelMBINSubtype)
            (thn (ResetIncoming (guestToHostQueue mc)) (ResetOutgoing (guestToHostReturnQueue mc))))
    (thn (run_if (subtype mc = EmbMessageChannelMBINSubtype)
            (thn (ResetIncoming (hostToGuestSupplyQueue mc))
            (thn (ResetOutgoing (hostToGuestQueue mc))
                 (modify (\<lambda>s. if allocatedByVLM \<and> activeMBINChannel s = a
                    then s\<lparr>activeMBINChannel := 0\<rparr> else s)))))
         (run_if allocatedByVLM (update_message_channel p (SetSubtypeData 0)))))))))"

end
