(* ===== verification/Disks.thy ===== *)
theory Disks
  imports MessageChannels
begin

text \<open>
  Disk channels (\<open>life-support/disks.c\<close>): attaching a file, the driver that executes the read and write
  commands of the guest with \<open>readv\<close> and \<open>writev\<close>, and the channel's error state.
\<close>

unbundle bit_operations_syntax

abbreviation "DiskPageSize \<equiv> 8192 :: int"
abbreviation "NIOVectors \<equiv> 32 :: nat"
abbreviation "ReadCmd \<equiv> 1 :: int"
abbreviation "WriteCmd \<equiv> 2 :: int"
abbreviation "ResetCmd \<equiv> 3 :: int"
abbreviation "InitializeCmd \<equiv> 4 :: int"
abbreviation "WonStatus \<equiv> 1 :: int"
abbreviation "LostStatus \<equiv> 2 :: int"
abbreviation "AbortStatus \<equiv> 3 :: int"
abbreviation "EINTR \<equiv> 4 :: int"
abbreviation "ENXIO \<equiv> 6 :: int"
abbreviation "EMFILE \<equiv> 24 :: int"
abbreviation "EROFS \<equiv> 30 :: int"

subsection \<open>The state of a channel\<close>

text \<open>The address of the state is in two words, which are signed: the conversion of the low one to
  64 bits extends its sign.\<close>

definition SetHostState :: "u64 \<Rightarrow> EmbDiskChannel \<Rightarrow> EmbDiskChannel" where
  "SetHostState p dc = dc\<lparr>hostState0 := ucast (drop_bit 32 p), hostState1 := ucast p\<rparr>"

definition HostState :: "EmbDiskChannel \<Rightarrow> u64" where
  "HostState dc = push_bit 32 (scast (hostState0 dc)) OR scast (hostState1 dc)"

definition update_disk_channel :: "int \<Rightarrow> (EmbDiskChannel \<Rightarrow> EmbDiskChannel) \<Rightarrow> unit life_action" where
  "update_disk_channel p f = modify (\<lambda>s. s\<lparr>disk_channels := (disk_channels s)(p := f (disk_channels s p))\<rparr>)"

definition disk_state_of :: "int \<Rightarrow> u64 life_action" where
  "disk_state_of p = gets (\<lambda>s. HostState (disk_channels s p))"

definition disk_state :: "u64 \<Rightarrow> DiskChannelState life_action" where
  "disk_state a = thn (defined (a \<noteq> 0)) (gets (\<lambda>s. disk_states s a))"

definition update_disk_state :: "u64 \<Rightarrow> (DiskChannelState \<Rightarrow> DiskChannelState) \<Rightarrow> unit life_action" where
  "update_disk_state a f = thn (defined (a \<noteq> 0))
     (modify (\<lambda>s. s\<lparr>disk_states := (disk_states s)(a := f (disk_states s a))\<rparr>))"

subsection \<open>System calls on files\<close>

definition os_error :: "int life_action" where
  "os_error = bnd (gets os_errors) (\<lambda>l. case l of [] \<Rightarrow> ret 0
     | e # es \<Rightarrow> thn (modify (os_errors_update (\<lambda>_. es))) (ret e))"

text \<open>The result of a call: \<open>Inl\<close> the error, or \<open>Inr\<close> its value.\<close>

definition os_call :: "'a life_action \<Rightarrow> (int + 'a) life_action" where
  "os_call m = bnd os_error (\<lambda>e. if e \<noteq> 0 then ret (Inl e) else bnd m (\<lambda>x. ret (Inr x)))"

definition open_file :: "(int + int) life_action" where
  "open_file = bnd os_error (\<lambda>e. if e \<noteq> 0 then ret (Inl e) else bnd (gets opened_fds) (\<lambda>l. case l of
     [] \<Rightarrow> ret (Inl EMFILE)
   | d # ds \<Rightarrow> thn (modify (\<lambda>s. s\<lparr>opened_fds := ds, file_offsets := (file_offsets s)(d := 0)\<rparr>)) (ret (Inr d))))"

definition lseek_set :: "int \<Rightarrow> int \<Rightarrow> (int + unit) life_action" where
  "lseek_set d off = os_call (modify (\<lambda>s. s\<lparr>file_offsets := (file_offsets s)(d := nat off)\<rparr>))"

definition ftruncate_up :: "int \<Rightarrow> int \<Rightarrow> (int + unit) life_action" where
  "ftruncate_up d len = os_call (modify (\<lambda>s. s\<lparr>files := (files s)(d :=
     files s d @ replicate (nat len - length (files s d)) 0)\<rparr>))"

definition fstat_size :: "int \<Rightarrow> (int + int) life_action" where
  "fstat_size d = os_call (gets (\<lambda>s. int (length (files s d))))"

text \<open>Buffers: a byte address of the data space and a length.\<close>

type_synonym iovec = "int \<times> int"

definition store_bytes :: "int \<Rightarrow> u8 list \<Rightarrow> (int \<Rightarrow> u8) \<Rightarrow> int \<Rightarrow> u8" where
  "store_bytes a bs m = (\<lambda>i. if a \<le> i \<and> i < a + int (length bs) then bs ! nat (i - a) else m i)"

fun scatter :: "iovec list \<Rightarrow> u8 list \<Rightarrow> (int \<Rightarrow> u8) \<Rightarrow> int \<Rightarrow> u8" where
  "scatter [] bs m = m"
| "scatter ((a, l) # v) bs m = scatter v (drop (nat l) bs) (store_bytes a (take (nat l) bs) m)"

definition load_bytes :: "int \<Rightarrow> int \<Rightarrow> (int \<Rightarrow> u8) \<Rightarrow> u8 list" where
  "load_bytes a l m = map (\<lambda>i. m (a + int i)) [0..<nat l]"

definition gather :: "iovec list \<Rightarrow> (int \<Rightarrow> u8) \<Rightarrow> u8 list" where
  "gather v m = concat (map (\<lambda>(a, l). load_bytes a l m) v)"

definition iov_bytes :: "iovec list \<Rightarrow> int" where
  "iov_bytes v = sum_list (map snd v)"

text \<open>A write behind the end of the file fills the gap with zeros.\<close>

definition overwrite :: "nat \<Rightarrow> u8 list \<Rightarrow> u8 list \<Rightarrow> u8 list" where
  "overwrite off bs f = take off (f @ replicate (off - length f) 0) @ bs @ drop (off + length bs) f"

text \<open>A length that is negative as a signed number is an error of the calls; otherwise they transfer
  all the bytes that there are.\<close>

definition readv :: "int \<Rightarrow> iovec list \<Rightarrow> (int + int) life_action" where
  "readv d v = bnd os_error (\<lambda>e. if e \<noteq> 0 then ret (Inl e)
     else if \<exists>x \<in> set v. snd x < 0 then ret (Inl EINVAL)
     else bnd (gets (\<lambda>s. take (nat (iov_bytes v)) (drop (file_offsets s d) (files s d)))) (\<lambda>bs.
       thn (modify (\<lambda>s. s\<lparr>data_bytes := scatter v bs (data_bytes s),
              file_offsets := (file_offsets s)(d := file_offsets s d + length bs)\<rparr>))
           (ret (Inr (int (length bs))))))"

definition writev :: "int \<Rightarrow> iovec list \<Rightarrow> (int + int) life_action" where
  "writev d v = bnd os_error (\<lambda>e. if e \<noteq> 0 then ret (Inl e)
     else if \<exists>x \<in> set v. snd x < 0 then ret (Inl EINVAL)
     else bnd (gets (\<lambda>s. gather v (data_bytes s))) (\<lambda>bs.
       thn (modify (\<lambda>s. s\<lparr>files := (files s)(d := overwrite (file_offsets s d) bs (files s d)),
              file_offsets := (file_offsets s)(d := file_offsets s d + length bs)\<rparr>))
           (ret (Inr (int (length bs))))))"

subsection \<open>Transfers\<close>

text \<open>The buffers of \<open>n\<close> address pairs from the \<open>i\<close>-th on.\<close>

definition io_vectors :: "EmbDiskQueueElement \<Rightarrow> nat \<Rightarrow> nat \<Rightarrow> iovec list" where
  "io_vectors command i n =
     map (\<lambda>k. (HostAddress (address (addresses command k)), 4 * n_words (addresses command k))) [i..<i + n]"

text \<open>The loop of \<open>DoDiskIO\<close> with \<open>n\<close> address pairs to go from the \<open>i\<close>-th on; the value is the error code.\<close>

function io_loop :: "int \<Rightarrow> EmbDiskQueueElement \<Rightarrow> nat \<Rightarrow> nat \<Rightarrow> int life_action" where
  "io_loop d command i n =
     (if n = 0 then ret 0
      else let nVectors = min NIOVectors n; v = io_vectors command i nVectors in
        if disk_cmd command = ReadCmd \<or> disk_cmd command = WriteCmd then
          bnd (if disk_cmd command = ReadCmd then readv d v else writev d v) (\<lambda>r. case r of
            Inl e \<Rightarrow> ret e
          | Inr actual \<Rightarrow> if actual \<noteq> iov_bytes v then ret EINTR
              else io_loop d command (i + nVectors) (n - nVectors))
        else ret EINVAL)"
  by pat_completeness auto
termination by (relation "measure (\<lambda>(d, c, i, n). n)") auto

declare io_loop.simps [simp del]

text \<open>The sum of the two words must not overflow.\<close>

definition DoDiskIO :: "int \<Rightarrow> DiskChannelState \<Rightarrow> EmbDiskQueueElement \<Rightarrow> int life_action" where
  "DoDiskIO channel state command = bnd (gets (\<lambda>s. number_of_pages (disk_channels s channel))) (\<lambda>pages.
     if page command < 0 then ret EINVAL
     else thn (defined (- (2 ^ 31) \<le> page command + page_count command \<and> page command + page_count command < 2 ^ 31))
       (if pages < page command + page_count command then ret EINVAL
        else bnd (lseek_set (fd state) (page command * DiskPageSize)) (\<lambda>r. case r of
            Inl e \<Rightarrow> ret e
          | Inr _ \<Rightarrow> io_loop (fd state) command 0 (nat (n_addresses command)))))"

subsection \<open>The driver\<close>

definition set_command :: "int \<Rightarrow> (EmbDiskQueueElement \<Rightarrow> EmbDiskQueueElement) \<Rightarrow> unit life_action" where
  "set_command p f = modify (\<lambda>s. s\<lparr>disk_commands := (disk_commands s)(p := f (disk_commands s p))\<rparr>)"

definition command_lost :: "int \<Rightarrow> int \<Rightarrow> unit life_action" where
  "command_lost p e = set_command p (\<lambda>c. c\<lparr>disk_status := LostStatus, error_code := e\<rparr>)"

definition command_won :: "int \<Rightarrow> unit life_action" where
  "command_won p = set_command p (disk_status_update (\<lambda>_. WonStatus))"

text \<open>The read and write cases.\<close>

definition transfer_command :: "int \<Rightarrow> u64 \<Rightarrow> int \<Rightarrow> unit life_action" where
  "transfer_command channel a p = bnd (disk_state a) (\<lambda>state.
     if error_pending state then set_command p (disk_status_update (\<lambda>_. AbortStatus))
     else if fd state = - 1 then command_lost p ENXIO
     else bnd (gets (\<lambda>s. disk_commands s p)) (\<lambda>command. bnd (DoDiskIO channel state command) (\<lambda>e.
       if e \<noteq> 0 then thn (command_lost p e) (update_disk_state a (error_pending_update (\<lambda>_. True)))
       else set_command p (\<lambda>c. c\<lparr>error_code := 0, disk_status := WonStatus\<rparr>))))"

definition execute_disk_command :: "int \<Rightarrow> u64 \<Rightarrow> int \<Rightarrow> unit life_action" where
  "execute_disk_command channel a p =
     bnd (gets (\<lambda>s. (disk_cmd (disk_commands s p), read_only (disk_channels s channel)))) (\<lambda>(cmd, ro).
       if cmd = WriteCmd \<and> ro then command_lost p EROFS
       else if cmd = WriteCmd \<or> cmd = ReadCmd then transfer_command channel a p
       else if cmd = ResetCmd \<or> cmd = InitializeCmd then
         thn (update_disk_state a (error_pending_update (\<lambda>_. False))) (command_won p)
       else command_lost p ENXIO)"

definition DiskLife :: "int \<Rightarrow> unit life_action" where
  "DiskLife channel = bnd (disk_state_of channel) (\<lambda>a. bnd (disk_state a) (\<lambda>state.
     driver_loop inhibitDisk (command_queue_ptr state) (status_queue_ptr state)
       (execute_disk_command channel a)))"

subsection \<open>Attaching, growing and detaching\<close>

definition attach_done :: "int \<Rightarrow> int \<Rightarrow> unit life_action" where
  "attach_done r e = modify (\<lambda>s. s\<lparr>attach_requests :=
     (attach_requests s)(r := (attach_requests s r)\<lparr>attach_result := e\<rparr>)\<rparr>)"

definition close_disk :: "u64 \<Rightarrow> unit life_action" where
  "close_disk a = update_disk_state a (fd_update (\<lambda>_. - 1))"

text \<open>The filename must be a simple string: an array header of type string with a length in its low 15 bits.\<close>

definition simple_string :: "AttachDiskChannelRequest \<Rightarrow> bool" where
  "simple_string r \<longleftrightarrow> filename_tag r = 23 \<and> filename_header_tag r AND 63 = 3
     \<and> filename_header_data r AND NOT 0x7FFF = 0x50000000"

text \<open>From the opened file to the channel list. On the two errors the file is closed but its descriptor
  stays in the channel's state.\<close>

definition attach_file :: "int \<Rightarrow> u64 \<Rightarrow> unit life_action" where
  "attach_file r a = bnd (gets (\<lambda>s. attach_requests s r)) (\<lambda>request. bnd (disk_state a) (\<lambda>state.
     bnd (fstat_size (fd state)) (\<lambda>st. case st of
       Inl e \<Rightarrow> attach_done r e
     | Inr bytes \<Rightarrow>
         bnd (if 0 < minimumLength request \<and> bytes < minimumLength request
              then bnd (ftruncate_up (fd state) (minimumLength request)) (\<lambda>t. ret (case t of
                     Inl e \<Rightarrow> Inl e | Inr _ \<Rightarrow> Inr (minimumLength request)))
              else ret (Inr bytes)) (\<lambda>st. case st of
           Inl e \<Rightarrow> attach_done r e
         | Inr bytes \<Rightarrow> (let p = attach_channel request in
             thn (update_disk_channel p (number_of_pages_update (\<lambda>_. bytes div DiskPageSize)))
            (thn (modify (\<lambda>s. s\<lparr>channels := (channels s)(p := (channels s p)\<lparr>next_channel := channel_table s\<rparr>),
                    channel_table := p\<rparr>))
            (bnd (InstallSignalHandler DiskLifeProc (HostPointer p)) (\<lambda>sig.
               set_queue_signal (command_queue_ptr state) sig))))))))"

definition AttachDiskChannel :: "int \<Rightarrow> unit life_action" where
  "AttachDiskChannel r = thn (attach_done r ESUCCESS) (bnd (gets (\<lambda>s. attach_requests s r)) (\<lambda>request.
     let p = attach_channel request in
     bnd malloc (\<lambda>a. if a = 0 then attach_done r ENOMEM else
       thn (update_disk_channel p (SetHostState a))
      (bnd (gets (\<lambda>s. disk_channels s p)) (\<lambda>dc.
       thn (update_disk_state a (\<lambda>d. d\<lparr>fd := - 1, command_queue_ptr := command_queue dc,
              status_queue_ptr := status_queue dc, error_pending := False\<rparr>))
      (if \<not> simple_string request then attach_done r EINVAL
       else bnd malloc (\<lambda>name. if name = 0 then attach_done r ENOMEM else
         bnd open_file (\<lambda>opened. case opened of
           Inl e \<Rightarrow> attach_done r e
         | Inr d \<Rightarrow> thn (update_disk_state a (fd_update (\<lambda>_. d))) (attach_file r a)))))))))"

definition grow_done :: "int \<Rightarrow> int \<Rightarrow> unit life_action" where
  "grow_done r e = modify (\<lambda>s. s\<lparr>grow_requests := (grow_requests s)(r := (grow_requests s r)\<lparr>grow_result := e\<rparr>)\<rparr>)"

definition GrowDiskPartition :: "int \<Rightarrow> unit life_action" where
  "GrowDiskPartition r = bnd (gets (\<lambda>s. grow_requests s r)) (\<lambda>request. let p = grow_channel request in
     bnd (disk_state_of p) (\<lambda>a. thn (grow_done r ESUCCESS) (bnd (disk_state a) (\<lambda>state.
       if fd state = - 1 then grow_done r EINVAL
       else bnd (fstat_size (fd state)) (\<lambda>st. case st of
         Inl e \<Rightarrow> grow_done r e
       | Inr bytes \<Rightarrow>
           bnd (if bytes < newLength request
                then bnd (ftruncate_up (fd state) (newLength request)) (\<lambda>t. ret (case t of
                       Inl e \<Rightarrow> Inl e | Inr _ \<Rightarrow> Inr (newLength request)))
                else ret (Inr bytes)) (\<lambda>st. case st of
             Inl e \<Rightarrow> grow_done r e
           | Inr bytes \<Rightarrow> update_disk_channel p (number_of_pages_update (\<lambda>_. bytes div DiskPageSize))))))))"

text \<open>The search of \<open>DetachDiskChannel\<close> for the channel and the one before it.\<close>

partial_function (option) unlink_channel :: "int \<Rightarrow> int \<Rightarrow> int \<Rightarrow> unit life_action" where
  "unlink_channel p prev c s =
     (if c = NullEmbPtr then ret ()
      else bnd (gets (\<lambda>s. next_channel (channels s c))) (\<lambda>n.
        if c = p then modify (\<lambda>s. if prev = NullEmbPtr then s\<lparr>channel_table := n\<rparr>
          else s\<lparr>channels := (channels s)(prev := (channels s prev)\<lparr>next_channel := n\<rparr>)\<rparr>)
        else unlink_channel p c n)) s"

definition DetachDiskChannel :: "int \<Rightarrow> unit life_action" where
  "DetachDiskChannel p = bnd (disk_state_of p) (\<lambda>a. bnd (disk_state a) (\<lambda>state.
     bnd (gets (\<lambda>s. signal (queues s (command_queue_ptr state)))) (\<lambda>sig.
     thn (RemoveSignalHandler sig)
    (thn (set_queue_signal (command_queue_ptr state) (- 1))
    (thn (close_disk a)
    (bnd (gets channel_table) (\<lambda>c. unlink_channel p NullEmbPtr c)))))))"

subsection \<open>Reset and termination\<close>

definition ResetDiskChannel :: "int \<Rightarrow> unit life_action" where
  "ResetDiskChannel p = bnd (disk_state_of p) (\<lambda>a. bnd (disk_state a) (\<lambda>state.
     thn (ResetIncoming (command_queue_ptr state))
    (thn (ResetOutgoing (status_queue_ptr state))
    (thn (update_disk_state a (error_pending_update (\<lambda>_. False)))
    (bnd (gets (allocated_by_guest p)) (\<lambda>guest. run_if guest (close_disk a)))))))"

definition TerminateDiskChannel :: "int \<Rightarrow> unit life_action" where
  "TerminateDiskChannel p = bnd (disk_state_of p) close_disk"

abbreviation "EmbDiskChannelType \<equiv> 1 :: int"

partial_function (option) terminate_from :: "int \<Rightarrow> unit life_action" where
  "terminate_from c s =
     (if c = NullEmbPtr then ret ()
      else bnd (gets (\<lambda>s. channel_type (channels s c))) (\<lambda>ty.
        bnd (if ty = EmbDiskChannelType then TerminateDiskChannel c else ret ()) (\<lambda>_.
          bnd (gets (\<lambda>s. next_channel (channels s c))) terminate_from))) s"

definition TerminateDiskChannels :: "unit life_action" where
  "TerminateDiskChannels = bnd (gets channel_table) terminate_from"

end
