(* ===== verification/Console.thy ===== *)
theory Console
  imports MessageChannels
begin

text \<open>
  The console channel (\<open>life-support/console.c\<close>): the driver of the two request queues, reading and
  writing on the X connection, and the state machine that plays the server's reply to a connection request
  back to the guest piece by piece, since the connection is already open.
\<close>

abbreviation "EIO \<equiv> 5 :: int"
abbreviation "ENXIO \<equiv> 6 :: int"
abbreviation "EBADF \<equiv> 9 :: int"
abbreviation "EWOULDBLOCK \<equiv> 11 :: int"
abbreviation "EBUSY \<equiv> 16 :: int"
abbreviation "ENOSPC \<equiv> 28 :: int"
abbreviation "ECONNREFUSED \<equiv> 111 :: int"

definition console :: "int \<Rightarrow> EmbConsoleChannel life_action" where
  "console p = gets (\<lambda>s. console_channels s p)"

definition update_console :: "int \<Rightarrow> (EmbConsoleChannel \<Rightarrow> EmbConsoleChannel) \<Rightarrow> unit life_action" where
  "update_console p f = modify (\<lambda>s. s\<lparr>console_channels := (console_channels s)(p := f (console_channels s p))\<rparr>)"

definition console_buffer :: "int \<Rightarrow> EmbConsoleBuffer life_action" where
  "console_buffer b = gets (\<lambda>s. console_buffers s b)"

definition update_console_buffer :: "int \<Rightarrow> (EmbConsoleBuffer \<Rightarrow> EmbConsoleBuffer) \<Rightarrow> unit life_action" where
  "update_console_buffer b f = modify (\<lambda>s. s\<lparr>console_buffers := (console_buffers s)(b := f (console_buffers s b))\<rparr>)"

subsection \<open>Opening and closing the display\<close>

definition OpenDisplay :: "int \<Rightarrow> int \<Rightarrow> int life_action" where
  "OpenDisplay p b = bnd (console p) (\<lambda>c. if display c \<noteq> None then ret EBUSY
     else bnd (gets x_server) (\<lambda>x. case x of
       Inr (d, request, dpy) \<Rightarrow>
         thn (update_console p (\<lambda>c. c\<lparr>display := Some dpy, console_fd := d, openingState := OpeningStatePrefix\<rparr>))
        (thn (update_console_buffer b (lastRequestNumber_update (\<lambda>_. request))) (ret ESUCCESS))
     | Inl e \<Rightarrow> ret (if e = ESUCCESS then ECONNREFUSED else if e = EWOULDBLOCK then ENXIO else e)))"

definition DisableRunLights :: "int \<Rightarrow> unit life_action" where
  "DisableRunLights p = update_console p (\<lambda>c. c\<lparr>rlGC := False, rlDisplay := False\<rparr>)"

definition CloseDisplay :: "int \<Rightarrow> unit life_action" where
  "CloseDisplay p = thn (DisableRunLights p) (update_console p (display_update (\<lambda>_. None)))"

definition EnableRunLights :: "int \<Rightarrow> int \<Rightarrow> unit life_action" where
  "EnableRunLights p b = bnd (gets x_server) (\<lambda>x. case x of
       Inl _ \<Rightarrow> update_console p (\<lambda>c. c\<lparr>rlDisplay := False, lastRunLights := 0\<rparr>)
     | Inr _ \<Rightarrow> bnd malloc (\<lambda>gc. bnd (console_buffer b) (\<lambda>command.
         update_console p (\<lambda>c. let c = c\<lparr>rlDisplay := True, rlGC := gc \<noteq> 0, lastRunLights := 0\<rparr> in
           if gc \<noteq> 0 then c\<lparr>runLights := data_runLights command\<rparr> else c))))"

subsection \<open>The connection request\<close>

text \<open>\<open>None\<close>: an index out of the arrays of the display.\<close>

definition current_depths :: "XDisplay \<Rightarrow> EmbConsoleChannel \<Rightarrow> nat list option" where
  "current_depths d c = (if nextRoot c < length (screens d) then Some (screens d ! nextRoot c) else None)"

definition current_visuals :: "XDisplay \<Rightarrow> EmbConsoleChannel \<Rightarrow> nat option" where
  "current_visuals d c = (case current_depths d c of None \<Rightarrow> None
     | Some ds \<Rightarrow> if nextRootDepth c < length ds then Some (ds ! nextRootDepth c) else None)"

definition first_root :: "XDisplay \<Rightarrow> EmbConsoleChannel \<Rightarrow> EmbConsoleChannel" where
  "first_root d c = (if 0 < length (screens d) then c\<lparr>openingState := OpeningStateRoot, nextRoot := 0\<rparr>
     else c\<lparr>openingState := OpeningStateNone\<rparr>)"

text \<open>The step to the next root: the state is left as it is unless there is none.\<close>

definition next_root :: "XDisplay \<Rightarrow> EmbConsoleChannel \<Rightarrow> EmbConsoleChannel" where
  "next_root d c = (let c = c\<lparr>nextRoot := nextRoot c + 1\<rparr> in
     if nextRoot c \<ge> length (screens d) then c\<lparr>openingState := OpeningStateNone\<rparr> else c)"

definition advance :: "XDisplay \<Rightarrow> EmbConsoleChannel \<Rightarrow> EmbConsoleChannel option" where
  "advance d c = (case openingState c of
     OpeningStateNone \<Rightarrow> Some c
   | OpeningStatePrefix \<Rightarrow> Some (c\<lparr>openingState := OpeningStateHeader\<rparr>)
   | OpeningStateHeader \<Rightarrow> Some (c\<lparr>openingState := OpeningStateVendor\<rparr>)
   | OpeningStateVendor \<Rightarrow> Some (if 0 < nformats d
       then c\<lparr>openingState := OpeningStatePixmapFormat, nextPixmapFormat := 0\<rparr> else first_root d c)
   | OpeningStatePixmapFormat \<Rightarrow> (let c = c\<lparr>nextPixmapFormat := nextPixmapFormat c + 1\<rparr> in
       Some (if nextPixmapFormat c \<ge> nformats d then first_root d c else c))
   | OpeningStateRoot \<Rightarrow> (case current_depths d c of None \<Rightarrow> None
     | Some ds \<Rightarrow> Some (if 0 < length ds then c\<lparr>openingState := OpeningStateRootDepth, nextRootDepth := 0\<rparr>
         else next_root d c))
   | OpeningStateRootDepth \<Rightarrow> (case (current_depths d c, current_visuals d c) of
       (Some ds, Some v) \<Rightarrow> Some (if 0 < v
         then c\<lparr>openingState := OpeningStateRootDepthVisual, nextRootDepthVisual := 0\<rparr>
         else let c = c\<lparr>nextRootDepth := nextRootDepth c + 1\<rparr> in
           if nextRootDepth c \<ge> length ds then next_root d c else c)
     | _ \<Rightarrow> None)
   | OpeningStateRootDepthVisual \<Rightarrow> (case (current_depths d c, current_visuals d c) of
       (Some ds, Some v) \<Rightarrow> (let c = c\<lparr>nextRootDepthVisual := nextRootDepthVisual c + 1\<rparr> in
         Some (if nextRootDepthVisual c \<ge> v then
             let c = c\<lparr>nextRootDepth := nextRootDepth c + 1\<rparr> in
               if nextRootDepth c \<ge> length ds
               then next_root d (c\<lparr>openingState := OpeningStateRoot\<rparr>)
               else c\<lparr>openingState := OpeningStateRootDepth\<rparr>
           else c))
     | _ \<Rightarrow> None))"

definition AdvanceOpeningState :: "int \<Rightarrow> unit life_action" where
  "AdvanceOpeningState p = bnd (console p) (\<lambda>c. case display c of None \<Rightarrow> undef
     | Some d \<Rightarrow> (case advance d c of None \<Rightarrow> undef | Some c' \<Rightarrow> update_console p (\<lambda>_. c')))"

text \<open>The piece of data of a state; \<open>None\<close> for an index out of range.\<close>

definition current_item :: "XDisplay \<Rightarrow> EmbConsoleChannel \<Rightarrow> x_item option" where
  "current_item d c = (case openingState c of
     OpeningStateNone \<Rightarrow> None
   | OpeningStatePrefix \<Rightarrow> Some ItemPrefix
   | OpeningStateHeader \<Rightarrow> Some ItemHeader
   | OpeningStateVendor \<Rightarrow> Some ItemVendor
   | OpeningStatePixmapFormat \<Rightarrow>
       if nextPixmapFormat c < nformats d then Some (ItemPixmapFormat (nextPixmapFormat c)) else None
   | OpeningStateRoot \<Rightarrow> if current_depths d c \<noteq> None then Some (ItemRoot (nextRoot c)) else None
   | OpeningStateRootDepth \<Rightarrow>
       if current_visuals d c \<noteq> None then Some (ItemRootDepth (nextRoot c) (nextRootDepth c)) else None
   | OpeningStateRootDepthVisual \<Rightarrow> (case current_visuals d c of None \<Rightarrow> None
     | Some v \<Rightarrow> if nextRootDepthVisual c < v
         then Some (ItemRootDepthVisual (nextRoot c) (nextRootDepth c) (nextRootDepthVisual c)) else None))"

definition put_bytes :: "int \<Rightarrow> u8 list \<Rightarrow> unit life_action" where
  "put_bytes a bs = modify (\<lambda>s. s\<lparr>data_bytes :=
     (\<lambda>i. if a \<le> i \<and> i < a + int (length bs) then bs ! nat (i - a) else data_bytes s i)\<rparr>)"

definition transfer_start :: "EmbConsoleBuffer \<Rightarrow> int" where
  "transfer_start command = MapVirtualAddressData (data_address command) + data_offset command"

definition ProcessConnectionRequest :: "int \<Rightarrow> int \<Rightarrow> int life_action" where
  "ProcessConnectionRequest p b = bnd (console p) (\<lambda>c. bnd (console_buffer b) (\<lambda>command.
     if openingState c = OpeningStateNone then ret ESUCCESS
     else (case display c of None \<Rightarrow> undef
     | Some d \<Rightarrow> (case current_item d c of
         None \<Rightarrow> undef
       | Some item \<Rightarrow> thn (put_bytes (transfer_start command) (item_bytes d item))
           (thn (AdvanceOpeningState p) (ret ESUCCESS))))))"

subsection \<open>Reading and writing\<close>

text \<open>The result of the next poll; \<open>None\<close> when nothing happens any more.\<close>

definition next_poll :: "poll_result option life_action" where
  "next_poll = bnd (gets poll_results) (\<lambda>l. case l of [] \<Rightarrow> ret None
     | r # rs \<Rightarrow> thn (modify (poll_results_update (\<lambda>_. rs))) (ret (Some r)))"

definition bytes_at :: "int \<Rightarrow> int \<Rightarrow> life \<Rightarrow> u8 list" where
  "bytes_at a n s = map (\<lambda>i. data_bytes s (a + int i)) [0..<nat n]"

definition write_x :: "int \<Rightarrow> int \<Rightarrow> unit life_action" where
  "write_x a n = modify (\<lambda>s. s\<lparr>x_written := x_written s @ bytes_at a n s\<rparr>)"

definition read_x :: "int \<Rightarrow> int \<Rightarrow> unit life_action" where
  "read_x a n = bnd (gets (take (nat n) \<circ> x_unread)) (\<lambda>bs.
     thn (put_bytes a bs) (modify (x_unread_update (drop (nat n)))))"

text \<open>The loop of \<open>ConsoleWrite\<close> from the address \<open>a\<close> on with \<open>n\<close> bytes to go. A call of \<open>write\<close> that
  returns \<open>k\<close> has written the first \<open>k\<close> bytes.\<close>

partial_function (option) write_loop :: "int \<Rightarrow> int \<Rightarrow> int life_action" where
  "write_loop a n s = bnd next_poll (\<lambda>r. case r of
       None \<Rightarrow> (\<lambda>_. None)
     | Some r \<Rightarrow> (case r of
         PollTimeout \<Rightarrow> write_loop a n
       | PollReady k e \<Rightarrow> bnd (write_x a k) (\<lambda>_.
           if k = n then ret ESUCCESS
           else if k < 0 then (if e = EWOULDBLOCK then write_loop a n else ret e)
           else write_loop (a + k) (n - k))
       | PollInvalid \<Rightarrow> ret EBADF
       | PollHungUp \<Rightarrow> ret ENXIO
       | PollError \<Rightarrow> ret EIO)) s"

partial_function (option) read_loop :: "int \<Rightarrow> int \<Rightarrow> int life_action" where
  "read_loop a n s = bnd next_poll (\<lambda>r. case r of
       None \<Rightarrow> (\<lambda>_. None)
     | Some r \<Rightarrow> (case r of
         PollTimeout \<Rightarrow> read_loop a n
       | PollReady k e \<Rightarrow> bnd (read_x a k) (\<lambda>_.
           if k = n then ret ESUCCESS
           else if k = 0 \<and> e \<noteq> EWOULDBLOCK then ret ENOSPC
           else if k < 0 then (if e = EWOULDBLOCK then read_loop a n else ret e)
           else read_loop (a + k) (n - k))
       | PollInvalid \<Rightarrow> ret EBADF
       | PollHungUp \<Rightarrow> ret ENXIO
       | PollError \<Rightarrow> ret EIO)) s"

definition ConsoleWrite :: "int \<Rightarrow> int life_action" where
  "ConsoleWrite b = bnd (console_buffer b) (\<lambda>command. write_loop (transfer_start command) (data_nBytes command))"

definition ConsoleRead :: "int \<Rightarrow> int life_action" where
  "ConsoleRead b = bnd (console_buffer b) (\<lambda>command. read_loop (transfer_start command) (data_nBytes command))"

definition ConsoleInputWait :: "int \<Rightarrow> int life_action" where
  "ConsoleInputWait b = bnd next_poll (\<lambda>r. case r of
       None \<Rightarrow> thn (update_console_buffer b (availableP_update (\<lambda>_. False))) (ret ESUCCESS)
     | Some r \<Rightarrow> (case r of
         PollTimeout \<Rightarrow> thn (update_console_buffer b (availableP_update (\<lambda>_. False))) (ret ESUCCESS)
       | PollReady k e \<Rightarrow> thn (update_console_buffer b (availableP_update (\<lambda>_. True))) (ret ESUCCESS)
       | PollInvalid \<Rightarrow> ret EBADF
       | PollHungUp \<Rightarrow> ret ENXIO
       | PollError \<Rightarrow> ret EIO))"

definition ConsoleInputAvailableP :: "bool life_action" where
  "ConsoleInputAvailableP = bnd (gets (\<lambda>s. console_channels s (consoleChannel s))) (\<lambda>c.
     if display c = None then ret False
     else if openingState c \<noteq> OpeningStateNone then ret True
     else bnd next_poll (\<lambda>r. ret (case r of Some (PollReady k e) \<Rightarrow> True | _ \<Rightarrow> False)))"

subsection \<open>The driver\<close>

definition console_done :: "int \<Rightarrow> int \<Rightarrow> unit life_action" where
  "console_done b r = update_console_buffer b (console_result_update (\<lambda>_. r))"

definition DoConsoleIO :: "int \<Rightarrow> int \<Rightarrow> unit life_action" where
  "DoConsoleIO p b = bnd (console p) (\<lambda>c. bnd (console_buffer b) (\<lambda>command.
     let opcode = console_opcode command in
     if opcode = 1 then bnd (OpenDisplay p b) (console_done b)
     else if opcode = 2 then thn (CloseDisplay p) (console_done b ESUCCESS)
     else if opcode = 3 then console_done b ESUCCESS
     else if opcode = 4 then
       (if openingState c = OpeningStatePrefix then console_done b ESUCCESS
        else bnd (ConsoleWrite b) (console_done b))
     else if opcode = 5 then
       (if openingState c \<noteq> OpeningStateNone then bnd (ProcessConnectionRequest p b) (console_done b)
        else bnd (ConsoleRead b) (console_done b))
     else if opcode = 6 then
       (if openingState c \<noteq> OpeningStateNone
        then thn (update_console_buffer b (availableP_update (\<lambda>_. True))) (console_done b ESUCCESS)
        else bnd (ConsoleInputWait b) (console_done b))
     else if opcode = 7 then thn (EnableRunLights p b) (console_done b ESUCCESS)
     else if opcode = 8 then thn (DisableRunLights p) (console_done b ESUCCESS)
     else ret ()))"

definition ConsoleDriver :: "int \<Rightarrow> int \<Rightarrow> int \<Rightarrow> unit life_action" where
  "ConsoleDriver p request reply = driver_loop (\<lambda>_. False) request reply (DoConsoleIO p)"

definition ConsoleOutput :: "int \<Rightarrow> unit life_action" where
  "ConsoleOutput p = bnd (console p) (\<lambda>c. ConsoleDriver p (outputRequestQ c) (outputReplyQ c))"

definition ConsoleInput :: "int \<Rightarrow> unit life_action" where
  "ConsoleInput p = bnd (console p) (\<lambda>c. ConsoleDriver p (inputRequestQ c) (inputReplyQ c))"

subsection \<open>Reset and termination\<close>

definition ResetConsoleChannel :: "int \<Rightarrow> unit life_action" where
  "ResetConsoleChannel p = bnd (console p) (\<lambda>c.
     thn (ResetIncoming (outputRequestQ c)) (thn (ResetOutgoing (outputReplyQ c))
    (thn (ResetIncoming (inputRequestQ c)) (thn (ResetOutgoing (inputReplyQ c)) (CloseDisplay p)))))"

definition TerminateConsoleChannel :: "unit life_action" where
  "TerminateConsoleChannel = bnd (gets consoleChannel) (\<lambda>p.
     if p = NullEmbPtr then ret () else CloseDisplay p)"

end
