(* ===== verification/Polling.thy ===== *)
theory Polling
  imports Disks Console
begin

text \<open>
  The periodic work of life support (\<open>life-support/polling.c\<close>): the polling thread, the status of the guest,
  reset requests, and the interval timer; and the table of signal handlers. Console titles
  (\<open>UpdateColdLoadNames\<close>) are left out.
\<close>

subsection \<open>The status of the guest\<close>

abbreviation "NonexistentGuestStatus \<equiv> - 2 :: int"
abbreviation "BrokenGuestStatus \<equiv> - 1 :: int"
abbreviation "UninitializedGuestStatus \<equiv> 0 :: int"
abbreviation "InitializingGuestStatus \<equiv> 1 :: int"
abbreviation "InitializedGuestStatus \<equiv> 2 :: int"
abbreviation "StartedGuestStatus \<equiv> 3 :: int"
abbreviation "CrashedGuestStatus \<equiv> 4 :: int"
abbreviation "RunningGuestStatus \<equiv> 5 :: int"
abbreviation "HaltedFEPStatus \<equiv> 255 :: int"
abbreviation "IdleFEPStatus \<equiv> 1 :: int"

definition VLMIsRunning :: "life \<Rightarrow> bool" where
  "VLMIsRunning s \<longleftrightarrow> spy_status s = 0 \<and> fep_status s \<noteq> HaltedFEPStatus"

definition VLMIsRunningLisp :: "life \<Rightarrow> bool" where
  "VLMIsRunningLisp s \<longleftrightarrow> VLMIsRunning s \<and> fep_status s = IdleFEPStatus"

definition new_status :: "life \<Rightarrow> int" where
  "new_status s = (let old = guestStatus s in
     if old = NonexistentGuestStatus \<or> old = BrokenGuestStatus then old
     else if old = UninitializedGuestStatus \<or> old = InitializingGuestStatus then
       (if VLMIsRunningLisp s then RunningGuestStatus else if VLMIsRunning s then InitializedGuestStatus else old)
     else if old = InitializedGuestStatus \<or> old = StartedGuestStatus then
       (if VLMIsRunningLisp s then RunningGuestStatus else if VLMIsRunning s then old else InitializingGuestStatus)
     else if old = CrashedGuestStatus \<or> old = RunningGuestStatus then
       (if VLMIsRunningLisp s then RunningGuestStatus else if VLMIsRunning s then CrashedGuestStatus
        else InitializingGuestStatus)
     else old)"

definition UpdateVLMStatus :: "unit life_action" where
  "UpdateVLMStatus = modify (\<lambda>s. s\<lparr>guestStatus := new_status s\<rparr>)"

subsection \<open>Reset requests\<close>

definition ResetColdLoadChannel :: "int \<Rightarrow> unit life_action" where
  "ResetColdLoadChannel p = bnd (gets (\<lambda>s. cold_load_channels s p)) (\<lambda>c.
     thn (ResetIncoming (display_output_queue c)) (thn (ResetOutgoing (keyboard_input_queue c))
       (modify (\<lambda>s. s\<lparr>cold_load_channels := (cold_load_channels s)(p := c\<lparr>progress_string_length := 0,
          is_selected := False, command_history_top := 0, command_history_wrapped := False\<rparr>)\<rparr>))))"

definition ResetNetworkChannel :: "int \<Rightarrow> unit life_action" where
  "ResetNetworkChannel p = bnd (gets (\<lambda>s. net_channels s p)) (\<lambda>c.
     thn (ResetIncoming (guestToHostQ c)) (thn (ResetOutgoing (guestToHostReturnQ c))
    (thn (ResetIncoming (hostToGuestSupplyQ c)) (ResetOutgoing (hostToGuestQ c)))))"

abbreviation "EmbConsoleChannelType \<equiv> 2 :: int"
abbreviation "EmbNetworkChannelType \<equiv> 3 :: int"
abbreviation "EmbColdLoadChannelType \<equiv> 6 :: int"

definition ResetChannel :: "bool \<Rightarrow> int \<Rightarrow> unit life_action" where
  "ResetChannel fullReset p = bnd (gets (\<lambda>s. channel_type (channels s p))) (\<lambda>ty.
     if ty = EmbDiskChannelType then run_if fullReset (ResetDiskChannel p)
     else if ty = EmbConsoleChannelType then run_if fullReset (ResetConsoleChannel p)
     else if ty = EmbNetworkChannelType then run_if fullReset (ResetNetworkChannel p)
     else if ty = EmbColdLoadChannelType then ResetColdLoadChannel p
     else if ty = EmbMessageChannelType then run_if fullReset (ResetMessageChannel p)
     else ret ())"

partial_function (option) reset_from :: "bool \<Rightarrow> int \<Rightarrow> unit life_action" where
  "reset_from fullReset c s =
     (if c = NullEmbPtr then ret ()
      else bnd (ResetChannel fullReset c) (\<lambda>_.
        bnd (gets (\<lambda>s. next_channel (channels s c))) (reset_from fullReset))) s"

definition ResetCommArea :: "bool \<Rightarrow> unit life_action" where
  "ResetCommArea fullReset = bnd (gets channel_table) (reset_from fullReset)"

abbreviation "FEPResetRequest \<equiv> - 1 :: int"
abbreviation "NoResetRequest \<equiv> 0 :: int"
abbreviation "LispResetRequest \<equiv> 1 :: int"

definition ProcessResetRequest :: "unit life_action" where
  "ProcessResetRequest = bnd (gets reset_request) (\<lambda>r.
     thn (if r = FEPResetRequest then ResetCommArea False
          else if r = LispResetRequest then thn (ResetCommArea True)
            (modify (\<lambda>s. s\<lparr>resetRequestCount := resetRequestCount s + 1, restart_applications := 1\<rparr>))
          else ret ())
         (modify (reset_request_update (\<lambda>_. NoResetRequest))))"

subsection \<open>The polling thread\<close>

abbreviation "OneSecond \<equiv> 1000000000 :: int"
abbreviation "OneQuarterSecond \<equiv> 250000000 :: int"
abbreviation "OneSixteenthSecond \<equiv> 7500000 :: int"

text \<open>The part of a turn that runs under the signal lock; \<open>nsec\<close> is \<open>pollingSleep.tv_nsec\<close>.\<close>

definition poll_signals :: "int \<Rightarrow> unit life_action" where
  "poll_signals nsec = thn (modify (\<lambda>s. s\<lparr>pollTime := pollTime s + nsec\<rparr>)) (thn PollMessageChannels
     (bnd (gets (\<lambda>s. (reset_request s, pollTime s, reawaken s))) (\<lambda>(r, t, again).
        if r \<noteq> NoResetRequest then ProcessResetRequest
        else if t > OneQuarterSecond then modify (\<lambda>s. s\<lparr>pollTime := 0,
          guest_to_host_signals := guest_to_host_signals s OR live_guest_to_host_signals s\<rparr>)
        else run_if (again \<noteq> 0) (modify (\<lambda>s. s\<lparr>
          guest_to_host_signals := guest_to_host_signals s OR reawaken s, reawaken := 0\<rparr>)))))"

text \<open>The clock; the product of the interval is computed in 32 bits. The value is the length of the sleep that it works out.\<close>

definition poll_clock :: "int \<Rightarrow> int life_action" where
  "poll_clock nsec = bnd (gets clock_interval) (\<lambda>interval.
     if 0 < interval then
       thn (modify (\<lambda>s. s\<lparr>pollClockTime := pollClockTime s - nsec\<rparr>))
      (bnd (gets (\<lambda>s. (pollClockTime s, clock_signal s))) (\<lambda>(t, sig).
       thn (run_if (t \<le> 0) (thn (LifeSendSignal sig) (thn (defined (1000 * interval < 2 ^ 31))
              (modify (\<lambda>s. s\<lparr>pollClockTime := 1000 * interval\<rparr>)))))
           (gets (\<lambda>s. if pollClockTime s > OneQuarterSecond then OneQuarterSecond else pollClockTime s))))
     else ret OneSixteenthSecond)"

text \<open>One turn of \<open>IvoryLifePolling\<close>. It ends by setting \<open>pollingSleep\<close> to one second, whatever it has
  worked out: the value is \<open>pollingSleep\<close> as the next turn finds it, in seconds and nanoseconds.\<close>

definition polling_turn :: "int \<times> int \<Rightarrow> (int \<times> int) life_action" where
  "polling_turn pollingSleep = thn (poll_signals (snd pollingSleep))
     (bnd (poll_clock (snd pollingSleep)) (\<lambda>nsec.
       let pollingSleep = (fst pollingSleep, nsec) in
       thn UpdateVLMStatus (let pollingSleep = (1, 0) in ret pollingSleep)))"

fun polling_turns :: "nat \<Rightarrow> int \<times> int \<Rightarrow> (int \<times> int) life_action" where
  "polling_turns 0 pollingSleep = ret pollingSleep"
| "polling_turns (Suc n) pollingSleep = bnd (polling_turn pollingSleep) (polling_turns n)"

text \<open>\<open>IvoryLifePolling\<close> up to the end of its \<open>n\<close>-th turn.\<close>

definition IvoryLifePolling :: "nat \<Rightarrow> (int \<times> int) life_action" where
  "IvoryLifePolling n = polling_turns n (0, 0)"

subsection \<open>The interval timer\<close>

text \<open>Seconds and nanoseconds of a number of nanoseconds, by repeated subtraction.\<close>

function split_seconds :: "int \<Rightarrow> int \<Rightarrow> int \<times> int" where
  "split_seconds sec nsec = (if nsec \<ge> OneSecond then split_seconds (sec + 1) (nsec - OneSecond) else (sec, nsec))"
  by pat_completeness auto
termination by (relation "measure (\<lambda>(_, nsec). nat nsec)") auto

declare split_seconds.simps [simp del]

definition expiration_interval :: "int \<Rightarrow> (int \<times> int) option" where
  "expiration_interval clock_time = (if 0 \<le> clock_time then Some (split_seconds 0 (1000 * clock_time)) else None)"

text \<open>A turn of \<open>IntervalTimerDriver\<close>: the wait, with a limit if the timer is set, ends with
  \<open>expired\<close> when the limit was reached, otherwise because the timer is set again.\<close>

definition timer_turn :: "bool \<Rightarrow> unit life_action" where
  "timer_turn expired = bnd (gets (\<lambda>s. (expiration_interval (clockTime s), clock_signal s))) (\<lambda>(limit, sig).
     run_if (limit \<noteq> None \<and> expired)
       (thn (LifeSendSignal sig) (modify (clockTime_update (\<lambda>_. - 1)))))"

definition SetIntervalTimer :: "int \<Rightarrow> unit life_action" where
  "SetIntervalTimer relativeTimeout = modify (clockTime_update (\<lambda>_. relativeTimeout))"

subsection \<open>Signal handlers\<close>

text \<open>A handler function called through the table. Handlers outside these files are not called here.\<close>

definition call_handler :: "ProcPtrV \<Rightarrow> PtrV \<Rightarrow> unit life_action" where
  "call_handler f arg = (case (f, arg) of
     (NullSignalHandler, _) \<Rightarrow> ret ()
   | (ExecuteGuestCommandsProc, Heap cc) \<Rightarrow> ExecuteGuestCommands cc
   | (DiskLifeProc, HostPointer p) \<Rightarrow> DiskLife p
   | (ConsoleOutputProc, HostPointer p) \<Rightarrow> ConsoleOutput p
   | (ConsoleInputProc, HostPointer p) \<Rightarrow> ConsoleInput p
   | _ \<Rightarrow> undef)"

definition SignalHandlerTopLevel :: "nat \<Rightarrow> bool life_action" where
  "SignalHandlerTopLevel = handler_turn call_handler"

end
