(* ===== verification/DriverFacts.thy ===== *)
theory DriverFacts
  imports LifeSupport
begin

text \<open>
  The drivers' loop: a locale for what a driver's commands must keep, and in it the theorem that the
  driver answers its requests in order and never waits for room in the reply queue.
\<close>

unbundle bit_operations_syntax

subsection \<open>One request and one reply\<close>

lemma put_queue_simps [simp]:
  "queues (put_queue p c s) = (queues s)(p := queue c)" "reawaken (put_queue p c s) = reawaken s"
  "guest_to_host_signals (put_queue p c s) = guest_to_host_signals s"
  by (simp_all add: put_queue_def)

lemma get_queue_simps [simp]: "queue (get_queue p s) = queues s p"
  by (simp add: get_queue_def)

lemma put_reply:
  assumes "queue_ok (queues s p)" "length (queue_list (queues s p)) < queue_capacity (queues s p)"
  shows "\<exists>c. at_queue p (EmbQueuePutWord x) s = Some (Ret (), put_queue p c s) \<and> queue_ok (queue c)
    \<and> queue_list (queue c) = queue_list (queues s p) @ [x] \<and> queue_capacity (queue c) = queue_capacity (queues s p)
    \<and> signal (queue c) = signal (queues s p)"
proof -
  let ?q = "queues s p"
  obtain c where c: "put_element x (get_queue p s) = Some (Ret (), c)" "queue c = put_block [x] ?q"
    using put_element_room [of "get_queue p s" x] assms by auto
  have fit: "put_index ?q + int (length [x]) \<le> queue_size ?q" "int (length [x]) \<le> EmbQueueSpace ?q"
    using assms EmbQueueSpace_capacity [OF assms(1)] by (auto simp: queue_ok_def)
  show ?thesis
    using c put_block_filled(1) [OF assms(1) fit] queue_list_put_block [OF assms(1) fit]
    by (intro exI [of _ c]) (simp add: at_queue_def on_part_def EmbQueuePutWord_def put_block_def queue_capacity_def)
qed

lemma take_request:
  assumes "queue_ok (queues s p)" "queue_list (queues s p) = x # xs"
  shows "\<exists>c. at_queue p EmbQueueTakeWord s = Some (Ret x, put_queue p c s) \<and> queue_ok (queue c)
    \<and> queue_list (queue c) = xs \<and> signal (queue c) = signal (queues s p)"
proof -
  let ?q = "queues s p" and ?s = "get_queue p s"
  have fit: "take_index ?q + int 1 \<le> queue_size ?q" "int 1 \<le> EmbQueueFilled ?q"
    using assms length_queue_list [OF assms(1)] by (auto simp: queue_ok_def)
  have "take_element ?s = Some (Ret (Some x), ?s\<lparr>queue := drop_block 1 ?q\<rparr>)"
    using take_element_Cons [of ?s] assms by simp
  then have "at_queue p EmbQueueTakeWord s = Some (Ret x, put_queue p (?s\<lparr>queue := drop_block 1 ?q\<rparr>) s)"
    by (simp add: at_queue_def on_part_def EmbQueueTakeWord_def prog_simps)
  then show ?thesis
    using drop_block_filled(1) [OF assms(1) fit] queue_list_drop_block(1) [OF assms(1) fit] assms(2)
    by (intro exI [of _ "?s\<lparr>queue := drop_block 1 ?q\<rparr>"]) (simp add: drop_block_def)
qed

lemma no_requests: "queue_ok q \<Longrightarrow> EmbQueueFilled q = 0 \<longleftrightarrow> queue_list q = []"
  using filled_bounds [of q] length_queue_list [of q] by (auto simp: queue_list_def)

lemma no_room: "queue_ok q \<Longrightarrow> EmbQueueSpace q = 0 \<longleftrightarrow> length (queue_list q) = queue_capacity q"
  using EmbQueueSpace_capacity [of q] by auto

subsection \<open>The loop\<close>

text \<open>The commands alone, one after the other.\<close>

fun execute_all :: "(int \<Rightarrow> unit life_action) \<Rightarrow> int list \<Rightarrow> unit life_action" where
  "execute_all execute [] = ret ()"
| "execute_all execute (p # ps) = thn (execute p) (execute_all execute ps)"

text \<open>A state with other contents of the queues and other signals to the guest.\<close>

definition with_queues :: "(int \<Rightarrow> u32 EmbQueue) \<Rightarrow> u32 \<Rightarrow> nat \<Rightarrow> life \<Rightarrow> life" where
  "with_queues q g i s = s\<lparr>queues := q, signals_to_guest := g, interrupts := i\<rparr>"

lemma put_queue_with_queues: "\<exists>q g i. put_queue p c s = with_queues q g i s"
  by (auto simp: put_queue_def with_queues_def)

lemma with_queues_with_queues: "with_queues q g i (with_queues q' g' i' s) = with_queues q g i s"
  by (simp add: with_queues_def)

lemma with_queues_back: "\<exists>q' g' i'. s = with_queues q' g' i' (with_queues q g i s)"
proof -
  have "s = with_queues (queues s) (signals_to_guest s) (interrupts s) (with_queues q g i s)" by (simp add: with_queues_def)
  then show ?thesis by blast
qed

text \<open>
  What the loop relies on: a command of the driver returns, and it keeps the driver's invariant, the queues
  and the signals to try again; the driver is not held up by its own work on the queues.
\<close>

locale driver =
  fixes invar :: "life \<Rightarrow> bool" and held :: "life \<Rightarrow> bool" and request reply :: int
    and execute :: "int \<Rightarrow> unit life_action"
  assumes executes: "invar s \<Longrightarrow> \<exists>t. execute p s = Some (Ret (), t) \<and> invar t \<and> queues t = queues s
      \<and> reawaken t = reawaken s \<and> held t = held s"
    and invar_queue: "invar s \<Longrightarrow> invar (put_queue p c s)"
    and held_queue: "held (put_queue p c s) = held s"
    and distinct: "invar s \<Longrightarrow> request \<noteq> reply"
    and commutes: "execute p s = Some (Ret (), t) \<Longrightarrow> execute p (with_queues q g i s) = Some (Ret (), with_queues q g i t)"
begin

lemma all_commutes:
  "execute_all execute ps s = Some (Ret (), t) \<Longrightarrow>
     execute_all execute ps (with_queues q g i s) = Some (Ret (), with_queues q g i t)"
proof (induction ps arbitrary: s)
  case (Cons p ps)
  then obtain u where "execute p s = Some (Ret (), u)" "execute_all execute ps u = Some (Ret (), t)"
    by (auto simp: thn_eq bnd_split_Some)
  then show ?case using Cons.IH commutes by (simp add: prog_simps)
qed (simp add: prog_simps)

definition did :: "life \<Rightarrow> int list \<Rightarrow> life \<Rightarrow> bool" where
  "did s ps t \<longleftrightarrow> (\<exists>v q g i. execute_all execute ps s = Some (Ret (), v) \<and> t = with_queues q g i v)"

lemma did_nothing: "did s [] (put_queue p c s)" "did s [] s"
  using put_queue_with_queues [of p c s] with_queues_back [of s "queues s" "signals_to_guest s" "interrupts s"]
  by (auto simp: did_def prog_simps with_queues_with_queues)

lemma did_one:
  assumes "execute p (put_queue q c s) = Some (Ret (), t)"
  shows "did s [p] (put_queue q' c' t)"
proof -
  obtain a b i where "s = with_queues a b i (put_queue q c s)"
    using put_queue_with_queues [of q c s] with_queues_back by metis
  then have e: "execute p s = Some (Ret (), with_queues a b i t)" using commutes [OF assms, of a b i] by simp
  obtain x y z where "put_queue q' c' t = with_queues x y z (with_queues a b i t)"
    using put_queue_with_queues [of q' c' t] by (auto simp: with_queues_with_queues)
  then show ?thesis using e by (auto simp: did_def prog_simps)
qed

lemma did_trans: "did s ps t \<Longrightarrow> did t rs u \<Longrightarrow> did s (ps @ rs) u"
proof -
  assume a: "did s ps t" and b: "did t rs u"
  obtain v x y z where v: "execute_all execute ps s = Some (Ret (), v)" "t = with_queues x y z v"
    using a by (auto simp: did_def)
  obtain w q g i where w: "execute_all execute rs t = Some (Ret (), w)" "u = with_queues q g i w"
    using b by (auto simp: did_def)
  obtain k l m where "v = with_queues k l m t" using with_queues_back v(2) by metis
  then have r: "execute_all execute rs v = Some (Ret (), with_queues k l m w)" using all_commutes [OF w(1)] by simp
  have "execute_all execute (ps @ rs) s = execute_all execute rs v"
    using v(1) by (induction ps arbitrary: s) (auto simp: prog_simps bnd_split_Some)
  then show ?thesis unfolding did_def using r w(2) with_queues_with_queues [of q g i k l m w] by metis
qed

definition served :: "life \<Rightarrow> nat \<Rightarrow> life \<Rightarrow> bool" where
  "served s k t \<longleftrightarrow> invar t \<and> queue_ok (queues t request) \<and> queue_ok (queues t reply)
     \<and> queue_list (queues t request) = drop k (queue_list (queues s request))
     \<and> queue_list (queues t reply) = queue_list (queues s reply)
         @ filter (\<lambda>p. p \<noteq> 0) (take k (queue_list (queues s request)))
     \<and> queue_capacity (queues t reply) = queue_capacity (queues s reply)
     \<and> signal (queues t request) = signal (queues s request) \<and> held t = held s \<and> reawaken t = reawaken s
     \<and> did s (map sint (filter (\<lambda>p. p \<noteq> 0) (take k (queue_list (queues s request))))) t"

lemma served_refl: "invar s \<Longrightarrow> queue_ok (queues s request) \<Longrightarrow> queue_ok (queues s reply) \<Longrightarrow> served s 0 s"
  using did_nothing(2) by (simp add: served_def)

lemma served_trans: "served s 1 t \<Longrightarrow> served t k u \<Longrightarrow> served s (Suc k) u"
  using did_trans [of s _ t _ u] by (cases "queue_list (queues s request)") (fastforce simp: served_def)+

lemma turn:
  assumes "invar s" "queue_ok (queues s request)" "queue_ok (queues s reply)"
    "queue_list (queues s request) = x # xs" "\<not> held s" "EmbQueueSpace (queues s reply) \<noteq> 0"
  shows "\<exists>t. served s 1 t \<and> driver_loop held request reply execute s = driver_loop held request reply execute t"
proof -
  have f: "EmbQueueFilled (queues s request) \<noteq> 0" using assms(2,4) no_requests by fastforce
  have room: "length (queue_list (queues s reply)) < queue_capacity (queues s reply)"
    using assms(3,6) no_room length_queue_list_capacity by (metis le_neq_implies_less)
  note d = distinct [OF assms(1)]
  obtain c where c: "at_queue request EmbQueueTakeWord s = Some (Ret x, put_queue request c s)" "queue_ok (queue c)"
    "queue_list (queue c) = xs" "signal (queue c) = signal (queues s request)"
    using take_request [OF assms(2,4)] by blast
  let ?t = "put_queue request c s"
  have run: "driver_loop held request reply execute s =
    (if x = 0 then driver_loop held request reply execute else bnd (execute (sint x)) (\<lambda>_.
       bnd (at_queue reply (EmbQueuePutWord x)) (\<lambda>_. driver_loop held request reply execute))) ?t"
    using f assms(5,6) c(1) by (subst driver_loop.simps) (simp add: prog_simps)
  have inv: "invar ?t" using invar_queue [OF assms(1)] .
  show ?thesis
  proof (cases "x = 0")
    case True
    then have "served s 1 ?t" using c inv d assms(3,4) did_nothing(1) by (auto simp: served_def held_queue)
    then show ?thesis using run True by auto
  next
    case False
    obtain u where u: "execute (sint x) ?t = Some (Ret (), u)" "invar u" "queues u = queues ?t"
      "reawaken u = reawaken ?t" "held u = held ?t"
      using executes [OF inv] by blast
    have q: "queues u reply = queues s reply" using u(3) d by simp
    obtain e where e: "at_queue reply (EmbQueuePutWord x) u = Some (Ret (), put_queue reply e u)" "queue_ok (queue e)"
      "queue_list (queue e) = queue_list (queues s reply) @ [x]"
      "queue_capacity (queue e) = queue_capacity (queues s reply)"
      using put_reply [of u reply x] q assms(3) room by auto
    have "served s 1 (put_queue reply e u)"
      using invar_queue [OF u(2)] e c u d False assms(4) did_one [OF u(1)] by (auto simp: served_def held_queue)
    then show ?thesis using run False u(1) e(1) by (auto simp: prog_simps)
  qed
qed

lemma serves:
  assumes "invar s" "queue_ok (queues s request)" "queue_ok (queues s reply)"
    "0 \<le> signal (queues s request)" "signal (queues s request) < 32"
  shows "\<exists>k t u. k \<le> length (queue_list (queues s request)) \<and> served s k t
    \<and> driver_loop held request reply execute s = Some (Ret (), u) \<and> (held s \<longrightarrow> k = 0)
    \<and> (if k = length (queue_list (queues s request)) then u = t
       else (held s \<or> length (queue_list (queues t reply)) = queue_capacity (queues t reply))
         \<and> u = t\<lparr>reawaken := reawaken t OR signal_mask (nat (signal (queues s request)))\<rparr>)"
  using assms
proof (induction "queue_list (queues s request)" arbitrary: s)
  case Nil
  have "EmbQueueFilled (queues s request) = 0" using no_requests [OF Nil(3)] Nil(1) by simp
  then have "driver_loop held request reply execute s = Some (Ret (), s)"
    by (subst driver_loop.simps) (simp add: prog_simps)
  then show ?case using served_refl [OF Nil(2-4)] Nil(1) by (intro exI [of _ 0] exI [of _ s]) simp
next
  case (Cons x xs)
  note xs = Cons.hyps(2) [symmetric]
  show ?case
  proof (cases "held s \<or> EmbQueueSpace (queues s reply) = 0")
    case True
    let ?u = "s\<lparr>reawaken := reawaken s OR signal_mask (nat (signal (queues s request)))\<rparr>"
    have f: "EmbQueueFilled (queues s request) \<noteq> 0" using Cons.prems(2) xs no_requests by fastforce
    have "driver_loop held request reply execute s = Some (Ret (), ?u)"
      using f True Cons.prems(4,5) by (subst driver_loop.simps) (simp add: prog_simps SignalLater_def)
    then show ?thesis
      using served_refl [OF Cons.prems(1-3)] True no_room [OF Cons.prems(3)] xs
      by (intro exI [of _ 0] exI [of _ s] exI [of _ ?u]) auto
  next
    case False
    obtain t where t: "served s 1 t" "driver_loop held request reply execute s = driver_loop held request reply execute t"
      using turn [OF Cons.prems(1-3) xs] False by blast
    have s: "xs = queue_list (queues t request)" "invar t" "queue_ok (queues t request)" "queue_ok (queues t reply)"
      "signal (queues t request) = signal (queues s request)" "held t = held s"
      using t(1) xs by (simp_all add: served_def)
    obtain k v u where k: "k \<le> length (queue_list (queues t request))" "served t k v"
      "driver_loop held request reply execute t = Some (Ret (), u)"
      "if k = length (queue_list (queues t request)) then u = v
       else (held t \<or> length (queue_list (queues v reply)) = queue_capacity (queues v reply))
         \<and> u = v\<lparr>reawaken := reawaken v OR signal_mask (nat (signal (queues t request)))\<rparr>"
      using Cons.hyps(1) [OF s(1-4)] Cons.prems(4,5) s(5) by auto
    show ?thesis
      using k t(2) served_trans [OF t(1) k(2)] xs s False
      by (intro exI [of _ "Suc k"] exI [of _ v] exI [of _ u]) auto
  qed
qed

end

end
