(* ===== verification/LifeSamples.thy ===== *)
theory LifeSamples
  imports LifeSupport
begin

text \<open>A concrete state of life support for the examples: nothing is installed, allocated or pending.\<close>

definition blank_queue :: "u32 EmbQueue" where
  "blank_queue = \<lparr>element_size = 4, queue_size = 4, put_index = 0, take_index = 0, signal = - 1,
     element_array = [0, 0, 0, 0]\<rparr>"

definition queue_of :: "int \<Rightarrow> u32 list \<Rightarrow> u32 EmbQueue" where
  "queue_of sig xs = \<lparr>element_size = 4, queue_size = int (length xs) + 2, put_index = int (length xs), take_index = 0,
     signal = sig, element_array = xs @ [0, 0]\<rparr>"

lemma queue_of_simps [simp]:
  "queue_ok (queue_of sig xs)" "queue_list (queue_of sig xs) = xs" "signal (queue_of sig xs) = sig"
  "queue_capacity (queue_of sig xs) = length xs + 1"
  by (simp_all add: queue_of_def queue_ok_def queue_list_def queue_capacity_def EmbQueueFilled_def)

definition blank_life :: life where
  "blank_life = \<lparr>guest_to_host_signals = 0, live_guest_to_host_signals = 0, signals_to_guest = 0,
     live_host_to_guest_signals = 0, reawaken = 0, useSignalLocks = False,
     signalHandler = (\<lambda>_. \<lparr>handlerThreadSetup = False, handler_signal = 0, handlerFunction = NullProc, handlerArgument = NULL\<rparr>),
     interrupts = 0, channel_table = NullEmbPtr, consoleChannel = NullEmbPtr, command_channel = NullEmbPtr,
     clock_signal = - 1, clock_interval = 0, clockTime = - 1, pollTime = 0, pollClockTime = 0, reset_request = 0,
     resetRequestCount = 0, restart_applications = 0, spy_status = 0, fep_status = 0, guestStatus = 0,
     inhibitDisk = False, host_buffer_start = 1000, host_buffer_size = 1000, EmbCommAreaAllocPtr = 300,
     EmbCommAreaAllocSize = 10000, queues = (\<lambda>_. blank_queue),
     channels = (\<lambda>_. \<lparr>channel_type = 0, channel_unit = 0, next_channel = NullEmbPtr\<rparr>),
     disk_channels = (\<lambda>_. \<lparr>number_of_pages = 10, command_queue = 0, status_queue = 1, read_only = False,
        hostState0 = 0, hostState1 = 0\<rparr>),
     disk_commands = (\<lambda>_. \<lparr>disk_cmd = 3, page = 0, page_count = 0, n_addresses = 0, disk_status = 0, error_code = 0,
        addresses = (\<lambda>_. \<lparr>address = 0, n_words = 0\<rparr>)\<rparr>),
     message_channels = (\<lambda>_. \<lparr>subtype = 2, guestToHostQueue = 0, guestToHostReturnQueue = 1, guestToHostImpulse = 0,
        hostToGuestQueue = 2, hostToGuestSupplyQueue = 3, hostToGuestImpulse = 0, subtypeData0 = 0, subtypeData1 = 0\<rparr>),
     command_buffers = (\<lambda>_. \<lparr>command_opcode = 0, resultCode = 0, mbinChannel = 0\<rparr>),
     console_channels = (\<lambda>_. \<lparr>outputRequestQ = 0, outputReplyQ = 1, inputRequestQ = 2, inputReplyQ = 3,
        display = None, console_fd = - 1, openingState = OpeningStateNone, nextPixmapFormat = 0, nextRoot = 0,
        nextRootDepth = 0, nextRootDepthVisual = 0, rlDisplay = False, rlGC = False, runLights = [], lastRunLights = 0\<rparr>),
     console_buffers = (\<lambda>_. \<lparr>console_opcode = 0, console_result = 0, data_address = 0, data_offset = 0, data_nBytes = 0,
        availableP = False, lastRequestNumber = 0, wait_timeout = 0, data_runLights = []\<rparr>),
     net_channels = (\<lambda>_. \<lparr>guestToHostQ = 0, guestToHostReturnQ = 1, hostToGuestSupplyQ = 2, hostToGuestQ = 3\<rparr>),
     cold_load_channels = (\<lambda>_. \<lparr>keyboard_input_queue = 0, display_output_queue = 1, progress_string_length = 0,
        is_selected = False, command_history_top = 0, command_history_wrapped = False\<rparr>),
     attach_requests = (\<lambda>_. \<lparr>attach_channel = 0, filename_tag = 23, filename_header_tag = 3,
        filename_header_data = 0x50000000, filename_bytes = [], ifNotFoundAction = 0, minimumLength = 0, attach_result = 0\<rparr>),
     grow_requests = (\<lambda>_. \<lparr>grow_channel = 0, newLength = 0, grow_result = 0\<rparr>),
     data_bytes = (\<lambda>_. 0), mallocs = [], disk_states = (\<lambda>_. \<lparr>command_queue_ptr = 0, status_queue_ptr = 1,
        error_pending = False, fd = - 1\<rparr>),
     subtypes = (\<lambda>_. \<lparr>nextActiveChannel = None, messageChannel = 0, sub_guestToHostQueue = 0,
        sub_guestToHostReturnQueue = 1, sub_hostToGuestQueue = 2, sub_hostToGuestSupplyQueue = 3\<rparr>),
     activeMBINChannel = 0, files = (\<lambda>_. []), file_offsets = (\<lambda>_. 0), opened_fds = [], os_errors = [],
     x_server = Inl 0, poll_results = [], x_written = [], x_unread = []\<rparr>"

lemma blank_life_simps [simp]:
  "guest_to_host_signals blank_life = 0" "live_guest_to_host_signals blank_life = 0" "signals_to_guest blank_life = 0"
  "reawaken blank_life = 0" "channel_table blank_life = NullEmbPtr" "command_channel blank_life = NullEmbPtr"
  "clock_signal blank_life = - 1" "clock_interval blank_life = 0" "pollTime blank_life = 0" "pollClockTime blank_life = 0"
  "reset_request blank_life = 0" "inhibitDisk blank_life = False" "queues blank_life = (\<lambda>_. blank_queue)"
  "mallocs blank_life = []" "os_errors blank_life = []" "poll_results blank_life = []" "x_written blank_life = []"
  "data_bytes blank_life = (\<lambda>_. 0)" "files blank_life = (\<lambda>_. [])" "file_offsets blank_life = (\<lambda>_. 0)"
  by (simp_all add: blank_life_def)

end
