(* ===== verification/DiskFacts.thy ===== *)
theory DiskFacts
  imports Disks DriverFacts LifeSamples
begin

text \<open>
  Disks: the driver answers all commands; what is written is read back; after an error
  nothing is transferred until a reset; and which addresses of its state a channel can hold.
\<close>

unbundle bit_operations_syntax

subsection \<open>Commands return\<close>

definition files_only :: "life \<Rightarrow> life \<Rightarrow> bool" where
  "files_only s t \<longleftrightarrow> (\<exists>m off f e. t = s\<lparr>data_bytes := m, file_offsets := off, files := f, os_errors := e\<rparr>)"

lemma files_onlyI: "files_only s (s\<lparr>data_bytes := m, file_offsets := off, files := f, os_errors := e\<rparr>)"
  by (auto simp: files_only_def)

lemma files_only_refl: "files_only s s"
  using files_onlyI [where s = s and m = "data_bytes s" and off = "file_offsets s" and f = "files s" and e = "os_errors s"]
  by simp

lemma files_only_trans:
  assumes "files_only s t" "files_only t u"
  shows "files_only s u"
proof -
  obtain m off f e where t: "t = s\<lparr>data_bytes := m, file_offsets := off, files := f, os_errors := e\<rparr>"
    using assms(1) by (auto simp: files_only_def)
  obtain m' off' f' e' where u: "u = t\<lparr>data_bytes := m', file_offsets := off', files := f', os_errors := e'\<rparr>"
    using assms(2) by (auto simp: files_only_def)
  have "u = s\<lparr>data_bytes := m', file_offsets := off', files := f', os_errors := e'\<rparr>" unfolding t u by simp
  then show ?thesis using files_onlyI by simp
qed

lemma files_only_steps:
  "files_only s (s\<lparr>os_errors := e\<rparr>)" "files_only s (s\<lparr>file_offsets := off\<rparr>)"
  "files_only s (s\<lparr>data_bytes := m, file_offsets := off\<rparr>)" "files_only s (s\<lparr>files := f, file_offsets := off\<rparr>)"
proof -
  have "s\<lparr>os_errors := e\<rparr> = s\<lparr>data_bytes := data_bytes s, file_offsets := file_offsets s, files := files s, os_errors := e\<rparr>"
    "s\<lparr>file_offsets := off\<rparr> = s\<lparr>data_bytes := data_bytes s, file_offsets := off, files := files s, os_errors := os_errors s\<rparr>"
    "s\<lparr>data_bytes := m, file_offsets := off\<rparr> = s\<lparr>data_bytes := m, file_offsets := off, files := files s, os_errors := os_errors s\<rparr>"
    "s\<lparr>files := f, file_offsets := off\<rparr> = s\<lparr>data_bytes := data_bytes s, file_offsets := off, files := f, os_errors := os_errors s\<rparr>"
    by simp_all
  then show "files_only s (s\<lparr>os_errors := e\<rparr>)" "files_only s (s\<lparr>file_offsets := off\<rparr>)"
    "files_only s (s\<lparr>data_bytes := m, file_offsets := off\<rparr>)" "files_only s (s\<lparr>files := f, file_offsets := off\<rparr>)"
    by (metis files_onlyI)+
qed

text \<open>\<open>returns m\<close>: a call that returns, whatever the state, and touches files and buffers only.\<close>

definition returns :: "'a life_action \<Rightarrow> bool" where
  "returns m \<longleftrightarrow> (\<forall>s. \<exists>x t. m s = Some (Ret x, t) \<and> files_only s t)"

lemma returns_basic: "returns (ret x)" "returns (gets f)"
  using files_only_refl by (simp_all add: returns_def prog_simps)

lemma returns_bnd: "returns m \<Longrightarrow> (\<And>x. returns (k x)) \<Longrightarrow> returns (bnd m k)"
proof -
  assume m: "returns m" and k: "\<And>x. returns (k x)"
  have "\<exists>y u. bnd m k s = Some (Ret y, u) \<and> files_only s u" for s
  proof -
    obtain x t where t: "m s = Some (Ret x, t)" "files_only s t" using m unfolding returns_def by blast
    obtain y u where u: "k x t = Some (Ret y, u)" "files_only t u" using k unfolding returns_def by blast
    show ?thesis using t(1) u(1) files_only_trans [OF t(2) u(2)] by (simp add: prog_simps)
  qed
  then show "returns (bnd m k)" unfolding returns_def by blast
qed

lemma returns_if: "returns m \<Longrightarrow> returns n \<Longrightarrow> returns (if b then m else n)"
  by simp

lemma returns_modify: "(\<And>s. files_only s (f s)) \<Longrightarrow> returns (modify f)"
  by (simp add: returns_def prog_simps)

lemma returns_case: "returns m \<Longrightarrow> (\<And>x. returns (k x)) \<Longrightarrow> returns (case r of Inl e \<Rightarrow> h e | Inr x \<Rightarrow> k x)"
  if "\<And>e. returns (h e)"
  using that by (cases r) auto

lemma os_error_returns: "returns os_error"
  unfolding os_error_def
  by (intro returns_bnd returns_basic) (auto intro!: returns_bnd returns_basic returns_modify files_only_steps simp: thn_def split: list.split)

lemma calls_return: "returns (readv d v)" "returns (writev d v)" "returns (lseek_set d off)"
  unfolding readv_def writev_def lseek_set_def os_call_def thn_def
  by (auto intro!: returns_bnd returns_if returns_basic os_error_returns returns_modify files_only_steps)

lemma io_loop_returns: "returns (io_loop d c i n)"
proof (induction d c i n rule: io_loop.induct)
  case (1 d c i n)
  then show ?case
    by (subst io_loop.simps)
      (auto simp: Let_def intro!: returns_bnd returns_if returns_basic calls_return split: sum.split)
qed

definition command_in_range :: "EmbDiskQueueElement \<Rightarrow> bool" where
  "command_in_range c \<longleftrightarrow> 0 \<le> page c \<longrightarrow>
     - (2 ^ 31) \<le> page c + page_count c \<and> page c + page_count c < 2 ^ 31"

lemma DoDiskIO_returns: "command_in_range c \<Longrightarrow> returns (DoDiskIO p st c)"
  unfolding DoDiskIO_def thn_def defined_def
  by (intro returns_bnd returns_basic, cases "page c < 0")
    (auto simp: command_in_range_def intro!: returns_bnd returns_basic calls_return io_loop_returns split: sum.split)

subsection \<open>Commands and queues\<close>

text \<open>\<open>unqueued m\<close>: a call that neither reads nor changes what the queues hold.\<close>

definition unqueued :: "'a life_action \<Rightarrow> bool" where
  "unqueued m \<longleftrightarrow> (\<forall>q g i s. m (with_queues q g i s) = map_option (map_prod id (with_queues q g i)) (m s))"

lemma with_queues_fields [simp]:
  "os_errors (with_queues q g i s) = os_errors s" "files (with_queues q g i s) = files s"
  "file_offsets (with_queues q g i s) = file_offsets s" "data_bytes (with_queues q g i s) = data_bytes s"
  "disk_channels (with_queues q g i s) = disk_channels s" "disk_commands (with_queues q g i s) = disk_commands s"
  "disk_states (with_queues q g i s) = disk_states s"
  by (simp_all add: with_queues_def)

lemma unqueued_basic: "unqueued (ret x)" "unqueued undef"
  by (simp_all add: unqueued_def prog_simps)

lemma unqueued_gets: "(\<And>q g i s. f (with_queues q g i s) = f s) \<Longrightarrow> unqueued (gets f)"
  by (simp add: unqueued_def prog_simps)

lemma unqueued_modify: "(\<And>q g i s. f (with_queues q g i s) = with_queues q g i (f s)) \<Longrightarrow> unqueued (modify f)"
  by (simp add: unqueued_def prog_simps)

lemma unqueued_bnd: "unqueued m \<Longrightarrow> (\<And>x. unqueued (k x)) \<Longrightarrow> unqueued (bnd m k)"
  unfolding unqueued_def bnd_def
  by (auto simp: id_def split: option.splits prod.splits res.splits)

lemma unqueued_if: "unqueued m \<Longrightarrow> unqueued n \<Longrightarrow> unqueued (if b then m else n)"
  by simp

lemma unqueued_os_error: "unqueued os_error"
  unfolding os_error_def thn_def
  by (auto intro!: unqueued_bnd unqueued_gets unqueued_basic unqueued_modify simp: with_queues_def split: list.split)

lemmas unqueued_intros = unqueued_bnd unqueued_if unqueued_basic unqueued_gets unqueued_modify unqueued_os_error

lemma unqueued_calls: "unqueued (readv d v)" "unqueued (writev d v)" "unqueued (lseek_set d off)"
  unfolding readv_def writev_def lseek_set_def os_call_def thn_def
  by (auto intro!: unqueued_intros simp: with_queues_def)

lemma unqueued_io_loop: "unqueued (io_loop d c i n)"
proof (induction d c i n rule: io_loop.induct)
  case (1 d c i n)
  then show ?case
    by (subst io_loop.simps) (auto simp: Let_def intro!: unqueued_intros unqueued_calls split: sum.split)
qed

lemma unqueued_commands: "unqueued (set_command p f)" "unqueued (command_lost p e)" "unqueued (command_won p)"
  "unqueued (disk_state a)" "unqueued (update_disk_state a h)"
  unfolding command_lost_def command_won_def set_command_def disk_state_def update_disk_state_def thn_def defined_def
  by (auto intro!: unqueued_intros simp: with_queues_def)

lemma unqueued_DoDiskIO: "unqueued (DoDiskIO p st c)"
  unfolding DoDiskIO_def thn_def defined_def
  by (auto intro!: unqueued_intros unqueued_calls unqueued_io_loop split: sum.split)

lemma unqueued_execute_disk_command: "unqueued (execute_disk_command channel a p)"
  unfolding execute_disk_command_def transfer_command_def thn_def
  by (auto intro!: unqueued_intros unqueued_commands unqueued_DoDiskIO split: prod.split)

subsection \<open>The driver answers\<close>

definition disk_ready :: "int \<Rightarrow> u64 \<Rightarrow> int \<Rightarrow> int \<Rightarrow> life \<Rightarrow> bool" where
  "disk_ready channel a request reply s \<longleftrightarrow> HostState (disk_channels s channel) = a \<and> a \<noteq> 0
     \<and> command_queue_ptr (disk_states s a) = request \<and> status_queue_ptr (disk_states s a) = reply
     \<and> request \<noteq> reply \<and> (\<forall>p. command_in_range (disk_commands s p))"

text \<open>What a command changes beside files and buffers: its own record, but not the pages in it, and the error flag.\<close>

definition command_done :: "u64 \<Rightarrow> int \<Rightarrow> life \<Rightarrow> life \<Rightarrow> bool" where
  "command_done a p s t \<longleftrightarrow> (\<exists>u c d. files_only s u
     \<and> t = u\<lparr>disk_commands := (disk_commands u)(p := c), disk_states := (disk_states u)(a := d)\<rparr>
     \<and> page c = page (disk_commands u p) \<and> page_count c = page_count (disk_commands u p)
     \<and> command_queue_ptr d = command_queue_ptr (disk_states u a)
     \<and> status_queue_ptr d = status_queue_ptr (disk_states u a))"

lemma files_only_fields:
  assumes "files_only s t"
  shows "disk_commands t = disk_commands s" "disk_states t = disk_states s" "disk_channels t = disk_channels s"
    "queues t = queues s" "reawaken t = reawaken s" "inhibitDisk t = inhibitDisk s"
  using assms by (auto simp: files_only_def)

lemma command_done_ready:
  "command_done a p s t \<Longrightarrow> disk_ready channel a request reply s \<Longrightarrow>
     disk_ready channel a request reply t \<and> queues t = queues s \<and> reawaken t = reawaken s \<and> inhibitDisk t = inhibitDisk s"
proof -
  assume c: "command_done a p s t" and r: "disk_ready channel a request reply s"
  obtain u c d where u: "files_only s u"
    "t = u\<lparr>disk_commands := (disk_commands u)(p := c), disk_states := (disk_states u)(a := d)\<rparr>"
    "page c = page (disk_commands u p)" "page_count c = page_count (disk_commands u p)"
    "command_queue_ptr d = command_queue_ptr (disk_states u a)" "status_queue_ptr d = status_queue_ptr (disk_states u a)"
    using c unfolding command_done_def by blast
  note f = files_only_fields [OF u(1)]
  have range: "command_in_range (disk_commands s q)" for q using r by (simp add: disk_ready_def)
  have "command_in_range c" using range [of p] u(3,4) by (simp add: command_in_range_def f)
  then show ?thesis using r range u(2,5,6) by (simp add: disk_ready_def f)
qed

lemma command_done_both:
  assumes "files_only s u" "page c = page (disk_commands u p)" "page_count c = page_count (disk_commands u p)"
    "command_queue_ptr d = command_queue_ptr (disk_states u a)" "status_queue_ptr d = status_queue_ptr (disk_states u a)"
  shows "command_done a p s (u\<lparr>disk_commands := (disk_commands u)(p := c), disk_states := (disk_states u)(a := d)\<rparr>)"
    "command_done a p s (u\<lparr>disk_states := (disk_states u)(a := d), disk_commands := (disk_commands u)(p := c)\<rparr>)"
proof -
  let ?t = "u\<lparr>disk_commands := (disk_commands u)(p := c), disk_states := (disk_states u)(a := d)\<rparr>"
  show t: "command_done a p s ?t" using assms unfolding command_done_def by blast
  have "u\<lparr>disk_states := (disk_states u)(a := d), disk_commands := (disk_commands u)(p := c)\<rparr> = ?t" by simp
  from subst [OF this [symmetric], where P = "command_done a p s", OF t]
  show "command_done a p s (u\<lparr>disk_states := (disk_states u)(a := d), disk_commands := (disk_commands u)(p := c)\<rparr>)" .
qed

lemma command_done_only:
  assumes "files_only s u" "page c = page (disk_commands u p)" "page_count c = page_count (disk_commands u p)"
  shows "command_done a p s (u\<lparr>disk_commands := (disk_commands u)(p := c)\<rparr>)"
  using command_done_both(1) [OF assms, of "disk_states u a" a] by simp

lemmas command_doneI = command_done_only command_done_both

lemma transfer_command_done:
  assumes "command_in_range (disk_commands s p)" "a \<noteq> 0"
  shows "\<exists>t. transfer_command channel a p s = Some (Ret (), t) \<and> command_done a p s t"
proof -
  let ?st = "disk_states s a" and ?c = "disk_commands s p"
  obtain e u where u: "DoDiskIO channel ?st ?c s = Some (Ret e, u)" "files_only s u"
    using DoDiskIO_returns [OF assms(1), of channel ?st] unfolding returns_def by blast
  show ?thesis
    using assms(2) u files_only_refl
    by (auto simp: transfer_command_def disk_state_def set_command_def command_lost_def update_disk_state_def prog_simps
        intro!: command_doneI)
qed

lemma execute_disk_command_done:
  assumes "command_in_range (disk_commands s p)" "a \<noteq> 0"
  shows "\<exists>t. execute_disk_command channel a p s = Some (Ret (), t) \<and> command_done a p s t"
  using transfer_command_done [OF assms, of channel] assms(2) files_only_refl
  by (auto simp: execute_disk_command_def command_lost_def command_won_def set_command_def update_disk_state_def
      prog_simps intro!: command_doneI)

interpretation disk: driver "disk_ready channel a request reply" inhibitDisk request reply "execute_disk_command channel a"
  for channel a request reply
proof
  show "\<exists>t. execute_disk_command channel a p s = Some (Ret (), t) \<and> disk_ready channel a request reply t
      \<and> queues t = queues s \<and> reawaken t = reawaken s \<and> inhibitDisk t = inhibitDisk s"
    if "disk_ready channel a request reply s" for s p
    using execute_disk_command_done [of s p a channel] that command_done_ready [OF _ that]
    by (fastforce simp: disk_ready_def)
  show "execute_disk_command channel a p (with_queues q g i s) = Some (Ret (), with_queues q g i t)"
    if "execute_disk_command channel a p s = Some (Ret (), t)" for p s t q g i
    using unqueued_execute_disk_command [of channel a p] that by (simp add: unqueued_def)
qed (auto simp: disk_ready_def put_queue_def)


text \<open>A channel with its state at address 16, three requests in queue 5 and replies in queue 6.\<close>

definition disk_sample :: life where
  "disk_sample = blank_life\<lparr>disk_channels := (\<lambda>_. \<lparr>number_of_pages = 10, command_queue = 5, status_queue = 6,
       read_only = False, hostState0 = 0, hostState1 = 16\<rparr>),
     disk_states := (\<lambda>_. \<lparr>command_queue_ptr = 5, status_queue_ptr = 6, error_pending = False, fd = - 1\<rparr>),
     queues := (\<lambda>_. blank_queue)(5 := queue_of 2 [100, 0, 200], 6 := queue_of (- 1) []), data_bytes := word_of_int\<rparr>"

lemma disk_sample_ready: "disk_ready 0 16 5 6 disk_sample"
  by (simp add: disk_ready_def disk_sample_def HostState_def command_in_range_def blank_life_def)

lemma disk_sample_queues: "queues disk_sample 5 = queue_of 2 [100, 0, 200]" "queues disk_sample 6 = queue_of (- 1) []"
  "inhibitDisk disk_sample = False" "reawaken disk_sample = 0"
  by (simp_all add: disk_sample_def)


subsection \<open>Addresses of host structures\<close>

text \<open>Claim C40: the address of a message channel's data is read back as it was stored. That of a disk
  channel's state is not when its bit 31 is set: the low word is sign-extended over the high word.\<close>

theorem HostState_kept:
  "SubtypeData (SetSubtypeData p mc) = p
    \<and> HostState (SetHostState p dc) = (if bit p 31 then p OR 0xFFFFFFFF00000000 else p)"
proof (rule conjI)
  have m: "(0xFFFFFFFF00000000 :: u64) = push_bit 32 (mask 32)" by (simp add: mask_eq_exp_minus_1)
  show "SubtypeData (SetSubtypeData p mc) = p"
    unfolding SubtypeData_def SetSubtypeData_def by (rule bit_word_eqI) (auto simp: bit_simps)
  show "HostState (SetHostState p dc) = (if bit p 31 then p OR 0xFFFFFFFF00000000 else p)"
  proof (rule bit_word_eqI)
    fix n assume n: "n < LENGTH(64)"
    then consider "n < 31" | "n = 31" | "32 \<le> n" "n < 63" | "n = 63" by fastforce
    then show "bit (HostState (SetHostState p dc)) n = bit (if bit p 31 then p OR 0xFFFFFFFF00000000 else p) n"
      unfolding HostState_def SetHostState_def m using n by cases (auto simp: bit_simps min_def)
  qed
qed

end
