(* ===== verification/TransferFacts.thy ===== *)
theory TransferFacts
  imports DiskFacts
begin

text \<open>
  Disk transfers: a command with any number of buffers, moved in groups of at most 32, writes the bytes of
  its buffers in order and reads them back; and a channel in error refuses all transfers.
\<close>

subsection \<open>Scattering and gathering\<close>

definition lengths_ok :: "iovec list \<Rightarrow> bool" where
  "lengths_ok v \<longleftrightarrow> (\<forall>x \<in> set v. 0 \<le> snd x)"

definition within :: "iovec \<Rightarrow> int \<Rightarrow> bool" where
  "within x i \<longleftrightarrow> fst x \<le> i \<and> i < fst x + snd x"

fun separate :: "iovec list \<Rightarrow> bool" where
  "separate [] \<longleftrightarrow> True"
| "separate (x # v) \<longleftrightarrow> (\<forall>y \<in> set v. \<forall>i. \<not> (within x i \<and> within y i)) \<and> separate v"

lemma iov_simps [simp]: "iov_bytes [] = 0" "iov_bytes (x # v) = snd x + iov_bytes v" "iov_bytes (v @ w) = iov_bytes v + iov_bytes w"
  "gather [] m = []" "gather (x # v) m = load_bytes (fst x) (snd x) m @ gather v m" "gather (v @ w) m = gather v m @ gather w m"
  "lengths_ok []" "lengths_ok (x # v) \<longleftrightarrow> 0 \<le> snd x \<and> lengths_ok v" "lengths_ok (v @ w) \<longleftrightarrow> lengths_ok v \<and> lengths_ok w"
  by (auto simp: iov_bytes_def gather_def lengths_ok_def split: prod.splits)

lemma iov_bytes_nonneg: "lengths_ok v \<Longrightarrow> 0 \<le> iov_bytes v"
  by (induction v) auto

lemma length_load_bytes [simp]: "length (load_bytes a l m) = nat l"
  by (simp add: load_bytes_def)

lemma length_gather: "lengths_ok v \<Longrightarrow> length (gather v m) = nat (iov_bytes v)"
  using iov_bytes_nonneg by (induction v) (auto simp: nat_add_distrib)

lemma scatter_outside: "lengths_ok v \<Longrightarrow> \<forall>x \<in> set v. \<not> within x i \<Longrightarrow> scatter v bs m i = m i"
proof (induction v arbitrary: bs m)
  case (Cons x v)
  obtain a l where x: "x = (a, l)" by (cases x)
  have "store_bytes a (take (nat l) bs) m i = m i"
    using Cons.prems by (auto simp: x store_bytes_def within_def)
  then show ?case using Cons.IH Cons.prems by (simp add: x)
qed simp

lemma load_store: "length bs = nat l \<Longrightarrow> load_bytes a l (store_bytes a bs m) = bs"
  by (rule nth_equalityI) (auto simp: load_bytes_def store_bytes_def)

lemma load_cong: "(\<And>i. within (a, l) i \<Longrightarrow> m i = m' i) \<Longrightarrow> load_bytes a l m = load_bytes a l m'"
  by (auto simp: load_bytes_def within_def)

lemma gather_scatter:
  "lengths_ok v \<Longrightarrow> separate v \<Longrightarrow> length bs = nat (iov_bytes v) \<Longrightarrow> gather v (scatter v bs m) = bs"
proof (induction v arbitrary: bs m)
  case (Cons x v)
  obtain a l where x: "x = (a, l)" by (cases x)
  have l: "0 \<le> l" "lengths_ok v" "0 \<le> iov_bytes v" using Cons.prems iov_bytes_nonneg by (simp_all add: x)
  have len: "length bs = nat l + nat (iov_bytes v)" using Cons.prems(3) l by (simp add: x nat_add_distrib)
  let ?m = "store_bytes a (take (nat l) bs) m"
  have "load_bytes a l (scatter v (drop (nat l) bs) ?m) = load_bytes a l ?m"
    using Cons.prems(2) by (intro load_cong scatter_outside [OF l(2)]) (auto simp: x)
  also have "\<dots> = take (nat l) bs" using len by (intro load_store) simp
  finally show ?case using Cons.IH [of "drop (nat l) bs" ?m] Cons.prems len l by (simp add: x)
qed simp

lemma scatter_append:
  "lengths_ok v \<Longrightarrow> scatter (v @ w) bs m = scatter w (drop (nat (iov_bytes v)) bs) (scatter v bs m)"
  using iov_bytes_nonneg by (induction v arbitrary: bs m) (auto simp: nat_add_distrib add.commute)

lemma scatter_take: "lengths_ok v \<Longrightarrow> nat (iov_bytes v) \<le> k \<Longrightarrow> scatter v (take k bs) m = scatter v bs m"
proof (induction v arbitrary: bs m k)
  case (Cons x v)
  obtain a l where x: "x = (a, l)" by (cases x)
  have l: "0 \<le> l" "lengths_ok v" "nat l + nat (iov_bytes v) \<le> k"
    using Cons.prems iov_bytes_nonneg [of v] by (auto simp: x nat_add_distrib)
  then show ?case using Cons.IH [of "k - nat l" "drop (nat l) bs"] by (simp add: x drop_take min_def)
qed simp

lemma overwrite_Nil: "off \<le> length f \<Longrightarrow> overwrite off [] f = f"
  by (simp add: overwrite_def)

lemma overwrite_length: "off \<le> length f \<Longrightarrow> off + length bs \<le> length (overwrite off bs f)"
  by (simp add: overwrite_def)

lemma overwrite_overwrite: "off \<le> length f \<Longrightarrow>
    overwrite (off + length bs) cs (overwrite off bs f) = overwrite off (bs @ cs) f"
  by (simp add: overwrite_def min_def ac_simps)

lemma read_overwritten: "off \<le> length f \<Longrightarrow> take (length bs) (drop off (overwrite off bs f)) = bs"
  by (simp add: overwrite_def min_def)

subsection \<open>The transfer loop\<close>

lemma io_vectors_split: "k \<le> n \<Longrightarrow> io_vectors c i n = io_vectors c i k @ io_vectors c (i + k) (n - k)"
proof -
  assume "k \<le> n"
  then have "[i..<i + n] = [i..<i + k] @ [i + k..<i + k + (n - k)]"
    by (metis le_add1 le_add_diff_inverse2 upt_add_eq_append add.assoc add.commute)
  then show ?thesis by (simp add: io_vectors_def)
qed

lemma readv_eval:
  assumes "os_errors s = []" "lengths_ok v"
  shows "readv d v s = (let bs = take (nat (iov_bytes v)) (drop (file_offsets s d) (files s d)) in
    Some (Ret (Inr (int (length bs))), s\<lparr>data_bytes := scatter v bs (data_bytes s),
      file_offsets := (file_offsets s)(d := file_offsets s d + length bs)\<rparr>))"
  using assms by (auto simp: readv_def os_error_def prog_simps lengths_ok_def Let_def)

lemma writev_eval:
  assumes "os_errors s = []" "lengths_ok v"
  shows "writev d v s = (let bs = gather v (data_bytes s) in
    Some (Ret (Inr (int (length bs))), s\<lparr>files := (files s)(d := overwrite (file_offsets s d) bs (files s d)),
      file_offsets := (file_offsets s)(d := file_offsets s d + length bs)\<rparr>))"
  using assms by (auto simp: writev_def os_error_def prog_simps lengths_ok_def Let_def)

lemma io_loop_write:
  assumes "disk_cmd c = WriteCmd" "os_errors s = []" "lengths_ok (io_vectors c i n)" "file_offsets s d \<le> length (files s d)"
  shows "\<exists>t. io_loop d c i n s = Some (Ret 0, t) \<and> os_errors t = [] \<and> data_bytes t = data_bytes s
    \<and> files t = (files s)(d := overwrite (file_offsets s d) (gather (io_vectors c i n) (data_bytes s)) (files s d))
    \<and> disk_channels t = disk_channels s"
  using assms
proof (induction n arbitrary: i s rule: less_induct)
  case (less n)
  show ?case
  proof (cases "n = 0")
    case True
    then show ?thesis using less.prems overwrite_Nil
      by (subst io_loop.simps) (auto simp: prog_simps io_vectors_def intro!: exI [of _ s])
  next
    case False
    let ?k = "min 32 n"
    let ?v = "io_vectors c i ?k" and ?w = "io_vectors c (i + ?k) (n - ?k)"
    have split: "io_vectors c i n = ?v @ ?w" by (rule io_vectors_split) simp
    have ok: "lengths_ok ?v" "lengths_ok ?w" using less.prems(3) split by simp_all
    let ?bs = "gather ?v (data_bytes s)"
    have len: "int (length ?bs) = iov_bytes ?v" using length_gather [OF ok(1)] iov_bytes_nonneg [OF ok(1)] by simp
    let ?u = "s\<lparr>files := (files s)(d := overwrite (file_offsets s d) ?bs (files s d)),
      file_offsets := (file_offsets s)(d := file_offsets s d + length ?bs)\<rparr>"
    have run: "io_loop d c i n s = io_loop d c (i + ?k) (n - ?k) ?u"
      using False less.prems(1) writev_eval [OF less.prems(2) ok(1), of d] len
      by (subst io_loop.simps) (simp add: prog_simps Let_def)
    have "\<exists>t. io_loop d c (i + ?k) (n - ?k) ?u = Some (Ret 0, t) \<and> os_errors t = [] \<and> data_bytes t = data_bytes ?u
      \<and> files t = (files ?u)(d := overwrite (file_offsets ?u d) (gather ?w (data_bytes ?u)) (files ?u d))
      \<and> disk_channels t = disk_channels ?u"
      using False ok(2) less.prems(1,2) overwrite_length [OF less.prems(4), of ?bs] by (intro less.IH) auto
    then show ?thesis using run split overwrite_overwrite [OF less.prems(4), of ?bs] by auto
  qed
qed

lemma io_loop_read:
  assumes "disk_cmd c = ReadCmd" "os_errors s = []" "lengths_ok (io_vectors c i n)"
    "file_offsets s d + nat (iov_bytes (io_vectors c i n)) \<le> length (files s d)"
  shows "\<exists>t. io_loop d c i n s = Some (Ret 0, t) \<and> files t = files s
    \<and> data_bytes t = scatter (io_vectors c i n) (drop (file_offsets s d) (files s d)) (data_bytes s)"
  using assms
proof (induction n arbitrary: i s rule: less_induct)
  case (less n)
  show ?case
  proof (cases "n = 0")
    case True
    then show ?thesis by (subst io_loop.simps) (auto simp: prog_simps io_vectors_def intro!: exI [of _ s])
  next
    case False
    let ?k = "min 32 n"
    let ?v = "io_vectors c i ?k" and ?w = "io_vectors c (i + ?k) (n - ?k)" and ?f = "drop (file_offsets s d) (files s d)"
    have split: "io_vectors c i n = ?v @ ?w" by (rule io_vectors_split) simp
    have ok: "lengths_ok ?v" "lengths_ok ?w" using less.prems(3) split by simp_all
    note pos = iov_bytes_nonneg [OF ok(1)] iov_bytes_nonneg [OF ok(2)]
    define bs where "bs = take (nat (iov_bytes ?v)) ?f"
    have fit: "file_offsets s d + nat (iov_bytes ?v) + nat (iov_bytes ?w) \<le> length (files s d)"
      using less.prems(4) split pos by (simp add: nat_add_distrib)
    then have len: "length bs = nat (iov_bytes ?v)" by (simp add: bs_def)
    let ?u = "s\<lparr>data_bytes := scatter ?v bs (data_bytes s),
      file_offsets := (file_offsets s)(d := file_offsets s d + nat (iov_bytes ?v))\<rparr>"
    have r: "readv d ?v s = Some (Ret (Inr (iov_bytes ?v)), ?u)"
      using readv_eval [OF less.prems(2) ok(1), of d, folded bs_def, unfolded Let_def len] pos(1) by simp
    have run: "io_loop d c i n s = io_loop d c (i + ?k) (n - ?k) ?u"
      using False less.prems(1) by (subst io_loop.simps) (simp add: prog_simps Let_def r)
    have "\<exists>t. io_loop d c (i + ?k) (n - ?k) ?u = Some (Ret 0, t) \<and> files t = files ?u
      \<and> data_bytes t = scatter ?w (drop (file_offsets ?u d) (files ?u d)) (data_bytes ?u)"
      using False ok(2) less.prems(1,2) fit by (intro less.IH) auto
    moreover have "scatter ?w (drop (file_offsets ?u d) (files ?u d)) (data_bytes ?u) = scatter (?v @ ?w) ?f (data_bytes s)"
      using scatter_append [OF ok(1), of ?w ?f] scatter_take [OF ok(1), of "nat (iov_bytes ?v)" ?f]
      by (simp add: bs_def add.commute)
    ultimately show ?thesis using run split by auto
  qed
qed

subsection \<open>Writing and reading back\<close>

definition buffers :: "EmbDiskQueueElement \<Rightarrow> iovec list" where
  "buffers c = io_vectors c 0 (nat (n_addresses c))"

text \<open>A command within the channel's pages, with buffers of proper length, on a file that reaches
  its first page; no system call fails.\<close>

definition transferable :: "life \<Rightarrow> int \<Rightarrow> DiskChannelState \<Rightarrow> EmbDiskQueueElement \<Rightarrow> bool" where
  "transferable s channel state c \<longleftrightarrow> 0 \<le> page c \<and> - (2 ^ 31) \<le> page c + page_count c \<and> page c + page_count c < 2 ^ 31
     \<and> page c + page_count c \<le> number_of_pages (disk_channels s channel) \<and> lengths_ok (buffers c)
     \<and> os_errors s = [] \<and> nat (DiskPageSize * page c) \<le> length (files s (fd state))"

lemma DoDiskIO_eval:
  assumes "transferable s channel state c"
  shows "DoDiskIO channel state c s = io_loop (fd state) c 0 (nat (n_addresses c))
    (s\<lparr>file_offsets := (file_offsets s)(fd state := nat (DiskPageSize * page c))\<rparr>)"
  using assms by (auto simp: transferable_def DoDiskIO_def lseek_set_def os_call_def os_error_def prog_simps mult.commute)

lemma disk_reads_back_eval:
  assumes "transferable s channel state w" "disk_cmd w = WriteCmd" "transferable s channel state r" "disk_cmd r = ReadCmd"
    and "page r = page w" "iov_bytes (buffers r) = iov_bytes (buffers w)" "separate (buffers r)"
  shows "\<exists>t u. DoDiskIO channel state w s = Some (Ret 0, t) \<and> data_bytes t = data_bytes s
    \<and> DoDiskIO channel state r t = Some (Ret 0, u)
    \<and> gather (buffers r) (data_bytes u) = gather (buffers w) (data_bytes s)
    \<and> (\<forall>i. (\<forall>x \<in> set (buffers r). \<not> within x i) \<longrightarrow> data_bytes u i = data_bytes s i)"
proof -
  let ?d = "fd state" and ?off = "nat (DiskPageSize * page w)"
  let ?bs = "gather (buffers w) (data_bytes s)"
  have w: "lengths_ok (buffers w)" "os_errors s = []" "?off \<le> length (files s ?d)" and r: "lengths_ok (buffers r)"
    using assms(1,3) by (simp_all add: transferable_def)
  have len: "length ?bs = nat (iov_bytes (buffers w))" using length_gather [OF w(1)] .
  obtain t where t: "DoDiskIO channel state w s = Some (Ret 0, t)" "os_errors t = []" "data_bytes t = data_bytes s"
    "files t = (files s)(?d := overwrite ?off ?bs (files s ?d))" "disk_channels t = disk_channels s"
    using io_loop_write [of w "s\<lparr>file_offsets := (file_offsets s)(?d := ?off)\<rparr>" 0 "nat (n_addresses w)" ?d, folded buffers_def]
      DoDiskIO_eval [OF assms(1)] assms(2) w by auto
  have long: "?off + length ?bs \<le> length (files t ?d)" using t(4) overwrite_length [OF w(3), of ?bs] by simp
  have "transferable t channel state r"
    using assms(3,5) t(2,5) long by (simp add: transferable_def)
  note e = DoDiskIO_eval [OF this, unfolded assms(5)]
  let ?f = "drop ?off (files t ?d)"
  obtain u where u: "DoDiskIO channel state r t = Some (Ret 0, u)"
    "data_bytes u = scatter (buffers r) ?f (data_bytes s)"
    using io_loop_read [of r "t\<lparr>file_offsets := (file_offsets t)(?d := ?off)\<rparr>" 0 "nat (n_addresses r)" ?d, folded buffers_def]
      e assms(4,6) t(2,3) r long len by auto
  have f: "take (length ?bs) ?f = ?bs" using read_overwritten [OF w(3), of ?bs] t(4) by simp
  have "scatter (buffers r) ?f (data_bytes s) = scatter (buffers r) ?bs (data_bytes s)"
    using scatter_take [OF r, of "length ?bs" ?f "data_bytes s"] f len assms(6) by simp
  then have "data_bytes u = scatter (buffers r) ?bs (data_bytes s)" using u(2) by simp
  then show ?thesis
    using t(1,3) u(1) gather_scatter [OF r assms(7)] len assms(6) scatter_outside [OF r] by auto
qed

text \<open>Claim C32: a write command that succeeds puts the bytes of its buffers, in order, on
  the disk, and a read command for the same page that asks for as many bytes, into any separate buffers, however both
  are divided into buffers, gives exactly these bytes back and changes nothing else in memory. Both succeed
  when they lie within the channel's pages and no system call fails.\<close>

theorem disk_reads_back:
  assumes "transferable s channel state w" "disk_cmd w = WriteCmd" "transferable s channel state r" "disk_cmd r = ReadCmd"
    and "page r = page w" "iov_bytes (buffers r) = iov_bytes (buffers w)" "separate (buffers r)"
  shows "\<exists>t u. DoDiskIO channel state w s = Some (Ret 0, t) \<and> data_bytes t = data_bytes s
    \<and> DoDiskIO channel state r t = Some (Ret 0, u)
    \<and> gather (buffers r) (data_bytes u) = gather (buffers w) (data_bytes s)
    \<and> (\<forall>i. (\<forall>x \<in> set (buffers r). \<not> within x i) \<longrightarrow> data_bytes u i = data_bytes s i)"
  using assms by (rule disk_reads_back_eval)

text \<open>Two words written from one buffer and read into two.\<close>

definition write_sample :: EmbDiskQueueElement where
  "write_sample = \<lparr>disk_cmd = WriteCmd, page = 0, page_count = 1, n_addresses = 1, disk_status = 0, error_code = 0,
     addresses = (\<lambda>_. \<lparr>address = 500, n_words = 2\<rparr>)\<rparr>"

definition read_sample :: EmbDiskQueueElement where
  "read_sample = \<lparr>disk_cmd = ReadCmd, page = 0, page_count = 1, n_addresses = 2, disk_status = 0, error_code = 0,
     addresses = (\<lambda>i. \<lparr>address = 600 + 8 * int i, n_words = 1\<rparr>)\<rparr>"

lemma sample_buffers: "buffers write_sample = [(HostAddress 500, 8)]"
  "buffers read_sample = [(HostAddress 600, 4), (HostAddress 608, 4)]"
  by (simp_all add: buffers_def io_vectors_def write_sample_def read_sample_def upt_rec numeral_2_eq_2)

lemma sample_transferable: "transferable disk_sample 0 st write_sample" "transferable disk_sample 0 st read_sample"
  by (simp_all add: transferable_def sample_buffers) (simp_all add: disk_sample_def write_sample_def read_sample_def)

lemma sample_fields: "disk_cmd write_sample = WriteCmd" "disk_cmd read_sample = ReadCmd" "page read_sample = page write_sample"
  "iov_bytes (buffers read_sample) = iov_bytes (buffers write_sample)" "separate (buffers read_sample)"
  unfolding sample_buffers by (simp_all add: write_sample_def read_sample_def within_def HostAddress_def)

theorem disk_reads_back_witness:
  "\<exists>t u. DoDiskIO 0 (disk_states disk_sample 16) write_sample disk_sample = Some (Ret 0, t)
     \<and> DoDiskIO 0 (disk_states disk_sample 16) read_sample t = Some (Ret 0, u)
     \<and> gather [(HostAddress 600, 4), (HostAddress 608, 4)] (data_bytes u) = gather [(HostAddress 500, 8)] (data_bytes disk_sample)"
  using disk_reads_back [OF sample_transferable(1) sample_fields(1) sample_transferable(2) sample_fields(2-5)]
  unfolding sample_buffers by blast

subsection \<open>Errors\<close>

definition transfers :: "life \<Rightarrow> int \<Rightarrow> int \<Rightarrow> bool" where
  "transfers s channel p \<longleftrightarrow> disk_cmd (disk_commands s p) = ReadCmd
     \<or> disk_cmd (disk_commands s p) = WriteCmd \<and> \<not> read_only (disk_channels s channel)"

definition resets :: "life \<Rightarrow> int \<Rightarrow> bool" where
  "resets s p \<longleftrightarrow> disk_cmd (disk_commands s p) = ResetCmd \<or> disk_cmd (disk_commands s p) = InitializeCmd"

definition refused :: "u64 \<Rightarrow> int \<Rightarrow> life \<Rightarrow> int list \<Rightarrow> life \<Rightarrow> bool" where
  "refused a channel s ps t \<longleftrightarrow> files t = files s \<and> data_bytes t = data_bytes s \<and> disk_channels t = disk_channels s
     \<and> error_pending (disk_states t a) \<and> (\<forall>q. disk_cmd (disk_commands t q) = disk_cmd (disk_commands s q))
     \<and> (\<forall>q. q \<notin> set ps \<longrightarrow> disk_commands t q = disk_commands s q)
     \<and> (\<forall>q \<in> set ps. disk_status (disk_commands t q) = (if transfers s channel q then AbortStatus else LostStatus))"

lemma one_refused:
  assumes "a \<noteq> 0" "error_pending (disk_states s a)" "\<not> resets s p"
  shows "\<exists>t. execute_disk_command channel a p s = Some (Ret (), t) \<and> refused a channel s [p] t"
  using assms
  by (auto simp: execute_disk_command_def transfer_command_def disk_state_def set_command_def command_lost_def prog_simps
      resets_def refused_def transfers_def)

lemma refused_kinds: "refused a channel s ps t \<Longrightarrow> transfers t channel = transfers s channel"
  "refused a channel s ps t \<Longrightarrow> resets t = resets s"
  by (auto simp: refused_def transfers_def resets_def fun_eq_iff)

lemma all_refused:
  "a \<noteq> 0 \<Longrightarrow> error_pending (disk_states s a) \<Longrightarrow> \<forall>p \<in> set ps. \<not> resets s p \<Longrightarrow>
     \<exists>t. execute_all (execute_disk_command channel a) ps s = Some (Ret (), t) \<and> refused a channel s ps t"
proof (induction ps arbitrary: s)
  case Nil
  then show ?case by (simp add: ret_def refused_def)
next
  case (Cons p ps)
  obtain t where t: "execute_disk_command channel a p s = Some (Ret (), t)" "refused a channel s [p] t"
    using one_refused Cons.prems by fastforce
  obtain u where u: "execute_all (execute_disk_command channel a) ps t = Some (Ret (), u)" "refused a channel t ps u"
    using Cons.IH [of t] Cons.prems t(2) refused_kinds [OF t(2)] by (auto simp: refused_def)
  have "refused a channel s (p # ps) u"
    using t(2) u(2) refused_kinds [OF t(2)] by (cases "p \<in> set ps") (auto simp: refused_def)
  then show ?case using t(1) u(1) by (simp add: prog_simps)
qed


text \<open>A read behind the end of the disk, and a write after it.\<close>

definition error_sample :: life where
  "error_sample = disk_sample\<lparr>disk_states := (\<lambda>_. \<lparr>command_queue_ptr = 5, status_queue_ptr = 6, error_pending = False, fd = 3\<rparr>),
     disk_commands := (\<lambda>_. write_sample)(100 := read_sample\<lparr>page := 20\<rparr>)\<rparr>"


end
