(* ===== verification/ConsoleFacts.thy ===== *)
theory ConsoleFacts
  imports Console LifeSamples
begin

text \<open>
  The console: the connection dialogue plays back the whole description of the display, in the order of
  the X protocol; writing copes with partial writes.
\<close>

subsection \<open>The dialogue\<close>

definition depth_items :: "XDisplay \<Rightarrow> nat \<Rightarrow> nat \<Rightarrow> x_item list" where
  "depth_items d i j = ItemRootDepth i j # map (ItemRootDepthVisual i j) [0..<screens d ! i ! j]"

definition root_items :: "XDisplay \<Rightarrow> nat \<Rightarrow> x_item list" where
  "root_items d i = ItemRoot i # concat (map (depth_items d i) [0..<length (screens d ! i)])"

text \<open>The reply to a connection request, as the X protocol orders it.\<close>

definition connection_items :: "XDisplay \<Rightarrow> x_item list" where
  "connection_items d = [ItemPrefix, ItemHeader, ItemVendor] @ map ItemPixmapFormat [0..<nformats d]
     @ concat (map (root_items d) [0..<length (screens d)])"

text \<open>The last depth of every screen but the last has a visual, if it has depths.\<close>

definition depths_end_visible :: "XDisplay \<Rightarrow> bool" where
  "depths_end_visible d \<longleftrightarrow> (\<forall>i. Suc i < length (screens d) \<longrightarrow> screens d ! i = [] \<or> 0 < last (screens d ! i))"

fun runs :: "XDisplay \<Rightarrow> EmbConsoleChannel \<Rightarrow> x_item list \<Rightarrow> EmbConsoleChannel \<Rightarrow> bool" where
  "runs d c [] c' \<longleftrightarrow> c' = c"
| "runs d c (item # items) c' \<longleftrightarrow> current_item d c = Some item \<and> (\<exists>e. advance d c = Some e \<and> runs d e items c')"

lemma runs_append: "runs d c xs e \<Longrightarrow> runs d e ys c' \<Longrightarrow> runs d c (xs @ ys) c'"
  by (induction xs arbitrary: c) auto

lemma runs_step: "current_item d c = Some item \<Longrightarrow> advance d c = Some e \<Longrightarrow> \<exists>c'. runs d e items c' \<and> P c' \<Longrightarrow>
    \<exists>c'. runs d c (item # items) c' \<and> P c'"
  by auto

lemma runs_Cons: "current_item d c = Some item \<Longrightarrow> advance d c = Some e \<Longrightarrow> runs d e items c' \<Longrightarrow> runs d c (item # items) c'"
  by auto

definition root_or_end :: "XDisplay \<Rightarrow> nat \<Rightarrow> EmbConsoleChannel \<Rightarrow> bool" where
  "root_or_end d i c \<longleftrightarrow> (if i < length (screens d) then openingState c = OpeningStateRoot \<and> nextRoot c = i
     else openingState c = OpeningStateNone)"

definition depth_or_next :: "XDisplay \<Rightarrow> nat \<Rightarrow> nat \<Rightarrow> EmbConsoleChannel \<Rightarrow> bool" where
  "depth_or_next d i j c \<longleftrightarrow> (if j < length (screens d ! i)
     then openingState c = OpeningStateRootDepth \<and> nextRoot c = i \<and> nextRootDepth c = j
     else root_or_end d (Suc i) c)"

lemma visuals_run:
  assumes "i < length (screens d)" "j < length (screens d ! i)"
  shows "openingState c = OpeningStateRootDepthVisual \<Longrightarrow> nextRoot c = i \<Longrightarrow> nextRootDepth c = j \<Longrightarrow>
    nextRootDepthVisual c = k \<Longrightarrow> k < screens d ! i ! j \<Longrightarrow>
    \<exists>c'. runs d c (map (ItemRootDepthVisual i j) [k..<screens d ! i ! j]) c' \<and> depth_or_next d i (Suc j) c'"
proof (induction "screens d ! i ! j - k" arbitrary: c k)
  case (Suc n)
  let ?v = "screens d ! i ! j"
  have item: "current_item d c = Some (ItemRootDepthVisual i j k)"
    using Suc.prems assms by (simp add: current_item_def current_visuals_def current_depths_def)
  have list: "[k..<?v] = k # [Suc k..<?v]" using Suc.prems(5) by (rule upt_conv_Cons)
  obtain e where e: "advance d c = Some e" using Suc.prems assms
    by (simp add: advance_def current_visuals_def current_depths_def Let_def)
  show ?case
  proof (cases "Suc k < ?v")
    case True
    then have "e = c\<lparr>nextRootDepthVisual := Suc k\<rparr>"
      using e Suc.prems assms by (simp add: advance_def current_visuals_def current_depths_def Let_def)
    moreover have n: "n = ?v - Suc k" using Suc.hyps(2) by simp
    ultimately have "\<exists>c'. runs d e (map (ItemRootDepthVisual i j) [Suc k..<?v]) c' \<and> depth_or_next d i (Suc j) c'"
      using Suc.hyps(1) [OF n, of e] Suc.prems(1-4) True by auto
    from runs_step [OF item e this] show ?thesis by (simp add: list)
  next
    case False
    then have "depth_or_next d i (Suc j) e"
      using e Suc.prems assms by (auto simp: advance_def current_visuals_def current_depths_def Let_def
          depth_or_next_def root_or_end_def next_root_def not_less_eq split: if_splits)
    then have "\<exists>c'. runs d e [] c' \<and> depth_or_next d i (Suc j) c'" by simp
    from runs_step [OF item e this] show ?thesis using False by (simp add: list)
  qed
qed simp

lemma depth_run:
  assumes "depths_end_visible d" "i < length (screens d)" "j < length (screens d ! i)" "depth_or_next d i j c"
  shows "\<exists>c'. runs d c (depth_items d i j) c' \<and> depth_or_next d i (Suc j) c'"
proof -
  have c: "openingState c = OpeningStateRootDepth" "nextRoot c = i" "nextRootDepth c = j"
    using assms(3,4) by (simp_all add: depth_or_next_def)
  have item: "current_item d c = Some (ItemRootDepth i j)"
    using c assms(2,3) by (simp add: current_item_def current_visuals_def current_depths_def)
  obtain e where e: "advance d c = Some e" using c assms(2,3)
    by (simp add: advance_def current_visuals_def current_depths_def Let_def)
  show ?thesis
  proof (cases "screens d ! i ! j = 0")
    case True
    have last: "\<not> Suc i < length (screens d)" if "Suc j = length (screens d ! i)"
    proof -
      have "screens d ! i \<noteq> []" "j = length (screens d ! i) - 1" using that by auto
      then have "last (screens d ! i) = 0" using True by (simp add: last_conv_nth)
      then show ?thesis using assms(1) \<open>screens d ! i \<noteq> []\<close> by (auto simp: depths_end_visible_def)
    qed
    have "depth_or_next d i (Suc j) e"
      using e c assms(2,3) True last by (auto simp: advance_def current_visuals_def current_depths_def Let_def
          depth_or_next_def root_or_end_def next_root_def split: if_splits)
    then have "\<exists>c'. runs d e [] c' \<and> depth_or_next d i (Suc j) c'" by simp
    from runs_step [OF item e this] show ?thesis using True by (simp add: depth_items_def)
  next
    case False
    then have "e = c\<lparr>openingState := OpeningStateRootDepthVisual, nextRootDepthVisual := 0\<rparr>"
      using e c assms(2,3) by (simp add: advance_def current_visuals_def current_depths_def)
    then obtain c' where "runs d e (map (ItemRootDepthVisual i j) [0..<screens d ! i ! j]) c'" "depth_or_next d i (Suc j) c'"
      using visuals_run [OF assms(2,3), of e 0] c False by auto
    then show ?thesis using runs_Cons [OF item e] unfolding depth_items_def by blast
  qed
qed

lemma depths_run:
  assumes "depths_end_visible d" "i < length (screens d)"
  shows "j \<le> length (screens d ! i) \<Longrightarrow> depth_or_next d i j c \<Longrightarrow>
    \<exists>c'. runs d c (concat (map (depth_items d i) [j..<length (screens d ! i)])) c' \<and> root_or_end d (Suc i) c'"
proof (induction "length (screens d ! i) - j" arbitrary: j c)
  case 0
  then show ?case by (auto simp: depth_or_next_def)
next
  case (Suc n)
  then have j: "j < length (screens d ! i)" by simp
  obtain e where e: "runs d c (depth_items d i j) e" "depth_or_next d i (Suc j) e"
    using depth_run [OF assms j Suc.prems(2)] by blast
  have n: "n = length (screens d ! i) - Suc j" using Suc.hyps(2) by simp
  obtain c' where "runs d e (concat (map (depth_items d i) [Suc j..<length (screens d ! i)])) c'" "root_or_end d (Suc i) c'"
    using Suc.hyps(1) [OF n _ e(2)] j by auto
  then show ?case using runs_append [OF e(1)] by (auto simp: upt_conv_Cons [OF j])
qed

lemma root_run:
  assumes "depths_end_visible d" "i < length (screens d)" "root_or_end d i c"
  shows "\<exists>c'. runs d c (root_items d i) c' \<and> root_or_end d (Suc i) c'"
proof -
  have c: "openingState c = OpeningStateRoot" "nextRoot c = i" using assms(2,3) by (simp_all add: root_or_end_def)
  have item: "current_item d c = Some (ItemRoot i)" using c assms(2) by (simp add: current_item_def current_depths_def)
  obtain e where e: "advance d c = Some e" using c assms(2) by (simp add: advance_def current_depths_def)
  have "depth_or_next d i 0 e"
    using e c assms(2) by (auto simp: advance_def current_depths_def depth_or_next_def root_or_end_def next_root_def Let_def
        split: if_splits)
  then obtain c' where "runs d e (concat (map (depth_items d i) [0..<length (screens d ! i)])) c'" "root_or_end d (Suc i) c'"
    using depths_run [OF assms(1,2)] by blast
  then show ?thesis using runs_Cons [OF item e] unfolding root_items_def by blast
qed

lemma roots_run:
  assumes "depths_end_visible d"
  shows "i \<le> length (screens d) \<Longrightarrow> root_or_end d i c \<Longrightarrow>
    \<exists>c'. runs d c (concat (map (root_items d) [i..<length (screens d)])) c' \<and> openingState c' = OpeningStateNone"
proof (induction "length (screens d) - i" arbitrary: i c)
  case 0
  then show ?case by (auto simp: root_or_end_def)
next
  case (Suc n)
  then have i: "i < length (screens d)" by simp
  obtain e where e: "runs d c (root_items d i) e" "root_or_end d (Suc i) e"
    using root_run [OF assms i Suc.prems(2)] by blast
  have n: "n = length (screens d) - Suc i" using Suc.hyps(2) by simp
  obtain c' where "runs d e (concat (map (root_items d) [Suc i..<length (screens d)])) c'" "openingState c' = OpeningStateNone"
    using Suc.hyps(1) [OF n _ e(2)] i by auto
  then show ?case using runs_append [OF e(1)] by (auto simp: upt_conv_Cons [OF i])
qed

lemma first_root_start: "root_or_end d 0 (first_root d c)"
  by (simp add: first_root_def root_or_end_def)

lemma formats_run:
  assumes "openingState c = OpeningStatePixmapFormat" "nextPixmapFormat c = k" "k < nformats d"
  shows "\<exists>c'. runs d c (map ItemPixmapFormat [k..<nformats d]) c' \<and> root_or_end d 0 c'"
  using assms
proof (induction "nformats d - k" arbitrary: c k)
  case (Suc n)
  have item: "current_item d c = Some (ItemPixmapFormat k)" using Suc.prems by (simp add: current_item_def)
  let ?e = "c\<lparr>nextPixmapFormat := Suc k\<rparr>"
  show ?case
  proof (cases "Suc k < nformats d")
    case True
    then have e: "advance d c = Some ?e" using Suc.prems by (simp add: advance_def Let_def)
    have n: "n = nformats d - Suc k" using Suc.hyps(2) by simp
    have "\<exists>c'. runs d ?e (map ItemPixmapFormat [Suc k..<nformats d]) c' \<and> root_or_end d 0 c'"
      using Suc.hyps(1) [OF n, of ?e] Suc.prems True by auto
    from runs_step [OF item e this] show ?thesis using Suc.prems by (simp add: upt_conv_Cons)
  next
    case False
    then have e: "advance d c = Some (first_root d ?e)" using Suc.prems by (simp add: advance_def Let_def)
    have "\<exists>c'. runs d (first_root d ?e) [] c' \<and> root_or_end d 0 c'" using first_root_start by simp
    from runs_step [OF item e this] show ?thesis using False Suc.prems by (simp add: upt_conv_Cons)
  qed
qed simp

lemma dialogue_runs:
  assumes "depths_end_visible d" "openingState c = OpeningStatePrefix"
  shows "\<exists>c'. runs d c (connection_items d) c' \<and> openingState c' = OpeningStateNone"
proof -
  let ?v = "c\<lparr>openingState := OpeningStateVendor\<rparr>"
  obtain e where e: "advance d ?v = Some e" by (simp add: advance_def)
  have "\<exists>f. runs d e (map ItemPixmapFormat [0..<nformats d]) f \<and> root_or_end d 0 f"
    using e formats_run [of e 0 d] first_root_start [of d] by (auto simp: advance_def split: if_splits)
  then obtain f where f: "runs d e (map ItemPixmapFormat [0..<nformats d]) f" "root_or_end d 0 f" by blast
  obtain c' where c': "runs d f (concat (map (root_items d) [0..<length (screens d)])) c'" "openingState c' = OpeningStateNone"
    using roots_run [OF assms(1) _ f(2)] by auto
  have "runs d c [ItemPrefix, ItemHeader, ItemVendor] e"
    using assms(2) e by (simp add: current_item_def advance_def)
  from runs_append [OF this runs_append [OF f(1) c'(1)]] show ?thesis
    using c'(2) unfolding connection_items_def by blast
qed

text \<open>\<open>plays p b s items t\<close>: requests to read on channel \<open>p\<close> with the buffer \<open>b\<close>, one for each item, succeed and put
  the items' bytes into memory, one after the other, leading from \<open>s\<close> to \<open>t\<close>.\<close>

fun plays :: "int \<Rightarrow> int \<Rightarrow> life \<Rightarrow> x_item list \<Rightarrow> life \<Rightarrow> bool" where
  "plays p b s [] t \<longleftrightarrow> t = s"
| "plays p b s (item # items) t \<longleftrightarrow> (\<exists>d u. display (console_channels s p) = Some d
     \<and> ProcessConnectionRequest p b s = Some (Ret ESUCCESS, u)
     \<and> bytes_at (transfer_start (console_buffers s b)) (int (length (item_bytes d item))) u = item_bytes d item
     \<and> plays p b u items t)"

lemma advance_display: "advance d c = Some e \<Longrightarrow> display e = display c"
  by (auto simp: advance_def first_root_def next_root_def Let_def split: OpeningState.splits option.splits if_splits)

lemma plays_runs:
  "runs d (console_channels s p) items c' \<Longrightarrow> display (console_channels s p) = Some d \<Longrightarrow>
     \<exists>t. plays p b s items t \<and> console_channels t p = c'"
proof (induction items arbitrary: s)
  case (Cons item items)
  let ?c = "console_channels s p" and ?a = "transfer_start (console_buffers s b)"
  obtain e where e: "current_item d ?c = Some item" "advance d ?c = Some e" "runs d e items c'"
    using Cons.prems(1) by auto
  have n: "openingState ?c \<noteq> OpeningStateNone" using e(1) by (auto simp: current_item_def)
  let ?u = "s\<lparr>data_bytes := (\<lambda>i. if ?a \<le> i \<and> i < ?a + int (length (item_bytes d item))
      then item_bytes d item ! nat (i - ?a) else data_bytes s i), console_channels := (console_channels s)(p := e)\<rparr>"
  have run: "ProcessConnectionRequest p b s = Some (Ret ESUCCESS, ?u)"
    using n e Cons.prems(2) by (simp add: ProcessConnectionRequest_def AdvanceOpeningState_def console_def console_buffer_def
        put_bytes_def update_console_def prog_simps)
  have "bytes_at ?a (int (length (item_bytes d item))) ?u = item_bytes d item"
    by (rule nth_equalityI) (simp_all add: bytes_at_def)
  moreover obtain t where "plays p b ?u items t" "console_channels t p = c'"
    using Cons.IH [of ?u] e(3) advance_display [OF e(2)] Cons.prems(2) by auto
  ultimately show ?case using run Cons.prems(2) by auto
qed simp

text \<open>Claim C35: after the display has been opened, one read request after the other gets the whole
  reply to a connection request: prefix, header, vendor, the pixmap formats, and for each screen its root
  followed, for each depth, by the depth and its visuals. The channel then
  reads from the server. This holds if the last depth of each screen but the last has a visual.\<close>

theorem connection_dialogue:
  assumes "display (console_channels s p) = Some d" "openingState (console_channels s p) = OpeningStatePrefix"
    and "depths_end_visible d"
  shows "\<exists>t. plays p b s (connection_items d) t \<and> openingState (console_channels t p) = OpeningStateNone"
  using dialogue_runs [OF assms(3,2)] plays_runs [OF _ assms(1)] by blast

text \<open>Two screens, the first with two depths.\<close>

definition display_sample :: XDisplay where
  "display_sample = \<lparr>nformats = 1, screens = [[0, 2], [1]], item_bytes = (\<lambda>_. [1, 2, 3])\<rparr>"

definition console_sample :: "XDisplay \<Rightarrow> life" where
  "console_sample d = blank_life\<lparr>console_channels := (\<lambda>_. (console_channels blank_life 0)
     \<lparr>display := Some d, openingState := OpeningStatePrefix\<rparr>)\<rparr>"

theorem connection_dialogue_witness:
  "\<exists>t. plays 7 8 (console_sample display_sample) [ItemPrefix, ItemHeader, ItemVendor, ItemPixmapFormat 0, ItemRoot 0,
     ItemRootDepth 0 0, ItemRootDepth 0 1, ItemRootDepthVisual 0 1 0, ItemRootDepthVisual 0 1 1,
     ItemRoot 1, ItemRootDepth 1 0, ItemRootDepthVisual 1 0 0] t"
proof -
  have ok: "depths_end_visible display_sample"
    by (auto simp: depths_end_visible_def display_sample_def less_Suc_eq)
  have items: "connection_items display_sample = [ItemPrefix, ItemHeader, ItemVendor, ItemPixmapFormat 0, ItemRoot 0,
     ItemRootDepth 0 0, ItemRootDepth 0 1, ItemRootDepthVisual 0 1 0, ItemRootDepthVisual 0 1 1,
     ItemRoot 1, ItemRootDepth 1 0, ItemRootDepthVisual 1 0 0]"
    by (simp add: connection_items_def root_items_def depth_items_def display_sample_def upt_rec numeral_2_eq_2)
  show ?thesis
    using connection_dialogue [of "console_sample display_sample" 7 display_sample 8] ok
    by (auto simp: console_sample_def items)
qed

text \<open>Two ways in which the dialogue goes wrong: a depth without visuals at the end of a screen that
  is not the last leads to the depths of the next screen without its root, at an index that need not exist; and closing the display
  in the middle of the dialogue leaves the opening state, so that the next request dereferences \<open>NULL\<close>.\<close>

lemma opening_state_lost:
  assumes "screens d = [[0], [1]]" "nformats d = 0"
  shows "\<exists>c'. runs d ((console_channels blank_life 0)\<lparr>openingState := OpeningStatePrefix\<rparr>)
      [ItemPrefix, ItemHeader, ItemVendor, ItemRoot 0, ItemRootDepth 0 0] c'
    \<and> openingState c' = OpeningStateRootDepth \<and> current_item d c' = None"
  using assms by (simp add: current_item_def advance_def current_depths_def current_visuals_def first_root_def next_root_def)

lemma request_after_close:
  assumes "openingState (console_channels s p) \<noteq> OpeningStateNone"
  shows "\<exists>t. CloseDisplay p s = Some (Ret (), t) \<and> ProcessConnectionRequest p b t = Some (Undef, t)"
  using assms by (simp add: CloseDisplay_def DisableRunLights_def update_console_def ProcessConnectionRequest_def
      console_def console_buffer_def prog_simps)

subsection \<open>Writing\<close>

text \<open>The bytes that the calls behind some polls have accepted; polls after which the loop goes on with
  \<open>n\<close> bytes to go; and the result with which a poll ends it.\<close>

fun accepted :: "poll_result list \<Rightarrow> int" where
  "accepted [] = 0"
| "accepted (PollReady k e # ps) = max 0 k + accepted ps"
| "accepted (_ # ps) = accepted ps"

fun continues :: "int \<Rightarrow> poll_result list \<Rightarrow> bool" where
  "continues n [] = True"
| "continues n (PollTimeout # ps) = continues n ps"
| "continues n (PollReady k e # ps) =
     (if k < 0 then e = EWOULDBLOCK \<and> continues n ps else k < n \<and> continues (n - k) ps)"
| "continues n (_ # ps) = False"

fun final_result :: "int \<Rightarrow> poll_result \<Rightarrow> int option" where
  "final_result n PollTimeout = None"
| "final_result n (PollReady k e) = (if k = n then Some ESUCCESS
     else if k < 0 \<and> e \<noteq> EWOULDBLOCK \<and> e \<noteq> ESUCCESS then Some e else None)"
| "final_result n PollInvalid = Some EBADF"
| "final_result n PollHungUp = Some ENXIO"
| "final_result n PollError = Some EIO"

lemma bytes_at_append: "0 \<le> k \<Longrightarrow> 0 \<le> m \<Longrightarrow> bytes_at a k s @ bytes_at (a + k) m s = bytes_at a (k + m) s"
proof -
  assume k: "0 \<le> k" "0 \<le> m"
  have u: "[0..<nat (k + m)] = [0..<nat k] @ map (\<lambda>i. i + nat k) [0..<nat m]"
    using k upt_add_eq_append [of 0 "nat k" "nat m"] map_add_upt [of "nat k" "nat m"]
    by (simp add: nat_add_distrib add.commute [of "nat m"])
  show ?thesis using k(1) unfolding bytes_at_def u by (simp add: algebra_simps)
qed

lemma bytes_at_cong: "data_bytes s = data_bytes t \<Longrightarrow> bytes_at a k s = bytes_at a k t"
  by (simp add: bytes_at_def)

lemma bytes_at_nonpos: "k \<le> 0 \<Longrightarrow> bytes_at a k s = []"
  by (simp add: bytes_at_def)

lemma accepted_nonneg: "0 \<le> accepted ps"
  by (induction ps rule: accepted.induct) auto

lemma accepted_append: "accepted (ps @ qs) = accepted ps + accepted qs"
  by (induction ps rule: accepted.induct) auto

lemma write_last:
  assumes "poll_results s = r # rs" "final_result n r = Some result" "0 \<le> n"
  shows "write_loop a n s = Some (Ret result, s\<lparr>poll_results := rs, x_written := x_written s @ bytes_at a (accepted [r]) s\<rparr>)"
  using assms
  by (cases r; subst write_loop.simps)
    (auto simp: next_poll_def prog_simps write_x_def bytes_at_nonpos bytes_at_cong max_def bytes_at_def split: if_splits)

lemma write_loop_eval:
  "poll_results s = ps @ r # rs \<Longrightarrow> continues n ps \<Longrightarrow> final_result (n - accepted ps) r = Some result \<Longrightarrow> 0 \<le> n \<Longrightarrow>
     write_loop a n s = Some (Ret result, s\<lparr>poll_results := rs,
       x_written := x_written s @ bytes_at a (accepted (ps @ [r])) s\<rparr>)"
proof (induction ps arbitrary: a n s)
  case Nil
  then show ?case using write_last by simp
next
  case (Cons q ps)
  let ?u = "s\<lparr>poll_results := ps @ r # rs\<rparr>"
  show ?case
  proof (cases q)
    case PollTimeout
    have "write_loop a n s = write_loop a n ?u"
      using Cons.prems(1) PollTimeout by (subst write_loop.simps) (simp add: next_poll_def prog_simps)
    then show ?thesis using Cons.IH [of ?u n a] Cons.prems PollTimeout by (simp add: bytes_at_def)
  next
    case (PollReady k e)
    show ?thesis
    proof (cases "k < 0")
      case True
      have "write_loop a n s = write_loop a n ?u"
        using Cons.prems True PollReady by (subst write_loop.simps) (simp add: next_poll_def prog_simps write_x_def bytes_at_def)
      then show ?thesis using Cons.IH [of ?u n a] Cons.prems True PollReady by (simp add: bytes_at_def)
    next
      case False
      let ?v = "s\<lparr>poll_results := ps @ r # rs, x_written := x_written s @ bytes_at a k s\<rparr>"
      have "write_loop a n s = write_loop (a + k) (n - k) ?v"
        using Cons.prems False PollReady by (subst write_loop.simps) (simp add: next_poll_def prog_simps write_x_def bytes_at_def)
      moreover have "bytes_at a k s @ bytes_at (a + k) (accepted (ps @ [r])) ?v = bytes_at a (k + accepted (ps @ [r])) s"
        using False accepted_nonneg [of "ps @ [r]"] bytes_at_append [of k "accepted (ps @ [r])" a s] by (simp add: bytes_at_def)
      ultimately show ?thesis using Cons.IH [of ?v "n - k" "a + k"] Cons.prems False PollReady
        by (simp add: diff_diff_eq)
    qed
  qed (use Cons.prems in auto)
qed

lemma final_success: "continues n ps \<Longrightarrow> final_result (n - accepted ps) r = Some ESUCCESS \<Longrightarrow> 0 \<le> n \<Longrightarrow>
    accepted (ps @ [r]) = n"
proof -
  assume c: "continues n ps" "final_result (n - accepted ps) r = Some ESUCCESS" "0 \<le> n"
  have "accepted ps \<le> n" using c(1,3) by (induction n ps rule: continues.induct) (auto split: if_splits)
  then show ?thesis using c(2) by (cases r) (auto simp: accepted_append split: if_splits)
qed

text \<open>Claim C34: however the connection splits a write (polls that time out, calls that accept
  a part of the bytes or would block), until a poll ends it, the bytes that the calls accepted
  are the first bytes of the buffer, each sent once and in order; the result is the success code
  only if that is all of them, and otherwise the error.\<close>

theorem ConsoleWrite_exact:
  fixes s :: life and b :: int
  defines "n \<equiv> data_nBytes (console_buffers s b)" and "a \<equiv> transfer_start (console_buffers s b)"
  assumes "poll_results s = ps @ r # rs" "0 \<le> n" "continues n ps" "final_result (n - accepted ps) r = Some result"
  shows "ConsoleWrite b s = Some (Ret result, s\<lparr>poll_results := rs,
      x_written := x_written s @ bytes_at a (accepted (ps @ [r])) s\<rparr>)
    \<and> (result = ESUCCESS \<longrightarrow> accepted (ps @ [r]) = n)"
  using write_loop_eval [OF assms(3,5,6,4)] final_success [OF assms(5) _ assms(4)] assms(6)
  by (auto simp: ConsoleWrite_def console_buffer_def prog_simps n_def a_def)

text \<open>Five bytes in two parts.\<close>

definition write_sample :: life where
  "write_sample = blank_life\<lparr>console_buffers := (\<lambda>_. (console_buffers blank_life 0)\<lparr>data_address := 0x1000, data_nBytes := 5\<rparr>),
     data_bytes := word_of_int, poll_results := [PollReady 2 0, PollTimeout, PollReady (- 1) 11, PollReady 3 0]\<rparr>"

theorem ConsoleWrite_exact_witness:
  "\<exists>t. ConsoleWrite 0 write_sample = Some (Ret ESUCCESS, t) \<and> x_written t = bytes_at 0x4000 5 write_sample"
  using ConsoleWrite_exact [of write_sample "[PollReady 2 0, PollTimeout, PollReady (- 1) 11]" "PollReady 3 0" "[]" 0 ESUCCESS]
  by (simp add: write_sample_def transfer_start_def MapVirtualAddressData_def blank_life_def)

end
