(* ===== verification/ChannelFacts.thy ===== *)
theory ChannelFacts
  imports MessageChannels DriverFacts LifeSamples DiskFacts
begin

text \<open>
  The list of active message channels: polling walks it and raises the signals of channels
  with an impulse; threading appends a channel, unthreading takes one out.
\<close>

unbundle bit_operations_syntax

subsection \<open>The list\<close>

definition sub :: "life \<Rightarrow> int \<Rightarrow> u64" where
  "sub s p = SubtypeData (message_channels s p)"

definition nxt :: "life \<Rightarrow> int \<Rightarrow> int option" where
  "nxt s p = nextActiveChannel (subtypes s (sub s p))"

fun chain :: "life \<Rightarrow> int option \<Rightarrow> int list \<Rightarrow> bool" where
  "chain s c [] \<longleftrightarrow> c = None"
| "chain s c (p # ps) \<longleftrightarrow> c = Some p \<and> sub s p \<noteq> 0 \<and> chain s (nxt s p) ps"

definition set_next :: "u64 \<Rightarrow> int option \<Rightarrow> life \<Rightarrow> life" where
  "set_next a n s = s\<lparr>subtypes := (subtypes s)(a := (subtypes s a)\<lparr>nextActiveChannel := n\<rparr>)\<rparr>"

lemma set_next_simps [simp]: "sub (set_next a n s) = sub s" "command_channel (set_next a n s) = command_channel s"
  "message_channels (set_next a n s) = message_channels s"
  "nxt (set_next a n s) p = (if sub s p = a then n else nxt s p)"
  by (auto simp: set_next_def sub_def nxt_def fun_eq_iff)

lemma channel_steps [prog_simps]: "subtype_of p s = Some (Ret (sub s p), s)"
  "a \<noteq> 0 \<Longrightarrow> next_active a s = Some (Ret (nextActiveChannel (subtypes s a)), s)"
  "a \<noteq> 0 \<Longrightarrow> update_subtype a (nextActiveChannel_update (\<lambda>_. n)) s = Some (Ret (), set_next a n s)"
  by (simp_all add: subtype_of_def next_active_def update_subtype_def set_next_def sub_def prog_simps)

lemma chain_cong: "(\<And>p. p \<in> set xs \<Longrightarrow> sub t p = sub s p \<and> nxt t p = nxt s p) \<Longrightarrow> chain t c xs = chain s c xs"
  by (induction xs arbitrary: c) auto

lemma chain_prefix: "chain s c (xs @ ys) \<Longrightarrow> p \<in> set xs \<Longrightarrow> sub s p \<noteq> 0"
  by (induction xs arbitrary: c) auto

subsection \<open>Threading and unthreading\<close>

lemma thread_from_eval:
  "chain s c xs \<Longrightarrow> xs \<noteq> [] \<Longrightarrow> thread_from ch c s = Some (Ret (), set_next (sub s (last xs)) (Some ch) s)"
proof (induction xs arbitrary: c)
  case (Cons p ps)
  have p: "c = Some p" "sub s p \<noteq> 0" "nextActiveChannel (subtypes s (sub s p)) = nxt s p"
    using Cons.prems(1) by (simp_all add: nxt_def)
  show ?case
  proof (cases ps)
    case Nil
    then have "nxt s p = None" using Cons.prems(1) by simp
    then show ?thesis using p Nil by (subst thread_from.simps) (simp add: prog_simps)
  next
    case (Cons q qs)
    then have "nxt s p = Some q" using Cons.prems(1) by simp
    then have "thread_from ch c s = thread_from ch (nxt s p) s"
      using p by (subst thread_from.simps) (simp add: prog_simps)
    then show ?thesis using Cons.IH [of "nxt s p"] Cons.prems(1) Cons by simp
  qed
qed simp

lemma chain_extended:
  "chain s c xs \<Longrightarrow> xs \<noteq> [] \<Longrightarrow> distinct (map (sub s) xs) \<Longrightarrow> sub s ch \<notin> sub s ` set xs \<Longrightarrow> sub s ch \<noteq> 0 \<Longrightarrow>
     nxt s ch = None \<Longrightarrow> chain (set_next (sub s (last xs)) (Some ch) s) c (xs @ [ch])"
proof (induction xs arbitrary: c)
  case (Cons p ps)
  show ?case
  proof (cases ps)
    case Nil
    then show ?thesis using Cons.prems by auto
  next
    case (Cons q qs)
    have "sub s p \<noteq> sub s (last ps)" using Cons.prems(3) Cons by auto
    then show ?thesis using Cons.IH [of "nxt s p"] Cons.prems Cons by auto
  qed
qed simp

lemma ThreadActiveMessageChannel_eval:
  assumes "chain s (Some (command_channel s)) xs" "xs \<noteq> []" "distinct (map (sub s) (xs @ [ch]))" "sub s ch \<noteq> 0"
  shows "\<exists>t. ThreadActiveMessageChannel ch s = Some (Ret (), t) \<and> sub t = sub s \<and> command_channel t = command_channel s
    \<and> chain t (Some (command_channel s)) (xs @ [ch])"
proof -
  let ?u = "set_next (sub s ch) None s"
  have keep: "sub s p \<noteq> sub s ch" if "p \<in> set xs" for p using assms(3) that by simp (metis imageI)
  have u: "chain ?u (Some (command_channel s)) xs"
    using assms(1) chain_cong [of xs ?u s "Some (command_channel s)"] keep by auto
  have "ThreadActiveMessageChannel ch s = Some (Ret (), set_next (sub s (last xs)) (Some ch) ?u)"
    using assms(4) thread_from_eval [OF u assms(2)] by (simp add: ThreadActiveMessageChannel_def prog_simps)
  moreover have "chain (set_next (sub s (last xs)) (Some ch) ?u) (Some (command_channel s)) (xs @ [ch])"
    using chain_extended [OF u assms(2), of ch] assms(3,4) by auto
  ultimately show ?thesis by auto
qed

lemma unthread_from_eval:
  "chain s c (xs @ ch # ys) \<Longrightarrow> xs \<noteq> [] \<Longrightarrow> ch \<notin> set (tl xs) \<Longrightarrow>
     unthread_from ch c s = Some (Ret (), set_next (sub s ch) None (set_next (sub s (last xs)) (nxt s ch) s))"
proof (induction xs arbitrary: c)
  case (Cons p ps)
  have p: "c = Some p" "sub s p \<noteq> 0" "nextActiveChannel (subtypes s (sub s p)) = nxt s p"
    "nextActiveChannel (subtypes s (sub s ch)) = nxt s ch"
    using Cons.prems(1) by (simp_all add: nxt_def)
  have ch: "sub s ch \<noteq> 0" using chain_prefix [of s c "p # ps @ [ch]" ys ch] Cons.prems(1) by simp
  show ?case
  proof (cases ps)
    case Nil
    then have "nxt s p = Some ch" using Cons.prems(1) by simp
    then show ?thesis using p ch Nil by (subst unthread_from.simps) (simp add: prog_simps)
  next
    case (Cons q qs)
    then have n: "nxt s p = Some q" "q \<noteq> ch" using Cons.prems(1,3) by auto
    then have "unthread_from ch c s = unthread_from ch (nxt s p) s"
      using p by (subst unthread_from.simps) (simp add: prog_simps)
    then show ?thesis using Cons.IH [of "nxt s p"] Cons.prems(1,3) Cons by simp
  qed
qed simp

lemma chain_shortened:
  "chain s c (xs @ ch # ys) \<Longrightarrow> xs \<noteq> [] \<Longrightarrow> distinct (map (sub s) (xs @ ch # ys)) \<Longrightarrow>
     chain (set_next (sub s ch) None (set_next (sub s (last xs)) (nxt s ch) s)) c (xs @ ys)"
proof (induction xs arbitrary: c)
  case (Cons p ps)
  show ?case
  proof (cases ps)
    case Nil
    have ys: "chain s (nxt s ch) ys" using Cons.prems(1) Nil by simp
    have "sub s y \<noteq> sub s ch \<and> sub s y \<noteq> sub s p" if "y \<in> set ys" for y
      using Cons.prems(3) Nil that by simp (metis imageI)
    then have "chain (set_next (sub s ch) None (set_next (sub s p) (nxt s ch) s)) (nxt s ch) ys = chain s (nxt s ch) ys"
      by (intro chain_cong) simp
    then show ?thesis using Cons.prems ys Nil by auto
  next
    case (Cons q qs)
    have "sub s p \<noteq> sub s (last ps)" "sub s p \<noteq> sub s ch" using Cons.prems(3) Cons by auto
    then show ?thesis using Cons.IH [of "nxt s p"] Cons.prems Cons by auto
  qed
qed simp

lemma UnthreadMessageChannel_eval:
  assumes "chain s (Some (command_channel s)) (xs @ ch # ys)" "xs \<noteq> []" "distinct (map (sub s) (xs @ ch # ys))"
  shows "\<exists>t. UnthreadMessageChannel ch s = Some (Ret (), t) \<and> sub t = sub s \<and> command_channel t = command_channel s
    \<and> chain t (Some (command_channel s)) (xs @ ys) \<and> nxt t ch = None"
proof -
  have "ch \<notin> set (tl xs)" using assms(2,3) by (cases xs) auto
  then show ?thesis
    using unthread_from_eval [OF assms(1,2)] chain_shortened [OF assms] by (simp add: UnthreadMessageChannel_def prog_simps)
qed

text \<open>Claim C36: making a channel active puts it behind the active channels, and taking a channel out
  of the list leaves the others in order, wherever it stands: doing both gives the list back.\<close>

theorem thread_unthread:
  assumes "chain s (Some (command_channel s)) (xs @ ys)" "xs \<noteq> []" "distinct (map (sub s) (xs @ ys @ [ch]))" "sub s ch \<noteq> 0"
  shows "\<exists>t u. ThreadActiveMessageChannel ch s = Some (Ret (), t)
    \<and> chain t (Some (command_channel t)) (xs @ ys @ [ch])
    \<and> UnthreadMessageChannel ch t = Some (Ret (), u) \<and> chain u (Some (command_channel u)) (xs @ ys)
    \<and> (\<forall>y zs. ys = y # zs \<longrightarrow> (\<exists>v. UnthreadMessageChannel y t = Some (Ret (), v)
        \<and> chain v (Some (command_channel v)) (xs @ zs @ [ch])))"
proof -
  obtain t where t: "ThreadActiveMessageChannel ch s = Some (Ret (), t)" "sub t = sub s" "command_channel t = command_channel s"
    "chain t (Some (command_channel s)) ((xs @ ys) @ [ch])"
    using ThreadActiveMessageChannel_eval [OF assms(1), of ch] assms(2-4) by auto
  obtain u where u: "UnthreadMessageChannel ch t = Some (Ret (), u)" "command_channel u = command_channel t"
    "chain u (Some (command_channel t)) (xs @ ys)"
    using UnthreadMessageChannel_eval [of t "xs @ ys" ch "[]"] t assms(2,3) by auto
  have "\<exists>v. UnthreadMessageChannel y t = Some (Ret (), v) \<and> chain v (Some (command_channel v)) (xs @ zs @ [ch])"
    if "ys = y # zs" for y zs
    using UnthreadMessageChannel_eval [of t xs y "zs @ [ch]"] t assms(2,3) that by auto
  then show ?thesis using t u by auto
qed

text \<open>The command channel and a message channel on it, and a third channel.\<close>

definition channel_sample :: life where
  "channel_sample = blank_life\<lparr>command_channel := 10,
     message_channels := (\<lambda>p. (message_channels blank_life 0)\<lparr>subtypeData1 := word_of_int p\<rparr>),
     subtypes := (\<lambda>_. subtypes blank_life 0)(10 := (subtypes blank_life 0)\<lparr>nextActiveChannel := Some 20\<rparr>)\<rparr>"

lemma channel_sample_chain: "chain channel_sample (Some (command_channel channel_sample)) [10, 20]"
  "sub channel_sample 10 = 10" "sub channel_sample 20 = 20" "sub channel_sample 30 = 30"
  by (simp_all add: sub_def nxt_def SubtypeData_def channel_sample_def blank_life_def)

theorem thread_unthread_witness:
  "\<exists>t u. ThreadActiveMessageChannel 30 channel_sample = Some (Ret (), t) \<and> chain t (Some (command_channel t)) [10, 20, 30]
     \<and> UnthreadMessageChannel 30 t = Some (Ret (), u) \<and> chain u (Some (command_channel u)) [10, 20]"
  using thread_unthread [of channel_sample "[10]" "[20]" 30] channel_sample_chain by auto

text \<open>A channel that is threaded while it stands at the end of the list, as a second command to start it does,
  becomes its own successor, and polling never comes back.\<close>

lemma poll_forever:
  assumes "nxt s p = Some p" "sub s p \<noteq> 0" "guestToHostImpulse (message_channels s p) = 0"
  shows "poll_from (Some p) s = None"
proof -
  have "poll_from c0 s0 = Some y \<Longrightarrow> c0 = Some p \<and> s0 = s \<longrightarrow> False" for c0 s0 y
  proof (induction rule: poll_from.raw_induct [rotated, consumes 1, case_names turn])
    case (turn g c0 s0 y)
    have "nextActiveChannel (subtypes s (sub s p)) = Some p" using assms(1) by (simp add: nxt_def)
    moreover have "poll_channel p s = Some (Ret (), s)" using assms(3) by (simp add: poll_channel_def prog_simps Let_def)
    ultimately have "g (Some p) s = Some y" if "c0 = Some p" "s0 = s"
      using turn(2) that assms(2) by (simp add: prog_simps)
    then show ?case using turn(1) [of "Some p" s y] by auto
  qed
  then show ?thesis by (cases "poll_from (Some p) s") auto
qed

lemma chain_end: "chain s c (xs @ [p]) \<Longrightarrow> nxt s p = None"
  by (induction xs arbitrary: c) auto

lemma threaded_twice:
  assumes "chain s (Some (command_channel s)) (xs @ [ch])" "guestToHostImpulse (message_channels s ch) = 0"
  shows "\<exists>t. ThreadActiveMessageChannel ch s = Some (Ret (), t) \<and> poll_from (Some ch) t = None"
proof -
  have ch: "sub s ch \<noteq> 0" using chain_prefix [of s _ "xs @ [ch]" "[]" ch] assms(1) by simp
  have n: "nxt s ch = None" using assms(1) by (rule chain_end)
  let ?u = "set_next (sub s ch) None s"
  have "(subtypes s (sub s ch))\<lparr>nextActiveChannel := None\<rparr> = subtypes s (sub s ch)"
    using n by (cases "subtypes s (sub s ch)") (simp add: nxt_def)
  then have "?u = s" by (simp add: set_next_def)
  then have u: "chain ?u (Some (command_channel s)) (xs @ [ch])" using assms(1) by simp
  let ?t = "set_next (sub s ch) (Some ch) ?u"
  have "poll_from (Some ch) ?t = None" using ch assms(2) by (intro poll_forever) simp_all
  then show ?thesis
    using ch thread_from_eval [OF u] by (simp add: ThreadActiveMessageChannel_def prog_simps)
qed

end
