(* ===== verification/PollingFacts.thy ===== *)
theory PollingFacts
  imports Polling ChannelFacts
begin

text \<open>
  Signals and polling: installing and removing handlers, what a turn of the polling thread does, that a signal
  a driver has put off is delivered, and what the thread does not do.
\<close>

unbundle bit_operations_syntax

subsection \<open>Installing and removing handlers\<close>

lemma signal_mask_bit: "i < 32 \<Longrightarrow> x AND signal_mask i = 0 \<longleftrightarrow> \<not> bit x i"
proof -
  assume i: "i < 32"
  show ?thesis
  proof
    assume z: "x AND signal_mask i = 0"
    have "bit (x AND signal_mask i) i = bit x i" using i by (simp add: signal_mask_def bit_simps)
    then show "\<not> bit x i" using z by simp
  next
    assume "\<not> bit x i"
    then show "x AND signal_mask i = 0" unfolding signal_mask_def by (intro bit_word_eqI) (auto simp: bit_simps)
  qed
qed

lemma mask_cleared: "\<not> bit x i \<Longrightarrow> (x OR signal_mask i) AND NOT (signal_mask i) = x"
  unfolding signal_mask_def by (rule bit_word_eqI) (auto simp: bit_simps)

lemma bit_signal_mask [simp]: "i < 32 \<Longrightarrow> bit (signal_mask i) j \<longleftrightarrow> j = i"
  by (auto simp: signal_mask_def bit_simps)

definition handler_set :: "nat \<Rightarrow> ProcPtrV \<Rightarrow> PtrV \<Rightarrow> life \<Rightarrow> life" where
  "handler_set i f arg s = s\<lparr>live_guest_to_host_signals := live_guest_to_host_signals s OR signal_mask i,
     signalHandler := (signalHandler s)(i := \<lparr>handlerThreadSetup = True, handler_signal = signal_mask i,
       handlerFunction = f, handlerArgument = arg\<rparr>)\<rparr>"

lemma install_loop_finds:
  "i + n \<le> 32 \<Longrightarrow> j < n \<Longrightarrow> \<forall>k < j. bit (live_guest_to_host_signals s) (i + k) \<Longrightarrow>
     \<not> bit (live_guest_to_host_signals s) (i + j) \<Longrightarrow>
     install_loop n i f arg s = Some (Ret (int (i + j)), handler_set (i + j) f arg s)"
proof (induction n arbitrary: i j)
  case (Suc n)
  show ?case
  proof (cases j)
    case 0
    then show ?thesis using Suc.prems by (simp add: prog_simps signal_mask_bit set_handler_def handler_set_def)
  next
    case (Suc k)
    then have b: "bit (live_guest_to_host_signals s) i" using Suc.prems(3) by auto
    have "install_loop n (Suc i) f arg s = Some (Ret (int (Suc i + k)), handler_set (Suc i + k) f arg s)"
      using Suc Suc.prems by (intro Suc.IH) auto
    then show ?thesis using b Suc Suc.prems(1) by (simp add: prog_simps signal_mask_bit)
  qed
qed simp

lemma install_loop_full:
  "i + n \<le> 32 \<Longrightarrow> \<forall>k < n. bit (live_guest_to_host_signals s) (i + k) \<Longrightarrow> install_loop n i f arg s = None"
proof (induction n arbitrary: i)
  case 0
  then show ?case by (simp add: vpunt_def)
next
  case (Suc n)
  have b: "bit (live_guest_to_host_signals s) i" using Suc.prems(2) [rule_format, of 0] by simp
  have "install_loop n (Suc i) f arg s = None"
    using Suc.prems by (intro Suc.IH) (auto dest: spec [where x = "Suc _"])
  then show ?case using b Suc.prems(1) by (simp add: prog_simps signal_mask_bit)
qed



subsection \<open>A turn of the polling thread\<close>

definition poll_signal :: "life \<Rightarrow> int \<Rightarrow> int" where
  "poll_signal s p = signal (queues s (guestToHostQueue (message_channels s p)))"

definition raised :: "life \<Rightarrow> int \<Rightarrow> u32" where
  "raised s p = (if guestToHostImpulse (message_channels s p) \<noteq> 0 \<and> poll_signal s p \<noteq> - 1
     then signal_mask (nat (poll_signal s p)) else 0)"

fun raises :: "life \<Rightarrow> int list \<Rightarrow> u32" where
  "raises s [] = 0"
| "raises s (p # ps) = raised s p OR raises s ps"

definition active_channels :: "life \<Rightarrow> int list \<Rightarrow> bool" where
  "active_channels s xs \<longleftrightarrow> (if command_channel s = NullEmbPtr then xs = [] else chain s (Some (command_channel s)) xs)
     \<and> (\<forall>p \<in> set xs. - 1 \<le> poll_signal s p \<and> poll_signal s p < 32)"

lemma poll_from_eval:
  "chain s c xs \<Longrightarrow> \<forall>p \<in> set xs. - 1 \<le> poll_signal s p \<and> poll_signal s p < 32 \<Longrightarrow>
     poll_from c (s\<lparr>guest_to_host_signals := g\<rparr>) = Some (Ret (), s\<lparr>guest_to_host_signals := g OR raises s xs\<rparr>)"
proof (induction xs arbitrary: c g)
  case Nil
  then show ?case by (subst poll_from.simps) (simp add: prog_simps)
next
  case (Cons p ps)
  let ?s = "s\<lparr>guest_to_host_signals := g\<rparr>"
  have p: "c = Some p" "sub s p \<noteq> 0" "- 1 \<le> poll_signal s p" "poll_signal s p < 32" using Cons.prems by simp_all
  have f: "sub ?s p = sub s p" by (simp add: sub_def)
  have "poll_channel p ?s = Some (Ret (), s\<lparr>guest_to_host_signals := g OR raised s p\<rparr>)"
    using p(3,4) by (auto simp: poll_channel_def raised_def poll_signal_def prog_simps Let_def)
  then have "poll_from c ?s = poll_from (nxt s p) (s\<lparr>guest_to_host_signals := g OR raised s p\<rparr>)"
    using p(1,2) by (subst poll_from.simps) (simp add: prog_simps f nxt_def)
  then show ?case using Cons.IH [of "nxt s p" "g OR raised s p"] Cons.prems by (simp add: or.assoc)
qed

lemma PollMessageChannels_eval:
  "active_channels s xs \<Longrightarrow>
     PollMessageChannels s = Some (Ret (), s\<lparr>guest_to_host_signals := guest_to_host_signals s OR raises s xs\<rparr>)"
  using poll_from_eval [of s "Some (command_channel s)" xs "guest_to_host_signals s"]
  by (auto simp: PollMessageChannels_def active_channels_def prog_simps split: if_splits)

lemma LifeSendSignal_eval: "LifeSendSignal sig s = Some (Ret (), if - 1 < sig \<and> sig < 32
    then s\<lparr>signals_to_guest := signals_to_guest s OR signal_mask (nat sig), interrupts := Suc (interrupts s)\<rparr> else s)"
  by (simp add: LifeSendSignal_def at_queue_def on_part_def EmbSendSignal_def prog_simps NSignals_def get_queue_def
      put_queue_def signal_mask_def)

definition clock_in_range :: "life \<Rightarrow> bool" where
  "clock_in_range s \<longleftrightarrow> 1000 * clock_interval s < 2 ^ 31"

text \<open>The state after a turn, beside the status of the guest, the signals to it and the clock.\<close>

definition turned :: "life \<Rightarrow> int list \<Rightarrow> life \<Rightarrow> bool" where
  "turned s xs t \<longleftrightarrow> guest_to_host_signals t = guest_to_host_signals s OR raises s xs OR reawaken s \<and> reawaken t = 0
     \<and> pollTime t = pollTime s \<and> reset_request t = 0 \<and> signalHandler t = signalHandler s
     \<and> live_guest_to_host_signals t = live_guest_to_host_signals s
     \<and> active_channels t xs \<and> raises t xs = raises s xs \<and> clock_interval t = clock_interval s
     \<and> (if 0 < clock_interval s \<and> pollClockTime s \<le> 0
        then pollClockTime t = 1000 * clock_interval s \<and> interrupts t \<le> Suc (interrupts s)
        else pollClockTime t = pollClockTime s \<and> interrupts t = interrupts s)"

lemma same_channels:
  assumes "message_channels t = message_channels s" "subtypes t = subtypes s" "queues t = queues s" "command_channel t = command_channel s"
  shows "active_channels t xs = active_channels s xs" "raises t xs = raises s xs"
proof -
  have p: "poll_signal t = poll_signal s" using assms by (simp add: fun_eq_iff poll_signal_def)
  have "chain t c xs = chain s c xs" for c using assms by (intro chain_cong) (simp add: sub_def nxt_def)
  then show "active_channels t xs = active_channels s xs" using assms p by (simp add: active_channels_def)
  have "raised t q = raised s q" for q using assms p by (simp add: raised_def)
  then show "raises t xs = raises s xs" by (induction xs) simp_all
qed

lemma poll_signals_eval:
  assumes "active_channels s xs" "reset_request s = 0" "pollTime s \<le> OneQuarterSecond"
  shows "poll_signals 0 s = Some (Ret (), s\<lparr>guest_to_host_signals := guest_to_host_signals s OR raises s xs OR reawaken s,
    reawaken := 0\<rparr>)"
  using assms PollMessageChannels_eval [OF assms(1)]
  by (simp add: poll_signals_def prog_simps or.assoc)

lemma poll_clock_eval:
  assumes "clock_in_range s"
  shows "\<exists>nsec t. poll_clock 0 s = Some (Ret nsec, t) \<and> (\<exists>p h n. t = s\<lparr>pollClockTime := p, signals_to_guest := h, interrupts := n\<rparr>)
    \<and> (if 0 < clock_interval s \<and> pollClockTime s \<le> 0
        then pollClockTime t = 1000 * clock_interval s \<and> interrupts t \<le> Suc (interrupts s)
        else pollClockTime t = pollClockTime s \<and> interrupts t = interrupts s)"
proof -
  have s: "s = s\<lparr>pollClockTime := pollClockTime s, signals_to_guest := signals_to_guest s, interrupts := interrupts s\<rparr>" by simp
  show ?thesis
  proof (cases "0 < clock_interval s \<and> pollClockTime s \<le> 0")
    case True
    let ?h = "if - 1 < clock_signal s \<and> clock_signal s < 32
      then signals_to_guest s OR signal_mask (nat (clock_signal s)) else signals_to_guest s"
    let ?n = "if - 1 < clock_signal s \<and> clock_signal s < 32 then Suc (interrupts s) else interrupts s"
    let ?t = "s\<lparr>pollClockTime := 1000 * clock_interval s, signals_to_guest := ?h, interrupts := ?n\<rparr>"
    have l: "LifeSendSignal (clock_signal s) s = Some (Ret (), s\<lparr>signals_to_guest := ?h, interrupts := ?n\<rparr>)"
      by (simp add: LifeSendSignal_eval)
    have "\<exists>nsec. poll_clock 0 s = Some (Ret nsec, ?t)"
      using True assms by (simp add: poll_clock_def prog_simps l clock_in_range_def del: if_split)
    then obtain nsec where "poll_clock 0 s = Some (Ret nsec, ?t)" by blast
    moreover have "\<exists>p h n. ?t = s\<lparr>pollClockTime := p, signals_to_guest := h, interrupts := n\<rparr>" by blast
    ultimately show ?thesis using True by (rule_tac exI [of _ nsec], rule_tac exI [of _ ?t]) simp
  next
    case False
    then have "\<exists>nsec. poll_clock 0 s = Some (Ret nsec, s)"
      by (auto simp: poll_clock_def prog_simps)
    then obtain nsec where "poll_clock 0 s = Some (Ret nsec, s)" by blast
    moreover have "\<exists>p h n. s = s\<lparr>pollClockTime := p, signals_to_guest := h, interrupts := n\<rparr>" using s by blast
    ultimately show ?thesis using False by (rule_tac exI [of _ nsec], rule_tac exI [of _ s]) simp
  qed
qed

lemma polling_turn_eval:
  assumes "active_channels s xs" "reset_request s = 0" "pollTime s \<le> OneQuarterSecond" "clock_in_range s"
  shows "\<exists>t. polling_turn (sec, 0) s = Some (Ret (1, 0), t) \<and> turned s xs t"
proof -
  let ?u = "s\<lparr>guest_to_host_signals := guest_to_host_signals s OR raises s xs OR reawaken s, reawaken := 0\<rparr>"
  have "clock_in_range ?u" using assms(4) by (simp add: clock_in_range_def)
  from poll_clock_eval [OF this] obtain nsec w where w: "poll_clock 0 ?u = Some (Ret nsec, w)"
    "\<exists>p h n. w = ?u\<lparr>pollClockTime := p, signals_to_guest := h, interrupts := n\<rparr>"
    "if 0 < clock_interval ?u \<and> pollClockTime ?u \<le> 0
     then pollClockTime w = 1000 * clock_interval ?u \<and> interrupts w \<le> Suc (interrupts ?u)
     else pollClockTime w = pollClockTime ?u \<and> interrupts w = interrupts ?u"
    by blast
  from w(2) obtain p h n where e: "w = ?u\<lparr>pollClockTime := p, signals_to_guest := h, interrupts := n\<rparr>" by blast
  have c: "poll_clock 0 ?u = Some (Ret nsec, ?u\<lparr>pollClockTime := p, signals_to_guest := h, interrupts := n\<rparr>)"
    "if 0 < clock_interval s \<and> pollClockTime s \<le> 0 then p = 1000 * clock_interval s \<and> n \<le> Suc (interrupts s)
     else p = pollClockTime s \<and> n = interrupts s"
    using w(1,3) unfolding e by (simp_all cong: if_cong)
  let ?v = "?u\<lparr>pollClockTime := p, signals_to_guest := h, interrupts := n\<rparr>"
  let ?t = "?v\<lparr>guestStatus := new_status ?v\<rparr>"
  have "polling_turn (sec, 0) s = Some (Ret (1, 0), ?t)"
    using poll_signals_eval [OF assms(1-3)] c(1) by (simp add: polling_turn_def UpdateVLMStatus_def prog_simps)
  moreover have "turned s xs ?t"
    using assms(1-3) c(2) same_channels [of ?t s xs] by (simp add: turned_def)
  ultimately show ?thesis by blast
qed

text \<open>Claim C38: a driver that cannot go on and asks for its signal later is called again: after the
  next turn of the polling thread the signal's thread finds it pending, clears it and calls the handler.\<close>

theorem deferred_signal_runs:
  assumes "i < 32" "handler_signal (signalHandler s i) = signal_mask i"
    and "active_channels s xs" "reset_request s = 0" "pollTime s \<le> OneQuarterSecond" "clock_in_range s"
  shows "\<exists>t. bnd (SignalLater (int i)) (\<lambda>_. polling_turn (sec, 0)) s = Some (Ret (1, 0), t)
    \<and> SignalHandlerTopLevel i t =
        bnd (call_handler (handlerFunction (signalHandler s i)) (handlerArgument (signalHandler s i))) (\<lambda>_. ret True)
          (t\<lparr>guest_to_host_signals := guest_to_host_signals t AND NOT (signal_mask i)\<rparr>)"
proof -
  let ?s = "s\<lparr>reawaken := reawaken s OR signal_mask i\<rparr>"
  have l: "SignalLater (int i) s = Some (Ret (), ?s)" using assms(1) by (simp add: SignalLater_def prog_simps)
  have "active_channels ?s xs" using assms(3) same_channels(1) [of ?s s] by simp
  then obtain t where t: "polling_turn (sec, 0) ?s = Some (Ret (1, 0), t)" "turned ?s xs t"
    using polling_turn_eval [of ?s xs sec] assms(4-6) by (auto simp: clock_in_range_def)
  have "bit (guest_to_host_signals t) i" "signalHandler t = signalHandler s"
    using t(2) assms(1) by (simp_all add: turned_def bit_simps)
  then show ?thesis
    using l t(1) assms(1,2) signal_mask_bit [OF assms(1), of "guest_to_host_signals t"]
    by (auto simp: prog_simps SignalHandlerTopLevel_def handler_turn_def)
qed

theorem deferred_signal_runs_witness:
  "\<exists>s t. bnd (SignalLater 2) (\<lambda>_. polling_turn (0, 0)) s = Some (Ret (1, 0), t)
     \<and> SignalHandlerTopLevel 2 t = bnd (call_handler DiskLifeProc (HostPointer 0)) (\<lambda>_. ret True)
          (t\<lparr>guest_to_host_signals := guest_to_host_signals t AND NOT (signal_mask 2)\<rparr>)"
proof -
  let ?s = "disk_sample\<lparr>signalHandler := (\<lambda>i. \<lparr>handlerThreadSetup = True, handler_signal = signal_mask i,
     handlerFunction = DiskLifeProc, handlerArgument = HostPointer 0\<rparr>)\<rparr>"
  have "active_channels ?s []" "reset_request ?s = 0" "pollTime ?s \<le> OneQuarterSecond" "clock_in_range ?s"
    by (simp_all add: active_channels_def clock_in_range_def disk_sample_def)
  from deferred_signal_runs [of 2 ?s, OF _ _ this, of 0] show ?thesis by auto
qed

subsection \<open>What the polling thread does not do\<close>

lemma polling_turns_eval:
  assumes "active_channels s xs" "reset_request s = 0" "pollTime s \<le> OneQuarterSecond" "clock_in_range s"
  shows "\<exists>sl t. polling_turns n (sec, 0) s = Some (Ret sl, t) \<and> pollTime t = pollTime s
    \<and> guest_to_host_signals t AND NOT (guest_to_host_signals s OR raises s xs OR reawaken s) = 0
    \<and> interrupts t \<le> (if 0 < clock_interval s \<and> pollClockTime s \<le> 0 then Suc (interrupts s) else interrupts s)"
  using assms
proof (induction n arbitrary: s sec)
  case 0
  have "guest_to_host_signals s AND NOT (guest_to_host_signals s OR raises s xs OR reawaken s) = 0"
    by (rule bit_word_eqI) (auto simp: bit_simps)
  then show ?case by (simp add: prog_simps)
next
  case (Suc n)
  obtain u where u: "polling_turn (sec, 0) s = Some (Ret (1, 0), u)" "turned s xs u"
    using polling_turn_eval [OF Suc.prems] by blast
  have "active_channels u xs" "reset_request u = 0" "pollTime u \<le> OneQuarterSecond" "clock_in_range u"
    using u(2) Suc.prems by (simp_all add: turned_def clock_in_range_def)
  then obtain sl t where t: "polling_turns n (1, 0) u = Some (Ret sl, t)" "pollTime t = pollTime u"
    "guest_to_host_signals t AND NOT (guest_to_host_signals u OR raises u xs OR reawaken u) = 0"
    "interrupts t \<le> (if 0 < clock_interval u \<and> pollClockTime u \<le> 0 then Suc (interrupts u) else interrupts u)"
    using Suc.IH by blast
  have "guest_to_host_signals u OR raises u xs OR reawaken u = guest_to_host_signals s OR raises s xs OR reawaken s"
    using u(2) by (auto simp: turned_def bit_simps intro!: bit_word_eqI)
  moreover have "interrupts t \<le> (if 0 < clock_interval s \<and> pollClockTime s \<le> 0 then Suc (interrupts s) else interrupts s)"
    using t(4) u(2) by (auto simp: turned_def split: if_splits)
  moreover have "guest_to_host_signals t AND NOT (guest_to_host_signals s OR raises s xs OR reawaken s) = 0"
    using t(3) unfolding calculation(1) .
  ultimately show ?case using u(1) t(1,2) u(2) by (simp add: prog_simps turned_def)
qed

text \<open>Claim C39: the polling thread on its own never reaches its quarter of a second: the
  time that it adds up stays as it is, since the length of its sleep is lost between two turns. However
  many turns it makes, the only signals it raises are those a driver has put off and those of message
  channels with an impulse, so the signal of a handler whose interrupt was lost is not raised again; and the
  clock interrupts the guest at most once.\<close>

theorem polling_never_rewakes:
  assumes "active_channels s xs" "reset_request s = 0" "pollTime s \<le> OneQuarterSecond" "clock_in_range s"
  shows "\<exists>sl t. IvoryLifePolling n s = Some (Ret sl, t) \<and> pollTime t = pollTime s
    \<and> guest_to_host_signals t AND NOT (guest_to_host_signals s OR raises s xs OR reawaken s) = 0
    \<and> interrupts t \<le> Suc (interrupts s)"
  using polling_turns_eval [OF assms, of n 0] by (fastforce simp: IvoryLifePolling_def split: if_splits)

theorem polling_never_rewakes_witness:
  "\<exists>sl t. IvoryLifePolling 100 (blank_life\<lparr>live_guest_to_host_signals := 5, clock_interval := 1000\<rparr>) = Some (Ret sl, t)
     \<and> guest_to_host_signals t = 0 \<and> interrupts t \<le> 1"
proof -
  let ?s = "blank_life\<lparr>live_guest_to_host_signals := 5, clock_interval := 1000\<rparr>"
  have "active_channels ?s []" "clock_in_range ?s" "interrupts ?s = 0"
    by (simp_all add: active_channels_def clock_in_range_def blank_life_def)
  then show ?thesis using polling_never_rewakes [of ?s "[]" 100] by auto
qed

end
