(* ===== verification/Spec2Isabelle.thy ===== *)
theory Spec2Isabelle
  imports ArithmeticFacts PageFacts MemoryFacts CacheFacts StackCacheFacts ForwardFacts ListFacts
    TrapFacts HandlerFacts FrameFacts DecodeFacts StepFacts CallFacts BindFacts
    LifeSupport MessageChannels Disks Console Polling
    DiskFacts TransferFacts ConsoleFacts ChannelFacts PollingFacts
begin

text \<open>
  The virtual Lisp machine: a model of the C emulator of the Ivory processor
  (\<open>src/c-emulator\<close>) and of the life support that gives it its devices (\<open>src/life-support\<close>), with
  the theorems that make its parts correct.

  \<^bold>\<open>The program.\<close> The emulator interprets Ivory machine code. Its memory
  is a data space and a tag space of \<open>2 ^ 32\<close> words in pages of 8192 words, with one attribute byte a page
  (\<open>memory.c\<close>). The top of the control stack is cached in 1024 objects (\<open>StackCache\<close>). Instructions
  are decoded in blocks of 32 words into the 2048 lines of the instruction cache, each linked to
  the line that comes next (\<open>dispatch.c\<close>). \<open>InstructionSequencer\<close> (\<open>emulator.c\<close>) is one large switch over
  the decoded instructions; each ends by a jump to a label such as \<open>NextInstruction\<close>,
  \<open>InstructionException\<close> or \<open>IllegalOperand\<close>, and faults leave it by \<open>longjmp\<close> to the trap entry. Traps
  (\<open>traps.c\<close>) build a frame for a handler whose address they fetch from the trap vector.
  \<open>initialization.c\<close> sets the machine up, and the loop of \<open>main.c\<close> runs it. Device threads talk to it through a
  communication area in its memory: ring buffers of requests and replies (\<open>queues.c\<close>), and one word of signals in each
  direction (\<open>signals.c\<close>). A signal wakes the thread of its handler, which works off the queue of its channel: disk
  commands (\<open>disks.c\<close>), X requests (\<open>console.c\<close>), guest commands (\<open>message_channels.c\<close>). A polling
  thread raises signals that were put off, resets channels, and keeps the clock (\<open>polling.c\<close>).

  \<^bold>\<open>Programs.\<close> A C function is a state transformer with an outcome (theory
  VLM_Prelude): \<open>None\<close> when it runs forever, otherwise \<open>Ret x\<close>, \<open>Longjmp v\<close>, \<open>Exit n\<close> or
  \<open>Undef\<close> with the state it leaves. \<open>Undef\<close> is what the C standard leaves undefined (an index out of an
  array, a shift by the width, a division by zero), so a theorem that says that something
  returns also says that it meets none of these. The exception is the overflow of signed additions,
  subtractions and left shifts of 32 bits in the arithmetic instructions: the code tests for it after the fact, and the model takes the result to
  wrap around, as the code does. Loops that may run forever are
  given by \<^theory_text>\<open>partial_function (option)\<close>; no fuel is used anywhere.

  \<^bold>\<open>Theories of the model.\<close>
  \<^item> Ivory: \<open>ivory.h\<close> and the field macros of \<open>emulator.h\<close>: Lisp objects (a tag and a datum of 32 bits),
    type predicates, byte fields, array words, control register fields, trap vectors.
  \<^item> Opcodes: \<open>IvoryDispatch\<close> of \<open>dispatch.h\<close>, an operation and an operand mode.
  \<^item> VirtualMemory, VMCommands: \<open>memory.c\<close>. The record \<open>vmem\<close> holds \<open>DataSpace\<close>, \<open>TagSpace\<close>,
    \<open>VMAttributeTable\<close>, the registers of the memory coprocessor, and which pages the operating
    system has mapped.
  \<^item> Machine: the record \<open>machine\<close> extends \<open>vmem\<close> by \<open>ProcessorState\<close>, the globals and the
    variables of the sequencer; operand addressing, pushing, popping and exception tails.
  \<^item> MemoryCycles: reads and writes through the stack cache, scrolling, forwarding pointers,
    transport, \<open>CarInternal\<close> and \<open>CdrInternal\<close>.
  \<^item> ListInstructions, ArithmeticInstructions, StackInstructions, ArrayInstructions,
    BranchInstructions, BindInstructions, InstanceInstructions, CallInstructions,
    RegisterInstructions, SubprimInstructions: one definition \<open>Dispatch...\<close> for each operation of the switch
    of \<open>emulator.c\<close>, for all its operand modes, with the functions it calls.
  \<^item> Traps: \<open>traps.c\<close>. Decode: the decoder tables and \<open>InstructionCacheMiss\<close> of \<open>dispatch.c\<close>.
    Sequencer: the labels of the switch, and the step relation \<open>seq_step\<close>, in which signal
    handlers may set \<open>suspend\<close> between any two steps. Startup: \<open>initialization.c\<close>.
  \<^item> MainLoop: the loop of \<open>main\<close>, as what is reachable from the start of the machine.
  \<^item> EmbQueue: \<open>queues.c\<close> and \<open>EmbSendSignal\<close>, with the queue contract as a locale.
  \<^item> LifeSupport: the state that the device threads share, the record \<open>life\<close>; allocation, signals and their handlers,
    and the loop that the drivers have in common.
  \<^item> MessageChannels, Disks, Console, Polling: \<open>message_channels.c\<close>, \<open>disks.c\<close>, \<open>console.c\<close> and
    \<open>polling.c\<close>, with the interval timer and the thread of a signal handler in the last.

  \<^bold>\<open>Theories of facts.\<close>
  \<^item> Samples: concrete states for the witnesses.
  \<^item> ArithmeticFacts: \<open>add\<close>, \<open>sub\<close> and \<open>floor\<close> compute the integer result or take an
    exception.
  \<^item> PageFacts: what creation and destruction of a range leave; the invariant \<open>pages_agree\<close>.
  \<^item> Stores: the locale of an object store (reads after writes), with interpretations in
    MemoryFacts, which also has the block operations.
  \<^item> MachineInvariant, InstructionInvariant, SequencerInvariant: the locale \<open>machine_invariant\<close>: a
    property of pages, attributes and instruction cache that the seven operations that touch
    them keep is kept by every definition of the model, down to \<open>seq_step\<close>. The same proofs bound the
    values of \<open>longjmp\<close> to nine.
  \<^item> CacheFacts: interpretations of this locale; the links of the instruction cache in everything reachable from the
    start of the machine, and lookup.
  \<^item> DecodeFacts: another one, what a cache line can hold; the decoder tables, entry by entry.
  \<^item> StackCacheFacts, ForwardFacts: memory as the processor sees it, the stack cache in front;
    scrolling; the chain of forwarding pointers of a read, and when the read returns.
  \<^item> ListFacts: the search loops of \<open>member\<close> and \<open>assoc\<close> against the list in memory.
  \<^item> BindFacts: binding a location and undoing the binding.
  \<^item> TrapFacts, HandlerFacts, FrameFacts, StepFacts: which traps reach the trap entry, which handler the trap
    vector gives, the frame built for it, and the steps of the sequencer from an interrupt
    or a fault to the handler.
  \<^item> CallFacts: a call of a compiled function and the return from it.
  \<^item> LifeSamples: concrete states of life support. DriverFacts: the locale \<open>driver\<close>, the contract of a driver's commands,
    under which the drivers' loop executes and answers its requests in order and never waits.
  \<^item> DiskFacts, TransferFacts: its interpretation for disks; what is written is read back, and errors stop
    transfers until a reset.
  \<^item> ConsoleFacts: the connection dialogue, and partial writes. ChannelFacts: the list of active channels.
    PollingFacts: installing handlers, postponed signals, and what polling never does.

  \<^bold>\<open>Parameters and assumptions.\<close> \<open>mmap\<close> succeeds, and so does \<open>malloc\<close> in the emulator; in life support the state
  lists the addresses that \<open>malloc\<close> gives. Processor time and clock rate,
  which the operating system gives, are fields of the state. A step of the sequencer is atomic with respect
  to signals, and a call of life support runs without another thread in between. The structures of the communication
  area are kept in one map from addresses for each type, so structures of different types do not overlap;
  the emulator's memory and the area are not joined. Errors of system calls, results of polls, and what the X library knows of
  the display are given in lists and records of the state. Tracing and statistics are left out.

  \<^bold>\<open>Not modelled.\<close> The loading of world files, which is file I/O; the network channels and the cold load stream, but for
  their resets; the initialization of the console channel and the drawing of the run lights; the creation of threads; the
  rest of the main program, configuration and debugger; the stubs for other builds; and the other
  implementations of the same machine, which are Lisp sources of an assembler-level emulator and
  the C and assembly files generated from them (\<open>src/stub\<close>).
\<close>

end
